(* ===== verification/Prelude.thy ===== *)
theory Prelude
  imports Main "HOL-Library.Monad_Syntax" "HOL-Library.Word"
begin

text \<open>
  Shared ground of the development: the parts of Go and of its standard library that the
  sources rely on everywhere.

  \<^item> \<open>int\<close> and \<open>int64\<close> arithmetic: mathematical integers with the wrap-around of a
    64-bit two's complement machine word written out (\<open>wrap64\<close>).
  \<^item> \<open>time.Duration\<close>: an integer number of nanoseconds; \<open>Time.Sub\<close> saturates at the
    64-bit bounds, exactly as the library does.
  \<^item> \<open>time.Time\<close>: an instant (nanoseconds since the zero time of January 1, year 1) with a
    location. The location is kept because the aggregates normalise every instant they store
    with \<open>UTC()\<close>, and storing a snapshot and reading it back relies on that. Instants are
    unbounded: the 64-bit second counter of the library covers 292 billion years.
  \<^item> \<open>*time.Time\<close>: an \<open>option\<close>, \<open>None\<close> being the nil pointer.
  \<^item> errors: a sentinel (what \<open>errors.Is\<close> sees) with the detail that \<open>fmt.Errorf\<close>
    appends; the rendered text is not modelled, its arguments are.
  \<^item> panics (a nil dereference, an index out of range): \<open>None\<close> of an \<open>option\<close> result.
\<close>

named_theorems time_simps \<open>definitional equations of time.Time and time.Duration\<close>
named_theorems const_defs \<open>the string constants of the domain\<close>

section \<open>Machine integers\<close>

definition wrap64 :: "int \<Rightarrow> int" where
  "wrap64 x = (x + 2 ^ 63) mod 2 ^ 64 - 2 ^ 63"

definition max_int64 :: int where
  "max_int64 = 2 ^ 63 - 1"

definition min_int64 :: int where
  "min_int64 = - (2 ^ 63)"

definition int64_range :: "int \<Rightarrow> bool" where
  "int64_range x \<longleftrightarrow> min_int64 \<le> x \<and> x \<le> max_int64"

text \<open>\<open>x++\<close> on a Go \<open>int\<close>.\<close>

definition incr64 :: "int \<Rightarrow> int" where
  "incr64 x = wrap64 (x + 1)"

lemma wrap64_id [simp]: "int64_range x \<Longrightarrow> wrap64 x = x"
  by (simp add: wrap64_def int64_range_def min_int64_def max_int64_def)

lemma wrap64_range [simp]: "int64_range (wrap64 x)"
proof -
  have "0 \<le> (x + 2 ^ 63) mod 2 ^ 64" "(x + 2 ^ 63) mod 2 ^ 64 < 2 ^ 64"
    by simp_all
  then show ?thesis
    by (simp add: wrap64_def int64_range_def min_int64_def max_int64_def)
qed

lemma incr64_id: "0 \<le> x \<Longrightarrow> x < max_int64 \<Longrightarrow> incr64 x = x + 1"
  by (simp add: incr64_def int64_range_def min_int64_def max_int64_def wrap64_def)

lemma incr64_wraps: "incr64 max_int64 = min_int64"
  by (simp add: incr64_def wrap64_def min_int64_def max_int64_def)

lemma incr64_pos_bound: "0 \<le> x \<Longrightarrow> x \<le> max_int64 \<Longrightarrow> incr64 x \<le> x + 1"
  by (cases "x = max_int64")
     (simp_all add: incr64_wraps incr64_id, simp add: min_int64_def max_int64_def)

text \<open>Go's integer division truncates towards zero.\<close>

definition go_div :: "int \<Rightarrow> int \<Rightarrow> int" where
  "go_div a b = sgn a * sgn b * (\<bar>a\<bar> div \<bar>b\<bar>)"

lemma go_div_nonneg [simp]: "0 \<le> a \<Longrightarrow> 0 < b \<Longrightarrow> go_div a b = a div b"
  by (cases "a = 0") (simp_all add: go_div_def sgn_if)

section \<open>Durations\<close>

type_synonym duration = int

definition Nanosecond :: duration where [time_simps]: "Nanosecond = 1"
definition Second :: duration where [time_simps]: "Second = 1000000000 * Nanosecond"
definition Minute :: duration where [time_simps]: "Minute = 60 * Second"
definition Hour :: duration where [time_simps]: "Hour = 60 * Minute"

lemma Second_pos [simp]: "0 < Second"
  by (simp add: time_simps)

text \<open>
  \<open>int(d.Seconds())\<close>: \<open>Seconds\<close> returns the exact quotient as a float64 and the conversion
  truncates. The model truncates the exact quotient; the float64 sum of whole and fractional
  seconds is exact enough for the two to agree below \<open>2 ^ 23\<close> seconds (97 days).
\<close>

definition whole_seconds :: "duration \<Rightarrow> int" where
  "whole_seconds d = go_div d Second"

text \<open>\<open>time.Duration(n) * time.Second\<close>, a 64-bit product.\<close>

definition seconds :: "int \<Rightarrow> duration" where
  "seconds n = wrap64 (n * Second)"

lemma whole_seconds_seconds:
  assumes "0 \<le> d" "d \<le> max_int64" "d mod Second = 0"
  shows "seconds (whole_seconds d) = d"
proof -
  from assms(3) have "d div Second * Second = d"
    by (metis add.right_neutral div_mult_mod_eq)
  with assms show ?thesis
    by (simp add: seconds_def whole_seconds_def int64_range_def min_int64_def)
qed

lemma whole_seconds_nonneg: "0 \<le> d \<Longrightarrow> 0 \<le> whole_seconds d"
  by (simp add: whole_seconds_def pos_imp_zdiv_nonneg_iff)

lemma whole_seconds_zero: "0 \<le> d \<Longrightarrow> d < Second \<Longrightarrow> whole_seconds d = 0"
  by (simp add: whole_seconds_def div_pos_pos_trivial)

section \<open>Instants\<close>

datatype location = UTC | FixedZone string int

record time =
  nanos :: int
  loc :: location

type_synonym time_ptr = "time option"

definition zero_time :: time where
  "zero_time = \<lparr>nanos = 0, loc = UTC\<rparr>"

definition time_IsZero :: "time \<Rightarrow> bool" where [time_simps]:
  "time_IsZero t \<longleftrightarrow> nanos t = 0"

definition time_UTC :: "time \<Rightarrow> time" where [time_simps]:
  "time_UTC t = t\<lparr>loc := UTC\<rparr>"

definition time_Before :: "time \<Rightarrow> time \<Rightarrow> bool" where [time_simps]:
  "time_Before t u \<longleftrightarrow> nanos t < nanos u"

definition time_After :: "time \<Rightarrow> time \<Rightarrow> bool" where [time_simps]:
  "time_After t u \<longleftrightarrow> nanos u < nanos t"

definition time_Add :: "time \<Rightarrow> duration \<Rightarrow> time" where [time_simps]:
  "time_Add t d = t\<lparr>nanos := nanos t + d\<rparr>"

text \<open>\<open>t.Sub(u)\<close> saturates at the bounds of a Duration.\<close>

definition time_Sub :: "time \<Rightarrow> time \<Rightarrow> duration" where [time_simps]:
  "time_Sub t u = max min_int64 (min max_int64 (nanos t - nanos u))"

lemma time_UTC_idem [simp]: "time_UTC (time_UTC t) = time_UTC t"
  by (simp add: time_UTC_def)

lemma nanos_UTC [simp]: "nanos (time_UTC t) = nanos t"
  by (simp add: time_UTC_def)

lemma loc_UTC [simp]: "loc (time_UTC t) = UTC"
  by (simp add: time_UTC_def)

lemma time_UTC_id [simp]: "loc t = UTC \<Longrightarrow> time_UTC t = t"
  by (simp add: time_UTC_def)

lemma time_Add_sel [simp]: "nanos (time_Add t d) = nanos t + d" "loc (time_Add t d) = loc t"
  by (simp_all add: time_Add_def)

lemma time_Before_UTC [simp]:
  "time_Before (time_UTC t) u = time_Before t u" "time_Before t (time_UTC u) = time_Before t u"
  by (simp_all add: time_Before_def)

lemma time_IsZero_UTC [simp]: "time_IsZero (time_UTC t) = time_IsZero t"
  by (simp add: time_IsZero_def)

text \<open>
  Saturation never changes the outcome of comparing a difference with a bound below the
  largest Duration.
\<close>

lemma time_Sub_greater:
  "0 \<le> w \<Longrightarrow> w < max_int64 \<Longrightarrow> w < time_Sub t u \<longleftrightarrow> w < nanos t - nanos u"
  by (auto simp: time_Sub_def min_int64_def max_int64_def)

text \<open>\<open>copyTime\<close> and \<open>utcTime\<close> on optional instants, and the predicate that they establish.\<close>

definition utc_ptr :: "time_ptr \<Rightarrow> bool" where
  "utc_ptr p \<longleftrightarrow> (\<forall>t. p = Some t \<longrightarrow> loc t = UTC)"

lemma utc_ptr_simps [simp]: "utc_ptr None" "utc_ptr (Some t) \<longleftrightarrow> loc t = UTC"
  by (simp_all add: utc_ptr_def)

section \<open>Errors\<close>

text \<open>
  \<open>fmt.Errorf("%w: ...", sentinel)\<close>: the sentinel with the text appended to it. Formatted
  arguments are kept as data: a quoted string or integers.
\<close>

datatype detail = Plain | Msg string | MsgQ string string | MsgN string "int list"

section \<open>Lists and options\<close>

text \<open>\<open>xs[i]\<close>: a panic outside the bounds.\<close>

definition index_at :: "'a list \<Rightarrow> int \<Rightarrow> 'a option" where
  "index_at xs i = (if 0 \<le> i \<and> i < int (length xs) then Some (xs ! nat i) else None)"

lemma index_at_Some: "0 \<le> i \<Longrightarrow> i < int (length xs) \<Longrightarrow> index_at xs i = Some (xs ! nat i)"
  by (simp add: index_at_def)

lemma index_at_mem: "index_at xs i = Some x \<Longrightarrow> x \<in> set xs"
  by (auto simp: index_at_def split: if_splits)

text \<open>\<open>xs[:n]\<close>: a panic for a negative bound or one beyond the capacity.\<close>

definition slice_to :: "'a list \<Rightarrow> int \<Rightarrow> 'a list option" where
  "slice_to xs n = (if 0 \<le> n \<and> n \<le> int (length xs) then Some (take (nat n) xs) else None)"

lemma slice_to_Some: "0 \<le> n \<Longrightarrow> n \<le> int (length xs) \<Longrightarrow> slice_to xs n = Some (take (nat n) xs)"
  by (simp add: slice_to_def)

lemma length_take_int: "0 \<le> n \<Longrightarrow> int (length (take (nat n) xs)) \<le> n"
  by simp

lemma slice_clip:
  "0 \<le> n \<Longrightarrow> (if int (length xs) > n then slice_to xs n else Some xs) = Some (take (nat n) xs)"
  by (simp add: slice_to_Some)

end
