(* ===== verification/Netip.thy ===== *)
theory Netip
  imports Prelude
begin

text \<open>
  The part of Go's \<open>net/netip\<close> and \<open>strconv\<close> that the sources use: addresses as values
  (the zero \<open>Addr\<close>, IPv4, IPv6 with an optional zone), their canonical text and its parser.
  \<open>Addr.String\<close> writes dotted decimals for IPv4 and the compressed form for IPv6, and
  \<open>ParseAddr\<close> chooses the parser by the first dot, colon or percent sign of the text.
\<close>

section \<open>Numbers as text\<close>

definition digit_char :: "nat \<Rightarrow> char" where
  "digit_char n = (if n < 10 then char_of (48 + n) else char_of (87 + n))"

fun digits_base :: "nat \<Rightarrow> nat \<Rightarrow> string" where
  "digits_base b n =
     (if b < 2 \<or> n < b then [digit_char n] else digits_base b (n div b) @ [digit_char (n mod b)])"

declare digits_base.simps [simp del]

definition string_of_nat :: "nat \<Rightarrow> string" where
  "string_of_nat = digits_base 10"

definition hex_of_nat :: "nat \<Rightarrow> string" where
  "hex_of_nat = digits_base 16"

text \<open>\<open>strconv.Itoa\<close>.\<close>

definition Itoa :: "int \<Rightarrow> string" where
  "Itoa i = (if i < 0 then ''-'' @ string_of_nat (nat (- i)) else string_of_nat (nat i))"

text \<open>The same digits computed on integers, which evaluates on the sizes the encodings need.\<close>

fun dec_digits :: "int \<Rightarrow> string" where
  "dec_digits i =
     (if i < 10 then [digit_char (nat i)] else dec_digits (i div 10) @ [digit_char (nat (i mod 10))])"

declare dec_digits.simps [simp del]

definition is_digit :: "char \<Rightarrow> bool" where
  "is_digit c \<longleftrightarrow> 48 \<le> (of_char c :: nat) \<and> (of_char c :: nat) \<le> 57"

definition digit_val :: "char \<Rightarrow> nat" where
  "digit_val c = of_char c - 48"

section \<open>Addresses\<close>

datatype addr = NoAddr | V4 "8 word" "8 word" "8 word" "8 word" | V6 "16 word list" string

text \<open>An IPv6 address is its eight 16-bit groups, most significant first, and its zone.\<close>

fun wf_addr :: "addr \<Rightarrow> bool" where
  "wf_addr (V6 gs _) \<longleftrightarrow> length gs = 8"
| "wf_addr _ \<longleftrightarrow> True"

definition addr_IsValid :: "addr \<Rightarrow> bool" where
  "addr_IsValid a \<longleftrightarrow> a \<noteq> NoAddr"

fun addr_Is4 :: "addr \<Rightarrow> bool" where
  "addr_Is4 (V4 _ _ _ _) = True"
| "addr_Is4 _ = False"

definition byte_dec :: "8 word \<Rightarrow> string" where
  "byte_dec b = string_of_nat (unat b)"

definition string4 :: "8 word \<Rightarrow> 8 word \<Rightarrow> 8 word \<Rightarrow> 8 word \<Rightarrow> string" where
  "string4 a b c d = byte_dec a @ ''.'' @ byte_dec b @ ''.'' @ byte_dec c @ ''.'' @ byte_dec d"

text \<open>The zero run that is written as a double colon: the first longest one of at least two groups.\<close>

definition zero_run :: "nat list \<Rightarrow> nat \<Rightarrow> nat" where
  "zero_run gs i = length (takeWhile (\<lambda>g. g = 0) (drop i gs))"

definition best_run :: "nat list \<Rightarrow> (nat \<times> nat) option" where
  "best_run gs = fold (\<lambda>i acc. let l = zero_run gs i in
       if 2 \<le> l \<and> l > (case acc of None \<Rightarrow> 0 | Some (_, k) \<Rightarrow> k) then Some (i, l) else acc)
     [0 ..< length gs] None"

definition colon_join :: "nat list \<Rightarrow> string" where
  "colon_join gs = concat (case gs of [] \<Rightarrow> [] | g # r \<Rightarrow> hex_of_nat g # map (\<lambda>x. '':'' @ hex_of_nat x) r)"

definition string6 :: "16 word list \<Rightarrow> string" where
  "string6 ws = (let gs = map unat ws in
     case best_run gs of
       None \<Rightarrow> colon_join gs
     | Some (i, l) \<Rightarrow> colon_join (take i gs) @ ''::'' @ colon_join (drop (i + l) gs))"

definition is4in6 :: "16 word list \<Rightarrow> bool" where
  "is4in6 gs \<longleftrightarrow> take 6 gs = [0, 0, 0, 0, 0, 65535]"

definition hi_byte :: "16 word \<Rightarrow> 8 word" where
  "hi_byte w = ucast (drop_bit 8 w)"

definition lo_byte :: "16 word \<Rightarrow> 8 word" where
  "lo_byte w = ucast w"

definition zone_suffix :: "string \<Rightarrow> string" where
  "zone_suffix z = (if z = '''' then '''' else ''%'' @ z)"

fun addr_String :: "addr \<Rightarrow> string" where
  "addr_String NoAddr = ''invalid IP''"
| "addr_String (V4 a b c d) = string4 a b c d"
| "addr_String (V6 w z) =
     (if is4in6 w
      then ''::ffff:'' @ string4 (hi_byte (w ! 6)) (lo_byte (w ! 6)) (hi_byte (w ! 7)) (lo_byte (w ! 7))
             @ zone_suffix z
      else string6 w @ zone_suffix z)"

section \<open>Parsing\<close>

text \<open>
  \<open>parseIPv4Fields\<close>: four decimal fields of at most 255 separated by dots, no empty field and
  no leading zero. The loop state is the field's value, its digit count and the fields read.
\<close>

fun parse4_loop :: "nat \<Rightarrow> nat \<Rightarrow> nat list \<Rightarrow> string \<Rightarrow> nat list option" where
  "parse4_loop val len fs [] =
     (if len = 0 \<or> length fs < 3 then None else Some (fs @ [val]))"
| "parse4_loop val len fs (c # cs) =
     (if is_digit c then
        if len = 1 \<and> val = 0 then None
        else let v = val * 10 + digit_val c in
          if v > 255 then None else parse4_loop v (len + 1) fs cs
      else if c = CHR ''.'' then
        if len = 0 \<or> cs = [] then None
        else if length fs = 3 then None
        else parse4_loop 0 0 (fs @ [val]) cs
      else None)"

definition parseIPv4 :: "string \<Rightarrow> addr option" where
  "parseIPv4 s = (case parse4_loop 0 0 [] s of
      Some [a, b, c, d] \<Rightarrow> Some (V4 (of_nat a) (of_nat b) (of_nat c) (of_nat d))
    | _ \<Rightarrow> None)"

definition hex_val :: "char \<Rightarrow> nat option" where
  "hex_val c = (let n = (of_char c :: nat) in
     if 48 \<le> n \<and> n \<le> 57 then Some (n - 48)
     else if 97 \<le> n \<and> n \<le> 102 then Some (n - 87)
     else if 65 \<le> n \<and> n \<le> 70 then Some (n - 55) else None)"

text \<open>The leading hex digits of a group: value, digit count and rest; \<open>None\<close> above four digits.\<close>

fun hex_group :: "nat \<Rightarrow> nat \<Rightarrow> string \<Rightarrow> (nat \<times> nat \<times> string) option" where
  "hex_group acc off [] = Some (acc, off, [])"
| "hex_group acc off (c # cs) =
     (case hex_val c of
        None \<Rightarrow> Some (acc, off, c # cs)
      | Some v \<Rightarrow> if off > 3 then None else hex_group (acc * 16 + v) (off + 1) cs)"

lemma hex_group_length: "hex_group acc off s = Some (a, k, r) \<Longrightarrow> length r + k = length s + off"
  by (induction acc off s arbitrary: a k r rule: hex_group.induct) (auto split: option.splits if_splits)

text \<open>
  The loop of \<open>parseIPv6\<close>, on the groups read so far (two bytes each) and the position of the
  ellipsis. It returns the groups, the ellipsis and the unread text.
\<close>

function parse6_loop :: "nat list \<Rightarrow> nat option \<Rightarrow> string \<Rightarrow> (nat list \<times> nat option \<times> string) option" where
  "parse6_loop gs ell s =
     (if 8 \<le> length gs then Some (gs, ell, s)
      else case hex_group 0 0 s of
        None \<Rightarrow> None
      | Some (acc, off, r) \<Rightarrow>
          if off = 0 then None
          else if r \<noteq> [] \<and> hd r = CHR ''.'' then
            if ell = None \<and> length gs \<noteq> 6 then None
            else if length gs + 2 > 8 then None
            else (case parse4_loop 0 0 [] s of
                Some [a, b, c, d] \<Rightarrow> Some (gs @ [a * 256 + b, c * 256 + d], ell, [])
              | _ \<Rightarrow> None)
          else if r = [] then Some (gs @ [acc], ell, [])
          else if hd r \<noteq> CHR '':'' then None
          else if tl r = [] then None
          else if hd (tl r) = CHR '':'' then
            if ell \<noteq> None then None
            else if tl (tl r) = [] then Some (gs @ [acc], Some (Suc (length gs)), [])
            else parse6_loop (gs @ [acc]) (Some (Suc (length gs))) (tl (tl r))
          else parse6_loop (gs @ [acc]) ell (tl r))"
  by pat_completeness auto
termination
  by (relation "measure (\<lambda>(gs, ell, s). 8 - length gs)") auto

declare parse6_loop.simps [simp del]

definition expand6 :: "nat list \<Rightarrow> nat option \<Rightarrow> nat list option" where
  "expand6 gs ell =
     (if length gs < 8 then
        (case ell of None \<Rightarrow> None
         | Some e \<Rightarrow> Some (take e gs @ replicate (8 - length gs) 0 @ drop e gs))
      else (case ell of None \<Rightarrow> Some gs | Some _ \<Rightarrow> None))"

definition split_zone :: "string \<Rightarrow> string \<times> string option" where
  "split_zone s = (let a = takeWhile (\<lambda>c. c \<noteq> CHR ''%'') s in
     if a = s then (s, None) else (a, Some (drop (Suc (length a)) s)))"

definition parseIPv6 :: "string \<Rightarrow> addr option" where
  "parseIPv6 inp = (case split_zone inp of
      (_, Some []) \<Rightarrow> None
    | (s, z) \<Rightarrow>
        let zone = (case z of None \<Rightarrow> '''' | Some z \<Rightarrow> z);
            (ell, s') = (if take 2 s = ''::'' then (Some 0, drop 2 s) else (None, s))
        in if ell = Some 0 \<and> s' = [] then Some (V6 (replicate 8 0) zone)
           else (case parse6_loop [] ell s' of
               Some (gs, ell', []) \<Rightarrow> map_option (\<lambda>gs. V6 (map of_nat gs) zone) (expand6 gs ell')
             | _ \<Rightarrow> None))"

definition ParseAddr :: "string \<Rightarrow> addr option" where
  "ParseAddr s = (case dropWhile (\<lambda>c. c \<notin> {CHR ''.'', CHR '':'', CHR ''%''}) s of
      [] \<Rightarrow> None
    | c # _ \<Rightarrow> if c = CHR ''.'' then parseIPv4 s
               else if c = CHR '':'' then parseIPv6 s else None)"

section \<open>IPv4 text round trip\<close>

lemma dec_digits_nat: "dec_digits (int n) = string_of_nat n"
proof (induction n rule: less_induct)
  case (less n)
  show ?case
  proof (cases "n < 10")
    case True
    then show ?thesis by (simp add: dec_digits.simps string_of_nat_def digits_base.simps)
  next
    case False
    then have "dec_digits (int (n div 10)) = string_of_nat (n div 10)" by (intro less) simp
    moreover have "int n div 10 = int (n div 10)" "int n mod 10 = int (n mod 10)"
      by (simp_all add: zdiv_int zmod_int)
    moreover have "dec_digits (int n) = dec_digits (int n div 10) @ [digit_char (nat (int n mod 10))]"
      using False by (simp add: dec_digits.simps [of "int n"])
    ultimately show ?thesis
      using False by (simp only: nat_int) (simp add: string_of_nat_def digits_base.simps [of 10 n])
  qed
qed

lemma Itoa_code [code]: "Itoa i = (if i < 0 then CHR ''-'' # dec_digits (- i) else dec_digits i)"
  using dec_digits_nat [of "nat (- i)"] dec_digits_nat [of "nat i"] by (auto simp: Itoa_def)

lemma of_char_digit [simp]: "k < 10 \<Longrightarrow> (of_char (digit_char k) :: nat) = 48 + k"
  by (simp add: digit_char_def of_char_of)

lemma is_digit_digit_char [simp]: "k < 10 \<Longrightarrow> is_digit (digit_char k)"
  by (simp add: is_digit_def)

lemma digit_val_digit_char [simp]: "k < 10 \<Longrightarrow> digit_val (digit_char k) = k"
  by (simp add: digit_val_def)

lemma string_of_nat_1: "n < 10 \<Longrightarrow> string_of_nat n = [digit_char n]"
  by (simp add: string_of_nat_def digits_base.simps)

lemma string_of_nat_2:
  "10 \<le> n \<Longrightarrow> n < 100 \<Longrightarrow> string_of_nat n = [digit_char (n div 10), digit_char (n mod 10)]"
  by (simp add: string_of_nat_def digits_base.simps [of 10 n] digits_base.simps [of 10 "n div 10"]
      div_less_iff_less_mult)

lemma string_of_nat_3:
  assumes "100 \<le> n" "n < 1000"
  shows "string_of_nat n = [digit_char (n div 100), digit_char (n div 10 mod 10), digit_char (n mod 10)]"
proof -
  have "string_of_nat n = string_of_nat (n div 10) @ [digit_char (n mod 10)]"
    using assms by (simp add: string_of_nat_def digits_base.simps [of 10 n])
  also have "string_of_nat (n div 10) = [digit_char (n div 10 div 10), digit_char (n div 10 mod 10)]"
    using assms by (intro string_of_nat_2) auto
  finally show ?thesis by (simp add: div_mult2_eq [symmetric])
qed

lemma parse4_digits:
  assumes "n < 256"
  shows "\<exists>len > 0. parse4_loop 0 0 fs (string_of_nat n @ rest) = parse4_loop n len fs rest"
proof -
  consider "n < 10" | "10 \<le> n \<and> n < 100" | "100 \<le> n" by linarith
  then show ?thesis
  proof cases
    case 1
    then show ?thesis by (intro exI [of _ 1]) (simp add: string_of_nat_1 Let_def)
  next
    case 2
    then have "n div 10 < 10" "n div 10 \<noteq> 0" "n mod 10 < 10" "n div 10 * 10 + n mod 10 = n" "\<not> 255 < n"
      using assms by auto
    with 2 assms show ?thesis by (intro exI [of _ "Suc (Suc 0)"]) (simp add: string_of_nat_2 Let_def)
  next
    case 3
    with assms have d: "n div 100 < 10" "n div 100 \<noteq> 0" "n div 10 mod 10 < 10" "n mod 10 < 10" by auto
    have "n div 100 * 10 + n div 10 mod 10 = n div 10" "n div 10 * 10 + n mod 10 = n"
      by (simp_all add: div_mult2_eq [of n 10 10, simplified])
    moreover have "\<not> 255 < n div 10" using assms by linarith
    ultimately show ?thesis using 3 assms d
      by (intro exI [of _ "Suc (Suc (Suc 0))"], simp add: string_of_nat_3 Let_def, linarith)
  qed
qed

lemma string_of_nat_ne [simp]: "string_of_nat n \<noteq> []"
  by (simp add: string_of_nat_def digits_base.simps)

lemma parse4_field_dot:
  assumes "n < 256" "length fs < 3" "rest \<noteq> []"
  shows "parse4_loop 0 0 fs (string_of_nat n @ CHR ''.'' # rest) = parse4_loop 0 0 (fs @ [n]) rest"
proof -
  obtain len where "len > 0"
    "parse4_loop 0 0 fs (string_of_nat n @ CHR ''.'' # rest) = parse4_loop n len fs (CHR ''.'' # rest)"
    using parse4_digits [OF assms(1)] by blast
  with assms(2,3) show ?thesis by (simp add: is_digit_def)
qed

lemma parse4_field_end:
  assumes "n < 256" "length fs = 3"
  shows "parse4_loop 0 0 fs (string_of_nat n) = Some (fs @ [n])"
proof -
  obtain len where "len > 0" "parse4_loop 0 0 fs (string_of_nat n @ []) = parse4_loop n len fs []"
    using parse4_digits [OF assms(1)] by blast
  with assms(2) show ?thesis by simp
qed

lemma unat_byte_less [simp]: "unat (b :: 8 word) < 256"
  using unsigned_less [of b, where 'a = nat] by simp

lemma parseIPv4_string4: "parseIPv4 (string4 a b c d) = Some (V4 a b c d)"
  by (simp add: parseIPv4_def string4_def byte_dec_def parse4_field_dot parse4_field_end)

lemma digits_base_10_set: "c \<in> set (digits_base 10 n) \<Longrightarrow> \<exists>k < 10. c = digit_char k"
proof (induction "10 :: nat" n rule: digits_base.induct)
  case (1 n)
  have "\<exists>k < 10. digit_char (n mod 10) = digit_char k"
    by (rule exI [of _ "n mod 10"]) simp
  with 1 show ?case
    by (cases "n < 10") (auto simp: digits_base.simps [of 10 n])
qed

lemma digit_char_not_sep:
  assumes "k < 10"
  shows "digit_char k \<notin> {CHR ''.'', CHR '':'', CHR ''%''}"
proof -
  have "is_digit (digit_char k)" using assms by simp
  moreover have "\<not> is_digit CHR ''.''" "\<not> is_digit CHR '':''" "\<not> is_digit CHR ''%''"
    by (simp_all add: is_digit_def)
  ultimately show ?thesis by auto
qed

lemma ParseAddr_String_V4: "ParseAddr (addr_String (V4 a b c d)) = Some (V4 a b c d)"
proof -
  have "\<And>x. x \<in> set (string_of_nat (unat a)) \<Longrightarrow> x \<notin> {CHR ''.'', CHR '':'', CHR ''%''}"
    using digits_base_10_set digit_char_not_sep by (metis string_of_nat_def)
  then have "dropWhile (\<lambda>c. c \<notin> {CHR ''.'', CHR '':'', CHR ''%''}) (string4 a b c d)
      = ''.'' @ byte_dec b @ ''.'' @ byte_dec c @ ''.'' @ byte_dec d"
    by (simp add: string4_def byte_dec_def dropWhile_append)
  then show ?thesis
    by (simp add: ParseAddr_def parseIPv4_string4)
qed

end
