(* ===== verification/Domain_Base.thy ===== *)
theory Domain_Base
  imports Netip
begin

text \<open>
  The vocabulary shared by the two aggregates of \<open>internal/domain\<close>: identifiers, the string
  enumerations with their \<open>Valid\<close> predicates, the sentinel errors, the client context and the
  domain events. Go's string types stay strings, so a value outside an enumeration is
  representable and the validity checks of the source are not vacuous.
\<close>

section \<open>Identifiers\<close>

type_synonym CredentialID = string
type_synonym SessionID = string
type_synonym IdentityRef = string
type_synonym DeviceRef = string

section \<open>Sentinel errors\<close>

datatype sentinel =
    ErrCredentialNotFound | ErrInvalidCredential | ErrInvalidPasswordHash | ErrInvalidLockoutPolicy
  | ErrInvalidCredentialPolicy | ErrAccountLocked | ErrAccountNotLocked | ErrPasswordReused
  | ErrSessionNotFound | ErrInvalidSession | ErrInvalidSessionPolicy | ErrSessionExpired
  | ErrSessionRevoked | ErrInvalidRevokeReason | ErrAALFactorMismatch

datatype domain_error = Err (err_sentinel: sentinel) (err_detail: detail)

text \<open>A Go \<open>error\<close> result: \<open>None\<close> is nil.\<close>

type_synonym go_error = "domain_error option"

definition errors_Is :: "domain_error \<Rightarrow> sentinel \<Rightarrow> bool" where
  "errors_Is e s \<longleftrightarrow> err_sentinel e = s"

section \<open>String enumerations\<close>

type_synonym PasswordAlgorithm = string

definition PasswordArgon2id :: PasswordAlgorithm where [const_defs]: "PasswordArgon2id = ''argon2id''"
definition PasswordBcrypt :: PasswordAlgorithm where [const_defs]: "PasswordBcrypt = ''bcrypt''"

definition PasswordAlgorithm_Valid :: "PasswordAlgorithm \<Rightarrow> bool" where
  "PasswordAlgorithm_Valid a \<longleftrightarrow> a = PasswordArgon2id \<or> a = PasswordBcrypt"

type_synonym LockoutStatus = string

definition LockoutUnlocked :: LockoutStatus where [const_defs]: "LockoutUnlocked = ''UNLOCKED''"
definition LockoutTemporary :: LockoutStatus where [const_defs]: "LockoutTemporary = ''LOCKED_TEMPORARY''"
definition LockoutPermanent :: LockoutStatus where [const_defs]: "LockoutPermanent = ''LOCKED_PERMANENT''"

definition LockoutStatus_Valid :: "LockoutStatus \<Rightarrow> bool" where
  "LockoutStatus_Valid s \<longleftrightarrow> s = LockoutUnlocked \<or> s = LockoutTemporary \<or> s = LockoutPermanent"

lemma lockout_distinct [simp]:
  "LockoutUnlocked \<noteq> LockoutTemporary" "LockoutTemporary \<noteq> LockoutUnlocked"
  "LockoutUnlocked \<noteq> LockoutPermanent" "LockoutPermanent \<noteq> LockoutUnlocked"
  "LockoutTemporary \<noteq> LockoutPermanent" "LockoutPermanent \<noteq> LockoutTemporary"
  by (simp_all add: const_defs)

lemma LockoutStatus_Valid_simps [simp]:
  "LockoutStatus_Valid LockoutUnlocked" "LockoutStatus_Valid LockoutTemporary"
  "LockoutStatus_Valid LockoutPermanent"
  by (simp_all add: LockoutStatus_Valid_def)

type_synonym LoginFailureReason = string

definition FailureInvalidCredentials :: LoginFailureReason where [const_defs]:
  "FailureInvalidCredentials = ''INVALID_CREDENTIALS''"
definition FailureAccountLocked :: LoginFailureReason where [const_defs]:
  "FailureAccountLocked = ''ACCOUNT_LOCKED''"

type_synonym PasswordChangeType = string

definition ChangeUserInitiated :: PasswordChangeType where [const_defs]: "ChangeUserInitiated = ''USER_INITIATED''"
definition ChangeForced :: PasswordChangeType where [const_defs]: "ChangeForced = ''FORCED''"

type_synonym AAL = string

definition AAL1 :: AAL where [const_defs]: "AAL1 = ''AAL1''"
definition AAL2 :: AAL where [const_defs]: "AAL2 = ''AAL2''"
definition AAL3 :: AAL where [const_defs]: "AAL3 = ''AAL3''"

definition AAL_Valid :: "AAL \<Rightarrow> bool" where
  "AAL_Valid a \<longleftrightarrow> a = AAL1 \<or> a = AAL2 \<or> a = AAL3"

lemma aal_distinct [simp]:
  "AAL1 \<noteq> AAL2" "AAL2 \<noteq> AAL1" "AAL1 \<noteq> AAL3" "AAL3 \<noteq> AAL1" "AAL2 \<noteq> AAL3" "AAL3 \<noteq> AAL2"
  by (simp_all add: const_defs)

type_synonym FactorType = string

definition FactorTOTP :: FactorType where [const_defs]: "FactorTOTP = ''TOTP''"
definition FactorSMSOTP :: FactorType where [const_defs]: "FactorSMSOTP = ''SMS_OTP''"
definition FactorFIDO2 :: FactorType where [const_defs]: "FactorFIDO2 = ''FIDO2''"
definition FactorPasskey :: FactorType where [const_defs]: "FactorPasskey = ''PASSKEY''"

type_synonym SessionStatus = string

definition SessionStatusActive :: SessionStatus where [const_defs]: "SessionStatusActive = ''ACTIVE''"
definition SessionStatusExpired :: SessionStatus where [const_defs]: "SessionStatusExpired = ''EXPIRED''"
definition SessionStatusRevoked :: SessionStatus where [const_defs]: "SessionStatusRevoked = ''REVOKED''"

definition SessionStatus_Valid :: "SessionStatus \<Rightarrow> bool" where
  "SessionStatus_Valid s \<longleftrightarrow>
     s = SessionStatusActive \<or> s = SessionStatusExpired \<or> s = SessionStatusRevoked"

lemma session_status_distinct [simp]:
  "SessionStatusActive \<noteq> SessionStatusExpired" "SessionStatusExpired \<noteq> SessionStatusActive"
  "SessionStatusActive \<noteq> SessionStatusRevoked" "SessionStatusRevoked \<noteq> SessionStatusActive"
  "SessionStatusExpired \<noteq> SessionStatusRevoked" "SessionStatusRevoked \<noteq> SessionStatusExpired"
  by (simp_all add: const_defs)

lemma SessionStatus_Valid_simps [simp]:
  "SessionStatus_Valid SessionStatusActive" "SessionStatus_Valid SessionStatusExpired"
  "SessionStatus_Valid SessionStatusRevoked"
  by (simp_all add: SessionStatus_Valid_def)

type_synonym RevokeReason = string

definition ReasonUserLogout :: RevokeReason where [const_defs]: "ReasonUserLogout = ''USER_LOGOUT''"
definition ReasonAdminForceLogout :: RevokeReason where [const_defs]:
  "ReasonAdminForceLogout = ''ADMIN_FORCE_LOGOUT''"
definition ReasonPasswordChanged :: RevokeReason where [const_defs]:
  "ReasonPasswordChanged = ''PASSWORD_CHANGED''"
definition ReasonPasswordReset :: RevokeReason where [const_defs]: "ReasonPasswordReset = ''PASSWORD_RESET''"
definition ReasonDeviceRevoked :: RevokeReason where [const_defs]: "ReasonDeviceRevoked = ''DEVICE_REVOKED''"
definition ReasonSecurityEvent :: RevokeReason where [const_defs]: "ReasonSecurityEvent = ''SECURITY_EVENT''"
definition ReasonExpiredIdle :: RevokeReason where [const_defs]: "ReasonExpiredIdle = ''SESSION_EXPIRED_IDLE''"
definition ReasonExpiredAbsolute :: RevokeReason where [const_defs]:
  "ReasonExpiredAbsolute = ''SESSION_EXPIRED_ABSOLUTE''"
definition ReasonConcurrentSessionLimit :: RevokeReason where [const_defs]:
  "ReasonConcurrentSessionLimit = ''CONCURRENT_SESSION_LIMIT''"

definition RevokeReason_IsManual :: "RevokeReason \<Rightarrow> bool" where
  "RevokeReason_IsManual r \<longleftrightarrow> r \<in> {ReasonUserLogout, ReasonAdminForceLogout, ReasonPasswordChanged,
     ReasonPasswordReset, ReasonDeviceRevoked, ReasonSecurityEvent, ReasonConcurrentSessionLimit}"

definition RevokeReason_IsExpiry :: "RevokeReason \<Rightarrow> bool" where
  "RevokeReason_IsExpiry r \<longleftrightarrow> r = ReasonExpiredIdle \<or> r = ReasonExpiredAbsolute"

lemma expiry_not_manual: "RevokeReason_IsExpiry r \<Longrightarrow> \<not> RevokeReason_IsManual r"
  by (auto simp: RevokeReason_IsExpiry_def RevokeReason_IsManual_def const_defs)

lemma expiry_reasons [simp]:
  "RevokeReason_IsExpiry ReasonExpiredIdle" "RevokeReason_IsExpiry ReasonExpiredAbsolute"
  by (simp_all add: RevokeReason_IsExpiry_def)

lemma concurrent_limit_manual [simp]: "RevokeReason_IsManual ReasonConcurrentSessionLimit"
  by (simp add: RevokeReason_IsManual_def)

lemma expiry_reasons_distinct [simp]:
  "ReasonExpiredIdle \<noteq> ReasonExpiredAbsolute" "ReasonExpiredAbsolute \<noteq> ReasonExpiredIdle"
  by (simp_all add: const_defs)

lemma reason_nonempty:
  "RevokeReason_IsManual r \<Longrightarrow> r \<noteq> ''''" "RevokeReason_IsExpiry r \<Longrightarrow> r \<noteq> ''''"
  by (auto simp: RevokeReason_IsExpiry_def RevokeReason_IsManual_def const_defs)

section \<open>Client context and domain events\<close>

record AttemptContext =
  ac_CompanyCode :: string
  ac_IP :: addr
  ac_UserAgent :: string
  ac_DeviceFingerprint :: string

record ClientInfo =
  ci_IP :: addr
  ci_UserAgent :: string

record LoginFailed =
  lf_CredentialID :: CredentialID
  lf_IdentityID :: IdentityRef
  lf_CompanyCode :: string
  lf_Reason :: LoginFailureReason
  lf_FailedAttemptCount :: int
  lf_IPAddress :: addr
  lf_UserAgent :: string
  lf_DeviceFingerprint :: string
  lf_At :: time

record AccountLocked =
  al_CredentialID :: CredentialID
  al_IdentityID :: IdentityRef
  al_LockoutType :: LockoutStatus
  al_LockedUntil :: time_ptr
  al_TriggerIP :: addr
  al_FailedAttemptCount :: int
  al_At :: time

record AccountUnlocked =
  au_CredentialID :: CredentialID
  au_IdentityID :: IdentityRef
  au_UnlockedBy :: IdentityRef
  au_PreviousLockoutType :: LockoutStatus
  au_At :: time

record PasswordChanged =
  pc_CredentialID :: CredentialID
  pc_IdentityID :: IdentityRef
  pc_ChangedBy :: IdentityRef
  pc_ChangeType :: PasswordChangeType
  pc_At :: time

record PasswordResetCompleted =
  pr_CredentialID :: CredentialID
  pr_IdentityID :: IdentityRef
  pr_At :: time

record AdminInitiatedPasswordReset =
  ar_CredentialID :: CredentialID
  ar_IdentityID :: IdentityRef
  ar_InitiatedBy :: IdentityRef
  ar_At :: time

record SessionCreated =
  sc_SessionID :: SessionID
  sc_IdentityID :: IdentityRef
  sc_DeviceID :: DeviceRef
  sc_AAL :: AAL
  sc_IPAddress :: addr
  sc_IdleTimeout :: duration
  sc_AbsoluteExpiresAt :: time
  sc_At :: time

record SessionRevoked =
  sr_SessionID :: SessionID
  sr_IdentityID :: IdentityRef
  sr_Reason :: RevokeReason
  sr_RevokedBy :: IdentityRef
  sr_At :: time

datatype domain_event =
    EvLoginFailed LoginFailed
  | EvAccountLocked AccountLocked
  | EvAccountUnlocked AccountUnlocked
  | EvPasswordChanged PasswordChanged
  | EvPasswordResetCompleted PasswordResetCompleted
  | EvAdminInitiatedPasswordReset AdminInitiatedPasswordReset
  | EvSessionCreated SessionCreated
  | EvSessionRevoked SessionRevoked

definition aggregateCredential :: string where [const_defs]: "aggregateCredential = ''CredentialAggregate''"
definition aggregateAuthenticationSession :: string where [const_defs]:
  "aggregateAuthenticationSession = ''AuthenticationSession''"

fun EventType :: "domain_event \<Rightarrow> string" where
  "EventType (EvLoginFailed _) = ''auth.LoginFailed''"
| "EventType (EvAccountLocked _) = ''auth.AccountLocked''"
| "EventType (EvAccountUnlocked _) = ''auth.AccountUnlocked''"
| "EventType (EvPasswordChanged _) = ''auth.PasswordChanged''"
| "EventType (EvPasswordResetCompleted _) = ''auth.PasswordResetCompleted''"
| "EventType (EvAdminInitiatedPasswordReset _) = ''auth.AdminInitiatedPasswordReset''"
| "EventType (EvSessionCreated _) = ''auth.SessionCreated''"
| "EventType (EvSessionRevoked _) = ''auth.SessionRevoked''"

fun AggregateType :: "domain_event \<Rightarrow> string" where
  "AggregateType (EvSessionCreated _) = aggregateAuthenticationSession"
| "AggregateType (EvSessionRevoked _) = aggregateAuthenticationSession"
| "AggregateType _ = aggregateCredential"

fun AggregateID :: "domain_event \<Rightarrow> string" where
  "AggregateID (EvLoginFailed e) = lf_CredentialID e"
| "AggregateID (EvAccountLocked e) = al_CredentialID e"
| "AggregateID (EvAccountUnlocked e) = au_CredentialID e"
| "AggregateID (EvPasswordChanged e) = pc_CredentialID e"
| "AggregateID (EvPasswordResetCompleted e) = pr_CredentialID e"
| "AggregateID (EvAdminInitiatedPasswordReset e) = ar_CredentialID e"
| "AggregateID (EvSessionCreated e) = sc_SessionID e"
| "AggregateID (EvSessionRevoked e) = sr_SessionID e"

fun OccurredAt :: "domain_event \<Rightarrow> time" where
  "OccurredAt (EvLoginFailed e) = lf_At e"
| "OccurredAt (EvAccountLocked e) = al_At e"
| "OccurredAt (EvAccountUnlocked e) = au_At e"
| "OccurredAt (EvPasswordChanged e) = pc_At e"
| "OccurredAt (EvPasswordResetCompleted e) = pr_At e"
| "OccurredAt (EvAdminInitiatedPasswordReset e) = ar_At e"
| "OccurredAt (EvSessionCreated e) = sc_At e"
| "OccurredAt (EvSessionRevoked e) = sr_At e"

end
