(* ===== verification/Aggregate.thy ===== *)
theory Aggregate
  imports Prelude
begin

text \<open>
  Interfaces of an aggregate of the domain, as its clients see it.

  \<^item> \<open>snapshot_store\<close>: a repository saves the snapshot of an aggregate and rebuilds the
    aggregate from it. The laws are what the persistence layer relies on; the consequence proved
    here is that saving and loading any number of times is the same as doing it once.
  \<^item> \<open>event_source\<close>: an aggregate collects domain events until they are pulled.
\<close>

locale snapshot_store =
  fixes inv :: "'c \<Rightarrow> 'a \<Rightarrow> bool"
    and valid :: "'c \<Rightarrow> bool"
    and snapshot :: "'a \<Rightarrow> 's"
    and rehydrate :: "'s \<Rightarrow> 'c \<Rightarrow> 'e + 'a"
    and settled :: "'a \<Rightarrow> 'a"
  assumes restore: "valid p \<Longrightarrow> inv p a \<Longrightarrow> rehydrate (snapshot a) p = Inr (settled a)"
    and restored_inv: "rehydrate s p = Inr a \<Longrightarrow> inv p a \<and> valid p"
    and settled_inv: "inv p a \<Longrightarrow> inv p (settled a)"
    and settled_snapshot: "snapshot (settled a) = snapshot a"
begin

definition reload :: "'c \<Rightarrow> 'a \<Rightarrow> 'e + 'a" where
  "reload p a = rehydrate (snapshot a) p"

lemma reload_idem:
  "valid p \<Longrightarrow> inv p a \<Longrightarrow> reload p a = Inr b \<Longrightarrow> reload p b = Inr b"
  by (auto simp: reload_def restore settled_inv settled_snapshot)

text \<open>What can be stored and read back is exactly what satisfies the invariant.\<close>

lemma storable_iff:
  "valid p \<Longrightarrow> settled a = a \<Longrightarrow> rehydrate (snapshot a) p = Inr a \<longleftrightarrow> inv p a"
  using restore restored_inv by fastforce

end

locale event_source =
  fixes events :: "'a \<Rightarrow> 'v list"
    and pull :: "'a \<Rightarrow> 'v list \<times> 'a"
    and emit :: "'v \<Rightarrow> 'a \<Rightarrow> 'a"
  assumes pull_fst: "fst (pull a) = events a"
    and pull_clears: "events (snd (pull a)) = []"
    and emit_appends: "events (emit v a) = events a @ [v]"
begin

text \<open>Pulling twice yields every event once, in the order of emission.\<close>

lemma emit_fold: "events (fold emit vs a) = events a @ vs"
  by (induction vs arbitrary: a) (simp_all add: emit_appends)

lemma pull_once:
  "fst (pull a) @ fst (pull (fold emit vs (snd (pull a)))) = events a @ vs"
  by (simp add: pull_fst emit_fold pull_clears)

end

end
