(* ===== verification/Credential.thy ===== *)
theory Credential
  imports Domain_Base Aggregate
begin

text \<open>
  The credential aggregate of \<open>internal/domain/credential.go\<close>: password value object, lockout and
  credential policies, the aggregate with its operations, and its snapshot form.

  A method that mutates its receiver and returns an error is a function from the credential to
  the error and the updated credential. Where the code dereferences a pointer or indexes a slice
  the result is an \<open>option\<close>, \<open>None\<close> being the panic; the invariant below excludes it.
\<close>

section \<open>Passwords\<close>

record PasswordHash =
  ph_hash :: string
  ph_salt :: string
  ph_algorithm :: PasswordAlgorithm
  ph_version :: int

definition zero_PasswordHash :: PasswordHash where
  "zero_PasswordHash = \<lparr>ph_hash = '''', ph_salt = '''', ph_algorithm = '''', ph_version = 0\<rparr>"

definition NewPasswordHash ::
  "string \<Rightarrow> string \<Rightarrow> PasswordAlgorithm \<Rightarrow> int \<Rightarrow> domain_error + PasswordHash" where
  "NewPasswordHash hash salt alg version =
     (if hash = '''' then Inl (Err ErrInvalidPasswordHash (Msg ''hash is required''))
      else if salt = '''' then Inl (Err ErrInvalidPasswordHash (Msg ''salt is required''))
      else if \<not> PasswordAlgorithm_Valid alg
        then Inl (Err ErrInvalidPasswordHash (MsgQ ''unknown algorithm'' alg))
      else if version < 1 then Inl (Err ErrInvalidPasswordHash (Msg ''version must be >= 1''))
      else Inr \<lparr>ph_hash = hash, ph_salt = salt, ph_algorithm = alg, ph_version = version\<rparr>)"

definition PasswordHash_IsZero :: "PasswordHash \<Rightarrow> bool" where
  "PasswordHash_IsZero h \<longleftrightarrow> h = zero_PasswordHash"

text \<open>A nil \<open>PasswordMatcher\<close> is \<open>None\<close>.\<close>

type_synonym PasswordMatcher = "(PasswordHash \<Rightarrow> bool) option"

record PasswordHistoryEntry =
  he_Hash :: PasswordHash
  he_CreatedAt :: time

section \<open>Policies\<close>

record LockoutPolicy =
  lp_Threshold :: int
  lp_Window :: duration
  lp_TemporaryDurations :: "duration list"

definition DefaultLockoutPolicy :: LockoutPolicy where
  "DefaultLockoutPolicy =
     \<lparr>lp_Threshold = 5, lp_Window = 15 * Minute, lp_TemporaryDurations = [30 * Minute, 2 * Hour]\<rparr>"

definition LockoutPolicy_Validate :: "LockoutPolicy \<Rightarrow> go_error" where
  "LockoutPolicy_Validate p =
     (if lp_Threshold p < 1 \<or> lp_Window p \<le> 0
      then Some (Err ErrInvalidLockoutPolicy (MsgN ''threshold= window='' [lp_Threshold p, lp_Window p]))
      else case find (\<lambda>d. d \<le> 0) (lp_TemporaryDurations p) of
             Some d \<Rightarrow> Some (Err ErrInvalidLockoutPolicy (MsgN ''temporary duration'' [d]))
           | None \<Rightarrow> None)"

record CredentialPolicy =
  cp_HistoryDepth :: int
  cp_MaxAge :: duration

definition DefaultCredentialPolicy :: CredentialPolicy where
  "DefaultCredentialPolicy = \<lparr>cp_HistoryDepth = 12, cp_MaxAge = 180 * 24 * Hour\<rparr>"

definition CredentialPolicy_Validate :: "CredentialPolicy \<Rightarrow> go_error" where
  "CredentialPolicy_Validate p =
     (if cp_HistoryDepth p < 0 \<or> cp_MaxAge p < 0
      then Some (Err ErrInvalidCredentialPolicy (MsgN ''history= maxAge='' [cp_HistoryDepth p, cp_MaxAge p]))
      else None)"

definition expiryFrom :: "CredentialPolicy \<Rightarrow> time \<Rightarrow> time_ptr" where
  "expiryFrom p t = (if cp_MaxAge p = 0 then None else Some (time_Add t (cp_MaxAge p)))"

section \<open>The aggregate\<close>

record Credential =
  c_id :: CredentialID
  c_identity :: IdentityRef
  c_password :: PasswordHash
  c_passwordCreatedAt :: time
  c_passwordExpiresAt :: time_ptr
  c_forcePasswordChange :: bool
  c_failedAttemptCount :: int
  c_lastFailedAt :: time_ptr
  c_lockoutStatus :: LockoutStatus
  c_lockedAt :: time_ptr
  c_lockedUntil :: time_ptr
  c_lockoutHistoryCount :: int
  c_history :: "PasswordHistoryEntry list"
  c_events :: "domain_event list"

record NewCredentialParams =
  ncp_ID :: CredentialID
  ncp_Identity :: IdentityRef
  ncp_Password :: PasswordHash
  ncp_Policy :: CredentialPolicy
  ncp_ForceChange :: bool
  ncp_Now :: time

definition NewCredential :: "NewCredentialParams \<Rightarrow> domain_error + Credential" where
  "NewCredential p =
     (if ncp_ID p = '''' then Inl (Err ErrInvalidCredential (Msg ''id is required''))
      else if ncp_Identity p = '''' then Inl (Err ErrInvalidCredential (Msg ''identity is required''))
      else if PasswordHash_IsZero (ncp_Password p)
        then Inl (Err ErrInvalidCredential (Msg ''password is required''))
      else if time_IsZero (ncp_Now p)
        then Inl (Err ErrInvalidCredential (Msg ''creation time is required''))
      else case CredentialPolicy_Validate (ncp_Policy p) of
        Some e \<Rightarrow> Inl e
      | None \<Rightarrow>
          let now = time_UTC (ncp_Now p) in
          Inr \<lparr>c_id = ncp_ID p, c_identity = ncp_Identity p, c_password = ncp_Password p,
               c_passwordCreatedAt = now, c_passwordExpiresAt = expiryFrom (ncp_Policy p) now,
               c_forcePasswordChange = ncp_ForceChange p, c_failedAttemptCount = 0,
               c_lastFailedAt = None, c_lockoutStatus = LockoutUnlocked, c_lockedAt = None,
               c_lockedUntil = None, c_lockoutHistoryCount = 0, c_history = [], c_events = []\<rparr>)"

definition copyTime :: "time_ptr \<Rightarrow> time_ptr" where
  "copyTime t = (case t of None \<Rightarrow> None | Some v \<Rightarrow> Some v)"

definition utcTime :: "time_ptr \<Rightarrow> time_ptr" where
  "utcTime t = (case t of None \<Rightarrow> None | Some v \<Rightarrow> Some (time_UTC v))"

subsection \<open>Queries\<close>

definition IsLocked :: "time \<Rightarrow> Credential \<Rightarrow> bool option" where
  "IsLocked now c =
     (if c_lockoutStatus c = LockoutPermanent then Some True
      else if c_lockoutStatus c = LockoutTemporary
        then map_option (time_Before now) (c_lockedUntil c)
      else Some False)"

definition IsPasswordExpired :: "time \<Rightarrow> Credential \<Rightarrow> bool" where
  "IsPasswordExpired now c \<longleftrightarrow>
     (case c_passwordExpiresAt c of None \<Rightarrow> False | Some e \<Rightarrow> \<not> time_Before now e)"

definition RequiresPasswordChange :: "time \<Rightarrow> Credential \<Rightarrow> bool" where
  "RequiresPasswordChange now c \<longleftrightarrow> c_forcePasswordChange c \<or> IsPasswordExpired now c"

subsection \<open>Recording events and lock transitions\<close>

definition record_event :: "domain_event \<Rightarrow> Credential \<Rightarrow> Credential" where
  "record_event e c = c\<lparr>c_events := c_events c @ [e]\<rparr>"

definition recordLoginFailed ::
  "AttemptContext \<Rightarrow> LoginFailureReason \<Rightarrow> time \<Rightarrow> Credential \<Rightarrow> Credential" where
  "recordLoginFailed attempt reason now c =
     record_event (EvLoginFailed
       \<lparr>lf_CredentialID = c_id c, lf_IdentityID = c_identity c,
        lf_CompanyCode = ac_CompanyCode attempt, lf_Reason = reason,
        lf_FailedAttemptCount = c_failedAttemptCount c, lf_IPAddress = ac_IP attempt,
        lf_UserAgent = ac_UserAgent attempt, lf_DeviceFingerprint = ac_DeviceFingerprint attempt,
        lf_At = now\<rparr>) c"

definition unlock :: "IdentityRef \<Rightarrow> time \<Rightarrow> Credential \<Rightarrow> Credential" where
  "unlock by_ref at_time c =
     (let previous = c_lockoutStatus c;
          c' = c\<lparr>c_lockoutStatus := LockoutUnlocked, c_lockedAt := None, c_lockedUntil := None,
                 c_failedAttemptCount := 0, c_lastFailedAt := None\<rparr>
      in record_event (EvAccountUnlocked
           \<lparr>au_CredentialID = c_id c', au_IdentityID = c_identity c', au_UnlockedBy = by_ref,
            au_PreviousLockoutType = previous, au_At = at_time\<rparr>) c')"

definition lock :: "LockoutPolicy \<Rightarrow> addr \<Rightarrow> time \<Rightarrow> Credential \<Rightarrow> Credential option" where
  "lock policy triggerIP now c =
     (let c1 = c\<lparr>c_lockoutHistoryCount := incr64 (c_lockoutHistoryCount c), c_lockedAt := Some now\<rparr>
      in do {
        c2 \<leftarrow> (if c_lockoutHistoryCount c1 \<le> int (length (lp_TemporaryDurations policy))
               then do {
                 d \<leftarrow> index_at (lp_TemporaryDurations policy) (c_lockoutHistoryCount c1 - 1);
                 Some (c1\<lparr>c_lockoutStatus := LockoutTemporary, c_lockedUntil := Some (time_Add now d)\<rparr>)
               }
               else Some (c1\<lparr>c_lockoutStatus := LockoutPermanent, c_lockedUntil := None\<rparr>));
        Some (record_event (EvAccountLocked
          \<lparr>al_CredentialID = c_id c2, al_IdentityID = c_identity c2, al_LockoutType = c_lockoutStatus c2,
           al_LockedUntil = copyTime (c_lockedUntil c2), al_TriggerIP = triggerIP,
           al_FailedAttemptCount = c_failedAttemptCount c2, al_At = now\<rparr>) c2)
      })"

subsection \<open>Verification\<close>

definition EnsureVerifiable :: "time \<Rightarrow> Credential \<Rightarrow> (go_error \<times> Credential) option" where
  "EnsureVerifiable now c =
     (if c_lockoutStatus c = LockoutUnlocked then Some (None, c)
      else if c_lockoutStatus c = LockoutPermanent then Some (Some (Err ErrAccountLocked Plain), c)
      else do {
        until \<leftarrow> c_lockedUntil c;
        if time_Before now until then Some (Some (Err ErrAccountLocked Plain), c)
        else Some (None, unlock '''' until c)
      })"

definition RecordFailedAttempt ::
  "AttemptContext \<Rightarrow> LockoutPolicy \<Rightarrow> time \<Rightarrow> Credential \<Rightarrow> (go_error \<times> Credential) option" where
  "RecordFailedAttempt attempt policy now0 c =
     (case LockoutPolicy_Validate policy of
        Some e \<Rightarrow> Some (Some e, c)
      | None \<Rightarrow>
          let now = time_UTC now0 in
          do {
            (err, c1) \<leftarrow> EnsureVerifiable now c;
            case err of
              Some e \<Rightarrow> Some (Some e, recordLoginFailed attempt FailureAccountLocked now c1)
            | None \<Rightarrow>
                let c2 = (case c_lastFailedAt c1 of
                            Some t \<Rightarrow> if time_Sub now t > lp_Window policy
                                      then c1\<lparr>c_failedAttemptCount := 0\<rparr> else c1
                          | None \<Rightarrow> c1);
                    c3 = c2\<lparr>c_failedAttemptCount := incr64 (c_failedAttemptCount c2),
                            c_lastFailedAt := Some now\<rparr>;
                    c4 = recordLoginFailed attempt FailureInvalidCredentials now c3
                in if c_failedAttemptCount c4 \<ge> lp_Threshold policy
                   then do { c5 \<leftarrow> lock policy (ac_IP attempt) now c4; Some (None, c5) }
                   else Some (None, c4)
          })"

definition RecordSuccessfulVerification ::
  "time \<Rightarrow> Credential \<Rightarrow> (go_error \<times> Credential) option" where
  "RecordSuccessfulVerification now c = do {
     (err, c1) \<leftarrow> EnsureVerifiable now c;
     case err of
       Some e \<Rightarrow> Some (Some e, c1)
     | None \<Rightarrow> Some (None, c1\<lparr>c_failedAttemptCount := 0, c_lastFailedAt := None\<rparr>)
   }"

definition Unlock :: "IdentityRef \<Rightarrow> time \<Rightarrow> Credential \<Rightarrow> go_error \<times> Credential" where
  "Unlock by_ref now c =
     (if c_lockoutStatus c = LockoutUnlocked then (Some (Err ErrAccountNotLocked Plain), c)
      else (None, unlock by_ref (time_UTC now) c))"

subsection \<open>Passwords of the aggregate\<close>

definition replacePassword ::
  "PasswordHash \<Rightarrow> PasswordMatcher \<Rightarrow> CredentialPolicy \<Rightarrow> time \<Rightarrow> Credential \<Rightarrow>
     (go_error \<times> Credential) option" where
  "replacePassword newHash isReuse policy now c =
     (if PasswordHash_IsZero newHash
      then Some (Some (Err ErrInvalidPasswordHash (Msg ''new password is required'')), c)
      else case isReuse of
        None \<Rightarrow> Some (Some (Err ErrInvalidCredential (Msg ''reuse matcher is required'')), c)
      | Some m \<Rightarrow>
          if m (c_password c) \<or> list_ex (\<lambda>e. m (he_Hash e)) (c_history c)
          then Some (Some (Err ErrPasswordReused Plain), c)
          else do {
            let h1 = \<lparr>he_Hash = c_password c, he_CreatedAt = now\<rparr> # c_history c;
            h2 \<leftarrow> (if int (length h1) > cp_HistoryDepth policy
                   then slice_to h1 (cp_HistoryDepth policy) else Some h1);
            Some (None, c\<lparr>c_history := h2, c_password := newHash, c_passwordCreatedAt := now,
                          c_passwordExpiresAt := expiryFrom policy now,
                          c_forcePasswordChange := False\<rparr>)
          })"

definition ChangePassword ::
  "PasswordHash \<Rightarrow> PasswordMatcher \<Rightarrow> IdentityRef \<Rightarrow> CredentialPolicy \<Rightarrow> time \<Rightarrow> Credential \<Rightarrow>
     (go_error \<times> Credential) option" where
  "ChangePassword newHash isReuse by_ref policy now0 c =
     (case CredentialPolicy_Validate policy of
        Some e \<Rightarrow> Some (Some e, c)
      | None \<Rightarrow>
          let now = time_UTC now0 in
          do {
            (err, c1) \<leftarrow> EnsureVerifiable now c;
            case err of
              Some e \<Rightarrow> Some (Some e, c1)
            | None \<Rightarrow>
                let changeType = (if RequiresPasswordChange now c1 then ChangeForced else ChangeUserInitiated)
                in do {
                  (err2, c2) \<leftarrow> replacePassword newHash isReuse policy now c1;
                  case err2 of
                    Some e \<Rightarrow> Some (Some e, c2)
                  | None \<Rightarrow> Some (None, record_event (EvPasswordChanged
                      \<lparr>pc_CredentialID = c_id c2, pc_IdentityID = c_identity c2, pc_ChangedBy = by_ref,
                       pc_ChangeType = changeType, pc_At = now\<rparr>) c2)
                }
          })"

definition ResetPassword ::
  "PasswordHash \<Rightarrow> PasswordMatcher \<Rightarrow> CredentialPolicy \<Rightarrow> time \<Rightarrow> Credential \<Rightarrow>
     (go_error \<times> Credential) option" where
  "ResetPassword newHash isReuse policy now0 c =
     (case CredentialPolicy_Validate policy of
        Some e \<Rightarrow> Some (Some e, c)
      | None \<Rightarrow>
          if c_lockoutStatus c = LockoutPermanent then Some (Some (Err ErrAccountLocked Plain), c)
          else let now = time_UTC now0 in do {
            (err, c1) \<leftarrow> replacePassword newHash isReuse policy now c;
            case err of
              Some e \<Rightarrow> Some (Some e, c1)
            | None \<Rightarrow> Some (None, record_event (EvPasswordResetCompleted
                \<lparr>pr_CredentialID = c_id c1, pr_IdentityID = c_identity c1, pr_At = now\<rparr>) c1)
          })"

definition MarkForcePasswordChange :: "IdentityRef \<Rightarrow> time \<Rightarrow> Credential \<Rightarrow> go_error \<times> Credential" where
  "MarkForcePasswordChange by_ref now c =
     (if by_ref = '''' then (Some (Err ErrInvalidCredential (Msg ''initiator is required'')), c)
      else if c_forcePasswordChange c then (None, c)
      else (None, record_event (EvAdminInitiatedPasswordReset
              \<lparr>ar_CredentialID = c_id c, ar_IdentityID = c_identity c, ar_InitiatedBy = by_ref,
               ar_At = time_UTC now\<rparr>) (c\<lparr>c_forcePasswordChange := True\<rparr>)))"

definition Credential_PullEvents :: "Credential \<Rightarrow> domain_event list \<times> Credential" where
  "Credential_PullEvents c = (c_events c, c\<lparr>c_events := []\<rparr>)"

section \<open>Snapshots\<close>

record CredentialSnapshot =
  cs_ID :: CredentialID
  cs_IdentityID :: IdentityRef
  cs_Password :: PasswordHash
  cs_PasswordCreatedAt :: time
  cs_PasswordExpiresAt :: time_ptr
  cs_ForcePasswordChange :: bool
  cs_FailedAttemptCount :: int
  cs_LastFailedAt :: time_ptr
  cs_LockoutStatus :: LockoutStatus
  cs_LockedAt :: time_ptr
  cs_LockedUntil :: time_ptr
  cs_LockoutHistoryCount :: int
  cs_History :: "PasswordHistoryEntry list"

definition Credential_Snapshot :: "Credential \<Rightarrow> CredentialSnapshot" where
  "Credential_Snapshot c =
     \<lparr>cs_ID = c_id c, cs_IdentityID = c_identity c, cs_Password = c_password c,
      cs_PasswordCreatedAt = c_passwordCreatedAt c,
      cs_PasswordExpiresAt = copyTime (c_passwordExpiresAt c),
      cs_ForcePasswordChange = c_forcePasswordChange c,
      cs_FailedAttemptCount = c_failedAttemptCount c,
      cs_LastFailedAt = copyTime (c_lastFailedAt c),
      cs_LockoutStatus = c_lockoutStatus c,
      cs_LockedAt = copyTime (c_lockedAt c), cs_LockedUntil = copyTime (c_lockedUntil c),
      cs_LockoutHistoryCount = c_lockoutHistoryCount c, cs_History = c_history c\<rparr>"

definition RehydrateCredential ::
  "CredentialSnapshot \<Rightarrow> CredentialPolicy \<Rightarrow> domain_error + Credential" where
  "RehydrateCredential snap policy =
     (case CredentialPolicy_Validate policy of
        Some e \<Rightarrow> Inl e
      | None \<Rightarrow>
        if cs_ID snap = '''' \<or> cs_IdentityID snap = ''''
        then Inl (Err ErrInvalidCredential (Msg ''id and identity are required''))
        else if PasswordHash_IsZero (cs_Password snap)
        then Inl (Err ErrInvalidCredential (Msg ''password is required''))
        else if time_IsZero (cs_PasswordCreatedAt snap)
        then Inl (Err ErrInvalidCredential (Msg ''password creation time is required''))
        else if \<not> LockoutStatus_Valid (cs_LockoutStatus snap)
        then Inl (Err ErrInvalidCredential (MsgQ ''unknown lockout status'' (cs_LockoutStatus snap)))
        else if cs_FailedAttemptCount snap < 0 \<or> cs_LockoutHistoryCount snap < 0
        then Inl (Err ErrInvalidCredential (Msg ''negative counters''))
        else if int (length (cs_History snap)) > cp_HistoryDepth policy
        then Inl (Err ErrInvalidCredential (MsgN ''history depth exceeds policy''
               [int (length (cs_History snap)), cp_HistoryDepth policy]))
        else if cs_LockoutStatus snap = LockoutUnlocked
             \<and> (cs_LockedAt snap \<noteq> None \<or> cs_LockedUntil snap \<noteq> None)
        then Inl (Err ErrInvalidCredential (Msg ''unlocked credential carries lock timestamps''))
        else if cs_LockoutStatus snap = LockoutTemporary
             \<and> (cs_LockedAt snap = None \<or> cs_LockedUntil snap = None \<or> cs_LockoutHistoryCount snap < 1)
        then Inl (Err ErrInvalidCredential
               (Msg ''temporary lock needs locked_at, locked_until and a lockout count''))
        else if cs_LockoutStatus snap = LockoutPermanent
             \<and> (cs_LockedAt snap = None \<or> cs_LockedUntil snap \<noteq> None \<or> cs_LockoutHistoryCount snap < 1)
        then Inl (Err ErrInvalidCredential
               (Msg ''permanent lock needs locked_at, no locked_until and a lockout count''))
        else if list_ex (\<lambda>e. PasswordHash_IsZero (he_Hash e)) (cs_History snap)
        then Inl (Err ErrInvalidCredential (Msg ''empty history entry''))
        else Inr
          \<lparr>c_id = cs_ID snap, c_identity = cs_IdentityID snap, c_password = cs_Password snap,
           c_passwordCreatedAt = time_UTC (cs_PasswordCreatedAt snap),
           c_passwordExpiresAt = utcTime (cs_PasswordExpiresAt snap),
           c_forcePasswordChange = cs_ForcePasswordChange snap,
           c_failedAttemptCount = cs_FailedAttemptCount snap,
           c_lastFailedAt = utcTime (cs_LastFailedAt snap),
           c_lockoutStatus = cs_LockoutStatus snap,
           c_lockedAt = utcTime (cs_LockedAt snap), c_lockedUntil = utcTime (cs_LockedUntil snap),
           c_lockoutHistoryCount = cs_LockoutHistoryCount snap,
           c_history = cs_History snap, c_events = []\<rparr>)"

section \<open>The well-formedness invariant\<close>

text \<open>
  What \<open>RehydrateCredential\<close> demands of a snapshot, stated on the aggregate, with the fact that
  every instant the aggregate itself interprets is in UTC.
\<close>

definition lock_stamps_ok :: "Credential \<Rightarrow> bool" where
  "lock_stamps_ok c \<longleftrightarrow>
     (c_lockoutStatus c = LockoutUnlocked \<and> c_lockedAt c = None \<and> c_lockedUntil c = None)
   \<or> (c_lockoutStatus c = LockoutTemporary \<and> c_lockedAt c \<noteq> None \<and> c_lockedUntil c \<noteq> None
        \<and> 1 \<le> c_lockoutHistoryCount c)
   \<or> (c_lockoutStatus c = LockoutPermanent \<and> c_lockedAt c \<noteq> None \<and> c_lockedUntil c = None
        \<and> 1 \<le> c_lockoutHistoryCount c)"

definition utc_stamps :: "Credential \<Rightarrow> bool" where
  "utc_stamps c \<longleftrightarrow> loc (c_passwordCreatedAt c) = UTC \<and> utc_ptr (c_passwordExpiresAt c)
     \<and> utc_ptr (c_lastFailedAt c) \<and> utc_ptr (c_lockedAt c) \<and> utc_ptr (c_lockedUntil c)"

definition wf_credential :: "CredentialPolicy \<Rightarrow> Credential \<Rightarrow> bool" where
  "wf_credential p c \<longleftrightarrow>
     c_id c \<noteq> '''' \<and> c_identity c \<noteq> '''' \<and> \<not> PasswordHash_IsZero (c_password c)
     \<and> \<not> time_IsZero (c_passwordCreatedAt c)
     \<and> 0 \<le> c_failedAttemptCount c \<and> 0 \<le> c_lockoutHistoryCount c
     \<and> int (length (c_history c)) \<le> cp_HistoryDepth p
     \<and> list_all (\<lambda>e. \<not> PasswordHash_IsZero (he_Hash e)) (c_history c)
     \<and> lock_stamps_ok c \<and> utc_stamps c"

lemmas wf_defs = wf_credential_def lock_stamps_ok_def utc_stamps_def

lemma copyTime_id [simp]: "copyTime t = t"
  by (simp add: copyTime_def split: option.split)

lemma utcTime_id [simp]: "utc_ptr t \<Longrightarrow> utcTime t = t"
  by (cases t) (simp_all add: utcTime_def)

lemma utc_ptr_utcTime [simp]: "utc_ptr (utcTime t)"
  by (cases t) (simp_all add: utcTime_def)

lemma utcTime_None [simp]: "utcTime t = None \<longleftrightarrow> t = None"
  by (simp add: utcTime_def split: option.split)

lemma utc_ptr_expiryFrom [simp]: "loc t = UTC \<Longrightarrow> utc_ptr (expiryFrom p t)"
  by (simp add: expiryFrom_def)

lemma record_event_sel [simp]:
  "c_id (record_event e c) = c_id c" "c_identity (record_event e c) = c_identity c"
  "c_password (record_event e c) = c_password c"
  "c_passwordCreatedAt (record_event e c) = c_passwordCreatedAt c"
  "c_passwordExpiresAt (record_event e c) = c_passwordExpiresAt c"
  "c_forcePasswordChange (record_event e c) = c_forcePasswordChange c"
  "c_failedAttemptCount (record_event e c) = c_failedAttemptCount c"
  "c_lastFailedAt (record_event e c) = c_lastFailedAt c"
  "c_lockoutStatus (record_event e c) = c_lockoutStatus c"
  "c_lockedAt (record_event e c) = c_lockedAt c" "c_lockedUntil (record_event e c) = c_lockedUntil c"
  "c_lockoutHistoryCount (record_event e c) = c_lockoutHistoryCount c"
  "c_history (record_event e c) = c_history c" "c_events (record_event e c) = c_events c @ [e]"
  by (simp_all add: record_event_def)

lemma wf_record_event [simp]: "wf_credential p (record_event e c) = wf_credential p c"
  by (simp add: wf_defs)

lemma wf_clear_events [simp]: "wf_credential p (c\<lparr>c_events := es\<rparr>) = wf_credential p c"
  by (simp add: wf_defs)

lemma wf_lockout_valid: "wf_credential p c \<Longrightarrow> LockoutStatus_Valid (c_lockoutStatus c)"
  by (auto simp: wf_defs)

lemma CredentialPolicy_Validate_None:
  "CredentialPolicy_Validate p = None \<longleftrightarrow> 0 \<le> cp_HistoryDepth p \<and> 0 \<le> cp_MaxAge p"
  by (auto simp: CredentialPolicy_Validate_def)

lemma LockoutPolicy_Validate_None:
  "LockoutPolicy_Validate p = None \<longleftrightarrow>
     1 \<le> lp_Threshold p \<and> 0 < lp_Window p \<and> (\<forall>d \<in> set (lp_TemporaryDurations p). 0 < d)"
proof (cases "find (\<lambda>d. d \<le> 0) (lp_TemporaryDurations p)")
  case None
  then have "\<forall>d \<in> set (lp_TemporaryDurations p). 0 < d"
    by (auto simp: find_None_iff not_le)
  with None show ?thesis by (auto simp: LockoutPolicy_Validate_def simp del: find_None_iff)
next
  case (Some d)
  then have "d \<in> set (lp_TemporaryDurations p)" "\<not> 0 < d"
    by (auto simp: find_Some_iff)
  with Some show ?thesis by (auto simp: LockoutPolicy_Validate_def not_less)
qed

section \<open>Construction and snapshots\<close>

lemma NewCredential_wf: "NewCredential p = Inr c \<Longrightarrow> wf_credential (ncp_Policy p) c"
  by (auto simp: NewCredential_def wf_defs Let_def CredentialPolicy_Validate_None
      split: if_splits option.splits)

lemma RehydrateCredential_wf: "RehydrateCredential snap p = Inr c \<Longrightarrow> wf_credential p c"
  unfolding RehydrateCredential_def wf_credential_def
  by (simp split: if_split_asm option.split_asm, hypsubst)
     (auto simp: LockoutStatus_Valid_def lock_stamps_ok_def utc_stamps_def list_all_iff list_ex_iff)

lemma Rehydrate_Snapshot:
  assumes "CredentialPolicy_Validate p = None" "wf_credential p c"
  shows "RehydrateCredential (Credential_Snapshot c) p = Inr (c\<lparr>c_events := []\<rparr>)"
  using assms
  by (auto simp: RehydrateCredential_def Credential_Snapshot_def wf_defs list_all_iff list_ex_iff)

section \<open>Branches of the lock check\<close>

lemma EnsureVerifiable_unlocked [simp]:
  "c_lockoutStatus c = LockoutUnlocked \<Longrightarrow> EnsureVerifiable now c = Some (None, c)"
  by (simp add: EnsureVerifiable_def)

lemma EnsureVerifiable_permanent [simp]:
  "c_lockoutStatus c = LockoutPermanent \<Longrightarrow>
     EnsureVerifiable now c = Some (Some (Err ErrAccountLocked Plain), c)"
  by (simp add: EnsureVerifiable_def)

lemma EnsureVerifiable_temporary [simp]:
  "c_lockoutStatus c = LockoutTemporary \<Longrightarrow> c_lockedUntil c = Some u \<Longrightarrow>
     EnsureVerifiable now c =
       (if time_Before now u then Some (Some (Err ErrAccountLocked Plain), c)
        else Some (None, unlock '''' u c))"
  by (simp add: EnsureVerifiable_def)

lemma unlock_sel [simp]:
  "c_lockoutStatus (unlock r t c) = LockoutUnlocked" "c_lockedAt (unlock r t c) = None"
  "c_lockedUntil (unlock r t c) = None" "c_failedAttemptCount (unlock r t c) = 0"
  "c_lastFailedAt (unlock r t c) = None" "c_id (unlock r t c) = c_id c"
  "c_identity (unlock r t c) = c_identity c" "c_password (unlock r t c) = c_password c"
  "c_passwordCreatedAt (unlock r t c) = c_passwordCreatedAt c"
  "c_passwordExpiresAt (unlock r t c) = c_passwordExpiresAt c"
  "c_forcePasswordChange (unlock r t c) = c_forcePasswordChange c"
  "c_lockoutHistoryCount (unlock r t c) = c_lockoutHistoryCount c"
  "c_history (unlock r t c) = c_history c"
  by (simp_all add: unlock_def Let_def)

lemma unlock_events [simp]:
  "c_events (unlock r t c) = c_events c @ [EvAccountUnlocked
     \<lparr>au_CredentialID = c_id c, au_IdentityID = c_identity c, au_UnlockedBy = r,
      au_PreviousLockoutType = c_lockoutStatus c, au_At = t\<rparr>]"
  by (simp add: unlock_def Let_def)

lemma wf_unlock: "wf_credential p c \<Longrightarrow> wf_credential p (unlock r t c)"
  by (auto simp: wf_defs)

lemma wf_status_cases:
  assumes "wf_credential p c"
  obtains (unlocked) "c_lockoutStatus c = LockoutUnlocked" "c_lockedUntil c = None"
  | (temporary) u where "c_lockoutStatus c = LockoutTemporary" "c_lockedUntil c = Some u"
  | (permanent) "c_lockoutStatus c = LockoutPermanent" "c_lockedUntil c = None"
  using assms by (auto simp: wf_defs)

text \<open>The check never panics on a well-formed credential and agrees with \<open>IsLocked\<close>.\<close>

lemma EnsureVerifiable_total:
  assumes "wf_credential p c"
  shows "\<exists>b. IsLocked now c = Some b
    \<and> EnsureVerifiable now c =
        (if b then Some (Some (Err ErrAccountLocked Plain), c)
         else Some (None, if c_lockoutStatus c = LockoutUnlocked then c
                          else unlock '''' (the (c_lockedUntil c)) c))"
  using assms
  by (cases rule: wf_status_cases) (auto simp: IsLocked_def)

lemma EnsureVerifiable_wf:
  assumes "wf_credential p c" "EnsureVerifiable now c = Some (e, c')"
  shows "wf_credential p c'"
  using EnsureVerifiable_total [OF assms(1), of now] assms
  by (auto simp: wf_unlock split: if_splits)

lemma EnsureVerifiable_Some:
  assumes "wf_credential p c"
  obtains e c' where "EnsureVerifiable now c = Some (e, c')" "wf_credential p c'"
  using EnsureVerifiable_total [OF assms, of now] EnsureVerifiable_wf [OF assms, of now]
  by (metis option.distinct(1))

lemma EnsureVerifiable_ok_unlocked:
  "EnsureVerifiable now c = Some (None, c') \<Longrightarrow> c_lockoutStatus c' = LockoutUnlocked"
  by (auto simp: EnsureVerifiable_def split: if_splits option.splits Option.bind_splits)

lemma EnsureVerifiable_err:
  "EnsureVerifiable now c = Some (Some e, c') \<Longrightarrow> e = Err ErrAccountLocked Plain \<and> c' = c"
  by (auto simp: EnsureVerifiable_def split: if_splits option.splits Option.bind_splits)

lemma EnsureVerifiable_result:
  "EnsureVerifiable now c = Some (e, c') \<Longrightarrow> c' = c \<or> (\<exists>u. c' = unlock '''' u c)"
  by (auto simp: EnsureVerifiable_def split: if_splits option.splits Option.bind_splits)

section \<open>Locking\<close>

text \<open>The new count decides the kind of lock; the count is positive, so the slice index is in range.\<close>

lemma lock_cases:
  assumes "0 \<le> c_lockoutHistoryCount c" "c_lockoutHistoryCount c < max_int64"
  defines "n \<equiv> c_lockoutHistoryCount c + 1"
  shows "\<exists>c'. lock policy ip now c = Some c'
    \<and> c_lockoutHistoryCount c' = n \<and> c_lockedAt c' = Some now
    \<and> (if n \<le> int (length (lp_TemporaryDurations policy))
       then c_lockoutStatus c' = LockoutTemporary
            \<and> c_lockedUntil c' = Some (time_Add now (lp_TemporaryDurations policy ! nat (n - 1)))
       else c_lockoutStatus c' = LockoutPermanent \<and> c_lockedUntil c' = None)
    \<and> c_events c' = c_events c @ [EvAccountLocked
         \<lparr>al_CredentialID = c_id c, al_IdentityID = c_identity c, al_LockoutType = c_lockoutStatus c',
          al_LockedUntil = c_lockedUntil c', al_TriggerIP = ip,
          al_FailedAttemptCount = c_failedAttemptCount c, al_At = now\<rparr>]
    \<and> c_id c' = c_id c \<and> c_identity c' = c_identity c \<and> c_password c' = c_password c
    \<and> c_passwordCreatedAt c' = c_passwordCreatedAt c \<and> c_passwordExpiresAt c' = c_passwordExpiresAt c
    \<and> c_forcePasswordChange c' = c_forcePasswordChange c
    \<and> c_failedAttemptCount c' = c_failedAttemptCount c \<and> c_lastFailedAt c' = c_lastFailedAt c
    \<and> c_history c' = c_history c"
proof (cases "n \<le> int (length (lp_TemporaryDurations policy))")
  case True
  with assms show ?thesis
    by (simp add: lock_def Let_def incr64_id index_at_Some)
next
  case False
  with assms show ?thesis
    by (simp add: lock_def Let_def incr64_id)
qed

lemma lock_wf:
  assumes "wf_credential p c" "c_lockoutHistoryCount c < max_int64" "loc now = UTC"
    and "lock policy ip now c = Some c'"
  shows "wf_credential p c'"
proof -
  have "0 \<le> c_lockoutHistoryCount c" using assms(1) by (simp add: wf_defs)
  from lock_cases [OF this assms(2), of policy ip now] assms show ?thesis
    by (auto simp: wf_defs split: if_splits)
qed

section \<open>Failed attempts\<close>

text \<open>The credential that an accepted failure leaves behind, before the threshold is looked at.\<close>

definition counted_failure :: "AttemptContext \<Rightarrow> duration \<Rightarrow> time \<Rightarrow> Credential \<Rightarrow> Credential" where
  "counted_failure attempt window now c =
     (let n = (case c_lastFailedAt c of
                 Some t \<Rightarrow> if time_Sub now t > window then 0 else c_failedAttemptCount c
               | None \<Rightarrow> c_failedAttemptCount c)
      in recordLoginFailed attempt FailureInvalidCredentials now
           (c\<lparr>c_failedAttemptCount := incr64 n, c_lastFailedAt := Some now\<rparr>))"

lemma recordLoginFailed_sel [simp]:
  "c_failedAttemptCount (recordLoginFailed a r t c) = c_failedAttemptCount c"
  "c_lastFailedAt (recordLoginFailed a r t c) = c_lastFailedAt c"
  "c_lockoutStatus (recordLoginFailed a r t c) = c_lockoutStatus c"
  "c_lockedAt (recordLoginFailed a r t c) = c_lockedAt c"
  "c_lockedUntil (recordLoginFailed a r t c) = c_lockedUntil c"
  "c_lockoutHistoryCount (recordLoginFailed a r t c) = c_lockoutHistoryCount c"
  "c_id (recordLoginFailed a r t c) = c_id c" "c_identity (recordLoginFailed a r t c) = c_identity c"
  "c_password (recordLoginFailed a r t c) = c_password c"
  "c_passwordCreatedAt (recordLoginFailed a r t c) = c_passwordCreatedAt c"
  "c_passwordExpiresAt (recordLoginFailed a r t c) = c_passwordExpiresAt c"
  "c_forcePasswordChange (recordLoginFailed a r t c) = c_forcePasswordChange c"
  "c_history (recordLoginFailed a r t c) = c_history c"
  by (simp_all add: recordLoginFailed_def)

lemma wf_recordLoginFailed [simp]: "wf_credential p (recordLoginFailed a r t c) = wf_credential p c"
  by (simp add: recordLoginFailed_def)

lemma RecordFailedAttempt_eq:
  assumes "LockoutPolicy_Validate policy = None"
  shows "RecordFailedAttempt attempt policy now c =
    Option.bind (EnsureVerifiable (time_UTC now) c) (\<lambda>(err, c1).
      case err of
        Some e \<Rightarrow> Some (Some e, recordLoginFailed attempt FailureAccountLocked (time_UTC now) c1)
      | None \<Rightarrow> (let c4 = counted_failure attempt (lp_Window policy) (time_UTC now) c1
                 in if c_failedAttemptCount c4 \<ge> lp_Threshold policy
                    then Option.bind (lock policy (ac_IP attempt) (time_UTC now) c4) (\<lambda>c5. Some (None, c5))
                    else Some (None, c4)))"
  using assms
  by (cases "EnsureVerifiable (time_UTC now) c")
     (auto simp: RecordFailedAttempt_def counted_failure_def Let_def split: option.split)

lemma counted_failure_sel:
  "c_lockoutStatus (counted_failure a w t c) = c_lockoutStatus c"
  "c_lockedAt (counted_failure a w t c) = c_lockedAt c"
  "c_lockedUntil (counted_failure a w t c) = c_lockedUntil c"
  "c_lockoutHistoryCount (counted_failure a w t c) = c_lockoutHistoryCount c"
  "c_lastFailedAt (counted_failure a w t c) = Some t"
  "c_id (counted_failure a w t c) = c_id c" "c_identity (counted_failure a w t c) = c_identity c"
  "c_password (counted_failure a w t c) = c_password c"
  "c_passwordCreatedAt (counted_failure a w t c) = c_passwordCreatedAt c"
  "c_passwordExpiresAt (counted_failure a w t c) = c_passwordExpiresAt c"
  "c_forcePasswordChange (counted_failure a w t c) = c_forcePasswordChange c"
  "c_history (counted_failure a w t c) = c_history c"
  by (simp_all add: counted_failure_def Let_def)

lemma counted_failure_count:
  assumes "0 \<le> c_failedAttemptCount c" "c_failedAttemptCount c < max_int64"
  shows "c_failedAttemptCount (counted_failure a w t c) =
    1 + (case c_lastFailedAt c of
           Some u \<Rightarrow> if time_Sub t u > w then 0 else c_failedAttemptCount c
         | None \<Rightarrow> c_failedAttemptCount c)"
proof -
  have "incr64 0 = 1" by (simp add: incr64_id max_int64_def)
  with assms show ?thesis
    by (auto simp: counted_failure_def Let_def incr64_id split: option.split)
qed

lemma wf_counted_failure:
  assumes "wf_credential p c" "c_failedAttemptCount c < max_int64" "loc t = UTC"
  shows "wf_credential p (counted_failure a w t c)"
proof -
  have "0 \<le> c_failedAttemptCount c" using assms(1) by (simp add: wf_defs)
  then have "0 \<le> c_failedAttemptCount (counted_failure a w t c)"
    using counted_failure_count [OF _ assms(2), of a w t] by (auto split: option.splits if_splits)
  with assms show ?thesis by (simp add: wf_defs counted_failure_sel)
qed

text \<open>On a well-formed credential a failed attempt never panics and keeps the invariant.\<close>

lemma RecordFailedAttempt_total:
  assumes "wf_credential p c" "c_failedAttemptCount c < max_int64" "c_lockoutHistoryCount c < max_int64"
  shows "\<exists>e c'. RecordFailedAttempt attempt policy now c = Some (e, c') \<and> wf_credential p c'"
proof (cases "LockoutPolicy_Validate policy")
  case (Some e)
  with assms show ?thesis by (simp add: RecordFailedAttempt_def)
next
  case None
  obtain err c1 where ev: "EnsureVerifiable (time_UTC now) c = Some (err, c1)" and wf1: "wf_credential p c1"
    using EnsureVerifiable_Some [OF assms(1)] .
  have b1: "c_failedAttemptCount c1 < max_int64" "c_lockoutHistoryCount c1 < max_int64"
    using ev assms by (auto simp: EnsureVerifiable_def max_int64_def split: if_splits Option.bind_splits)
  let ?c4 = "counted_failure attempt (lp_Window policy) (time_UTC now) c1"
  have wf4: "wf_credential p ?c4" using wf_counted_failure [OF wf1 b1(1)] by simp
  have "0 \<le> c_lockoutHistoryCount ?c4" using wf4 by (simp add: wf_defs)
  then obtain c5 where "lock policy (ac_IP attempt) (time_UTC now) ?c4 = Some c5"
    using lock_cases [of ?c4 policy "ac_IP attempt" "time_UTC now"] b1
    by (auto simp: counted_failure_sel)
  moreover from lock_wf [OF wf4 _ _ this] b1 have "wf_credential p c5"
    by (simp add: counted_failure_sel)
  ultimately show ?thesis using None ev wf1 wf4
    by (auto simp: RecordFailedAttempt_eq Let_def split: option.split)
qed

lemma RecordSuccessfulVerification_total:
  assumes "wf_credential p c"
  shows "\<exists>e c'. RecordSuccessfulVerification now c = Some (e, c') \<and> wf_credential p c'"
  using assms EnsureVerifiable_total [OF assms, of now]
  by (auto simp: RecordSuccessfulVerification_def wf_defs split: if_splits option.splits)

section \<open>Replacing the password\<close>

lemma replacePassword_total:
  assumes "wf_credential p c" "CredentialPolicy_Validate p = None"
    "\<not> time_IsZero now" "loc now = UTC"
  shows "\<exists>e c'. replacePassword h m p now c = Some (e, c') \<and> wf_credential p c'"
proof -
  let ?h = "\<lparr>he_Hash = c_password c, he_CreatedAt = now\<rparr> # c_history c"
  have "0 \<le> cp_HistoryDepth p" using assms(2) by (simp add: CredentialPolicy_Validate_None)
  then have clip: "(if int (length ?h) > cp_HistoryDepth p then slice_to ?h (cp_HistoryDepth p) else Some ?h)
      = Some (take (nat (cp_HistoryDepth p)) ?h)"
    by (rule slice_clip)
  have "\<not> PasswordHash_IsZero h \<Longrightarrow>
      wf_credential p (c\<lparr>c_history := take (nat (cp_HistoryDepth p)) ?h, c_password := h, c_passwordCreatedAt := now,
        c_passwordExpiresAt := expiryFrom p now, c_forcePasswordChange := False\<rparr>)"
    using assms \<open>0 \<le> cp_HistoryDepth p\<close> by (auto simp: wf_defs list_all_iff dest!: in_set_takeD)
  with assms(1) clip show ?thesis
    by (auto simp: replacePassword_def Let_def simp del: length_Cons split: option.split)
qed

section \<open>The aggregate interfaces\<close>

interpretation cred_store: snapshot_store wf_credential "\<lambda>p. CredentialPolicy_Validate p = None"
    Credential_Snapshot RehydrateCredential "\<lambda>c. c\<lparr>c_events := []\<rparr>"
proof (unfold_locales, goal_cases)
  case (1 p a)
  then show ?case by (rule Rehydrate_Snapshot)
next
  case (2 s p a)
  then have "CredentialPolicy_Validate p = None"
    by (simp add: RehydrateCredential_def split: option.splits)
  with 2 show ?case by (simp add: RehydrateCredential_wf)
next
  case (3 p a)
  then show ?case by simp
next
  case (4 a)
  then show ?case by (simp add: Credential_Snapshot_def)
qed

interpretation cred_events: event_source c_events Credential_PullEvents record_event
  by unfold_locales (simp_all add: Credential_PullEvents_def)

end
