(* ===== verification/Lockout.thy ===== *)
theory Lockout
  imports Credential
begin

text \<open>
  Runs of the credential aggregate. Commands are the public operations of
  \<open>internal/domain/credential.go\<close> (with the store-and-reload that happens between requests);
  \<open>cred_reach n c\<close> says that \<open>c\<close> is reached by \<open>n\<close> commands from a newly created credential.
  The theory proves the invariant of reachable credentials (the three invariants documented on the
  Go type), that no command panics, and the refinement of the failed-attempt logic to an abstract
  lockout machine.
\<close>

section \<open>Commands and reachability\<close>

datatype cred_cmd =
    CmdFail AttemptContext time
  | CmdSuccess time
  | CmdUnlock IdentityRef time
  | CmdChange PasswordHash PasswordMatcher IdentityRef time
  | CmdReset PasswordHash PasswordMatcher time
  | CmdForce IdentityRef time
  | CmdPull
  | CmdReload

text \<open>\<open>None\<close> is a panic, or a snapshot that the domain refuses to rebuild.\<close>

fun exec_cmd :: "LockoutPolicy \<Rightarrow> CredentialPolicy \<Rightarrow> cred_cmd \<Rightarrow> Credential \<Rightarrow> Credential option" where
  "exec_cmd lp cp (CmdFail a t) c = map_option snd (RecordFailedAttempt a lp t c)"
| "exec_cmd lp cp (CmdSuccess t) c = map_option snd (RecordSuccessfulVerification t c)"
| "exec_cmd lp cp (CmdUnlock r t) c = Some (snd (Unlock r t c))"
| "exec_cmd lp cp (CmdChange h m r t) c = map_option snd (ChangePassword h m r cp t c)"
| "exec_cmd lp cp (CmdReset h m t) c = map_option snd (ResetPassword h m cp t c)"
| "exec_cmd lp cp (CmdForce r t) c = Some (snd (MarkForcePasswordChange r t c))"
| "exec_cmd lp cp CmdPull c = Some (snd (Credential_PullEvents c))"
| "exec_cmd lp cp CmdReload c =
     (case RehydrateCredential (Credential_Snapshot c) cp of Inl _ \<Rightarrow> None | Inr c' \<Rightarrow> Some c')"

text \<open>A clock that returns the zero time would store it as a password creation time.\<close>

fun cmd_clocked :: "cred_cmd \<Rightarrow> bool" where
  "cmd_clocked (CmdChange h m r t) \<longleftrightarrow> \<not> time_IsZero t"
| "cmd_clocked (CmdReset h m t) \<longleftrightarrow> \<not> time_IsZero t"
| "cmd_clocked _ \<longleftrightarrow> True"

inductive cred_reach :: "LockoutPolicy \<Rightarrow> CredentialPolicy \<Rightarrow> nat \<Rightarrow> Credential \<Rightarrow> bool"
  for lp :: LockoutPolicy and cp :: CredentialPolicy where
  created: "NewCredential p = Inr c \<Longrightarrow> ncp_Policy p = cp \<Longrightarrow> cred_reach lp cp 0 c"
| command: "cred_reach lp cp n c \<Longrightarrow> cmd_clocked cmd \<Longrightarrow> exec_cmd lp cp cmd c = Some c' \<Longrightarrow>
     cred_reach lp cp (Suc n) c'"

definition policies_ok :: "LockoutPolicy \<Rightarrow> CredentialPolicy \<Rightarrow> bool" where
  "policies_ok lp cp \<longleftrightarrow> LockoutPolicy_Validate lp = None \<and> lp_Threshold lp \<le> max_int64
     \<and> CredentialPolicy_Validate cp = None"

text \<open>The failed-attempt count and the lockout status agree, and the escalation tier is the right one.\<close>

definition counters_ok :: "LockoutPolicy \<Rightarrow> Credential \<Rightarrow> bool" where
  "counters_ok lp c \<longleftrightarrow>
     (c_failedAttemptCount c = 0 \<longleftrightarrow> c_lastFailedAt c = None)
   \<and> (c_lockoutStatus c = LockoutUnlocked \<longrightarrow> c_failedAttemptCount c < lp_Threshold lp)
   \<and> (c_lockoutStatus c \<noteq> LockoutUnlocked \<longrightarrow>
        c_failedAttemptCount c = lp_Threshold lp \<and> c_lockedAt c = c_lastFailedAt c)
   \<and> (c_lockoutStatus c = LockoutTemporary \<longrightarrow>
        c_lockoutHistoryCount c \<le> int (length (lp_TemporaryDurations lp))
        \<and> c_lockedUntil c = map_option (\<lambda>t. time_Add t
             (lp_TemporaryDurations lp ! nat (c_lockoutHistoryCount c - 1))) (c_lockedAt c))
   \<and> (c_lockoutStatus c = LockoutPermanent \<longrightarrow>
        int (length (lp_TemporaryDurations lp)) < c_lockoutHistoryCount c)"

definition cred_inv :: "LockoutPolicy \<Rightarrow> CredentialPolicy \<Rightarrow> Credential \<Rightarrow> bool" where
  "cred_inv lp cp c \<longleftrightarrow> wf_credential cp c \<and> counters_ok lp c"

lemma counters_ok_cong:
  "c_failedAttemptCount c' = c_failedAttemptCount c \<Longrightarrow> c_lastFailedAt c' = c_lastFailedAt c \<Longrightarrow>
   c_lockoutStatus c' = c_lockoutStatus c \<Longrightarrow> c_lockoutHistoryCount c' = c_lockoutHistoryCount c \<Longrightarrow>
   c_lockedAt c' = c_lockedAt c \<Longrightarrow> c_lockedUntil c' = c_lockedUntil c \<Longrightarrow>
   counters_ok lp c' = counters_ok lp c"
  by (simp add: counters_ok_def)

lemma counters_ok_record_event [simp]: "counters_ok lp (record_event e c) = counters_ok lp c"
  by (rule counters_ok_cong) simp_all

lemma counters_ok_recordLoginFailed [simp]:
  "counters_ok lp (recordLoginFailed a r t c) = counters_ok lp c"
  by (rule counters_ok_cong) simp_all

lemma policies_threshold: "policies_ok lp cp \<Longrightarrow> 1 \<le> lp_Threshold lp \<and> lp_Threshold lp \<le> max_int64"
  by (simp add: policies_ok_def LockoutPolicy_Validate_None)

lemma counters_ok_unlock: "policies_ok lp cp \<Longrightarrow> counters_ok lp (unlock r t c)"
  using policies_threshold by (fastforce simp: counters_ok_def)

text \<open>The check at the start of most operations, as one rule.\<close>

lemma EnsureVerifiable_inv:
  assumes "policies_ok lp cp" "cred_inv lp cp c"
  obtains err c1 where "EnsureVerifiable now c = Some (err, c1)" "cred_inv lp cp c1"
    "c_lockoutHistoryCount c1 = c_lockoutHistoryCount c"
    "err = None \<longrightarrow> c_lockoutStatus c1 = LockoutUnlocked"
proof -
  have wf: "wf_credential cp c" using assms(2) by (simp add: cred_inv_def)
  obtain err c1 where ev: "EnsureVerifiable now c = Some (err, c1)" "wf_credential cp c1"
    using EnsureVerifiable_Some [OF wf] .
  have "counters_ok lp c1 \<and> c_lockoutHistoryCount c1 = c_lockoutHistoryCount c"
    using EnsureVerifiable_result [OF ev(1)] assms(2)
    by (elim disjE exE) (simp_all add: cred_inv_def counters_ok_unlock [OF assms(1)])
  moreover have "err = None \<longrightarrow> c_lockoutStatus c1 = LockoutUnlocked"
    using ev(1) EnsureVerifiable_ok_unlocked by blast
  ultimately show ?thesis using ev
    by (intro that [of err c1]) (simp_all add: cred_inv_def)
qed

section \<open>Each command keeps the invariant\<close>

text \<open>Reaching the threshold: the lock keeps the invariant.\<close>

lemma lock_inv:
  assumes wf: "wf_credential cp c" and b: "c_lockoutHistoryCount c < max_int64"
    and cnt: "c_failedAttemptCount c = lp_Threshold lp" "1 \<le> c_failedAttemptCount c" and last: "c_lastFailedAt c = Some (time_UTC now)"
  shows "\<exists>c'. lock lp ip (time_UTC now) c = Some c' \<and> cred_inv lp cp c' \<and> c_lockoutHistoryCount c' = c_lockoutHistoryCount c + 1"
proof -
  have h: "0 \<le> c_lockoutHistoryCount c" using wf by (simp add: wf_defs)
  obtain c5 where c5: "lock lp ip (time_UTC now) c = Some c5"
    "c_lockoutHistoryCount c5 = c_lockoutHistoryCount c + 1"
    "c_failedAttemptCount c5 = c_failedAttemptCount c" "c_lastFailedAt c5 = c_lastFailedAt c"
    "c_lockedAt c5 = Some (time_UTC now)"
    "if c_lockoutHistoryCount c + 1 \<le> int (length (lp_TemporaryDurations lp))
     then c_lockoutStatus c5 = LockoutTemporary \<and> c_lockedUntil c5 = Some (time_Add (time_UTC now)
            (lp_TemporaryDurations lp ! nat (c_lockoutHistoryCount c + 1 - 1)))
     else c_lockoutStatus c5 = LockoutPermanent"
    using lock_cases [OF h b, of lp ip "time_UTC now"] by (auto split: if_splits)
  have "wf_credential cp c5" using lock_wf [OF wf b _ c5(1)] by simp
  moreover have "counters_ok lp c5" using c5 cnt last by (auto simp: counters_ok_def split: if_splits)
  ultimately show ?thesis using c5 by (simp add: cred_inv_def)
qed

lemma RecordFailedAttempt_inv:
  assumes pol: "policies_ok lp cp" and inv: "cred_inv lp cp c" and b: "c_lockoutHistoryCount c < max_int64"
  shows "\<exists>e c'. RecordFailedAttempt a lp now c = Some (e, c') \<and> cred_inv lp cp c'
     \<and> c_lockoutHistoryCount c' \<le> c_lockoutHistoryCount c + 1"
proof -
  have lp: "LockoutPolicy_Validate lp = None" using pol by (simp add: policies_ok_def)
  obtain err c1 where ev: "EnsureVerifiable (time_UTC now) c = Some (err, c1)"
    and inv1: "cred_inv lp cp c1" and h1: "c_lockoutHistoryCount c1 = c_lockoutHistoryCount c"
    and un1: "err = None \<longrightarrow> c_lockoutStatus c1 = LockoutUnlocked"
    using EnsureVerifiable_inv [OF pol inv, where now = "time_UTC now"] .
  show ?thesis
  proof (cases err)
    case (Some e)
    with ev lp inv1 h1 show ?thesis by (simp add: RecordFailedAttempt_eq cred_inv_def)
  next
    case None
    have un: "c_lockoutStatus c1 = LockoutUnlocked" using None un1 by simp
    define c4 where "c4 = counted_failure a (lp_Window lp) (time_UTC now) c1"
    have f1: "0 \<le> c_failedAttemptCount c1" "c_failedAttemptCount c1 < lp_Threshold lp"
      using inv1 un by (simp_all add: cred_inv_def wf_defs counters_ok_def)
    then have f1': "c_failedAttemptCount c1 < max_int64" using policies_threshold [OF pol] by simp
    have cnt: "1 \<le> c_failedAttemptCount c4" "c_failedAttemptCount c4 \<le> lp_Threshold lp"
      using counted_failure_count [OF f1(1) f1', of a "lp_Window lp" "time_UTC now"] f1
        policies_threshold [OF pol]
      by (auto simp: c4_def split: option.splits)
    have wf4: "wf_credential cp c4" using wf_counted_failure [OF _ f1'] inv1 by (simp add: c4_def cred_inv_def)
    have eq: "RecordFailedAttempt a lp now c =
        (if c_failedAttemptCount c4 \<ge> lp_Threshold lp
         then Option.bind (lock lp (ac_IP a) (time_UTC now) c4) (\<lambda>c5. Some (None, c5))
         else Some (None, c4))"
      using lp ev None by (simp add: RecordFailedAttempt_eq c4_def Let_def)
    show ?thesis
    proof (cases "c_failedAttemptCount c4 \<ge> lp_Threshold lp")
      case False
      then have "counters_ok lp c4"
        using un cnt by (simp add: counters_ok_def c4_def counted_failure_sel)
      with False eq wf4 h1 show ?thesis by (simp add: cred_inv_def c4_def counted_failure_sel)
    next
      case True
      have "c_lockoutHistoryCount c4 < max_int64" "c_lastFailedAt c4 = Some (time_UTC now)"
        using b h1 by (simp_all add: c4_def counted_failure_sel)
      from lock_inv [OF wf4 this(1) _ cnt(1) this(2), of lp "ac_IP a"] True cnt(2) eq h1 show ?thesis
        by (auto simp: c4_def counted_failure_sel)
    qed
  qed
qed

lemma RecordSuccessfulVerification_inv:
  assumes "policies_ok lp cp" "cred_inv lp cp c"
  shows "\<exists>e c'. RecordSuccessfulVerification now c = Some (e, c') \<and> cred_inv lp cp c'
     \<and> c_lockoutHistoryCount c' = c_lockoutHistoryCount c"
proof -
  obtain err c1 where ev: "EnsureVerifiable now c = Some (err, c1)" "cred_inv lp cp c1"
    "c_lockoutHistoryCount c1 = c_lockoutHistoryCount c"
    "err = None \<longrightarrow> c_lockoutStatus c1 = LockoutUnlocked"
    using EnsureVerifiable_inv [OF assms, where now = now] .
  with policies_threshold [OF assms(1)] show ?thesis
    by (cases err) (auto simp: RecordSuccessfulVerification_def cred_inv_def wf_defs counters_ok_def)
qed

lemma replacePassword_frame:
  assumes "replacePassword h m p now c = Some (e, c')"
  shows "c_failedAttemptCount c' = c_failedAttemptCount c" "c_lastFailedAt c' = c_lastFailedAt c"
    "c_lockoutStatus c' = c_lockoutStatus c" "c_lockoutHistoryCount c' = c_lockoutHistoryCount c"
    "c_lockedAt c' = c_lockedAt c" "c_lockedUntil c' = c_lockedUntil c"
  using assms
  by (auto simp: replacePassword_def Let_def split: if_splits option.splits Option.bind_splits)

lemma replacePassword_inv:
  assumes "policies_ok lp cp" "cred_inv lp cp c" "\<not> time_IsZero now" "loc now = UTC"
  shows "\<exists>e c'. replacePassword h m cp now c = Some (e, c') \<and> cred_inv lp cp c'
     \<and> c_lockoutHistoryCount c' = c_lockoutHistoryCount c"
proof -
  obtain e c' where r: "replacePassword h m cp now c = Some (e, c')" "wf_credential cp c'"
    using replacePassword_total [of cp c now h m] assms by (auto simp: policies_ok_def cred_inv_def)
  have "counters_ok lp c' = counters_ok lp c"
    by (rule counters_ok_cong) (use replacePassword_frame [OF r(1)] in auto)
  with r assms(2) replacePassword_frame(4) [OF r(1)] show ?thesis by (auto simp: cred_inv_def)
qed

lemma ChangePassword_inv:
  assumes "policies_ok lp cp" "cred_inv lp cp c" "\<not> time_IsZero now"
  shows "\<exists>e c'. ChangePassword h m r cp now c = Some (e, c') \<and> cred_inv lp cp c'
     \<and> c_lockoutHistoryCount c' = c_lockoutHistoryCount c"
proof -
  obtain err c1 where ev: "EnsureVerifiable (time_UTC now) c = Some (err, c1)"
    and inv1: "cred_inv lp cp c1" and h1: "c_lockoutHistoryCount c1 = c_lockoutHistoryCount c"
    using EnsureVerifiable_inv [OF assms(1,2), where now = "time_UTC now"] by blast
  obtain e2 c2 where rp: "replacePassword h m cp (time_UTC now) c1 = Some (e2, c2)" "cred_inv lp cp c2"
    "c_lockoutHistoryCount c2 = c_lockoutHistoryCount c1"
    using replacePassword_inv [OF assms(1) inv1, of "time_UTC now" h m] assms(3) by auto
  from ev inv1 h1 rp assms(1) show ?thesis
    by (cases err; cases e2) (auto simp: ChangePassword_def policies_ok_def Let_def cred_inv_def)
qed

lemma ResetPassword_inv:
  assumes "policies_ok lp cp" "cred_inv lp cp c" "\<not> time_IsZero now"
  shows "\<exists>e c'. ResetPassword h m cp now c = Some (e, c') \<and> cred_inv lp cp c'
     \<and> c_lockoutHistoryCount c' = c_lockoutHistoryCount c"
proof -
  obtain e2 c2 where rp: "replacePassword h m cp (time_UTC now) c = Some (e2, c2)" "cred_inv lp cp c2"
    "c_lockoutHistoryCount c2 = c_lockoutHistoryCount c"
    using replacePassword_inv [OF assms(1,2), of "time_UTC now" h m] assms(3) by auto
  with assms(1,2) show ?thesis
    by (cases e2) (auto simp: ResetPassword_def policies_ok_def Let_def cred_inv_def)
qed

lemma exec_cmd_inv:
  assumes pol: "policies_ok lp cp" and inv: "cred_inv lp cp c" and b: "c_lockoutHistoryCount c < max_int64"
    and clk: "cmd_clocked cmd"
  shows "\<exists>c'. exec_cmd lp cp cmd c = Some c' \<and> cred_inv lp cp c'
     \<and> c_lockoutHistoryCount c' \<le> c_lockoutHistoryCount c + 1"
proof (cases cmd)
  case (CmdFail a t)
  then show ?thesis using RecordFailedAttempt_inv [OF pol inv b, of a t] by auto
next
  case (CmdSuccess t)
  then show ?thesis using RecordSuccessfulVerification_inv [OF pol inv, of t] by auto
next
  case (CmdUnlock r t)
  then show ?thesis using inv pol counters_ok_unlock wf_unlock by (auto simp: Unlock_def cred_inv_def)
next
  case (CmdChange h m r t)
  then show ?thesis using ChangePassword_inv [OF pol inv, of t h m r] clk by auto
next
  case (CmdReset h m t)
  then show ?thesis using ResetPassword_inv [OF pol inv, of t h m] clk by auto
next
  case (CmdForce r t)
  have "cred_inv lp cp (c\<lparr>c_forcePasswordChange := True\<rparr>) = cred_inv lp cp c"
    by (simp add: cred_inv_def wf_defs counters_ok_def)
  with CmdForce inv show ?thesis by (auto simp: MarkForcePasswordChange_def cred_inv_def)
next
  case CmdPull
  with inv show ?thesis by (simp add: Credential_PullEvents_def cred_inv_def counters_ok_def)
next
  case CmdReload
  have "RehydrateCredential (Credential_Snapshot c) cp = Inr (c\<lparr>c_events := []\<rparr>)"
    using inv pol by (simp add: cred_store.restore cred_inv_def policies_ok_def)
  with CmdReload inv show ?thesis by (simp add: cred_inv_def counters_ok_def)
qed

lemma cred_reach_inv:
  assumes "cred_reach lp cp n c" "policies_ok lp cp" "int n \<le> max_int64"
  shows "cred_inv lp cp c \<and> c_lockoutHistoryCount c \<le> int n"
  using assms
proof (induction rule: cred_reach.induct)
  case (created p c)
  then have "c_failedAttemptCount c = 0" "c_lastFailedAt c = None" "c_lockoutStatus c = LockoutUnlocked"
    "c_lockoutHistoryCount c = 0"
    by (auto simp: NewCredential_def Let_def split: if_splits option.splits)
  with created show ?case
    using NewCredential_wf policies_threshold by (fastforce simp: cred_inv_def counters_ok_def)
next
  case (command n c cmd c')
  then have "cred_inv lp cp c" "c_lockoutHistoryCount c \<le> int n" by auto
  with command show ?case using exec_cmd_inv [of lp cp c cmd] by auto
qed

section \<open>The abstract lockout machine\<close>

text \<open>
  What the lockout promises, free of timestamps that are only reported, of counters that are only
  carried along and of 64-bit arithmetic: how many consecutive failures are on record, when the
  last one happened, whether the account is open, and how often it was locked.
\<close>

datatype lock_mode = Open | LockedUntil int | LockedForever

record lock_state =
  ls_failures :: int
  ls_last :: "int option"
  ls_mode :: lock_mode
  ls_locks :: int

definition spec_check :: "int \<Rightarrow> lock_state \<Rightarrow> bool \<times> lock_state" where
  "spec_check now a = (case ls_mode a of
      Open \<Rightarrow> (True, a)
    | LockedForever \<Rightarrow> (False, a)
    | LockedUntil u \<Rightarrow> if now < u then (False, a)
        else (True, a\<lparr>ls_failures := 0, ls_last := None, ls_mode := Open\<rparr>))"

definition spec_mode :: "duration list \<Rightarrow> int \<Rightarrow> int \<Rightarrow> lock_mode" where
  "spec_mode tiers now n =
     (if n \<le> int (length tiers) then LockedUntil (now + tiers ! nat (n - 1)) else LockedForever)"

definition spec_fail :: "LockoutPolicy \<Rightarrow> int \<Rightarrow> lock_state \<Rightarrow> bool \<times> lock_state" where
  "spec_fail lp now a = (case spec_check now a of
      (False, a') \<Rightarrow> (False, a')
    | (True, a') \<Rightarrow>
        let n = 1 + (case ls_last a' of
                       Some t \<Rightarrow> if lp_Window lp < now - t then 0 else ls_failures a'
                     | None \<Rightarrow> ls_failures a');
            a'' = a'\<lparr>ls_failures := n, ls_last := Some now\<rparr>
        in (True, if lp_Threshold lp \<le> n
                  then a''\<lparr>ls_locks := ls_locks a' + 1,
                           ls_mode := spec_mode (lp_TemporaryDurations lp) now (ls_locks a' + 1)\<rparr>
                  else a''))"

definition abs_mode :: "Credential \<Rightarrow> lock_mode" where
  "abs_mode c = (if c_lockoutStatus c = LockoutUnlocked then Open
     else if c_lockoutStatus c = LockoutPermanent then LockedForever
     else LockedUntil (nanos (the (c_lockedUntil c))))"

definition abs_lock :: "Credential \<Rightarrow> lock_state" where
  "abs_lock c = \<lparr>ls_failures = c_failedAttemptCount c, ls_last = map_option nanos (c_lastFailedAt c),
     ls_mode = abs_mode c, ls_locks = c_lockoutHistoryCount c\<rparr>"

lemma abs_lock_recordLoginFailed [simp]: "abs_lock (recordLoginFailed a r t c) = abs_lock c"
  by (simp add: abs_lock_def abs_mode_def)

lemma refine_check:
  assumes "wf_credential p c" "EnsureVerifiable now c = Some (e, c')"
  shows "spec_check (nanos now) (abs_lock c) = (e = None, abs_lock c')"
  using assms(1)
proof (cases rule: wf_status_cases)
  case (temporary u)
  with assms(2) show ?thesis
    by (auto simp: abs_lock_def spec_check_def abs_mode_def time_Before_def split: if_splits)
qed (use assms(2) in \<open>auto simp: abs_lock_def spec_check_def abs_mode_def\<close>)

text \<open>The refinement: one concrete failed attempt is one step of the abstract machine.\<close>

lemma refine_fail:
  assumes pol: "policies_ok lp cp" "lp_Window lp < max_int64" and inv: "cred_inv lp cp c"
    and b: "c_lockoutHistoryCount c < max_int64"
    and r: "RecordFailedAttempt a lp now c = Some (e, c')"
  shows "spec_fail lp (nanos now) (abs_lock c) = (e = None, abs_lock c')"
proof -
  have lp: "LockoutPolicy_Validate lp = None" and win: "0 < lp_Window lp"
    using pol by (simp_all add: policies_ok_def LockoutPolicy_Validate_None)
  obtain err c1 where ev: "EnsureVerifiable (time_UTC now) c = Some (err, c1)"
    and inv1: "cred_inv lp cp c1" and h1: "c_lockoutHistoryCount c1 = c_lockoutHistoryCount c"
    and un1: "err = None \<longrightarrow> c_lockoutStatus c1 = LockoutUnlocked"
    using EnsureVerifiable_inv [OF pol(1) inv, where now = "time_UTC now"] .
  have chk: "spec_check (nanos now) (abs_lock c) = (err = None, abs_lock c1)"
    using refine_check [of cp c "time_UTC now"] inv ev by (simp add: cred_inv_def)
  show ?thesis
  proof (cases err)
    case (Some x)
    with chk ev r lp show ?thesis by (auto simp: RecordFailedAttempt_eq spec_fail_def)
  next
    case None
    have f1: "0 \<le> c_failedAttemptCount c1" "c_failedAttemptCount c1 < max_int64"
      using inv1 un1 None policies_threshold [OF pol(1)]
      by (auto simp: cred_inv_def wf_defs counters_ok_def)
    define c4 where "c4 = counted_failure a (lp_Window lp) (time_UTC now) c1"
    have cnt: "c_failedAttemptCount c4 = 1 + (case ls_last (abs_lock c1) of
        Some t \<Rightarrow> if lp_Window lp < nanos now - t then 0 else ls_failures (abs_lock c1)
      | None \<Rightarrow> ls_failures (abs_lock c1))"
      using counted_failure_count [OF f1, of a "lp_Window lp" "time_UTC now"] pol(2) win
      by (auto simp: c4_def abs_lock_def time_Sub_greater split: option.split)
    have h4: "0 \<le> c_lockoutHistoryCount c4" "c_lockoutHistoryCount c4 < max_int64"
      using inv1 b h1 by (simp_all add: cred_inv_def wf_defs c4_def counted_failure_sel)
    have a4: "abs_lock c4 = (abs_lock c1)\<lparr>ls_failures := c_failedAttemptCount c4, ls_last := Some (nanos now)\<rparr>"
      by (simp add: abs_lock_def abs_mode_def c4_def counted_failure_sel)
    from r lp ev None have r': "(if c_failedAttemptCount c4 \<ge> lp_Threshold lp
         then Option.bind (lock lp (ac_IP a) (time_UTC now) c4) (\<lambda>c5. Some (None, c5))
         else Some (None, c4)) = Some (e, c')"
      by (auto simp add: RecordFailedAttempt_eq c4_def Let_def)
    have "abs_lock c' = (if lp_Threshold lp \<le> c_failedAttemptCount c4
        then (abs_lock c4)\<lparr>ls_locks := ls_locks (abs_lock c1) + 1,
          ls_mode := spec_mode (lp_TemporaryDurations lp) (nanos now) (ls_locks (abs_lock c1) + 1)\<rparr>
        else abs_lock c4)" "e = None"
      using r' lock_cases [OF h4, of lp "ac_IP a" "time_UTC now"]
      by (auto simp: abs_lock_def abs_mode_def spec_mode_def c4_def counted_failure_sel split: if_splits)
    with chk None cnt a4 show ?thesis by (simp add: spec_fail_def Let_def)
  qed
qed

section \<open>The interface of a lockout counter\<close>

text \<open>
  What the login flow relies on: while the account is open, a failed attempt is counted, the count
  restarts after a pause longer than the window, and the account stays open exactly while the count
  is below the threshold.
\<close>

locale lockout_counter =
  fixes ok :: "'s \<Rightarrow> bool"
    and attempt :: "'i \<Rightarrow> 's \<Rightarrow> 's option"
    and at_time :: "'i \<Rightarrow> int"
    and is_open :: "'s \<Rightarrow> bool"
    and failures :: "'s \<Rightarrow> int"
    and last_failure :: "'s \<Rightarrow> int option"
    and threshold :: "'s \<Rightarrow> int"
    and window :: "'s \<Rightarrow> int"
    and locks :: "'s \<Rightarrow> int"
  assumes open_bounds: "ok s \<Longrightarrow> is_open s \<Longrightarrow> 0 \<le> failures s \<and> failures s < threshold s"
    and open_step: "ok s \<Longrightarrow> is_open s \<Longrightarrow> \<exists>s'. attempt i s = Some s' \<and> ok s'
      \<and> threshold s' = threshold s \<and> window s' = window s
      \<and> failures s' = 1 + (case last_failure s of
            Some t \<Rightarrow> if window s < at_time i - t then 0 else failures s
          | None \<Rightarrow> failures s)
      \<and> last_failure s' = Some (at_time i)
      \<and> (is_open s' \<longleftrightarrow> failures s' < threshold s)
      \<and> locks s' = (if is_open s' then locks s else locks s + 1)"
begin

primrec attempts :: "'i list \<Rightarrow> 's \<Rightarrow> 's option" where
  "attempts [] s = Some s"
| "attempts (i # is) s = Option.bind (attempt i s) (attempts is)"

primrec consecutive :: "int \<Rightarrow> int option \<Rightarrow> 'i list \<Rightarrow> bool" where
  "consecutive w l [] = True"
| "consecutive w l (i # is) =
     ((case l of Some t \<Rightarrow> at_time i - t \<le> w | None \<Rightarrow> True) \<and> consecutive w (Some (at_time i)) is)"

lemma below_threshold_stays_open:
  "ok s \<Longrightarrow> is_open s \<Longrightarrow> failures s + int (length is) < threshold s \<Longrightarrow>
     \<exists>s'. attempts is s = Some s' \<and> ok s' \<and> is_open s' \<and> failures s' \<le> failures s + int (length is)"
proof (induction "is" arbitrary: s)
  case (Cons i "is")
  from Cons.prems(1,2) obtain s1 where s1: "attempt i s = Some s1" "ok s1" "threshold s1 = threshold s"
    "failures s1 \<le> failures s + 1" "is_open s1 \<longleftrightarrow> failures s1 < threshold s"
    using open_step [of s i] open_bounds [of s] by (auto split: option.splits if_splits)
  with Cons.prems(3) have "is_open s1" "failures s1 + int (length is) < threshold s1" by auto
  with Cons.IH [OF s1(2)] s1 show ?case by fastforce
qed simp

lemma consecutive_failures_lock:
  "ok s \<Longrightarrow> is_open s \<Longrightarrow> consecutive (window s) (last_failure s) is \<Longrightarrow>
   failures s + int (length is) = threshold s \<Longrightarrow>
     \<exists>s'. attempts is s = Some s' \<and> ok s' \<and> \<not> is_open s' \<and> failures s' = threshold s
       \<and> last_failure s' = Some (at_time (last is)) \<and> locks s' = locks s + 1"
proof (induction "is" arbitrary: s)
  case Nil
  then show ?case using open_bounds by fastforce
next
  case (Cons i "is")
  from Cons.prems obtain s1 where s1: "attempt i s = Some s1" "ok s1" "threshold s1 = threshold s"
    "window s1 = window s" "failures s1 = failures s + 1" "last_failure s1 = Some (at_time i)"
    "is_open s1 \<longleftrightarrow> failures s1 < threshold s" "locks s1 = (if is_open s1 then locks s else locks s + 1)"
    using open_step [of s i] by (auto split: option.splits)
  show ?case
  proof (cases "is")
    case Nil
    with s1 Cons.prems show ?thesis by auto
  next
    case (Cons j js)
    with s1 Cons.prems have "is_open s1" by auto
    with Cons.IH [OF s1(2)] s1 Cons.prems show ?thesis by fastforce
  qed
qed

end

subsection \<open>The credential is a lockout counter\<close>

type_synonym fail_state = "(LockoutPolicy \<times> CredentialPolicy) \<times> Credential"

definition fail_ok :: "fail_state \<Rightarrow> bool" where
  "fail_ok s \<longleftrightarrow> (case s of ((lp, cp), c) \<Rightarrow> policies_ok lp cp \<and> lp_Window lp < max_int64
     \<and> cred_inv lp cp c \<and> (c_lockoutStatus c = LockoutUnlocked \<longrightarrow> c_lockoutHistoryCount c < max_int64))"

definition fail_attempt :: "AttemptContext \<times> time \<Rightarrow> fail_state \<Rightarrow> fail_state option" where
  "fail_attempt i s = (case s of ((lp, cp), c) \<Rightarrow>
     map_option (\<lambda>(e, c'). ((lp, cp), c')) (RecordFailedAttempt (fst i) lp (snd i) c))"

definition fail_open :: "fail_state \<Rightarrow> bool" where
  "fail_open s \<longleftrightarrow> c_lockoutStatus (snd s) = LockoutUnlocked"

lemma spec_fail_open:
  assumes "ls_mode a = Open"
  shows "ls_failures (snd (spec_fail lp now a)) = 1 + (case ls_last a of
           Some t \<Rightarrow> if lp_Window lp < now - t then 0 else ls_failures a | None \<Rightarrow> ls_failures a)"
    and "ls_last (snd (spec_fail lp now a)) = Some now"
    and "ls_locks (snd (spec_fail lp now a)) =
      (if ls_failures (snd (spec_fail lp now a)) < lp_Threshold lp then ls_locks a else ls_locks a + 1)"
  using assms by (auto simp: spec_fail_def spec_check_def Let_def split: if_splits)

lemma abs_lock_sel [simp]:
  "ls_failures (abs_lock c) = c_failedAttemptCount c"
  "ls_last (abs_lock c) = map_option nanos (c_lastFailedAt c)"
  "ls_mode (abs_lock c) = abs_mode c" "ls_locks (abs_lock c) = c_lockoutHistoryCount c"
  by (simp_all add: abs_lock_def)

lemma fail_open_step:
  assumes "fail_ok s" "fail_open s"
  shows "\<exists>s'. fail_attempt i s = Some s' \<and> fail_ok s' \<and> fst s' = fst s
    \<and> c_failedAttemptCount (snd s') = 1 + (case map_option nanos (c_lastFailedAt (snd s)) of
          Some t \<Rightarrow> if lp_Window (fst (fst s)) < nanos (snd i) - t then 0 else c_failedAttemptCount (snd s)
        | None \<Rightarrow> c_failedAttemptCount (snd s))
    \<and> map_option nanos (c_lastFailedAt (snd s')) = Some (nanos (snd i))
    \<and> (fail_open s' \<longleftrightarrow> c_failedAttemptCount (snd s') < lp_Threshold (fst (fst s)))
    \<and> c_lockoutHistoryCount (snd s') =
        (if fail_open s' then c_lockoutHistoryCount (snd s) else c_lockoutHistoryCount (snd s) + 1)"
proof -
  obtain lp cp c where s: "s = ((lp, cp), c)" by (metis prod.collapse)
  from assms have pol: "policies_ok lp cp" and w: "lp_Window lp < max_int64" and inv: "cred_inv lp cp c"
    and b: "c_lockoutHistoryCount c < max_int64" and un: "c_lockoutStatus c = LockoutUnlocked"
    by (simp_all add: fail_ok_def fail_open_def s)
  obtain e c' where r: "RecordFailedAttempt (fst i) lp (snd i) c = Some (e, c')" "cred_inv lp cp c'"
    using RecordFailedAttempt_inv [OF pol inv b, of "fst i" "snd i"] by blast
  have spec: "spec_fail lp (nanos (snd i)) (abs_lock c) = (e = None, abs_lock c')"
    using refine_fail [OF pol w inv b r(1)] .
  have mode: "abs_mode c = Open" using un by (simp add: abs_mode_def)
  have st: "c_lockoutStatus c' = LockoutUnlocked \<longleftrightarrow> c_failedAttemptCount c' < lp_Threshold lp"
    using r(2) by (auto simp: cred_inv_def counters_ok_def)
  have cnt: "c_failedAttemptCount c' = 1 + (case map_option nanos (c_lastFailedAt c) of
      Some t \<Rightarrow> if lp_Window lp < nanos (snd i) - t then 0 else c_failedAttemptCount c
    | None \<Rightarrow> c_failedAttemptCount c)"
    using spec_fail_open(1) [of "abs_lock c" lp "nanos (snd i)"] mode unfolding spec
    by (simp split: option.splits)
  have last: "map_option nanos (c_lastFailedAt c') = Some (nanos (snd i))"
    using spec_fail_open(2) [of "abs_lock c" lp "nanos (snd i)"] mode unfolding spec by simp
  have h: "c_lockoutHistoryCount c' = (if c_failedAttemptCount c' < lp_Threshold lp
      then c_lockoutHistoryCount c else c_lockoutHistoryCount c + 1)"
    using spec_fail_open(3) [of "abs_lock c" lp "nanos (snd i)"] mode unfolding spec by simp
  have "fail_attempt i s = Some ((lp, cp), c')" by (simp add: fail_attempt_def s r(1))
  moreover have "fail_ok ((lp, cp), c')" using r(2) h pol w b st by (simp add: fail_ok_def)
  moreover have "fail_open ((lp, cp), c') \<longleftrightarrow> c_failedAttemptCount c' < lp_Threshold lp"
    using st by (simp add: fail_open_def)
  moreover have "c_lockoutHistoryCount c' = (if fail_open ((lp, cp), c')
      then c_lockoutHistoryCount c else c_lockoutHistoryCount c + 1)"
    using st h by (simp add: fail_open_def)
  ultimately show ?thesis using cnt last
    by (intro exI [of _ "((lp, cp), c')"] conjI) (simp_all only: s fst_conv snd_conv)
qed

interpretation cred_lockout: lockout_counter fail_ok fail_attempt "\<lambda>i. nanos (snd i)" fail_open
  "\<lambda>s. c_failedAttemptCount (snd s)" "\<lambda>s. map_option nanos (c_lastFailedAt (snd s))"
  "\<lambda>s. lp_Threshold (fst (fst s))" "\<lambda>s. lp_Window (fst (fst s))" "\<lambda>s. c_lockoutHistoryCount (snd s)"
proof
  fix s :: fail_state
  assume "fail_ok s" "fail_open s"
  then show "0 \<le> c_failedAttemptCount (snd s) \<and> c_failedAttemptCount (snd s) < lp_Threshold (fst (fst s))"
    by (auto simp: fail_ok_def fail_open_def cred_inv_def counters_ok_def wf_defs split: prod.splits)
next
  fix s :: fail_state and i :: "AttemptContext \<times> time"
  assume "fail_ok s" "fail_open s"
  from fail_open_step [OF this, of i] show "\<exists>s'. fail_attempt i s = Some s' \<and> fail_ok s'
    \<and> lp_Threshold (fst (fst s')) = lp_Threshold (fst (fst s)) \<and> lp_Window (fst (fst s')) = lp_Window (fst (fst s))
    \<and> c_failedAttemptCount (snd s') = 1 + (case map_option nanos (c_lastFailedAt (snd s)) of
          Some t \<Rightarrow> if lp_Window (fst (fst s)) < nanos (snd i) - t then 0 else c_failedAttemptCount (snd s)
        | None \<Rightarrow> c_failedAttemptCount (snd s))
    \<and> map_option nanos (c_lastFailedAt (snd s')) = Some (nanos (snd i))
    \<and> (fail_open s' \<longleftrightarrow> c_failedAttemptCount (snd s') < lp_Threshold (fst (fst s)))
    \<and> c_lockoutHistoryCount (snd s') =
        (if fail_open s' then c_lockoutHistoryCount (snd s) else c_lockoutHistoryCount (snd s) + 1)"
    by metis
qed

end
