(* ===== verification/Lockout_Props.thy ===== *)
theory Lockout_Props
  imports Lockout
begin

text \<open>
  The properties of the credential aggregate: no run panics, the lockout machine is implemented,
  a run of failures locks the account for the documented time, a locked account refuses, and a
  password cannot be reused within the history.
\<close>

section \<open>Sample credential\<close>

definition sample_time :: "int \<Rightarrow> time" where
  "sample_time n = \<lparr>nanos = n * Second, loc = UTC\<rparr>"

definition sample_hash :: "string \<Rightarrow> PasswordHash" where
  "sample_hash h = \<lparr>ph_hash = h, ph_salt = ''salt'', ph_algorithm = ''argon2id'', ph_version = 1\<rparr>"

definition sample_params :: NewCredentialParams where
  "sample_params = \<lparr>ncp_ID = ''c1'', ncp_Identity = ''i1'', ncp_Password = sample_hash ''h1'',
     ncp_Policy = DefaultCredentialPolicy, ncp_ForceChange = False, ncp_Now = sample_time 1000\<rparr>"

definition sample_cred :: Credential where
  "sample_cred = \<lparr>c_id = ''c1'', c_identity = ''i1'', c_password = sample_hash ''h1'',
     c_passwordCreatedAt = sample_time 1000,
     c_passwordExpiresAt = Some (time_Add (sample_time 1000) (180 * 24 * Hour)),
     c_forcePasswordChange = False, c_failedAttemptCount = 0, c_lastFailedAt = None,
     c_lockoutStatus = LockoutUnlocked, c_lockedAt = None, c_lockedUntil = None,
     c_lockoutHistoryCount = 0, c_history = [], c_events = []\<rparr>"

definition sample_attempt :: AttemptContext where
  "sample_attempt = \<lparr>ac_CompanyCode = ''ACME'', ac_IP = V4 10 0 0 1, ac_UserAgent = ''ua'',
     ac_DeviceFingerprint = ''fp''\<rparr>"

lemmas sample_defs = sample_time_def sample_hash_def sample_params_def sample_cred_def sample_attempt_def
  zero_PasswordHash_def PasswordHash_IsZero_def DefaultCredentialPolicy_def DefaultLockoutPolicy_def

lemma sample_policies: "policies_ok DefaultLockoutPolicy DefaultCredentialPolicy"
  by (simp add: policies_ok_def LockoutPolicy_Validate_None CredentialPolicy_Validate_None sample_defs
      time_simps max_int64_def)

lemma sample_new: "NewCredential sample_params = Inr sample_cred"
  by (simp add: NewCredential_def sample_defs CredentialPolicy_Validate_def time_simps expiryFrom_def)

lemma sample_reach: "cred_reach DefaultLockoutPolicy DefaultCredentialPolicy 0 sample_cred"
  using sample_new by (rule cred_reach.created) (simp add: sample_defs)

lemma sample_wf: "wf_credential DefaultCredentialPolicy sample_cred"
  using NewCredential_wf [OF sample_new] by (simp add: sample_params_def)

section \<open>No run panics\<close>

text \<open>
  C1. Run safety of the credential: after any sequence of at most \<open>2 ^ 63 - 1\<close> operations on a newly
  created credential, under policies that \<open>Validate\<close> accepts, the next operation neither panics nor
  meets a snapshot that cannot be read back, and it leaves a credential whose lock timestamps,
  failure counter and escalation tier are consistent.
\<close>

theorem credential_runs_safe:
  assumes "cred_reach lp cp n c" "policies_ok lp cp" "int n < max_int64" "cmd_clocked cmd"
  shows "\<exists>c'. exec_cmd lp cp cmd c = Some c' \<and> wf_credential cp c' \<and> counters_ok lp c'"
  using cred_reach_inv [OF assms(1,2)] exec_cmd_inv [OF assms(2) _ _ assms(4), of c] assms(3)
  by (auto simp: cred_inv_def)

theorem credential_runs_safe_witness:
  "\<exists>c'. exec_cmd DefaultLockoutPolicy DefaultCredentialPolicy (CmdFail sample_attempt (sample_time 2000)) sample_cred
     = Some c' \<and> wf_credential DefaultCredentialPolicy c' \<and> counters_ok DefaultLockoutPolicy c'"
  by (rule credential_runs_safe [OF sample_reach sample_policies]) (simp_all add: max_int64_def)

section \<open>The lockout machine\<close>

text \<open>
  C2. Refinement: on a reachable credential a failed attempt is exactly one step of the abstract
  lockout machine, for the answer as well as for the new state, with 64-bit counters and saturating
  time differences replaced by integers.
\<close>

theorem failed_attempt_refines:
  assumes "cred_reach lp cp n c" "policies_ok lp cp" "int n < max_int64" "lp_Window lp < max_int64"
  shows "\<exists>e c'. RecordFailedAttempt a lp now c = Some (e, c')
     \<and> spec_fail lp (nanos now) (abs_lock c) = (e = None, abs_lock c')"
proof -
  have inv: "cred_inv lp cp c" "c_lockoutHistoryCount c < max_int64"
    using cred_reach_inv [OF assms(1,2)] assms(3) by auto
  obtain e c' where "RecordFailedAttempt a lp now c = Some (e, c')"
    using RecordFailedAttempt_inv [OF assms(2) inv, of a now] by blast
  with refine_fail [OF assms(2,4) inv this] show ?thesis by blast
qed

theorem failed_attempt_refines_witness:
  "\<exists>e c'. RecordFailedAttempt sample_attempt DefaultLockoutPolicy (sample_time 2000) sample_cred = Some (e, c')
     \<and> spec_fail DefaultLockoutPolicy (nanos (sample_time 2000)) (abs_lock sample_cred) = (e = None, abs_lock c')"
  by (rule failed_attempt_refines [OF sample_reach sample_policies])
     (simp_all add: max_int64_def sample_defs time_simps)

subsection \<open>Runs of failures\<close>

primrec fail_many :: "LockoutPolicy \<Rightarrow> (AttemptContext \<times> time) list \<Rightarrow> Credential \<Rightarrow> Credential option" where
  "fail_many lp [] c = Some c"
| "fail_many lp (i # is) c =
     Option.bind (map_option snd (RecordFailedAttempt (fst i) lp (snd i) c)) (fail_many lp is)"

primrec within_window :: "duration \<Rightarrow> time_ptr \<Rightarrow> (AttemptContext \<times> time) list \<Rightarrow> bool" where
  "within_window w last_seen [] = True"
| "within_window w last_seen (i # is) =
     ((case last_seen of Some t \<Rightarrow> nanos (snd i) - nanos t \<le> w | None \<Rightarrow> True)
      \<and> within_window w (Some (snd i)) is)"

lemma fail_many_attempts:
  "cred_lockout.attempts is ((lp, cp), c) = map_option (Pair (lp, cp)) (fail_many lp is c)"
  by (induction "is" arbitrary: c)
     (auto simp: fail_attempt_def option.map_comp comp_def bind_map_option split: Option.bind_splits)

lemma within_window_consecutive:
  "cred_lockout.consecutive w (map_option nanos l) is = within_window w l is"
proof (induction "is" arbitrary: l)
  case (Cons i "is")
  from Cons.IH [of "Some (snd i)"] show ?case by (simp split: option.split)
qed simp

lemma fresh_fail_ok:
  assumes "NewCredential p = Inr c" "policies_ok lp (ncp_Policy p)" "lp_Window lp < max_int64"
  shows "fail_ok ((lp, ncp_Policy p), c)" "fail_open ((lp, ncp_Policy p), c)"
    "c_failedAttemptCount c = 0" "c_lastFailedAt c = None" "c_lockoutHistoryCount c = 0"
proof -
  show f: "c_failedAttemptCount c = 0" "c_lastFailedAt c = None" "c_lockoutHistoryCount c = 0"
    and o: "fail_open ((lp, ncp_Policy p), c)"
    using assms(1) by (auto simp: NewCredential_def Let_def fail_open_def split: if_splits option.splits)
  have "cred_inv lp (ncp_Policy p) c"
    using cred_reach_inv [OF cred_reach.created [OF assms(1) refl] assms(2)] by (simp add: max_int64_def)
  with assms f o show "fail_ok ((lp, ncp_Policy p), c)" by (simp add: fail_ok_def max_int64_def)
qed

text \<open>
  C3. The threshold locks: as many failed attempts on a new credential as the threshold says, none
  more than the window after the one before, lock the account, from the last attempt for the first
  temporary duration of the policy, or for good when the policy has none.
\<close>

theorem threshold_locks:
  assumes "NewCredential p = Inr c" "policies_ok lp (ncp_Policy p)" "lp_Window lp < max_int64"
    "within_window (lp_Window lp) None is" "int (length is) = lp_Threshold lp"
  shows "\<exists>c'. fail_many lp is c = Some c' \<and> (\<forall>t. IsLocked t c' =
      Some (case lp_TemporaryDurations lp of [] \<Rightarrow> True | d # ds \<Rightarrow> nanos t < nanos (snd (last is)) + d))"
proof -
  note fr = fresh_fail_ok [OF assms(1-3)]
  have con: "cred_lockout.consecutive (lp_Window lp) None is"
    using within_window_consecutive [of "lp_Window lp" None "is"] assms(4) by simp
  obtain c' where c': "fail_many lp is c = Some c'" "fail_ok ((lp, ncp_Policy p), c')"
    "c_lockoutStatus c' \<noteq> LockoutUnlocked" "map_option nanos (c_lastFailedAt c') = Some (nanos (snd (last is)))"
    "c_lockoutHistoryCount c' = 1"
    using cred_lockout.consecutive_failures_lock [OF fr(1,2), of "is"] con assms(5) fr(3-5)
    by (auto simp: fail_many_attempts fail_open_def)
  from c'(2) have "wf_credential (ncp_Policy p) c'" "counters_ok lp c'"
    by (simp_all add: fail_ok_def cred_inv_def)
  with c' have "\<forall>t. IsLocked t c' =
      Some (case lp_TemporaryDurations lp of [] \<Rightarrow> True | d # ds \<Rightarrow> nanos t < nanos (snd (last is)) + d)"
    by (auto simp: IsLocked_def wf_defs counters_ok_def time_Before_def split: list.split)
  with c'(1) show ?thesis by blast
qed

definition sample_failures :: "nat \<Rightarrow> (AttemptContext \<times> time) list" where
  "sample_failures n = map (\<lambda>k. (sample_attempt, sample_time (2000 + 60 * int k))) [0..<n]"

theorem threshold_locks_witness:
  "\<exists>c'. fail_many DefaultLockoutPolicy (sample_failures 5) sample_cred = Some c'
     \<and> (\<forall>t. IsLocked t c' = Some (nanos t < nanos (sample_time 2240) + 30 * Minute))"
proof -
  have "within_window (lp_Window DefaultLockoutPolicy) None (sample_failures 5)"
    by (simp add: sample_failures_def sample_time_def upt_rec DefaultLockoutPolicy_def time_simps)
  moreover have "snd (last (sample_failures 5)) = sample_time 2240" "length (sample_failures 5) = 5"
    by (simp_all add: sample_failures_def upt_rec)
  ultimately show ?thesis
    using threshold_locks [OF sample_new, of DefaultLockoutPolicy "sample_failures 5"] sample_policies
    by (simp add: DefaultLockoutPolicy_def sample_params_def max_int64_def time_simps)
qed

text \<open>
  C4. No premature lock: fewer failed attempts than the threshold leave a new credential unlocked,
  whatever their timing, and its password can still be verified.
\<close>

theorem below_threshold_open:
  assumes "NewCredential p = Inr c" "policies_ok lp (ncp_Policy p)" "lp_Window lp < max_int64"
    "int (length is) < lp_Threshold lp"
  shows "\<exists>c'. fail_many lp is c = Some c' \<and> (\<forall>t. EnsureVerifiable t c' = Some (None, c'))"
proof -
  note fr = fresh_fail_ok [OF assms(1-3)]
  show ?thesis
    using cred_lockout.below_threshold_stays_open [OF fr(1,2), of "is"] assms(4) fr(3)
    by (auto simp: fail_many_attempts fail_open_def)
qed

theorem below_threshold_open_witness:
  "\<exists>c'. fail_many DefaultLockoutPolicy (sample_failures 4) sample_cred = Some c'
     \<and> (\<forall>t. EnsureVerifiable t c' = Some (None, c'))"
  using below_threshold_open [OF sample_new, of DefaultLockoutPolicy "sample_failures 4"] sample_policies
  by (simp add: sample_failures_def DefaultLockoutPolicy_def sample_params_def max_int64_def time_simps)

section \<open>A locked account\<close>

text \<open>
  C5. A locked account refuses: while \<open>IsLocked\<close> holds, verifying a password, changing it and a further
  failed attempt all return \<open>ErrAccountLocked\<close>; the first two change nothing and the last only
  records the event, so that attempts during a lock neither extend it nor count.
\<close>

theorem locked_refuses:
  assumes "wf_credential cp c" "IsLocked now c = Some True" "policies_ok lp cp"
  shows "RecordSuccessfulVerification now c = Some (Some (Err ErrAccountLocked Plain), c)
    \<and> ChangePassword h m r cp now c = Some (Some (Err ErrAccountLocked Plain), c)
    \<and> RecordFailedAttempt a lp now c = Some (Some (Err ErrAccountLocked Plain),
        recordLoginFailed a FailureAccountLocked (time_UTC now) c)"
proof -
  have "EnsureVerifiable now c = Some (Some (Err ErrAccountLocked Plain), c)"
    "EnsureVerifiable (time_UTC now) c = Some (Some (Err ErrAccountLocked Plain), c)"
    using EnsureVerifiable_total [OF assms(1), of now] assms(2)
    by (auto simp: EnsureVerifiable_def)
  with assms(3) show ?thesis
    by (simp add: RecordSuccessfulVerification_def ChangePassword_def RecordFailedAttempt_def policies_ok_def Let_def)
qed

definition sample_locked :: Credential where
  "sample_locked = sample_cred\<lparr>c_failedAttemptCount := 5, c_lastFailedAt := Some (sample_time 2240),
     c_lockoutStatus := LockoutTemporary, c_lockedAt := Some (sample_time 2240),
     c_lockedUntil := Some (sample_time 4040), c_lockoutHistoryCount := 1\<rparr>"

lemma sample_locked_wf: "wf_credential DefaultCredentialPolicy sample_locked"
  using sample_wf by (simp add: wf_defs sample_locked_def) (simp add: sample_defs)

theorem locked_refuses_witness:
  "RecordSuccessfulVerification (sample_time 3000) sample_locked = Some (Some (Err ErrAccountLocked Plain), sample_locked)"
  using locked_refuses [OF sample_locked_wf, of "sample_time 3000" DefaultLockoutPolicy] sample_policies
  by (simp add: IsLocked_def sample_locked_def time_Before_def sample_time_def)

text \<open>
  C6. A permanent lock is only lifted by an administrator: no operation other than \<open>Unlock\<close>,
  at any later time, changes the lockout status, the counters or the password.
\<close>

theorem permanent_lock_stays:
  assumes "wf_credential cp c" "policies_ok lp cp" "c_lockoutStatus c = LockoutPermanent"
    "exec_cmd lp cp cmd c = Some c'" "\<forall>r t. cmd \<noteq> CmdUnlock r t"
  shows "c_lockoutStatus c' = LockoutPermanent \<and> c_password c' = c_password c
    \<and> c_failedAttemptCount c' = c_failedAttemptCount c \<and> c_lockedAt c' = c_lockedAt c
    \<and> c_lockoutHistoryCount c' = c_lockoutHistoryCount c"
proof (cases cmd)
  case CmdReload
  with assms show ?thesis by (simp add: cred_store.restore policies_ok_def) (auto)
qed (use assms in \<open>auto simp: RecordFailedAttempt_def RecordSuccessfulVerification_def ChangePassword_def
  ResetPassword_def MarkForcePasswordChange_def Credential_PullEvents_def policies_ok_def Let_def\<close>)

definition sample_banned :: Credential where
  "sample_banned = sample_locked\<lparr>c_lockoutStatus := LockoutPermanent, c_lockedUntil := None,
     c_lockoutHistoryCount := 3\<rparr>"

text \<open>A failed attempt long after the lock only leaves its event.\<close>

lemma sample_banned_fails:
  "case exec_cmd DefaultLockoutPolicy DefaultCredentialPolicy (CmdFail sample_attempt (sample_time 900000)) sample_banned of
     None \<Rightarrow> False | Some c' \<Rightarrow> length (c_events c') = Suc (length (c_events sample_banned))"
  by code_simp

theorem permanent_lock_stays_witness:
  "\<exists>c'. exec_cmd DefaultLockoutPolicy DefaultCredentialPolicy (CmdFail sample_attempt (sample_time 900000)) sample_banned = Some c'
     \<and> length (c_events c') = Suc (length (c_events sample_banned)) \<and> c_lockoutStatus c' = LockoutPermanent
     \<and> c_failedAttemptCount c' = c_failedAttemptCount sample_banned"
proof -
  have wf: "wf_credential DefaultCredentialPolicy sample_banned"
    using sample_locked_wf by (simp add: wf_defs sample_banned_def) (simp add: sample_locked_def)
  obtain c' where c': "exec_cmd DefaultLockoutPolicy DefaultCredentialPolicy (CmdFail sample_attempt (sample_time 900000)) sample_banned = Some c'"
    "length (c_events c') = Suc (length (c_events sample_banned))"
    using sample_banned_fails by (auto split: option.splits)
  have "c_lockoutStatus sample_banned = LockoutPermanent" by (simp add: sample_banned_def)
  from permanent_lock_stays [OF wf sample_policies this c'(1)] c' show ?thesis by blast
qed

section \<open>Passwords\<close>

definition recent_passwords :: "Credential \<Rightarrow> PasswordHash list" where
  "recent_passwords c = c_password c # map he_Hash (c_history c)"

lemma replacePassword_success:
  assumes "0 \<le> cp_HistoryDepth p" "replacePassword h m p now c = Some (e, c')"
  shows "e = None \<longleftrightarrow> \<not> PasswordHash_IsZero h \<and> (\<exists>f. m = Some f \<and> (\<forall>x \<in> set (recent_passwords c). \<not> f x))"
    and "e = None \<Longrightarrow> recent_passwords c' = take (Suc (nat (cp_HistoryDepth p))) (h # recent_passwords c)"
proof -
  let ?h = "\<lparr>he_Hash = c_password c, he_CreatedAt = now\<rparr> # c_history c"
  note clip = slice_clip [OF assms(1), of ?h]
  show "e = None \<longleftrightarrow> \<not> PasswordHash_IsZero h \<and> (\<exists>f. m = Some f \<and> (\<forall>x \<in> set (recent_passwords c). \<not> f x))"
    using assms(2) clip
    by (auto simp: replacePassword_def Let_def recent_passwords_def list_ex_iff simp del: length_Cons
        split: if_splits option.splits)
  show "recent_passwords c' = take (Suc (nat (cp_HistoryDepth p))) (h # recent_passwords c)" if "e = None"
    using assms(2) clip that
    by (auto simp: replacePassword_def Let_def recent_passwords_def take_map [symmetric] simp del: length_Cons
        split: if_splits option.splits)
qed

text \<open>
  C7. Password reuse: changing the password of a credential that can be verified succeeds exactly
  when the new hash is set and the matcher rejects the current password and every password of the
  history; the new password then heads the recent ones, of which the policy's depth is kept, the
  forced-change flag is cleared and the expiry restarts.
\<close>

theorem change_password_reuse:
  assumes "wf_credential cp c" "policies_ok lp cp" "IsLocked now c = Some False" "\<not> time_IsZero now"
  shows "\<exists>e c'. ChangePassword h m r cp now c = Some (e, c') \<and> wf_credential cp c'
    \<and> (e = None \<longleftrightarrow> \<not> PasswordHash_IsZero h \<and> (\<exists>f. m = Some f \<and> (\<forall>x \<in> set (recent_passwords c). \<not> f x)))
    \<and> (if e = None
       then recent_passwords c' = take (Suc (nat (cp_HistoryDepth cp))) (h # recent_passwords c)
         \<and> \<not> c_forcePasswordChange c' \<and> c_passwordExpiresAt c' = expiryFrom cp (time_UTC now)
       else recent_passwords c' = recent_passwords c)"
proof -
  have val: "CredentialPolicy_Validate cp = None" "0 \<le> cp_HistoryDepth cp"
    using assms(2) by (auto simp: policies_ok_def CredentialPolicy_Validate_None)
  obtain c1 where ev: "EnsureVerifiable (time_UTC now) c = Some (None, c1)" "wf_credential cp c1"
    "recent_passwords c1 = recent_passwords c"
    using EnsureVerifiable_total [OF assms(1), of "time_UTC now"] EnsureVerifiable_wf [OF assms(1), of "time_UTC now"] assms(3)
    by (auto simp: IsLocked_def recent_passwords_def split: if_splits)
  obtain e c2 where rp: "replacePassword h m cp (time_UTC now) c1 = Some (e, c2)" "wf_credential cp c2"
    using replacePassword_total [OF ev(2) val(1), of "time_UTC now" h m] assms(4) by auto
  have frame: "e = None \<longrightarrow> \<not> c_forcePasswordChange c2 \<and> c_passwordExpiresAt c2 = expiryFrom cp (time_UTC now)"
    "e \<noteq> None \<longrightarrow> c2 = c1"
    using rp(1) by (auto simp: replacePassword_def Let_def split: if_splits option.splits Option.bind_splits)
  note ok = replacePassword_success [OF val(2) rp(1), unfolded ev(3)]
  show ?thesis
  proof (cases e)
    case None
    with ev rp val frame ok show ?thesis by (simp add: ChangePassword_def Let_def recent_passwords_def)
  next
    case (Some x)
    with ev rp val frame ok show ?thesis by (simp add: ChangePassword_def Let_def)
  qed
qed

theorem change_password_reuse_witness:
  "\<exists>c'. ChangePassword (sample_hash ''h2'') (Some (\<lambda>x. x = sample_hash ''h2'')) ''i1'' DefaultCredentialPolicy
       (sample_time 3000) sample_cred = Some (None, c')
     \<and> recent_passwords c' = [sample_hash ''h2'', sample_hash ''h1'']"
proof -
  have "IsLocked (sample_time 3000) sample_cred = Some False" "\<not> time_IsZero (sample_time 3000)"
    by (simp_all add: IsLocked_def sample_defs time_simps)
  from change_password_reuse [OF sample_wf sample_policies this, of "sample_hash ''h2''"
      "Some (\<lambda>x. x = sample_hash ''h2'')" "''i1''"]
  show ?thesis by (auto simp: recent_passwords_def sample_defs)
qed

section \<open>Storage\<close>

lemma RehydrateCredential_events: "RehydrateCredential snap p = Inr c \<Longrightarrow> c_events c = []"
  unfolding RehydrateCredential_def by (simp split: if_split_asm option.split_asm, hypsubst) simp

text \<open>
  C8. Round trip: under a valid policy, what \<open>Snapshot\<close> writes is read back by \<open>RehydrateCredential\<close>
  as the same credential exactly when the credential is well formed, and has no event pending.
\<close>

theorem credential_roundtrip:
  assumes "CredentialPolicy_Validate p = None"
  shows "RehydrateCredential (Credential_Snapshot c) p = Inr c \<longleftrightarrow> wf_credential p c \<and> c_events c = []"
proof (cases "c_events c = []")
  case True
  then have "c\<lparr>c_events := []\<rparr> = c" by simp
  with True show ?thesis using cred_store.storable_iff [OF assms] by simp
next
  case False
  then show ?thesis using RehydrateCredential_events by blast
qed

theorem credential_roundtrip_witness:
  "RehydrateCredential (Credential_Snapshot sample_locked) DefaultCredentialPolicy = Inr sample_locked"
  using credential_roundtrip [of DefaultCredentialPolicy sample_locked] sample_policies sample_locked_wf
  by (simp add: policies_ok_def sample_locked_def sample_cred_def)

end
