(* ===== verification/Session.thy ===== *)
theory Session
  imports Domain_Base Aggregate
begin

text \<open>
  The session aggregate of \<open>internal/domain/authentication_session.go\<close>: policy, constructor, the
  timeout logic, the operations and the snapshot form. No operation can panic, so a method that
  mutates its receiver is a total function to its result and the updated session.
\<close>

section \<open>Policy and aggregate\<close>

record SessionPolicy =
  sp_IdleTimeout :: duration
  sp_AbsoluteLifetime :: duration

definition DefaultSessionPolicy :: SessionPolicy where
  "DefaultSessionPolicy = \<lparr>sp_IdleTimeout = 15 * Minute, sp_AbsoluteLifetime = 8 * Hour\<rparr>"

definition SessionPolicy_Validate :: "SessionPolicy \<Rightarrow> go_error" where
  "SessionPolicy_Validate p =
     (if sp_IdleTimeout p \<le> 0 \<or> sp_AbsoluteLifetime p \<le> 0 \<or> sp_IdleTimeout p > sp_AbsoluteLifetime p
      then Some (Err ErrInvalidSessionPolicy
             (MsgN ''idle= absolute='' [sp_IdleTimeout p, sp_AbsoluteLifetime p]))
      else None)"

record AuthenticationSession =
  s_id :: SessionID
  s_identity :: IdentityRef
  s_device :: DeviceRef
  s_aal :: AAL
  s_factorsUsed :: "FactorType list"
  s_status :: SessionStatus
  s_createdAt :: time
  s_lastActivityAt :: time
  s_idleTimeout :: duration
  s_absoluteExpiresAt :: time
  s_revokedAt :: time_ptr
  s_revokeReason :: RevokeReason
  s_client :: ClientInfo
  s_events :: "domain_event list"

record NewSessionParams =
  nsp_ID :: SessionID
  nsp_Identity :: IdentityRef
  nsp_Device :: DeviceRef
  nsp_AAL :: AAL
  nsp_FactorsUsed :: "FactorType list"
  nsp_Client :: ClientInfo
  nsp_Policy :: SessionPolicy
  nsp_Now :: time

definition validateAALFactors :: "AAL \<Rightarrow> FactorType list \<Rightarrow> go_error" where
  "validateAALFactors aal factors =
     (if aal = AAL1 then
        if 0 < length factors
        then Some (Err ErrAALFactorMismatch (Msg ''AAL1 must not carry MFA factors'')) else None
      else if aal = AAL2 then
        if length factors = 0
        then Some (Err ErrAALFactorMismatch (Msg ''AAL2 requires at least one MFA factor'')) else None
      else if aal = AAL3 then
        if FactorFIDO2 \<notin> set factors
        then Some (Err ErrAALFactorMismatch (Msg ''AAL3 requires a FIDO2 factor'')) else None
      else None)"

definition session_record :: "domain_event \<Rightarrow> AuthenticationSession \<Rightarrow> AuthenticationSession" where
  "session_record e s = s\<lparr>s_events := s_events s @ [e]\<rparr>"

definition NewAuthenticationSession :: "NewSessionParams \<Rightarrow> domain_error + AuthenticationSession" where
  "NewAuthenticationSession p =
     (if nsp_ID p = '''' then Inl (Err ErrInvalidSession (Msg ''id is required''))
      else if nsp_Identity p = '''' then Inl (Err ErrInvalidSession (Msg ''identity is required''))
      else if \<not> AAL_Valid (nsp_AAL p) then Inl (Err ErrInvalidSession (MsgQ ''unknown aal'' (nsp_AAL p)))
      else if \<not> addr_IsValid (ci_IP (nsp_Client p))
        then Inl (Err ErrInvalidSession (Msg ''client ip is required''))
      else if time_IsZero (nsp_Now p) then Inl (Err ErrInvalidSession (Msg ''creation time is required''))
      else case SessionPolicy_Validate (nsp_Policy p) of
        Some e \<Rightarrow> Inl e
      | None \<Rightarrow> (case validateAALFactors (nsp_AAL p) (nsp_FactorsUsed p) of
          Some e \<Rightarrow> Inl e
        | None \<Rightarrow>
            let now = time_UTC (nsp_Now p);
                s = \<lparr>s_id = nsp_ID p, s_identity = nsp_Identity p, s_device = nsp_Device p,
                     s_aal = nsp_AAL p, s_factorsUsed = nsp_FactorsUsed p,
                     s_status = SessionStatusActive, s_createdAt = now, s_lastActivityAt = now,
                     s_idleTimeout = sp_IdleTimeout (nsp_Policy p),
                     s_absoluteExpiresAt = time_Add now (sp_AbsoluteLifetime (nsp_Policy p)),
                     s_revokedAt = None, s_revokeReason = '''', s_client = nsp_Client p, s_events = []\<rparr>
            in Inr (session_record (EvSessionCreated
                 \<lparr>sc_SessionID = s_id s, sc_IdentityID = s_identity s, sc_DeviceID = s_device s,
                  sc_AAL = s_aal s, sc_IPAddress = ci_IP (s_client s), sc_IdleTimeout = s_idleTimeout s,
                  sc_AbsoluteExpiresAt = s_absoluteExpiresAt s, sc_At = now\<rparr>) s)))"

section \<open>Timeouts\<close>

definition IdleExpiresAt :: "AuthenticationSession \<Rightarrow> time" where
  "IdleExpiresAt s = time_Add (s_lastActivityAt s) (s_idleTimeout s)"

text \<open>\<open>None\<close> is the triple with \<open>expired = false\<close>.\<close>

definition expiryAt :: "time \<Rightarrow> AuthenticationSession \<Rightarrow> (RevokeReason \<times> time) option" where
  "expiryAt now s =
     (if \<not> time_Before now (s_absoluteExpiresAt s) then Some (ReasonExpiredAbsolute, s_absoluteExpiresAt s)
      else if \<not> time_Before now (IdleExpiresAt s) then Some (ReasonExpiredIdle, IdleExpiresAt s)
      else None)"

definition terminate ::
  "SessionStatus \<Rightarrow> RevokeReason \<Rightarrow> IdentityRef \<Rightarrow> time \<Rightarrow> AuthenticationSession \<Rightarrow> AuthenticationSession" where
  "terminate status reason by_ref at_time s =
     session_record (EvSessionRevoked
       \<lparr>sr_SessionID = s_id s, sr_IdentityID = s_identity s, sr_Reason = reason,
        sr_RevokedBy = by_ref, sr_At = at_time\<rparr>)
     (s\<lparr>s_status := status, s_revokedAt := Some at_time, s_revokeReason := reason\<rparr>)"

definition IsActive :: "time \<Rightarrow> AuthenticationSession \<Rightarrow> bool" where
  "IsActive now s \<longleftrightarrow>
     (if s_status s \<noteq> SessionStatusActive then False else expiryAt now s = None)"

definition EnforceExpiry :: "time \<Rightarrow> AuthenticationSession \<Rightarrow> bool \<times> AuthenticationSession" where
  "EnforceExpiry now s =
     (if s_status s \<noteq> SessionStatusActive then (False, s)
      else case expiryAt now s of
        None \<Rightarrow> (False, s)
      | Some (reason, at_time) \<Rightarrow> (True, terminate SessionStatusExpired reason '''' at_time s))"

definition ensureActive :: "time \<Rightarrow> AuthenticationSession \<Rightarrow> go_error \<times> AuthenticationSession" where
  "ensureActive now s =
     (if s_status s = SessionStatusRevoked then (Some (Err ErrSessionRevoked Plain), s)
      else if s_status s = SessionStatusExpired then (Some (Err ErrSessionExpired Plain), s)
      else case EnforceExpiry now s of
        (True, s') \<Rightarrow> (Some (Err ErrSessionExpired Plain), s')
      | (False, s') \<Rightarrow> (None, s'))"

section \<open>Operations\<close>

definition Touch :: "time \<Rightarrow> AuthenticationSession \<Rightarrow> go_error \<times> AuthenticationSession" where
  "Touch now0 s = (case ensureActive now0 s of
      (Some e, s') \<Rightarrow> (Some e, s')
    | (None, s') \<Rightarrow>
        let now = time_UTC now0
        in (None, if time_After now (s_lastActivityAt s') then s'\<lparr>s_lastActivityAt := now\<rparr> else s'))"

definition Revoke ::
  "RevokeReason \<Rightarrow> IdentityRef \<Rightarrow> time \<Rightarrow> AuthenticationSession \<Rightarrow> go_error \<times> AuthenticationSession" where
  "Revoke reason by_ref now s =
     (if \<not> RevokeReason_IsManual reason then (Some (Err ErrInvalidRevokeReason (MsgQ '''' reason)), s)
      else case ensureActive now s of
        (Some e, s') \<Rightarrow> (Some e, s')
      | (None, s') \<Rightarrow> (None, terminate SessionStatusRevoked reason by_ref (time_UTC now) s'))"

definition Session_PullEvents :: "AuthenticationSession \<Rightarrow> domain_event list \<times> AuthenticationSession" where
  "Session_PullEvents s = (s_events s, s\<lparr>s_events := []\<rparr>)"

definition Session_RevokedAt :: "AuthenticationSession \<Rightarrow> time_ptr" where
  "Session_RevokedAt s = (case s_revokedAt s of None \<Rightarrow> None | Some t \<Rightarrow> Some t)"

section \<open>Snapshots\<close>

record SessionSnapshot =
  ss_ID :: SessionID
  ss_IdentityID :: IdentityRef
  ss_DeviceID :: DeviceRef
  ss_Status :: SessionStatus
  ss_AAL :: AAL
  ss_FactorsUsed :: "FactorType list"
  ss_CreatedAt :: time
  ss_LastActivityAt :: time
  ss_IdleTimeout :: duration
  ss_AbsoluteExpiresAt :: time
  ss_RevokedAt :: time_ptr
  ss_RevokeReason :: RevokeReason
  ss_Client :: ClientInfo

definition Session_Snapshot :: "AuthenticationSession \<Rightarrow> SessionSnapshot" where
  "Session_Snapshot s =
     \<lparr>ss_ID = s_id s, ss_IdentityID = s_identity s, ss_DeviceID = s_device s, ss_Status = s_status s,
      ss_AAL = s_aal s, ss_FactorsUsed = s_factorsUsed s, ss_CreatedAt = s_createdAt s,
      ss_LastActivityAt = s_lastActivityAt s, ss_IdleTimeout = s_idleTimeout s,
      ss_AbsoluteExpiresAt = s_absoluteExpiresAt s, ss_RevokedAt = Session_RevokedAt s,
      ss_RevokeReason = s_revokeReason s, ss_Client = s_client s\<rparr>"

text \<open>The second \<open>switch\<close> of \<open>RehydrateSession\<close>: the revocation fields must match the status.\<close>

definition revocation_error :: "SessionSnapshot \<Rightarrow> go_error" where
  "revocation_error snap =
     (if ss_Status snap = SessionStatusActive then
        if ss_RevokedAt snap \<noteq> None \<or> ss_RevokeReason snap \<noteq> ''''
        then Some (Err ErrInvalidSession (Msg ''active session carries revocation'')) else None
      else if ss_Status snap = SessionStatusRevoked then
        if ss_RevokedAt snap = None \<or> \<not> RevokeReason_IsManual (ss_RevokeReason snap)
        then Some (Err ErrInvalidSession (Msg ''revoked session needs revoked_at and a manual reason''))
        else None
      else if ss_Status snap = SessionStatusExpired then
        if ss_RevokedAt snap = None \<or> \<not> RevokeReason_IsExpiry (ss_RevokeReason snap)
        then Some (Err ErrInvalidSession (Msg ''expired session needs revoked_at and an expiry reason''))
        else None
      else None)"

definition RehydrateSession :: "SessionSnapshot \<Rightarrow> domain_error + AuthenticationSession" where
  "RehydrateSession snap =
     (if ss_ID snap = '''' \<or> ss_IdentityID snap = ''''
      then Inl (Err ErrInvalidSession (Msg ''id and identity are required''))
      else if \<not> SessionStatus_Valid (ss_Status snap)
      then Inl (Err ErrInvalidSession (MsgQ ''unknown status'' (ss_Status snap)))
      else if \<not> AAL_Valid (ss_AAL snap)
      then Inl (Err ErrInvalidSession (MsgQ ''unknown aal'' (ss_AAL snap)))
      else if ss_IdleTimeout snap \<le> 0 \<or> \<not> time_After (ss_AbsoluteExpiresAt snap) (ss_CreatedAt snap)
      then Inl (Err ErrInvalidSession (Msg ''invalid timeouts''))
      else if time_Before (ss_LastActivityAt snap) (ss_CreatedAt snap)
      then Inl (Err ErrInvalidSession (Msg ''last activity before creation''))
      else case revocation_error snap of
        Some e \<Rightarrow> Inl e
      | None \<Rightarrow> (case validateAALFactors (ss_AAL snap) (ss_FactorsUsed snap) of
          Some e \<Rightarrow> Inl e
        | None \<Rightarrow> Inr
            \<lparr>s_id = ss_ID snap, s_identity = ss_IdentityID snap, s_device = ss_DeviceID snap,
             s_aal = ss_AAL snap, s_factorsUsed = ss_FactorsUsed snap, s_status = ss_Status snap,
             s_createdAt = time_UTC (ss_CreatedAt snap),
             s_lastActivityAt = time_UTC (ss_LastActivityAt snap),
             s_idleTimeout = ss_IdleTimeout snap,
             s_absoluteExpiresAt = time_UTC (ss_AbsoluteExpiresAt snap),
             s_revokedAt = (case ss_RevokedAt snap of None \<Rightarrow> None | Some t \<Rightarrow> Some (time_UTC t)),
             s_revokeReason = ss_RevokeReason snap, s_client = ss_Client snap, s_events = []\<rparr>))"

section \<open>Well-formed sessions\<close>

text \<open>What \<open>RehydrateSession\<close> demands of a snapshot, with every instant in UTC.\<close>

definition revocation_ok :: "AuthenticationSession \<Rightarrow> bool" where
  "revocation_ok s \<longleftrightarrow>
     (s_status s = SessionStatusActive \<and> s_revokedAt s = None \<and> s_revokeReason s = '''')
   \<or> (s_status s = SessionStatusRevoked \<and> s_revokedAt s \<noteq> None \<and> RevokeReason_IsManual (s_revokeReason s))
   \<or> (s_status s = SessionStatusExpired \<and> s_revokedAt s \<noteq> None \<and> RevokeReason_IsExpiry (s_revokeReason s))"

definition aal_ok :: "AuthenticationSession \<Rightarrow> bool" where
  "aal_ok s \<longleftrightarrow> (s_aal s = AAL1 \<and> s_factorsUsed s = [])
     \<or> (s_aal s = AAL2 \<and> s_factorsUsed s \<noteq> [])
     \<or> (s_aal s = AAL3 \<and> FactorFIDO2 \<in> set (s_factorsUsed s))"

definition session_utc :: "AuthenticationSession \<Rightarrow> bool" where
  "session_utc s \<longleftrightarrow> loc (s_createdAt s) = UTC \<and> loc (s_lastActivityAt s) = UTC
     \<and> loc (s_absoluteExpiresAt s) = UTC \<and> utc_ptr (s_revokedAt s)"

definition wf_session :: "AuthenticationSession \<Rightarrow> bool" where
  "wf_session s \<longleftrightarrow> s_id s \<noteq> '''' \<and> s_identity s \<noteq> '''' \<and> 0 < s_idleTimeout s
     \<and> nanos (s_createdAt s) < nanos (s_absoluteExpiresAt s)
     \<and> nanos (s_createdAt s) \<le> nanos (s_lastActivityAt s)
     \<and> revocation_ok s \<and> aal_ok s \<and> session_utc s"

lemmas wf_session_defs = wf_session_def revocation_ok_def aal_ok_def session_utc_def

lemma session_record_sel [simp]:
  "s_id (session_record e s) = s_id s" "s_identity (session_record e s) = s_identity s"
  "s_device (session_record e s) = s_device s" "s_aal (session_record e s) = s_aal s"
  "s_factorsUsed (session_record e s) = s_factorsUsed s" "s_status (session_record e s) = s_status s"
  "s_createdAt (session_record e s) = s_createdAt s"
  "s_lastActivityAt (session_record e s) = s_lastActivityAt s"
  "s_idleTimeout (session_record e s) = s_idleTimeout s"
  "s_absoluteExpiresAt (session_record e s) = s_absoluteExpiresAt s"
  "s_revokedAt (session_record e s) = s_revokedAt s"
  "s_revokeReason (session_record e s) = s_revokeReason s"
  "s_client (session_record e s) = s_client s" "s_events (session_record e s) = s_events s @ [e]"
  by (simp_all add: session_record_def)

lemma terminate_sel [simp]:
  "s_id (terminate st r b t s) = s_id s" "s_identity (terminate st r b t s) = s_identity s"
  "s_device (terminate st r b t s) = s_device s" "s_aal (terminate st r b t s) = s_aal s"
  "s_factorsUsed (terminate st r b t s) = s_factorsUsed s" "s_status (terminate st r b t s) = st"
  "s_createdAt (terminate st r b t s) = s_createdAt s"
  "s_lastActivityAt (terminate st r b t s) = s_lastActivityAt s"
  "s_idleTimeout (terminate st r b t s) = s_idleTimeout s"
  "s_absoluteExpiresAt (terminate st r b t s) = s_absoluteExpiresAt s"
  "s_revokedAt (terminate st r b t s) = Some t" "s_revokeReason (terminate st r b t s) = r"
  "s_client (terminate st r b t s) = s_client s"
  "s_events (terminate st r b t s) = s_events s @ [EvSessionRevoked
     \<lparr>sr_SessionID = s_id s, sr_IdentityID = s_identity s, sr_Reason = r, sr_RevokedBy = b, sr_At = t\<rparr>]"
  by (simp_all add: terminate_def)

lemma wf_session_events [simp]: "wf_session (s\<lparr>s_events := es\<rparr>) = wf_session s"
  by (simp add: wf_session_defs)

lemma wf_session_record [simp]: "wf_session (session_record e s) = wf_session s"
  by (simp add: wf_session_defs)

lemma wf_terminate:
  "wf_session s \<Longrightarrow> loc t = UTC \<Longrightarrow>
   (st = SessionStatusRevoked \<and> RevokeReason_IsManual r) \<or> (st = SessionStatusExpired \<and> RevokeReason_IsExpiry r) \<Longrightarrow>
   wf_session (terminate st r b t s)"
  by (auto simp: wf_session_defs)

lemma validateAALFactors_ok:
  "AAL_Valid (s_aal s) \<Longrightarrow> validateAALFactors (s_aal s) (s_factorsUsed s) = None \<longleftrightarrow> aal_ok s"
  by (auto simp: validateAALFactors_def aal_ok_def AAL_Valid_def)

lemma aal_ok_Valid: "aal_ok s \<Longrightarrow> AAL_Valid (s_aal s)"
  by (auto simp: aal_ok_def AAL_Valid_def)

lemma SessionPolicy_Validate_None:
  "SessionPolicy_Validate p = None \<longleftrightarrow>
     0 < sp_IdleTimeout p \<and> sp_IdleTimeout p \<le> sp_AbsoluteLifetime p"
  by (auto simp: SessionPolicy_Validate_def)

lemma NewAuthenticationSession_wf: "NewAuthenticationSession p = Inr s \<Longrightarrow> wf_session s"
  by (auto simp: NewAuthenticationSession_def Let_def wf_session_defs SessionPolicy_Validate_None
      AAL_Valid_def validateAALFactors_def split: if_splits option.splits)

lemma RehydrateSession_wf: "RehydrateSession snap = Inr s \<Longrightarrow> wf_session s"
  unfolding RehydrateSession_def
  by (simp split: if_split_asm option.split_asm, hypsubst)
     (auto simp: wf_session_defs revocation_error_def SessionStatus_Valid_def AAL_Valid_def
        validateAALFactors_def time_After_def time_Before_def split: if_splits option.splits)

lemma RehydrateSession_events: "RehydrateSession snap = Inr s \<Longrightarrow> s_events s = []"
  unfolding RehydrateSession_def by (simp split: if_split_asm option.split_asm) (hypsubst, simp)+

lemma Rehydrate_Session_Snapshot:
  assumes "wf_session s"
  shows "RehydrateSession (Session_Snapshot s) = Inr (s\<lparr>s_events := []\<rparr>)"
proof -
  have "validateAALFactors (s_aal s) (s_factorsUsed s) = None" "AAL_Valid (s_aal s)"
    using assms validateAALFactors_ok aal_ok_Valid by (auto simp: wf_session_def)
  moreover have "revocation_error (Session_Snapshot s) = None" "SessionStatus_Valid (s_status s)"
    using assms
    by (auto simp: wf_session_def revocation_ok_def revocation_error_def Session_Snapshot_def
        Session_RevokedAt_def split: option.splits)
  ultimately show ?thesis using assms
    by (auto simp: RehydrateSession_def Session_Snapshot_def Session_RevokedAt_def wf_session_def
        session_utc_def time_After_def time_Before_def not_less split: option.splits)
qed

lemma Session_Snapshot_events [simp]: "Session_Snapshot (s\<lparr>s_events := es\<rparr>) = Session_Snapshot s"
  by (simp add: Session_Snapshot_def Session_RevokedAt_def)

interpretation sess_store: snapshot_store "\<lambda>(_::unit) s. wf_session s" "\<lambda>_. True"
    Session_Snapshot "\<lambda>snap _. RehydrateSession snap" "\<lambda>s. s\<lparr>s_events := []\<rparr>"
  by unfold_locales
     (simp_all add: Rehydrate_Session_Snapshot RehydrateSession_wf)

interpretation sess_events: event_source s_events Session_PullEvents session_record
  by unfold_locales (simp_all add: Session_PullEvents_def)

end
