(* ===== verification/Session_Runs.thy ===== *)
theory Session_Runs
  imports Session
begin

text \<open>
  Runs of the session aggregate. A run interleaves the operations of
  \<open>internal/domain/authentication_session.go\<close> with saving the session, which moves its recorded
  events to the outbox and rebuilds the aggregate from its snapshot. The four invariants documented
  on the Go type are proved for every run, and the operations refine an abstract session that is
  either alive, with its timeouts, or ended, with the reason and the instant of its end.
\<close>

section \<open>Branches of the operations\<close>

definition session_deadline :: "AuthenticationSession \<Rightarrow> int" where
  "session_deadline s = min (nanos (s_absoluteExpiresAt s)) (nanos (s_lastActivityAt s) + s_idleTimeout s)"

lemma expiryAt_None: "expiryAt now s = None \<longleftrightarrow> nanos now < session_deadline s"
  by (auto simp: expiryAt_def IdleExpiresAt_def session_deadline_def time_Before_def)

lemma expiryAt_Some:
  "expiryAt now s = Some (r, t) \<Longrightarrow> RevokeReason_IsExpiry r \<and> nanos t \<le> nanos now
     \<and> (wf_session s \<longrightarrow> loc t = UTC)"
  by (auto simp: expiryAt_def IdleExpiresAt_def time_Before_def wf_session_defs split: if_splits)

lemma IsActive_iff: "IsActive now s \<longleftrightarrow> s_status s = SessionStatusActive \<and> nanos now < session_deadline s"
  by (simp add: IsActive_def expiryAt_None)

lemma wf_session_status:
  assumes "wf_session s"
  obtains (active) "s_status s = SessionStatusActive"
  | (expired) "s_status s = SessionStatusExpired"
  | (revoked) "s_status s = SessionStatusRevoked"
  using assms by (auto simp: wf_session_defs)

lemma ensureActive_active [simp]:
  "s_status s = SessionStatusActive \<Longrightarrow> ensureActive now s =
     (case expiryAt now s of None \<Rightarrow> (None, s)
      | Some (r, t) \<Rightarrow> (Some (Err ErrSessionExpired Plain), terminate SessionStatusExpired r '''' t s))"
  by (auto simp: ensureActive_def EnforceExpiry_def split: option.split)

lemma ensureActive_ended [simp]:
  "s_status s = SessionStatusExpired \<Longrightarrow> ensureActive now s = (Some (Err ErrSessionExpired Plain), s)"
  "s_status s = SessionStatusRevoked \<Longrightarrow> ensureActive now s = (Some (Err ErrSessionRevoked Plain), s)"
  by (simp_all add: ensureActive_def)

text \<open>The check accepts exactly the sessions that are active, and leaves those alone.\<close>

lemma ensureActive_None:
  assumes "wf_session s"
  shows "fst (ensureActive now s) = None \<longleftrightarrow> IsActive now s"
    and "IsActive now s \<Longrightarrow> ensureActive now s = (None, s)"
  using assms
  by (cases rule: wf_session_status; auto simp: IsActive_def split: option.splits)+

lemma EnforceExpiry_wf: "wf_session s \<Longrightarrow> wf_session (snd (EnforceExpiry now s))"
  by (auto simp: EnforceExpiry_def wf_terminate dest: expiryAt_Some split: option.split)

lemma ensureActive_wf: "wf_session s \<Longrightarrow> wf_session (snd (ensureActive now s))"
  using EnforceExpiry_wf [of s now] by (auto simp: ensureActive_def split: prod.split bool.split)

lemma wf_session_touch:
  "wf_session s \<Longrightarrow> time_After t (s_lastActivityAt s) \<Longrightarrow> loc t = UTC \<Longrightarrow>
     wf_session (s\<lparr>s_lastActivityAt := t\<rparr>)"
  by (simp add: wf_session_defs time_After_def)

lemma Touch_wf: "wf_session s \<Longrightarrow> wf_session (snd (Touch now s))"
  using ensureActive_wf [of s now]
  by (auto simp: Touch_def Let_def wf_session_touch split: prod.split option.split)

lemma Revoke_wf: "wf_session s \<Longrightarrow> wf_session (snd (Revoke r b now s))"
  using ensureActive_wf [of s now]
  by (auto simp: Revoke_def wf_terminate split: prod.split option.split)

lemma Touch_active:
  "wf_session s \<Longrightarrow> IsActive now s \<Longrightarrow> Touch now s = (None, s\<lparr>s_lastActivityAt :=
     (if time_After (time_UTC now) (s_lastActivityAt s) then time_UTC now else s_lastActivityAt s)\<rparr>)"
  by (simp add: Touch_def ensureActive_None)

lemma Revoke_active:
  "wf_session s \<Longrightarrow> IsActive now s \<Longrightarrow> RevokeReason_IsManual r \<Longrightarrow>
     Revoke r b now s = (None, terminate SessionStatusRevoked r b (time_UTC now) s)"
  by (simp add: Revoke_def ensureActive_None)

lemma EnforceExpiry_ended [simp]: "s_status s \<noteq> SessionStatusActive \<Longrightarrow> EnforceExpiry now s = (False, s)"
  by (simp add: EnforceExpiry_def)

lemma ended_unchanged:
  assumes "wf_session s" "s_status s \<noteq> SessionStatusActive"
  shows "snd (Touch now s) = s" "snd (Revoke r b now s) = s" "fst (Touch now s) \<noteq> None"
    "fst (Revoke r b now s) \<noteq> None"
  using assms(1) by (cases rule: wf_session_status; use assms(2) in \<open>simp add: Touch_def Revoke_def\<close>)+

section \<open>Runs\<close>

datatype sess_cmd =
    CmdTouch time
  | CmdRevoke RevokeReason IdentityRef time
  | CmdSweep time
  | CmdSave

type_synonym sess_run = "domain_event list \<times> AuthenticationSession"

text \<open>\<open>None\<close>: the snapshot is refused when the session is read back.\<close>

fun exec_sess :: "sess_cmd \<Rightarrow> sess_run \<Rightarrow> sess_run option" where
  "exec_sess (CmdTouch t) (lg, s) = Some (lg, snd (Touch t s))"
| "exec_sess (CmdRevoke r b t) (lg, s) = Some (lg, snd (Revoke r b t s))"
| "exec_sess (CmdSweep t) (lg, s) = Some (lg, snd (EnforceExpiry t s))"
| "exec_sess CmdSave (lg, s) =
     (case Session_PullEvents s of (evs, s') \<Rightarrow>
        (case RehydrateSession (Session_Snapshot s') of Inl _ \<Rightarrow> None | Inr s'' \<Rightarrow> Some (lg @ evs, s'')))"

inductive sess_steps :: "sess_run \<Rightarrow> sess_run \<Rightarrow> bool" for x where
  run_refl: "sess_steps x x"
| run_step: "sess_steps x y \<Longrightarrow> exec_sess cmd y = Some z \<Longrightarrow> sess_steps x z"

inductive_cases sess_stepsE: "sess_steps x z"

lemma exec_sess_wf:
  assumes "wf_session (snd x)"
  shows "\<exists>y. exec_sess cmd x = Some y \<and> wf_session (snd y)"
  using assms
  by (cases cmd; cases x)
     (auto simp: Touch_wf Revoke_wf EnforceExpiry_wf Session_PullEvents_def Rehydrate_Session_Snapshot)

lemma sess_steps_wf: "sess_steps x y \<Longrightarrow> wf_session (snd x) \<Longrightarrow> wf_session (snd y)"
proof (induction rule: sess_steps.induct)
  case (run_step y cmd z)
  then show ?case using exec_sess_wf [of y cmd] by auto
qed

text \<open>The fields fixed at creation.\<close>

definition session_core ::
  "AuthenticationSession \<Rightarrow> (SessionID \<times> IdentityRef \<times> DeviceRef \<times> AAL \<times> FactorType list) \<times> time \<times> duration \<times> time \<times> ClientInfo"
  where
  "session_core s = ((s_id s, s_identity s, s_device s, s_aal s, s_factorsUsed s),
     s_createdAt s, s_idleTimeout s, s_absoluteExpiresAt s, s_client s)"

lemma session_core_simps [simp]:
  "session_core (s\<lparr>s_events := es\<rparr>) = session_core s"
  "session_core (terminate st r b t s) = session_core s"
  "session_core (s\<lparr>s_lastActivityAt := t\<rparr>) = session_core s"
  by (simp_all add: session_core_def)

lemma EnforceExpiry_core [simp]: "session_core (snd (EnforceExpiry t s)) = session_core s"
  by (auto simp: EnforceExpiry_def split: option.split)

lemma ensureActive_core [simp]: "session_core (snd (ensureActive t s)) = session_core s"
  using EnforceExpiry_core [of t s]
  by (auto simp: ensureActive_def simp del: EnforceExpiry_core split: prod.split bool.split)

lemma Touch_core [simp]: "session_core (snd (Touch t s)) = session_core s"
  using ensureActive_core [of t s]
  by (auto simp: Touch_def Let_def simp del: ensureActive_core split: prod.split option.split)

lemma Revoke_core [simp]: "session_core (snd (Revoke r b t s)) = session_core s"
  using ensureActive_core [of t s]
  by (auto simp: Revoke_def simp del: ensureActive_core split: prod.split option.split)

lemma exec_sess_core:
  assumes "wf_session (snd x)" "exec_sess cmd x = Some y"
  shows "session_core (snd y) = session_core (snd x)"
  using assms
  by (cases cmd; cases x) (auto simp: Session_PullEvents_def Rehydrate_Session_Snapshot)

lemma sess_steps_core:
  "sess_steps x y \<Longrightarrow> wf_session (snd x) \<Longrightarrow> session_core (snd y) = session_core (snd x)"
proof (induction rule: sess_steps.induct)
  case (run_step y cmd z)
  then show ?case using exec_sess_core [of y cmd z] sess_steps_wf [of x y] by simp
qed simp

text \<open>Activity only moves forward, and an ended session stays as it ended.\<close>

lemma ensureActive_activity [simp]: "s_lastActivityAt (snd (ensureActive t s)) = s_lastActivityAt s"
  by (auto simp: ensureActive_def EnforceExpiry_def split: option.split prod.split bool.split)

lemma Touch_activity: "nanos (s_lastActivityAt s) \<le> nanos (s_lastActivityAt (snd (Touch t s)))"
  using ensureActive_activity [of t s]
  by (auto simp: Touch_def Let_def time_After_def simp del: ensureActive_activity split: prod.split option.split)

lemma Revoke_activity: "s_lastActivityAt (snd (Revoke r b t s)) = s_lastActivityAt s"
  using ensureActive_activity [of t s]
  by (auto simp: Revoke_def simp del: ensureActive_activity split: prod.split option.split)

lemma EnforceExpiry_activity: "s_lastActivityAt (snd (EnforceExpiry t s)) = s_lastActivityAt s"
  by (auto simp: EnforceExpiry_def split: option.split)

lemma sess_steps_activity:
  "sess_steps x y \<Longrightarrow> wf_session (snd x) \<Longrightarrow>
     nanos (s_lastActivityAt (snd x)) \<le> nanos (s_lastActivityAt (snd y))"
proof (induction rule: sess_steps.induct)
  case (run_step y cmd z)
  then have "wf_session (snd y)" using sess_steps_wf by blast
  then have "nanos (s_lastActivityAt (snd y)) \<le> nanos (s_lastActivityAt (snd z))"
    using run_step.hyps(2)
    by (cases cmd; cases y)
       (auto simp: Touch_activity Revoke_activity EnforceExpiry_activity Session_PullEvents_def
         Rehydrate_Session_Snapshot)
  with run_step show ?case by simp
qed simp

lemma exec_sess_ended:
  assumes "wf_session (snd x)" "s_status (snd x) \<noteq> SessionStatusActive" "exec_sess cmd x = Some y"
  shows "(snd y)\<lparr>s_events := []\<rparr> = (snd x)\<lparr>s_events := []\<rparr>"
  using assms
  by (cases cmd; cases x) (auto simp: ended_unchanged Session_PullEvents_def Rehydrate_Session_Snapshot)

lemma status_of_cleared:
  "s\<lparr>s_events := []\<rparr> = u\<lparr>s_events := []\<rparr> \<Longrightarrow> s_status s = s_status u \<and> s_revokedAt s = s_revokedAt u
     \<and> s_revokeReason s = s_revokeReason u"
  by (metis AuthenticationSession.select_convs AuthenticationSession.surjective
      AuthenticationSession.update_convs(14))

lemma sess_steps_ended:
  assumes "sess_steps x y" "wf_session (snd x)" "s_status (snd x) \<noteq> SessionStatusActive"
  shows "(snd y)\<lparr>s_events := []\<rparr> = (snd x)\<lparr>s_events := []\<rparr>"
  using assms
proof (induction rule: sess_steps.induct)
  case (run_step y cmd z)
  then have "s_status (snd y) \<noteq> SessionStatusActive" using status_of_cleared [of "snd y" "snd x"] by simp
  with run_step show ?case using exec_sess_ended [of y cmd z] sess_steps_wf [of x y] by simp
qed simp

section \<open>The event log of a run\<close>

text \<open>
  Everything a run has emitted, saved or still pending: the creation, then one revocation exactly
  when the session has ended, with the reason and the instant that the session stores.
\<close>

definition end_events :: "IdentityRef \<Rightarrow> AuthenticationSession \<Rightarrow> domain_event list" where
  "end_events b s = (if s_status s = SessionStatusActive then []
     else [EvSessionRevoked \<lparr>sr_SessionID = s_id s, sr_IdentityID = s_identity s,
       sr_Reason = s_revokeReason s, sr_RevokedBy = b, sr_At = the (s_revokedAt s)\<rparr>])"

definition log_ok :: "domain_event list \<Rightarrow> sess_run \<Rightarrow> bool" where
  "log_ok h0 x \<longleftrightarrow> (\<exists>b. fst x @ s_events (snd x) = h0 @ end_events b (snd x)
     \<and> (s_status (snd x) = SessionStatusExpired \<longrightarrow> b = ''''))"

lemma end_events_simps [simp]:
  "end_events b (s\<lparr>s_events := es\<rparr>) = end_events b s"
  "s_status s = SessionStatusActive \<Longrightarrow> end_events b s = []"
  "s_status s = SessionStatusActive \<Longrightarrow> st \<noteq> SessionStatusActive \<Longrightarrow>
     s_events (terminate st r c t s) = s_events s @ end_events c (terminate st r c t s)"
  by (simp_all add: end_events_def)

lemma log_ok_terminate:
  assumes "log_ok h0 (lg, s)" "s_status s = SessionStatusActive" "st \<noteq> SessionStatusActive"
    "st = SessionStatusExpired \<longrightarrow> b = ''''"
  shows "log_ok h0 (lg, terminate st r b t s)"
  using assms by (auto simp: log_ok_def simp del: terminate_sel(14))

lemma log_ok_EnforceExpiry: "log_ok h0 (lg, s) \<Longrightarrow> log_ok h0 (lg, snd (EnforceExpiry t s))"
  by (auto simp: EnforceExpiry_def log_ok_terminate split: option.split)

lemma ensureActive_accepts:
  "ensureActive t s = (None, s') \<Longrightarrow> s' = s \<and> s_status s \<noteq> SessionStatusExpired \<and> s_status s \<noteq> SessionStatusRevoked"
  by (auto simp: ensureActive_def EnforceExpiry_def split: if_splits option.splits prod.splits bool.splits)

lemma log_ok_ensureActive: "log_ok h0 (lg, s) \<Longrightarrow> log_ok h0 (lg, snd (ensureActive t s))"
  using log_ok_EnforceExpiry [of h0 lg s t] by (auto simp: ensureActive_def split: prod.split bool.split)

lemma log_ok_Touch:
  assumes "log_ok h0 (lg, s)"
  shows "log_ok h0 (lg, snd (Touch t s))"
  using log_ok_ensureActive [OF assms, of t]
  by (auto simp: Touch_def Let_def log_ok_def end_events_def split: prod.split option.split)

lemma log_ok_Revoke:
  assumes "log_ok h0 (lg, s)" "wf_session s"
  shows "log_ok h0 (lg, snd (Revoke r b t s))"
proof (cases "RevokeReason_IsManual r \<and> IsActive t s")
  case True
  with assms show ?thesis by (simp add: Revoke_active log_ok_terminate IsActive_iff)
next
  case False
  then have "snd (Revoke r b t s) = (if RevokeReason_IsManual r then snd (ensureActive t s) else s)"
    using ensureActive_None(1) [OF assms(2), of t]
    by (auto simp: Revoke_def split: prod.split option.split)
  with log_ok_ensureActive [OF assms(1), of t] assms(1) show ?thesis by simp
qed

lemma log_ok_save:
  assumes "log_ok h0 x" "wf_session (snd x)" "exec_sess CmdSave x = Some y"
  shows "log_ok h0 y"
  using assms
  by (cases x) (auto simp: Session_PullEvents_def Rehydrate_Session_Snapshot log_ok_def)

lemma sess_steps_log:
  "sess_steps x y \<Longrightarrow> wf_session (snd x) \<Longrightarrow> log_ok h0 x \<Longrightarrow> log_ok h0 y"
proof (induction rule: sess_steps.induct)
  case (run_step y cmd z)
  then have "log_ok h0 y" "wf_session (snd y)" using sess_steps_wf by auto
  with run_step.hyps(2) show ?case
    by (cases cmd; cases y)
       (auto simp: log_ok_Touch log_ok_Revoke log_ok_EnforceExpiry simp del: exec_sess.simps(4) dest: log_ok_save)
qed simp

section \<open>The abstract session\<close>

text \<open>Instants and durations are integers; an ended session only knows why and when it ended.\<close>

datatype spec_session = Alive int int int | Ended RevokeReason int

fun spec_observe :: "int \<Rightarrow> spec_session \<Rightarrow> spec_session" where
  "spec_observe now (Alive last_seen idle limit) =
     (if limit \<le> now then Ended ReasonExpiredAbsolute limit
      else if last_seen + idle \<le> now then Ended ReasonExpiredIdle (last_seen + idle)
      else Alive last_seen idle limit)"
| "spec_observe now (Ended r t) = Ended r t"

fun spec_alive :: "spec_session \<Rightarrow> bool" where
  "spec_alive (Alive l i m) = True"
| "spec_alive (Ended r t) = False"

fun spec_touched :: "int \<Rightarrow> spec_session \<Rightarrow> spec_session" where
  "spec_touched now (Alive last_seen idle limit) = Alive (max last_seen now) idle limit"
| "spec_touched now (Ended r t) = Ended r t"

fun spec_revoked :: "RevokeReason \<Rightarrow> int \<Rightarrow> spec_session \<Rightarrow> spec_session" where
  "spec_revoked r now (Alive last_seen idle limit) = Ended r now"
| "spec_revoked r now (Ended r' t) = Ended r' t"

definition abs_session :: "AuthenticationSession \<Rightarrow> spec_session" where
  "abs_session s = (if s_status s = SessionStatusActive
     then Alive (nanos (s_lastActivityAt s)) (s_idleTimeout s) (nanos (s_absoluteExpiresAt s))
     else Ended (s_revokeReason s) (nanos (the (s_revokedAt s))))"

lemma refine_observe: "abs_session (snd (EnforceExpiry t s)) = spec_observe (nanos t) (abs_session s)"
  by (auto simp: EnforceExpiry_def abs_session_def expiryAt_def IdleExpiresAt_def time_Before_def
      split: option.split)

lemma refine_ensureActive:
  assumes "wf_session s"
  shows "abs_session (snd (ensureActive t s)) = spec_observe (nanos t) (abs_session s)"
    and "fst (ensureActive t s) = None \<longleftrightarrow> spec_alive (spec_observe (nanos t) (abs_session s))"
  using assms
  by (cases rule: wf_session_status;
      auto simp: abs_session_def expiryAt_def IdleExpiresAt_def time_Before_def split: option.split)+

lemma refine_Touch:
  assumes "wf_session s"
  shows "abs_session (snd (Touch t s)) = spec_touched (nanos t) (spec_observe (nanos t) (abs_session s))"
proof (cases "IsActive t s")
  case True
  with assms show ?thesis
    by (auto simp: Touch_active abs_session_def IsActive_iff session_deadline_def time_After_def max_def)
next
  case False
  then have "snd (Touch t s) = snd (ensureActive t s)"
    using ensureActive_None(1) [OF assms, of t] by (auto simp: Touch_def split: prod.split option.split)
  moreover from False have "\<not> spec_alive (spec_observe (nanos t) (abs_session s))"
    using refine_ensureActive(2) [OF assms, of t] ensureActive_None(1) [OF assms, of t] by simp
  ultimately show ?thesis using refine_ensureActive(1) [OF assms, of t]
    by (cases "spec_observe (nanos t) (abs_session s)") simp_all
qed

lemma refine_Revoke:
  assumes "wf_session s" "RevokeReason_IsManual r"
  shows "abs_session (snd (Revoke r b t s)) = spec_revoked r (nanos t) (spec_observe (nanos t) (abs_session s))"
proof (cases "IsActive t s")
  case True
  with assms show ?thesis
    by (auto simp: Revoke_active abs_session_def IsActive_iff session_deadline_def)
next
  case False
  then have "snd (Revoke r b t s) = snd (ensureActive t s)"
    using ensureActive_None(1) [OF assms(1), of t] assms(2)
    by (auto simp: Revoke_def split: prod.split option.split)
  moreover from False have "\<not> spec_alive (spec_observe (nanos t) (abs_session s))"
    using refine_ensureActive(2) [OF assms(1), of t] ensureActive_None(1) [OF assms(1), of t] by simp
  ultimately show ?thesis using refine_ensureActive(1) [OF assms(1), of t]
    by (cases "spec_observe (nanos t) (abs_session s)") simp_all
qed

section \<open>Keeping a session alive\<close>

primrec touch_all :: "time list \<Rightarrow> AuthenticationSession \<Rightarrow> AuthenticationSession option" where
  "touch_all [] s = Some s"
| "touch_all (t # ts) s = (case Touch t s of (Some e, s') \<Rightarrow> None | (None, s') \<Rightarrow> touch_all ts s')"

text \<open>Each activity comes before the idle timeout after the latest one seen so far, and before the limit.\<close>

primrec paced :: "int \<Rightarrow> int \<Rightarrow> int \<Rightarrow> time list \<Rightarrow> bool" where
  "paced idle limit last_seen [] = True"
| "paced idle limit last_seen (t # ts) = (nanos t < last_seen + idle \<and> nanos t < limit
     \<and> paced idle limit (max last_seen (nanos t)) ts)"

lemma touch_all_paced:
  assumes "wf_session s" "s_status s = SessionStatusActive"
    "paced (s_idleTimeout s) (nanos (s_absoluteExpiresAt s)) (nanos (s_lastActivityAt s)) ts"
  shows "\<exists>s'. touch_all ts s = Some s' \<and> s_status s' = SessionStatusActive
    \<and> nanos (s_lastActivityAt s') = fold max (map nanos ts) (nanos (s_lastActivityAt s))"
  using assms
proof (induction ts arbitrary: s)
  case (Cons t ts)
  then have act: "IsActive t s" by (simp add: IsActive_iff session_deadline_def)
  define s1 where "s1 = snd (Touch t s)"
  have t1: "Touch t s = (None, s1)" using Touch_active [OF Cons.prems(1) act] by (simp add: s1_def)
  have "nanos (s_lastActivityAt s1) = max (nanos (s_lastActivityAt s)) (nanos t)"
    "s_status s1 = SessionStatusActive" "s_idleTimeout s1 = s_idleTimeout s"
    "s_absoluteExpiresAt s1 = s_absoluteExpiresAt s" "wf_session s1"
    using Touch_active [OF Cons.prems(1) act] Cons.prems(2) Touch_wf [OF Cons.prems(1), of t]
    by (auto simp: s1_def time_After_def max_def)
  with Cons.IH [of s1] Cons.prems t1 show ?case by (auto simp: max.commute)
qed simp

lemma touch_all_core: "touch_all ts s = Some s' \<Longrightarrow> session_core s' = session_core s"
proof (induction ts arbitrary: s)
  case (Cons t ts)
  then show ?case using Touch_core [of t s] by (auto split: prod.splits option.splits simp del: Touch_core)
qed simp

end
