(* ===== verification/Session_Props.thy ===== *)
theory Session_Props
  imports Session_Runs
begin

text \<open>
  The properties of the session aggregate: the documented invariants over all runs, the hard limit
  on a session's life, the events a run emits, the refinement of the abstract session and storage.
\<close>

section \<open>Sample session\<close>

definition at_second :: "int \<Rightarrow> time" where
  "at_second n = \<lparr>nanos = n * Second, loc = UTC\<rparr>"

definition sample_session_params :: NewSessionParams where
  "sample_session_params = \<lparr>nsp_ID = ''s1'', nsp_Identity = ''i1'', nsp_Device = '''', nsp_AAL = AAL1,
     nsp_FactorsUsed = [], nsp_Client = \<lparr>ci_IP = V4 10 0 0 1, ci_UserAgent = ''ua''\<rparr>,
     nsp_Policy = DefaultSessionPolicy, nsp_Now = at_second 1000\<rparr>"

definition sample_session :: AuthenticationSession where
  "sample_session = \<lparr>s_id = ''s1'', s_identity = ''i1'', s_device = '''', s_aal = AAL1,
     s_factorsUsed = [], s_status = SessionStatusActive, s_createdAt = at_second 1000,
     s_lastActivityAt = at_second 1000, s_idleTimeout = 15 * Minute,
     s_absoluteExpiresAt = at_second 29800, s_revokedAt = None, s_revokeReason = '''',
     s_client = \<lparr>ci_IP = V4 10 0 0 1, ci_UserAgent = ''ua''\<rparr>,
     s_events = [EvSessionCreated \<lparr>sc_SessionID = ''s1'', sc_IdentityID = ''i1'', sc_DeviceID = '''',
        sc_AAL = AAL1, sc_IPAddress = V4 10 0 0 1, sc_IdleTimeout = 15 * Minute,
        sc_AbsoluteExpiresAt = at_second 29800, sc_At = at_second 1000\<rparr>]\<rparr>"

lemmas sample_session_defs = sample_session_params_def sample_session_def at_second_def DefaultSessionPolicy_def

lemma sample_session_new: "NewAuthenticationSession sample_session_params = Inr sample_session"
  by (simp add: NewAuthenticationSession_def sample_session_defs SessionPolicy_Validate_def AAL_Valid_def
      addr_IsValid_def validateAALFactors_def time_simps session_record_def Let_def)

lemma sample_session_wf: "wf_session sample_session"
  using NewAuthenticationSession_wf [OF sample_session_new] .

section \<open>The documented invariants\<close>

text \<open>
  C9. Every run of a new session can be continued by every operation, including a save and reload;
  identity, assurance level, factors, client, idle timeout and absolute expiry never change, the
  assurance level matches the factors, and recorded activity never moves backwards.
\<close>

theorem session_runs_safe:
  assumes "NewAuthenticationSession p = Inr s" "sess_steps ([], s) (lg, s')"
  shows "wf_session s' \<and> session_core s' = session_core s \<and> aal_ok s'
    \<and> nanos (s_createdAt s) \<le> nanos (s_lastActivityAt s') \<and> (\<forall>cmd. exec_sess cmd (lg, s') \<noteq> None)"
proof -
  have wf: "wf_session s" using NewAuthenticationSession_wf [OF assms(1)] .
  then have wf': "wf_session s'" using sess_steps_wf [OF assms(2)] by simp
  have "nanos (s_createdAt s') \<le> nanos (s_lastActivityAt s')" using wf' by (simp add: wf_session_def)
  moreover have core: "session_core s' = session_core s" using sess_steps_core [OF assms(2)] wf by simp
  ultimately have "nanos (s_createdAt s) \<le> nanos (s_lastActivityAt s')" by (simp add: session_core_def)
  moreover have "\<forall>cmd. exec_sess cmd (lg, s') \<noteq> None" using exec_sess_wf [of "(lg, s')"] wf' by fastforce
  ultimately show ?thesis using wf' core by (simp add: wf_session_def)
qed

theorem session_runs_safe_witness:
  "\<exists>s'. sess_steps ([], sample_session) ([], s') \<and> s' \<noteq> sample_session \<and> wf_session s'
     \<and> session_core s' = session_core sample_session"
proof -
  define s' where "s' = snd (Touch (at_second 1500) sample_session)"
  have st: "sess_steps ([], sample_session) ([], s')"
    by (rule sess_steps.run_step [OF sess_steps.run_refl, of "CmdTouch (at_second 1500)"]) (simp add: s'_def)
  have "s_lastActivityAt s' = at_second 1500"
    using Touch_active [OF sample_session_wf, of "at_second 1500"]
    by (simp add: s'_def IsActive_iff session_deadline_def sample_session_defs time_simps)
  then have "s' \<noteq> sample_session" by (auto simp: sample_session_defs time_simps)
  with st session_runs_safe [OF sample_session_new st] show ?thesis by blast
qed

text \<open>
  C10. No resurrection: once a session is expired or revoked, every run leaves its status, its end
  and all other stored fields as they are; it is not active at any time, and every attempt to touch
  or revoke it is refused.
\<close>

theorem session_end_is_final:
  assumes "wf_session s" "s_status s \<noteq> SessionStatusActive" "sess_steps (lg0, s) (lg, s')"
  shows "s'\<lparr>s_events := []\<rparr> = s\<lparr>s_events := []\<rparr> \<and> \<not> IsActive t s'
    \<and> fst (Touch t s') \<noteq> None \<and> fst (Revoke r b t s') \<noteq> None"
proof -
  have eq: "s'\<lparr>s_events := []\<rparr> = s\<lparr>s_events := []\<rparr>" using sess_steps_ended [OF assms(3)] assms by simp
  then have st: "s_status s' \<noteq> SessionStatusActive" using status_of_cleared assms(2) by metis
  moreover have "wf_session s'" using sess_steps_wf [OF assms(3)] assms(1) by simp
  ultimately show ?thesis using eq ended_unchanged by (simp add: IsActive_def)
qed

definition sample_revoked :: AuthenticationSession where
  "sample_revoked = terminate SessionStatusRevoked ReasonUserLogout ''i1'' (at_second 1200) sample_session"

theorem session_end_is_final_witness:
  "fst (Touch (at_second 1300) sample_revoked) \<noteq> None"
proof -
  have "wf_session sample_revoked"
    using wf_terminate [OF sample_session_wf, of "at_second 1200"]
    by (simp add: sample_revoked_def at_second_def RevokeReason_IsManual_def)
  from session_end_is_final [OF this _ sess_steps.run_refl, of "at_second 1300"] show ?thesis
    by (simp add: sample_revoked_def)
qed

text \<open>
  C11. Hard limit: whatever is done to a session, it is never active at or after its creation time
  plus the absolute lifetime of the policy, nor at or after its last recorded activity plus the idle
  timeout of the policy.
\<close>

theorem session_lifetime_bounded:
  assumes "NewAuthenticationSession p = Inr s" "sess_steps ([], s) (lg, s')" "IsActive t s'"
  shows "nanos t < nanos (nsp_Now p) + sp_AbsoluteLifetime (nsp_Policy p)
    \<and> nanos t < nanos (s_lastActivityAt s') + sp_IdleTimeout (nsp_Policy p)"
proof -
  have "session_core s' = session_core s"
    using sess_steps_core [OF assms(2)] NewAuthenticationSession_wf [OF assms(1)] by simp
  moreover have "s_absoluteExpiresAt s = time_Add (time_UTC (nsp_Now p)) (sp_AbsoluteLifetime (nsp_Policy p))"
    "s_idleTimeout s = sp_IdleTimeout (nsp_Policy p)"
    using assms(1) by (auto simp: NewAuthenticationSession_def Let_def split: if_splits option.splits)
  ultimately show ?thesis using assms(3)
    by (simp add: IsActive_iff session_deadline_def session_core_def)
qed

theorem session_lifetime_bounded_witness:
  "IsActive (at_second 1500) sample_session \<and> nanos (at_second 1500) < nanos (at_second 1000) + 8 * Hour"
proof -
  have "IsActive (at_second 1500) sample_session"
    by (simp add: IsActive_iff session_deadline_def sample_session_defs time_simps)
  with session_lifetime_bounded [OF sample_session_new sess_steps.run_refl this] show ?thesis
    by (simp add: sample_session_params_def DefaultSessionPolicy_def)
qed

text \<open>
  C12. Keeping a session alive: activity that comes each time before the idle timeout has elapsed
  since the latest activity seen, and before the absolute limit, is accepted every time, also when
  the clock steps back in between; the idle timer then counts from the latest of the instants.
\<close>

theorem paced_activity_keeps_alive:
  assumes "NewAuthenticationSession p = Inr s"
    "paced (sp_IdleTimeout (nsp_Policy p)) (nanos (nsp_Now p) + sp_AbsoluteLifetime (nsp_Policy p))
       (nanos (nsp_Now p)) ts"
  shows "\<exists>s'. touch_all ts s = Some s' \<and> s_status s' = SessionStatusActive
    \<and> nanos (IdleExpiresAt s') = fold max (map nanos ts) (nanos (nsp_Now p)) + sp_IdleTimeout (nsp_Policy p)"
proof -
  have f: "s_absoluteExpiresAt s = time_Add (time_UTC (nsp_Now p)) (sp_AbsoluteLifetime (nsp_Policy p))"
    "s_idleTimeout s = sp_IdleTimeout (nsp_Policy p)" "s_lastActivityAt s = time_UTC (nsp_Now p)"
    "s_status s = SessionStatusActive"
    using assms(1) by (auto simp: NewAuthenticationSession_def Let_def split: if_splits option.splits)
  from touch_all_paced [OF NewAuthenticationSession_wf [OF assms(1)] f(4), of ts] assms(2) f
  obtain s' where s': "touch_all ts s = Some s'" "s_status s' = SessionStatusActive"
    "nanos (s_lastActivityAt s') = fold max (map nanos ts) (nanos (nsp_Now p))"
    by auto
  moreover have "s_idleTimeout s' = s_idleTimeout s" using touch_all_core [OF s'(1)] by (simp add: session_core_def)
  ultimately show ?thesis using f by (simp add: IdleExpiresAt_def)
qed

theorem paced_activity_keeps_alive_witness:
  "\<exists>s'. touch_all [at_second 1800, at_second 1700, at_second 2600] sample_session = Some s'
     \<and> s_status s' = SessionStatusActive \<and> nanos (IdleExpiresAt s') = nanos (at_second 2600) + 15 * Minute"
  using paced_activity_keeps_alive [OF sample_session_new, of "[at_second 1800, at_second 1700, at_second 2600]"]
  by (simp add: sample_session_params_def DefaultSessionPolicy_def at_second_def time_simps)

text \<open>
  C13. The event log of a run: what a new session has emitted, already saved or still pending, is its
  creation followed by exactly one revocation if it has ended and by nothing if it is active; the
  revocation carries the reason and the instant that the session stores, and no initiator for a timeout.
\<close>

theorem session_log_complete:
  assumes "NewAuthenticationSession p = Inr s" "sess_steps ([], s) (lg, s')"
  shows "\<exists>b. lg @ s_events s' = s_events s @ (if s_status s' = SessionStatusActive then []
      else [EvSessionRevoked \<lparr>sr_SessionID = s_id s', sr_IdentityID = s_identity s', sr_Reason = s_revokeReason s',
        sr_RevokedBy = b, sr_At = the (s_revokedAt s')\<rparr>])
    \<and> (s_status s' = SessionStatusExpired \<longrightarrow> b = '''')"
proof -
  have "s_status s = SessionStatusActive"
    using assms(1) by (auto simp: NewAuthenticationSession_def Let_def split: if_splits option.splits)
  then have "log_ok (s_events s) ([], s)" by (simp add: log_ok_def)
  with sess_steps_log [OF assms(2)] NewAuthenticationSession_wf [OF assms(1)]
  show ?thesis by (simp add: log_ok_def end_events_def)
qed

text \<open>A session that is used, saved and reloaded, and then ended by its user.\<close>

lemma sample_run:
  "case exec_sess (CmdTouch (at_second 1500)) ([], sample_session) of None \<Rightarrow> False | Some x \<Rightarrow>
    (case exec_sess CmdSave x of None \<Rightarrow> False | Some y \<Rightarrow>
    (case exec_sess (CmdRevoke ReasonUserLogout ''i1'' (at_second 1600)) y of None \<Rightarrow> False | Some z \<Rightarrow>
      fst z = s_events sample_session \<and> s_status (snd z) = SessionStatusRevoked \<and> s_id (snd z) = ''s1''
      \<and> s_identity (snd z) = ''i1'' \<and> s_revokeReason (snd z) = ReasonUserLogout \<and> s_revokedAt (snd z) = Some (at_second 1600)))"
  by code_simp

theorem session_log_complete_witness:
  "\<exists>lg s' b. sess_steps ([], sample_session) (lg, s') \<and> s_status s' = SessionStatusRevoked
     \<and> lg = s_events sample_session \<and> s_events s' = [EvSessionRevoked \<lparr>sr_SessionID = ''s1'', sr_IdentityID = ''i1'',
       sr_Reason = ReasonUserLogout, sr_RevokedBy = b, sr_At = at_second 1600\<rparr>]"
proof -
  obtain x y z where r: "exec_sess (CmdTouch (at_second 1500)) ([], sample_session) = Some x" "exec_sess CmdSave x = Some y"
      "exec_sess (CmdRevoke ReasonUserLogout ''i1'' (at_second 1600)) y = Some z"
    and z: "fst z = s_events sample_session" "s_status (snd z) = SessionStatusRevoked" "s_id (snd z) = ''s1''"
      "s_identity (snd z) = ''i1''" "s_revokeReason (snd z) = ReasonUserLogout" "s_revokedAt (snd z) = Some (at_second 1600)"
    using sample_run by (auto split: option.splits)
  have "sess_steps ([], sample_session) (fst z, snd z)"
    using sess_steps.run_step [OF sess_steps.run_step [OF sess_steps.run_step [OF sess_steps.run_refl r(1)] r(2)] r(3)] by simp
  note st = this session_log_complete [OF sample_session_new this]
  from st(2) z obtain b where "s_events (snd z) = [EvSessionRevoked \<lparr>sr_SessionID = ''s1'', sr_IdentityID = ''i1'',
       sr_Reason = ReasonUserLogout, sr_RevokedBy = b, sr_At = at_second 1600\<rparr>]"
    by auto
  with st(1) z(1,2) show ?thesis by blast
qed

section \<open>Refinement\<close>

text \<open>
  C14. Refinement: on a well-formed session, \<open>EnforceExpiry\<close>, \<open>Touch\<close> and \<open>Revoke\<close> with a manual
  reason are the operations of the abstract session, and they report success exactly when the
  abstract session is still alive at that instant.
\<close>

theorem session_refines:
  assumes "wf_session s" "RevokeReason_IsManual r" "a = spec_observe (nanos t) (abs_session s)"
  shows "abs_session (snd (EnforceExpiry t s)) = a
    \<and> abs_session (snd (Touch t s)) = spec_touched (nanos t) a \<and> (fst (Touch t s) = None \<longleftrightarrow> spec_alive a)
    \<and> abs_session (snd (Revoke r b t s)) = spec_revoked r (nanos t) a
    \<and> (fst (Revoke r b t s) = None \<longleftrightarrow> spec_alive a)"
proof -
  have "fst (Touch t s) = fst (ensureActive t s)" "fst (Revoke r b t s) = fst (ensureActive t s)"
    using assms(2) by (auto simp: Touch_def Revoke_def Let_def split: prod.split option.split)
  then show ?thesis unfolding assms(3)
    using refine_observe refine_Touch [OF assms(1)] refine_Revoke [OF assms(1,2)] refine_ensureActive(2) [OF assms(1)]
    by simp
qed

theorem session_refines_witness:
  "abs_session (snd (Touch (at_second 1900) sample_session))
     = Ended ReasonExpiredIdle (nanos (at_second 1900))"
  using session_refines [OF sample_session_wf _ refl, of ReasonUserLogout "at_second 1900" "''''"]
  by (simp add: RevokeReason_IsManual_def abs_session_def sample_session_defs time_simps)

text \<open>
  C15. Round trip: what \<open>Snapshot\<close> writes is read back by \<open>RehydrateSession\<close> as the same session
  exactly when the session is well formed and has no event pending.
\<close>

theorem session_roundtrip:
  "RehydrateSession (Session_Snapshot s) = Inr s \<longleftrightarrow> wf_session s \<and> s_events s = []"
proof (cases "s_events s = []")
  case True
  then have "s\<lparr>s_events := []\<rparr> = s" by simp
  with True show ?thesis using sess_store.storable_iff [of s] by simp
next
  case False
  then show ?thesis using RehydrateSession_events by blast
qed

section \<open>When the end is observed\<close>

text \<open>
  The recorded end depends on when it is observed: a new session of the default policy that is
  idle from the start is recorded as expired by the idle timeout when it is looked at before its
  absolute expiry, and as expired by the absolute lifetime, hours later, when it is first looked at
  after it.
\<close>

lemma expiry_depends_on_observation:
  "s_revokeReason (snd (EnforceExpiry (at_second 2000) sample_session)) = ReasonExpiredIdle
    \<and> s_revokedAt (snd (EnforceExpiry (at_second 2000) sample_session)) = Some (at_second 1900)
    \<and> s_revokeReason (snd (EnforceExpiry (at_second 30000) sample_session)) = ReasonExpiredAbsolute
    \<and> s_revokedAt (snd (EnforceExpiry (at_second 30000) sample_session)) = Some (at_second 29800)"
  by (simp add: EnforceExpiry_def expiryAt_def IdleExpiresAt_def sample_session_defs time_simps)

end
