(* ===== verification/Text.thy ===== *)
theory Text
  imports Netip "HOL-Library.Sublist"
begin

text \<open>
  The string functions of Go's library that the service uses. A string is its list of bytes. On
  strings outside ASCII the case mapping and the white space of Unicode are tables of the library;
  they are the fields of \<open>unicode_tables\<close>, and the ASCII fast paths are written out.
\<close>

section \<open>Case and white space\<close>

record unicode_tables =
  uni_ToLower :: "string \<Rightarrow> string"
  uni_ToUpper :: "string \<Rightarrow> string"
  uni_TrimSpace :: "string \<Rightarrow> string"

definition is_ascii :: "string \<Rightarrow> bool" where
  "is_ascii s \<longleftrightarrow> list_all (\<lambda>c. of_char c < (128 :: nat)) s"

definition ascii_space :: "char \<Rightarrow> bool" where
  "ascii_space c \<longleftrightarrow> (let n = (of_char c :: nat) in n = 32 \<or> (9 \<le> n \<and> n \<le> 13))"

definition ascii_lower :: "char \<Rightarrow> char" where
  "ascii_lower c = (let n = (of_char c :: nat) in if 65 \<le> n \<and> n \<le> 90 then char_of (n + 32) else c)"

definition ascii_upper :: "char \<Rightarrow> char" where
  "ascii_upper c = (let n = (of_char c :: nat) in if 97 \<le> n \<and> n \<le> 122 then char_of (n - 32) else c)"

definition strip :: "(char \<Rightarrow> bool) \<Rightarrow> string \<Rightarrow> string" where
  "strip p s = rev (dropWhile p (rev (dropWhile p s)))"

definition ToLower :: "unicode_tables \<Rightarrow> string \<Rightarrow> string" where
  "ToLower u s = (if is_ascii s then map ascii_lower s else uni_ToLower u s)"

definition ToUpper :: "unicode_tables \<Rightarrow> string \<Rightarrow> string" where
  "ToUpper u s = (if is_ascii s then map ascii_upper s else uni_ToUpper u s)"

definition TrimSpace :: "unicode_tables \<Rightarrow> string \<Rightarrow> string" where
  "TrimSpace u s = (if is_ascii s then strip ascii_space s else uni_TrimSpace u s)"

definition contains :: "string \<Rightarrow> string \<Rightarrow> bool" where
  "contains s sub \<longleftrightarrow> list_ex (prefix sub) (suffixes s)"

text \<open>\<open>strings.Split(s, ",")[0]\<close>.\<close>

definition before_comma :: "string \<Rightarrow> string" where
  "before_comma s = takeWhile (\<lambda>c. c \<noteq> CHR '','') s"

definition join_with :: "string \<Rightarrow> string list \<Rightarrow> string" where
  "join_with sep xs = (case xs of [] \<Rightarrow> [] | y # ys \<Rightarrow> y @ concat (map (\<lambda>z. sep @ z) ys))"

lemma ascii_lower_idem: "ascii_lower (ascii_lower c) = ascii_lower c"
  by (simp add: ascii_lower_def Let_def)

lemma is_ascii_lower: "is_ascii s \<Longrightarrow> is_ascii (map ascii_lower s)"
  by (auto simp: is_ascii_def list_all_iff ascii_lower_def Let_def)

lemma ToLower_idem: "is_ascii s \<Longrightarrow> ToLower u (ToLower u s) = ToLower u s"
  using is_ascii_lower by (simp add: ToLower_def ascii_lower_idem comp_def)

lemma is_ascii_strip: "is_ascii s \<Longrightarrow> is_ascii (strip p s)"
  by (auto simp: is_ascii_def list_all_iff strip_def dest!: set_dropWhileD)

lemma space_lower: "ascii_space (ascii_lower c) = ascii_space c"
  by (auto simp: ascii_space_def ascii_lower_def Let_def)

lemma strip_map: "(\<And>c. p (f c) = p c) \<Longrightarrow> strip p (map f s) = map f (strip p s)"
  by (simp add: strip_def dropWhile_map rev_map comp_def)

lemma dropWhile_twice: "dropWhile p (dropWhile p xs) = dropWhile p xs"
  by (induction xs) simp_all

lemma dropWhile_rev_prefix: "dropWhile p xs = xs \<Longrightarrow> dropWhile p (rev (dropWhile p (rev xs))) = rev (dropWhile p (rev xs))"
proof (cases xs)
  case (Cons x ys)
  assume "dropWhile p xs = xs"
  then have "\<not> p x" unfolding Cons using hd_dropWhile [of p "x # ys"] by fastforce
  then have "dropWhile p (rev ys @ [x]) = dropWhile p (rev ys) @ [x]"
    by (induction "rev ys" rule: list.induct) (auto simp: dropWhile_append)
  then have "rev (dropWhile p (rev xs)) = x # rev (dropWhile p (rev ys))" unfolding Cons by simp
  with \<open>\<not> p x\<close> show ?thesis by simp
qed simp

lemma strip_idem: "strip p (strip p s) = strip p s"
  using dropWhile_rev_prefix [OF dropWhile_twice [of p s]] by (simp add: strip_def dropWhile_twice)

section \<open>Hexadecimal text\<close>

definition hex_byte :: "char \<Rightarrow> string" where
  "hex_byte c = (let n = of_char c in [digit_char (n div 16), digit_char (n mod 16)])"

definition hex_encode :: "string \<Rightarrow> string" where
  "hex_encode s = concat (map hex_byte s)"

section \<open>Base64 without padding\<close>

definition b64_std :: string where
  "b64_std = ''ABCDEFGHIJKLMNOPQRSTUVWXYZabcdefghijklmnopqrstuvwxyz0123456789+/''"

definition b64_url :: string where
  "b64_url = ''ABCDEFGHIJKLMNOPQRSTUVWXYZabcdefghijklmnopqrstuvwxyz0123456789-_''"

fun b64_sextets :: "nat list \<Rightarrow> nat list" where
  "b64_sextets [] = []"
| "b64_sextets [a] = [a div 4, a mod 4 * 16]"
| "b64_sextets [a, b] = [a div 4, a mod 4 * 16 + b div 16, b mod 16 * 4]"
| "b64_sextets (a # b # c # r) =
     [a div 4, a mod 4 * 16 + b div 16, b mod 16 * 4 + c div 64, c mod 64] @ b64_sextets r"

text \<open>The decoder is not strict: the unused low bits of the last digit are ignored.\<close>

fun b64_octets :: "nat list \<Rightarrow> nat list option" where
  "b64_octets [] = Some []"
| "b64_octets [w] = None"
| "b64_octets [w, x] = Some [w * 4 + x div 16]"
| "b64_octets [w, x, y] = Some [w * 4 + x div 16, x mod 16 * 16 + y div 4]"
| "b64_octets (w # x # y # z # r) =
     map_option (\<lambda>t. [w * 4 + x div 16, x mod 16 * 16 + y div 4, y mod 4 * 64 + z] @ t) (b64_octets r)"

fun index_of :: "'a \<Rightarrow> 'a list \<Rightarrow> nat option" where
  "index_of x [] = None"
| "index_of x (y # ys) = (if x = y then Some 0 else map_option Suc (index_of x ys))"

fun all_some :: "'a option list \<Rightarrow> 'a list option" where
  "all_some [] = Some []"
| "all_some (None # r) = None"
| "all_some (Some x # r) = map_option (Cons x) (all_some r)"

definition b64_encode :: "string \<Rightarrow> string \<Rightarrow> string" where
  "b64_encode alpha s = map (nth alpha) (b64_sextets (map of_char s))"

text \<open>Line breaks are skipped; any other character outside the alphabet is an error.\<close>

definition b64_decode :: "string \<Rightarrow> string \<Rightarrow> string option" where
  "b64_decode alpha s =
     Option.bind (all_some (map (\<lambda>c. index_of c alpha)
         (filter (\<lambda>c. c \<noteq> CHR 0x0A \<and> c \<noteq> CHR 0x0D) s)))
       (\<lambda>ds. map_option (map char_of) (b64_octets ds))"

lemma b64_octets_sextets:
  "list_all (\<lambda>n. n < 256) ns \<Longrightarrow> b64_octets (b64_sextets ns) = Some ns"
proof (induction ns rule: b64_sextets.induct)
  case (2 a)
  then show ?case by simp
next
  case (3 a b)
  have "(a mod 4 * 16 + b div 16) div 16 = a mod 4" "(a mod 4 * 16 + b div 16) mod 16 = b div 16"
    using 3 by auto
  then show ?case using 3 by simp
next
  case (4 a b c r)
  have "(a mod 4 * 16 + b div 16) div 16 = a mod 4" "(a mod 4 * 16 + b div 16) mod 16 = b div 16"
    "(b mod 16 * 4 + c div 64) div 4 = b mod 16" "(b mod 16 * 4 + c div 64) mod 4 = c div 64"
    using 4 by auto
  then show ?case using 4 by simp
qed simp

lemma b64_sextets_bound: "list_all (\<lambda>n. n < 256) ns \<Longrightarrow> list_all (\<lambda>n. n < 64) (b64_sextets ns)"
  by (induction ns rule: b64_sextets.induct) auto

lemma index_of_nth: "distinct xs \<Longrightarrow> i < length xs \<Longrightarrow> index_of (xs ! i) xs = Some i"
  by (induction xs arbitrary: i) (auto simp: nth_Cons split: nat.splits)

lemma all_some_map: "list_all (\<lambda>x. f x = Some (g x)) xs \<Longrightarrow> all_some (map f xs) = Some (map g xs)"
  by (induction xs) simp_all

definition b64_alphabet :: "string \<Rightarrow> bool" where
  "b64_alphabet alpha \<longleftrightarrow> distinct alpha \<and> length alpha = 64 \<and> CHR 0x0A \<notin> set alpha \<and> CHR 0x0D \<notin> set alpha"

lemma b64_alphabets: "b64_alphabet b64_std" "b64_alphabet b64_url"
  by (simp_all add: b64_alphabet_def b64_std_def b64_url_def)

lemma b64_decode_encode:
  assumes "b64_alphabet alpha"
  shows "b64_decode alpha (b64_encode alpha s) = Some s"
proof -
  let ?ds = "b64_sextets (map of_char s)"
  have b: "list_all (\<lambda>n. n < 256) (map of_char s :: nat list)" by (simp add: list_all_iff)
  have d: "list_all (\<lambda>n. n < 64) ?ds" using b64_sextets_bound [OF b] .
  then have "set (b64_encode alpha s) \<subseteq> set alpha"
    using assms by (auto simp: b64_encode_def b64_alphabet_def list_all_iff)
  then have "filter (\<lambda>c. c \<noteq> CHR 0x0A \<and> c \<noteq> CHR 0x0D) (b64_encode alpha s) = b64_encode alpha s"
    using assms by (auto simp: b64_alphabet_def filter_id_conv)
  moreover have "all_some (map (\<lambda>c. index_of c alpha) (b64_encode alpha s)) = Some ?ds"
    using all_some_map [of "\<lambda>i. index_of (alpha ! i) alpha" id ?ds] d assms
    by (simp add: b64_encode_def comp_def list_all_iff index_of_nth b64_alphabet_def)
  ultimately show ?thesis
    using b64_octets_sextets [OF b] by (simp add: b64_decode_def comp_def)
qed

section \<open>Timestamps as text\<close>

definition leap_year :: "int \<Rightarrow> bool" where
  "leap_year y \<longleftrightarrow> y mod 4 = 0 \<and> (y mod 100 \<noteq> 0 \<or> y mod 400 = 0)"

definition month_lengths :: "bool \<Rightarrow> int list" where
  "month_lengths leap = [31, if leap then 29 else 28, 31, 30, 31, 30, 31, 31, 30, 31, 30, 31]"

fun month_day :: "int \<Rightarrow> int \<Rightarrow> int list \<Rightarrow> int \<times> int" where
  "month_day m d [] = (m, d + 1)"
| "month_day m d (l # ls) = (if d < l then (m, d + 1) else month_day (m + 1) (d - l) ls)"

text \<open>Year, month and day from the number of days since 1 January of year 1.\<close>

definition civil :: "int \<Rightarrow> int \<times> int \<times> int" where
  "civil days =
     (let c400 = days div 146097; n1 = days mod 146097;
          c100 = min 3 (n1 div 36524); n2 = n1 - c100 * 36524;
          c4 = n2 div 1461; n3 = n2 mod 1461;
          c1 = min 3 (n3 div 365); n4 = n3 - c1 * 365;
          y = 400 * c400 + 100 * c100 + 4 * c4 + c1 + 1;
          (m, d) = month_day 1 n4 (month_lengths (leap_year y))
      in (y, m, d))"

definition pad_int :: "nat \<Rightarrow> int \<Rightarrow> string" where
  "pad_int w i = (let ds = string_of_nat (nat \<bar>i\<bar>)
     in (if i < 0 then ''-'' else []) @ replicate (w - length ds) (CHR ''0'') @ ds)"

fun zone_offset :: "location \<Rightarrow> int" where
  "zone_offset UTC = 0"
| "zone_offset (FixedZone _ s) = s"

definition zone_text :: "int \<Rightarrow> string" where
  "zone_text off = (if off = 0 then ''Z''
     else (if off < 0 then ''-'' else ''+'') @ pad_int 2 (\<bar>off\<bar> div 3600) @ '':'' @ pad_int 2 (\<bar>off\<bar> div 60 mod 60))"

definition time_year :: "time \<Rightarrow> int" where
  "time_year t = fst (civil ((nanos t div Second + zone_offset (loc t)) div 86400))"

text \<open>Date and time of day in the location of \<open>t\<close>, in whole seconds.\<close>

definition date_time :: "time \<Rightarrow> string" where
  "date_time t =
     (let s = nanos t div Second + zone_offset (loc t); (y, m, d) = civil (s div 86400); r = s mod 86400
      in pad_int 4 y @ ''-'' @ pad_int 2 m @ ''-'' @ pad_int 2 d @ ''T'' @ pad_int 2 (r div 3600) @ '':''
         @ pad_int 2 (r div 60 mod 60) @ '':'' @ pad_int 2 (r mod 60))"

text \<open>\<open>t.Format(time.RFC3339)\<close> and \<open>t.Format(time.RFC3339Nano)\<close>; the fraction has no trailing zeros.\<close>

definition RFC3339 :: "time \<Rightarrow> string" where
  "RFC3339 t = date_time t @ zone_text (zone_offset (loc t))"

definition fraction_text :: "time \<Rightarrow> string" where
  "fraction_text t = (let n = nanos t mod Second
     in if n = 0 then '''' else ''.'' @ rev (dropWhile (\<lambda>c. c = CHR ''0'') (rev (pad_int 9 n))))"

definition RFC3339Nano :: "time \<Rightarrow> string" where
  "RFC3339Nano t = date_time t @ fraction_text t @ zone_text (zone_offset (loc t))"

lemma pad_int_code [code]:
  "pad_int w i = (let ds = dec_digits \<bar>i\<bar>
     in (if i < 0 then ''-'' else '''') @ replicate (w - length ds) CHR ''0'' @ ds)"
  using dec_digits_nat [of "nat \<bar>i\<bar>"] by (simp add: pad_int_def Let_def)

end
