(* ===== verification/Apperror.thy ===== *)
theory Apperror
  imports Text Domain_Base "HOL-Library.AList"
begin

text \<open>
  The error catalog of \<open>internal/apperror\<close> and the two translations of \<open>internal/middleware\<close>: the
  interceptor that turns an application error into a gRPC status, and the gateway handler that
  turns a status into an HTTP reply.
\<close>

section \<open>Errors of the ports\<close>

text \<open>
  What a Go \<open>error\<close> can be below the use case: an error of the domain, an error of a driver or client
  library (its text is not interpreted), the driver's \<open>ErrNoRows\<close>, an error the adapters make with
  \<open>errors.New\<close>, or one of these wrapped by \<open>fmt.Errorf("...: %w", err)\<close>.
\<close>

datatype port_error =
    DomainE domain_error
  | DriverE string
  | NoRowsE
  | TextE string
  | WrapE string port_error

fun err_Is :: "port_error \<Rightarrow> sentinel \<Rightarrow> bool" where
  "err_Is (DomainE e) s = errors_Is e s"
| "err_Is (WrapE _ e) s = err_Is e s"
| "err_Is _ s = False"

fun err_IsNoRows :: "port_error \<Rightarrow> bool" where
  "err_IsNoRows NoRowsE = True"
| "err_IsNoRows (WrapE _ e) = err_IsNoRows e"
| "err_IsNoRows _ = False"

section \<open>The catalog\<close>

type_synonym Code = string

definition Success :: Code where [const_defs]: "Success = ''00''"
definition ErrRequestValidation :: Code where [const_defs]: "ErrRequestValidation = ''ERR-REQUEST-003''"
definition ErrLoginInvalidCredentials :: Code where [const_defs]: "ErrLoginInvalidCredentials = ''ERR-LOGIN-001''"
definition ErrLoginAccountLocked :: Code where [const_defs]: "ErrLoginAccountLocked = ''ERR-LOGIN-003''"
definition ErrRateLimited :: Code where [const_defs]: "ErrRateLimited = ''ERR-RATE-001''"
definition ErrSystemDatabase :: Code where [const_defs]: "ErrSystemDatabase = ''ERR-SYS-001''"
definition ErrSystemUpstream :: Code where [const_defs]: "ErrSystemUpstream = ''ERR-SYS-002''"
definition ErrSystemInternal :: Code where [const_defs]: "ErrSystemInternal = ''ERR-SYS-003''"

text \<open>The codes of \<open>google.golang.org/grpc/codes\<close> that the catalog uses.\<close>

datatype grpc_code = OK | InvalidArgument | Unauthenticated | PermissionDenied | ResourceExhausted
  | Unavailable | Internal | OtherCode nat

record entry =
  en_codeClient :: string
  en_httpStatus :: int
  en_grpcCode :: grpc_code

definition mk_entry :: "string \<Rightarrow> int \<Rightarrow> grpc_code \<Rightarrow> entry" where
  "mk_entry cc hs gc = \<lparr>en_codeClient = cc, en_httpStatus = hs, en_grpcCode = gc\<rparr>"

definition catalog :: "(Code \<times> entry) list" where
  "catalog =
    [(Success, mk_entry ''00'' 0 OK),
     (ErrRequestValidation, mk_entry ''01'' 0 InvalidArgument),
     (ErrLoginInvalidCredentials, mk_entry ''02'' 0 Unauthenticated),
     (ErrLoginAccountLocked, mk_entry ''03'' 0 PermissionDenied),
     (ErrRateLimited, mk_entry ''04'' 429 ResourceExhausted),
     (ErrSystemDatabase, mk_entry ''07'' 503 Unavailable),
     (ErrSystemUpstream, mk_entry ''07'' 502 Unavailable),
     (ErrSystemInternal, mk_entry ''07'' 500 Internal)]"

definition lookup :: "Code \<Rightarrow> entry" where
  "lookup c = (case map_of catalog c of Some e \<Rightarrow> e | None \<Rightarrow> mk_entry ''07'' 500 Internal)"

definition CodeClient :: "Code \<Rightarrow> string" where
  "CodeClient c = en_codeClient (lookup c)"

definition HTTPStatus :: "Code \<Rightarrow> int" where
  "HTTPStatus c = (let s = en_httpStatus (lookup c) in if s \<noteq> 0 then s else 200)"

definition GRPCStatus :: "Code \<Rightarrow> grpc_code" where
  "GRPCStatus c = en_grpcCode (lookup c)"

section \<open>Application errors\<close>

text \<open>A nil details map is the empty one: the code only ranges over it and looks keys up.\<close>

record AppError =
  ae_Code :: Code
  ae_Message :: string
  ae_Details :: "(string \<times> string) list"
  ae_cause :: "port_error option"

definition apperror_New :: "Code \<Rightarrow> string \<Rightarrow> AppError" where
  "apperror_New code message = \<lparr>ae_Code = code, ae_Message = message, ae_Details = [], ae_cause = None\<rparr>"

definition apperror_Wrap :: "Code \<Rightarrow> string \<Rightarrow> port_error \<Rightarrow> AppError" where
  "apperror_Wrap code message cause =
     \<lparr>ae_Code = code, ae_Message = message, ae_Details = [], ae_cause = Some cause\<rparr>"

text \<open>The details are kept as an association list; setting a key replaces it.\<close>

definition WithDetail :: "string \<Rightarrow> string \<Rightarrow> AppError \<Rightarrow> AppError" where
  "WithDetail k v e = e\<lparr>ae_Details := AList.update k v (ae_Details e)\<rparr>"

definition RateLimited :: "duration \<Rightarrow> AppError" where
  "RateLimited retryAfter =
     WithDetail ''retry_after'' (Itoa (whole_seconds retryAfter)) (apperror_New ErrRateLimited ''too many requests'')"

section \<open>The interceptor\<close>

record ErrorInfo =
  ei_Reason :: string
  ei_Domain :: string
  ei_Metadata :: "(string \<times> string) list"

text \<open>A status with its details; a detail that is no \<open>ErrorInfo\<close> is \<open>None\<close>.\<close>

record grpc_status =
  gs_Code :: grpc_code
  gs_Message :: string
  gs_Details :: "ErrorInfo option list"

definition errorInfoDomain :: string where [const_defs]: "errorInfoDomain = ''araquanid''"

text \<open>What a handler may return as its error: an application error, a status, or anything else.\<close>

datatype handler_error = AppE AppError | StatusE grpc_status | OtherE string

text \<open>
  \<open>attached\<close> says whether \<open>WithDetails\<close> succeeds. It fails for a status whose code is OK, which no
  application error of the catalog has except one with the code of success.
\<close>

definition attached :: "grpc_code \<Rightarrow> bool" where
  "attached c \<longleftrightarrow> c \<noteq> OK"

definition translate_error :: "handler_error \<Rightarrow> grpc_status" where
  "translate_error e = (case e of
      AppE a \<Rightarrow>
        (let c = GRPCStatus (ae_Code a)
         in if attached c
            then \<lparr>gs_Code = c, gs_Message = ae_Message a,
                  gs_Details = [Some \<lparr>ei_Reason = ae_Code a, ei_Domain = errorInfoDomain,
                                     ei_Metadata = ae_Details a\<rparr>]\<rparr>
            else \<lparr>gs_Code = c, gs_Message = ae_Message a, gs_Details = []\<rparr>)
    | StatusE s \<Rightarrow> s
    | OtherE _ \<Rightarrow> \<lparr>gs_Code = Internal, gs_Message = ''internal error'', gs_Details = []\<rparr>)"

definition middleware_AppError :: "(handler_error + 'r) \<Rightarrow> (grpc_status + 'r)" where
  "middleware_AppError res = (case res of Inr r \<Rightarrow> Inr r | Inl e \<Rightarrow> Inl (translate_error e))"

section \<open>The gateway\<close>

record errorBody =
  eb_Code :: string
  eb_CodeClient :: string
  eb_Message :: string
  eb_Details :: "(string \<times> string) list"

fun recover_from :: "ErrorInfo option list \<Rightarrow> Code \<times> (string \<times> string) list" where
  "recover_from [] = (ErrSystemInternal, [])"
| "recover_from (d # ds) = (case d of
      Some info \<Rightarrow> if ei_Domain info = errorInfoDomain then (ei_Reason info, ei_Metadata info) else recover_from ds
    | None \<Rightarrow> recover_from ds)"

definition recoverCode :: "grpc_status \<Rightarrow> Code \<times> (string \<times> string) list" where
  "recoverCode st = recover_from (gs_Details st)"

record http_reply =
  hr_Status :: int
  hr_ContentType :: string
  hr_Body :: errorBody

definition errorHandler :: "grpc_status \<Rightarrow> http_reply" where
  "errorHandler st =
     (let (code, details) = recoverCode st
      in \<lparr>hr_Status = HTTPStatus code, hr_ContentType = ''application/json'',
          hr_Body = \<lparr>eb_Code = code, eb_CodeClient = CodeClient code, eb_Message = gs_Message st,
                     eb_Details = details\<rparr>\<rparr>)"

text \<open>
  \<open>fallback\<close> stands for \<open>runtime.DefaultHeaderMatcher\<close>, and the two header names for the constants of
  the platform library.
\<close>

definition headerMatcher ::
  "unicode_tables \<Rightarrow> string \<Rightarrow> string \<Rightarrow> (string \<Rightarrow> string \<times> bool) \<Rightarrow> string \<Rightarrow> string \<times> bool" where
  "headerMatcher u authorization request_id fallback key =
     (if ToLower u key = authorization \<or> ToLower u key = request_id then (ToLower u key, True)
      else fallback key)"

section \<open>What a client sees\<close>

text \<open>The catalog, code by code.\<close>

lemma codes_distinct: "distinct (map fst catalog)"
  by (simp add: catalog_def const_defs)

lemma HTTPStatus_simps [simp]:
  "HTTPStatus ErrRequestValidation = 200" "HTTPStatus ErrLoginInvalidCredentials = 200"
  "HTTPStatus ErrLoginAccountLocked = 200" "HTTPStatus ErrRateLimited = 429"
  "HTTPStatus ErrSystemDatabase = 503" "HTTPStatus ErrSystemUpstream = 502"
  "HTTPStatus ErrSystemInternal = 500"
  by (simp_all add: HTTPStatus_def lookup_def catalog_def mk_entry_def const_defs)

lemma GRPCStatus_OK: "GRPCStatus c = OK \<longleftrightarrow> c = Success"
proof (cases "map_of catalog c")
  case None
  then show ?thesis by (auto simp: GRPCStatus_def lookup_def mk_entry_def catalog_def split: if_splits)
next
  case (Some e)
  then have "(c, e) \<in> set catalog" by (rule map_of_SomeD)
  with Some show ?thesis
    by (auto simp: GRPCStatus_def lookup_def catalog_def mk_entry_def const_defs)
qed

lemma translate_AppE:
  assumes "ae_Code a \<noteq> Success"
  shows "recoverCode (translate_error (AppE a)) = (ae_Code a, ae_Details a)"
    and "gs_Code (translate_error (AppE a)) = GRPCStatus (ae_Code a)"
  using assms by (simp_all add: translate_error_def recoverCode_def attached_def GRPCStatus_OK Let_def)

end
