(* ===== verification/Passwordhash.thy ===== *)
theory Passwordhash
  imports Apperror
begin

text \<open>
  Password hashing of \<open>internal/platform/passwordhash\<close>. The key derivation \<open>argon2.IDKey\<close> and the
  comparison \<open>bcrypt.CompareHashAndPassword\<close> are third-party code and parameters here; random
  bytes come from \<open>crypto/rand\<close>. The derivation is an action on the world, so that the calls which
  only burn time stay visible.
\<close>

record Argon2idParams =
  ap_TimeCost :: "32 word"
  ap_MemoryKB :: "32 word"
  ap_Parallelism :: "8 word"

text \<open>Password, salt, cost parameters and key length; the result is the derived key.\<close>

type_synonym 'w idkey = "string \<Rightarrow> string \<Rightarrow> Argon2idParams \<Rightarrow> 32 word \<Rightarrow> 'w \<Rightarrow> string \<times> 'w"

type_synonym 'w rand_read = "nat \<Rightarrow> 'w \<Rightarrow> (port_error + string) \<times> 'w"

definition saltLen :: nat where "saltLen = 16"

definition keyLen :: "32 word" where "keyLen = 32"

definition Hash ::
  "'w idkey \<Rightarrow> 'w rand_read \<Rightarrow> string \<Rightarrow> Argon2idParams \<Rightarrow> 'w \<Rightarrow> (port_error + string \<times> string) \<times> 'w" where
  "Hash IDKey rand plaintext p w =
     (case rand saltLen w of
        (Inl e, w1) \<Rightarrow> (Inl (WrapE ''passwordhash: generate salt'' e), w1)
      | (Inr saltBytes, w1) \<Rightarrow>
          (case IDKey plaintext saltBytes p keyLen w1 of (key, w2) \<Rightarrow>
             (Inr (b64_encode b64_std key, b64_encode b64_std saltBytes), w2)))"

text \<open>\<open>ConstantTimeCompare\<close> returns 1 exactly for equal contents.\<close>

definition Verify ::
  "'w idkey \<Rightarrow> string \<Rightarrow> string \<Rightarrow> string \<Rightarrow> Argon2idParams \<Rightarrow> 'w \<Rightarrow> bool \<times> 'w" where
  "Verify IDKey plaintext hash salt p w =
     (case b64_decode b64_std salt of
        None \<Rightarrow> (False, w)
      | Some saltBytes \<Rightarrow>
          (case b64_decode b64_std hash of
             None \<Rightarrow> (False, w)
           | Some want \<Rightarrow>
               (case IDKey plaintext saltBytes p (word_of_nat (length want)) w of
                  (got, w1) \<Rightarrow> (got = want, w1))))"

definition VerifyBcrypt :: "(string \<Rightarrow> string \<Rightarrow> bool) \<Rightarrow> string \<Rightarrow> string \<Rightarrow> bool" where
  "VerifyBcrypt compare plaintext hash = compare hash plaintext"

definition dummySalt :: string where
  "dummySalt = ''araquanid-dummy-argon2id-salt-16''"

definition DummyVerify :: "'w idkey \<Rightarrow> string \<Rightarrow> Argon2idParams \<Rightarrow> 'w \<Rightarrow> 'w" where
  "DummyVerify IDKey plaintext p w = snd (IDKey plaintext (take saltLen dummySalt) p keyLen w)"

text \<open>
  C17. Hash and verify: for a key derivation that is a function of its arguments and returns keys of
  the length asked for, the pair that \<open>Hash\<close> stores is accepted by \<open>Verify\<close> for a password exactly
  when the derivation gives that password the same key under the stored salt; in particular it is
  accepted for the password that was hashed.
\<close>

theorem hash_then_verify:
  assumes "\<And>pw salt n w. fst (IDKey pw salt p n w) = key pw salt n"
    and "\<And>pw salt n. length (key pw salt n) = unat n"
    and "Hash IDKey rand pw p w = (Inr (h, s), w')"
  shows "\<exists>salt. fst (rand saltLen w) = Inr salt
    \<and> fst (Verify IDKey pw' h s p w'') = (key pw' salt keyLen = key pw salt keyLen)"
proof -
  obtain salt w1 where r: "rand saltLen w = (Inr salt, w1)"
    using assms(3) by (auto simp: Hash_def split: prod.splits sum.splits)
  then have h: "h = b64_encode b64_std (key pw salt keyLen)" and s: "s = b64_encode b64_std salt"
    using assms(3) assms(1) [of pw salt keyLen w1]
    by (auto simp: Hash_def split: prod.splits)
  have "word_of_nat (length (key pw salt keyLen)) = keyLen" by (simp add: assms(2))
  then have "fst (Verify IDKey pw' h s p w'') = (key pw' salt keyLen = key pw salt keyLen)"
    using assms(1) [of pw' salt keyLen w'']
    by (cases "IDKey pw' salt p keyLen w''") (simp add: Verify_def h s b64_decode_encode b64_alphabets)
  with r show ?thesis by simp
qed

definition sample_key :: "string \<Rightarrow> string \<Rightarrow> 32 word \<Rightarrow> string" where
  "sample_key pw salt n = take (unat n) (pw @ salt @ replicate (unat n) (CHR ''x''))"

definition sample_IDKey :: "nat idkey" where
  "sample_IDKey pw salt p n w = (sample_key pw salt n, Suc w)"

definition sample_rand :: "nat rand_read" where
  "sample_rand n w = (Inr (replicate n (CHR ''r'')), Suc w)"

definition sample_costs :: Argon2idParams where
  "sample_costs = \<lparr>ap_TimeCost = 3, ap_MemoryKB = 65536, ap_Parallelism = 4\<rparr>"

theorem hash_then_verify_witness:
  "\<exists>h s w'. Hash sample_IDKey sample_rand ''secret'' sample_costs 0 = (Inr (h, s), w')
     \<and> fst (Verify sample_IDKey ''secret'' h s sample_costs w')
     \<and> \<not> fst (Verify sample_IDKey ''Secret'' h s sample_costs w')"
proof -
  have l: "length (sample_key pw salt n) = unat n" for pw salt n by (simp add: sample_key_def)
  obtain h s w' where eq: "Hash sample_IDKey sample_rand ''secret'' sample_costs 0 = (Inr (h, s), w')"
    by (simp add: Hash_def sample_rand_def sample_IDKey_def)
  have "fst (Verify sample_IDKey pw' h s sample_costs w')
      = (sample_key pw' (replicate 16 (CHR ''r'')) keyLen = sample_key ''secret'' (replicate 16 (CHR ''r'')) keyLen)" for pw'
    using hash_then_verify [OF _ l eq, where pw' = pw' and w'' = w']
    by (simp add: sample_IDKey_def sample_rand_def saltLen_def)
  moreover have "sample_key ''Secret'' (replicate 16 (CHR ''r'')) keyLen \<noteq> sample_key ''secret'' (replicate 16 (CHR ''r'')) keyLen"
    by (simp add: sample_key_def keyLen_def take_Cons')
  ultimately show ?thesis using eq by simp
qed

end
