(* ===== verification/Fingerprint.thy ===== *)
theory Fingerprint
  imports Apperror
begin

text \<open>
  Device fingerprints and device names of \<open>usecase/fingerprint.go\<close>, with \<open>sha256Hex\<close> and \<open>ipString\<close>
  of \<open>usecase/login.go\<close>. The compression function SHA-256 is a parameter.
\<close>

record DeviceFingerprintInput =
  df_ScreenResolution :: string
  df_Timezone :: string
  df_Platform :: string
  df_ColorDepth :: int
  df_Language :: string

definition normalize :: "unicode_tables \<Rightarrow> string \<Rightarrow> string" where
  "normalize u s = ToLower u (TrimSpace u s)"

definition truncate_string :: "string \<Rightarrow> nat \<Rightarrow> string" where
  "truncate_string s n = (if length s \<le> n then s else take n s)"

fun ipSubnet :: "addr \<Rightarrow> string" where
  "ipSubnet (V4 a b c d) = byte_dec a @ ''.'' @ byte_dec b @ ''.'' @ byte_dec c @ ''.0/24''"
| "ipSubnet _ = ''''"

definition fingerprint_components ::
  "unicode_tables \<Rightarrow> string \<Rightarrow> string \<Rightarrow> DeviceFingerprintInput \<Rightarrow> addr \<Rightarrow> string list" where
  "fingerprint_components u headerUA headerAcceptLanguage body ip =
     [normalize u (truncate_string headerUA 512),
      normalize u (truncate_string headerAcceptLanguage 64),
      normalize u (df_ScreenResolution body),
      normalize u (df_Timezone body),
      normalize u (df_Platform body),
      Itoa (df_ColorDepth body),
      normalize u (df_Language body),
      ipSubnet ip]"

definition computeFingerprint ::
  "unicode_tables \<Rightarrow> (string \<Rightarrow> string) \<Rightarrow> string \<Rightarrow> string \<Rightarrow> DeviceFingerprintInput \<Rightarrow> addr \<Rightarrow> string" where
  "computeFingerprint u sha256 headerUA headerAcceptLanguage body ip =
     hex_encode (sha256 (join_with ''|'' (fingerprint_components u headerUA headerAcceptLanguage body ip)))"

definition osFromUserAgent :: "string \<Rightarrow> string" where
  "osFromUserAgent userAgent =
     (if contains userAgent ''Windows NT'' then ''Windows''
      else if contains userAgent ''Mac OS X'' then ''macOS''
      else if contains userAgent ''Linux'' then ''Linux''
      else ''Unknown'')"

definition inferDeviceName :: "string \<Rightarrow> string" where
  "inferDeviceName userAgent =
     (if contains userAgent ''Mobile'' \<and> contains userAgent ''Safari'' then ''Mobile Safari on iOS''
      else if contains userAgent ''Chrome'' \<and> contains userAgent ''Android'' then ''Chrome on Android''
      else if contains userAgent ''Chrome'' then ''Chrome on '' @ osFromUserAgent userAgent
      else if contains userAgent ''Firefox'' then ''Firefox on '' @ osFromUserAgent userAgent
      else if contains userAgent ''Safari'' then ''Safari on macOS''
      else if contains userAgent ''PostmanRuntime'' then ''Postman API Client''
      else ''Unknown Browser'')"

definition sha256Hex :: "(string \<Rightarrow> string) \<Rightarrow> string \<Rightarrow> string" where
  "sha256Hex sha256 s = hex_encode (sha256 s)"

definition ipString :: "addr \<Rightarrow> string" where
  "ipString ip = (if \<not> addr_IsValid ip then '''' else addr_String ip)"

lemma truncate_string_length: "length (truncate_string s n) \<le> n"
  by (simp add: truncate_string_def)

lemma normalize_idem: "is_ascii s \<Longrightarrow> normalize u (normalize u s) = normalize u s"
  by (simp add: normalize_def ToLower_def TrimSpace_def is_ascii_strip is_ascii_lower
      strip_map space_lower strip_idem ascii_lower_idem comp_def)

text \<open>Case and surrounding white space do not matter.\<close>

lemma normalize_case: "is_ascii s \<Longrightarrow> normalize u (ToLower u s) = normalize u s"
  by (simp add: normalize_def ToLower_def TrimSpace_def is_ascii_strip is_ascii_lower
      strip_map space_lower ascii_lower_idem comp_def)

lemma dropWhile_all_append: "list_all p xs \<Longrightarrow> dropWhile p (xs @ ys) = dropWhile p ys"
  by (induction xs) simp_all

lemma strip_padded:
  assumes "list_all p a" "list_all p b"
  shows "strip p (a @ s @ b) = strip p s"
proof (cases "list_all p s")
  case True
  with assms have "dropWhile p (a @ s @ b) = []" "dropWhile p s = []"
    by (auto simp: dropWhile_eq_Nil_conv list_all_iff)
  then show ?thesis by (simp only: strip_def)
next
  case False
  then have "dropWhile p (s @ b) = dropWhile p s @ b" by (auto simp: dropWhile_append list_all_iff)
  with assms show ?thesis by (simp add: strip_def dropWhile_all_append list_all_rev)
qed

lemma normalize_padded:
  "is_ascii (a @ s @ b) \<Longrightarrow> list_all ascii_space a \<Longrightarrow> list_all ascii_space b \<Longrightarrow>
     normalize u (a @ s @ b) = normalize u s"
  by (simp add: normalize_def TrimSpace_def strip_padded) (simp add: is_ascii_def)

text \<open>
  C18. What identifies a device: the fingerprint of an ASCII request is the same when the last octet of
  the IPv4 address changes, when the case of the headers or of the client's values changes, and
  whatever follows the first 512 bytes of the user agent and the first 64 of the accepted languages.
\<close>

theorem fingerprint_stable:
  assumes "is_ascii ua" "is_ascii lang" "is_ascii (df_ScreenResolution f)" "is_ascii (df_Timezone f)"
    "is_ascii (df_Platform f)" "is_ascii (df_Language f)" "take 512 ua' = take 512 ua" "take 64 lang' = take 64 lang"
  shows "computeFingerprint u sha256 ua' lang' f (V4 a b c d) =
    computeFingerprint u sha256 (ToLower u ua) (ToLower u lang)
      (f\<lparr>df_ScreenResolution := ToLower u (df_ScreenResolution f), df_Timezone := ToLower u (df_Timezone f),
        df_Platform := ToLower u (df_Platform f), df_Language := ToLower u (df_Language f)\<rparr>) (V4 a b c e)"
proof -
  have t: "normalize u (truncate_string (ToLower u s) n) = normalize u (truncate_string s n)" if "is_ascii s" for s n
  proof -
    have "is_ascii (truncate_string s n)"
      using that by (auto simp: is_ascii_def truncate_string_def list_all_iff dest: in_set_takeD)
    moreover have "truncate_string (ToLower u s) n = ToLower u (truncate_string s n)"
      using that calculation by (auto simp: ToLower_def truncate_string_def take_map)
    ultimately show ?thesis using normalize_case by simp
  qed
  have take: "truncate_string s n = take n s" for s n by (simp add: truncate_string_def)
  have "truncate_string ua' 512 = truncate_string ua 512" "truncate_string lang' 64 = truncate_string lang 64"
    using assms(7,8) by (simp_all add: take)
  then show ?thesis using assms
    by (simp add: computeFingerprint_def fingerprint_components_def t normalize_case)
qed

definition sample_fp :: DeviceFingerprintInput where
  "sample_fp = \<lparr>df_ScreenResolution = ''1920x1080'', df_Timezone = ''Asia/Jakarta'', df_Platform = ''Win32'',
     df_ColorDepth = 24, df_Language = ''en-US''\<rparr>"

definition sample_unicode :: unicode_tables where
  "sample_unicode = \<lparr>uni_ToLower = id, uni_ToUpper = id, uni_TrimSpace = id\<rparr>"

text \<open>An ordinary user agent, and one that is cut.\<close>

theorem fingerprint_stable_witness:
  "computeFingerprint sample_unicode id ''Firefox'' ''EN'' sample_fp (V4 10 0 0 1)
     = computeFingerprint sample_unicode id ''firefox'' ''en''
        (sample_fp\<lparr>df_Timezone := ''asia/jakarta'', df_Platform := ''win32'', df_Language := ''en-us''\<rparr>) (V4 10 0 0 9)
   \<and> computeFingerprint sample_unicode id (replicate 512 (CHR ''M'') @ ''tail'') ''en'' sample_fp (V4 10 0 0 1)
     = computeFingerprint sample_unicode id (replicate 512 (CHR ''m'')) ''en''
        (sample_fp\<lparr>df_Timezone := ''asia/jakarta'', df_Platform := ''win32'', df_Language := ''en-us''\<rparr>) (V4 10 0 0 9)"
  using fingerprint_stable [of "''Firefox''" "''EN''" sample_fp "''Firefox''" "''EN''" sample_unicode id 10 0 0 1 9]
    fingerprint_stable [of "replicate 512 (CHR ''M'')" "''en''" sample_fp "replicate 512 (CHR ''M'') @ ''tail''" "''en''" sample_unicode id 10 0 0 1 9]
  by (simp add: is_ascii_def sample_fp_def list_all_iff ToLower_def ascii_lower_def char_of_def bit_0)

end
