(* ===== verification/Jwtsign.thy ===== *)
theory Jwtsign
  imports Apperror
begin

text \<open>
  Token signing of \<open>internal/platform/jwtsign\<close>. Parsing a key, encoding and signing belong to the
  JWT library and are parameters; the claims and the header that the code hands to it are modelled.
  Times are kept as given to \<open>jwt.NewNumericDate\<close>, which rounds them when it encodes.
\<close>

record jwt_Config =
  jc_PrivateKeyPEM :: string
  jc_PrivateKeyPath :: string
  jc_Kid :: string
  jc_Issuer :: string

record AccessTokenClaims =
  atc_Subject :: string
  atc_Audience :: "string list"
  atc_SessionID :: string
  atc_AAL :: string
  atc_DeviceID :: string
  atc_CorporateID :: string
  atc_Scope :: string

record RegisteredClaims =
  rc_Issuer :: string
  rc_Subject :: string
  rc_Audience :: "string list"
  rc_IssuedAt :: time
  rc_ExpiresAt :: time
  rc_ID :: string

record accessTokenClaims =
  tk_Registered :: RegisteredClaims
  tk_SessionID :: string
  tk_AAL :: string
  tk_DeviceID :: string
  tk_CorporateID :: string
  tk_Scope :: string

record restrictedClaims =
  rk_Registered :: RegisteredClaims
  rk_Purpose :: string

datatype jwt_claims = AccessClaims accessTokenClaims | RestrictedClaims restrictedClaims

record 'k Signer =
  sg_key :: 'k
  sg_kid :: string
  sg_issuer :: string

definition resolveKeyPEM :: "(string \<Rightarrow> port_error + string) \<Rightarrow> jwt_Config \<Rightarrow> port_error + string" where
  "resolveKeyPEM readFile cfg =
     (if jc_PrivateKeyPEM cfg \<noteq> '''' then Inr (jc_PrivateKeyPEM cfg)
      else if jc_PrivateKeyPath cfg = ''''
      then Inl (TextE ''jwtsign: no private key configured (set PrivateKeyPEM or PrivateKeyPath)'')
      else case readFile (jc_PrivateKeyPath cfg) of
        Inl e \<Rightarrow> Inl (WrapE (''jwtsign: read private key file '' @ jc_PrivateKeyPath cfg) e)
      | Inr b \<Rightarrow> Inr b)"

definition NewSigner ::
  "(string \<Rightarrow> port_error + string) \<Rightarrow> (string \<Rightarrow> port_error + 'k) \<Rightarrow> jwt_Config \<Rightarrow> port_error + 'k Signer" where
  "NewSigner readFile parseKey cfg =
     (if jc_Kid cfg = '''' then Inl (TextE ''jwtsign: kid is required'')
      else case resolveKeyPEM readFile cfg of
        Inl e \<Rightarrow> Inl e
      | Inr pemBytes \<Rightarrow> (case parseKey pemBytes of
          Inl e \<Rightarrow> Inl (WrapE ''jwtsign: parse private key'' e)
        | Inr key \<Rightarrow> Inr \<lparr>sg_key = key, sg_kid = jc_Kid cfg, sg_issuer = jc_Issuer cfg\<rparr>))"

text \<open>The library signs a header, here its \<open>kid\<close>, and claims with a key.\<close>

type_synonym 'k signing = "string \<Rightarrow> jwt_claims \<Rightarrow> 'k \<Rightarrow> port_error + string"

definition sign :: "'k signing \<Rightarrow> 'k Signer \<Rightarrow> jwt_claims \<Rightarrow> port_error + string" where
  "sign signedString s claims = (case signedString (sg_kid s) claims (sg_key s) of
      Inl e \<Rightarrow> Inl (WrapE ''jwtsign: sign'' e) | Inr t \<Rightarrow> Inr t)"

definition SignAccessToken ::
  "'k signing \<Rightarrow> ('w \<Rightarrow> time \<times> 'w) \<Rightarrow> ('w \<Rightarrow> string \<times> 'w) \<Rightarrow> 'k Signer \<Rightarrow> AccessTokenClaims \<Rightarrow> duration \<Rightarrow>
     'w \<Rightarrow> (port_error + string) \<times> 'w" where
  "SignAccessToken signedString clock newID s c ttl w =
     (let (t, w1) = clock w; now = time_UTC t; (jti, w2) = newID w1;
          claims = \<lparr>tk_Registered = \<lparr>rc_Issuer = sg_issuer s, rc_Subject = atc_Subject c,
                      rc_Audience = atc_Audience c, rc_IssuedAt = now, rc_ExpiresAt = time_Add now ttl, rc_ID = jti\<rparr>,
                    tk_SessionID = atc_SessionID c, tk_AAL = atc_AAL c, tk_DeviceID = atc_DeviceID c,
                    tk_CorporateID = atc_CorporateID c, tk_Scope = atc_Scope c\<rparr>
      in (sign signedString s (AccessClaims claims), w2))"

definition SignRestrictedToken ::
  "'k signing \<Rightarrow> ('w \<Rightarrow> time \<times> 'w) \<Rightarrow> ('w \<Rightarrow> string \<times> 'w) \<Rightarrow> 'k Signer \<Rightarrow> string \<Rightarrow> string \<Rightarrow> duration \<Rightarrow>
     'w \<Rightarrow> (port_error + string) \<times> 'w" where
  "SignRestrictedToken signedString clock newID s subject purpose ttl w =
     (let (t, w1) = clock w; now = time_UTC t; (jti, w2) = newID w1;
          claims = \<lparr>rk_Registered = \<lparr>rc_Issuer = sg_issuer s, rc_Subject = subject, rc_Audience = [],
                      rc_IssuedAt = now, rc_ExpiresAt = time_Add now ttl, rc_ID = jti\<rparr>,
                    rk_Purpose = purpose\<rparr>
      in (sign signedString s (RestrictedClaims claims), w2))"

end
