(* ===== verification/Ports.thy ===== *)
theory Ports
  imports Session Credential Passwordhash Fingerprint Jwtsign
begin

text \<open>
  The outbound ports of the login feature (\<open>repository/repository.go\<close>) and the inputs, results and
  dependencies of its use case (\<open>usecase/types.go\<close>, \<open>usecase/usecase.go\<close>). A port is an action on
  the state \<open>'w\<close> of the world outside the use case; it returns an error or a value. An interface
  is the record of its methods, so the use case is a function of its dependencies, as in the code.
\<close>

section \<open>Actions\<close>

type_synonym ('w, 'a) port = "'w \<Rightarrow> (port_error + 'a) \<times> 'w"

definition preturn :: "'a \<Rightarrow> ('w, 'a) port" where
  "preturn x w = (Inr x, w)"

text \<open>\<open>if x, err := m(); err != nil { return err }\<close>, then the rest.\<close>

definition pbind :: "('w, 'a) port \<Rightarrow> ('a \<Rightarrow> ('w, 'b) port) \<Rightarrow> ('w, 'b) port" where
  "pbind m f w = (case m w of (Inl e, w1) \<Rightarrow> (Inl e, w1) | (Inr x, w1) \<Rightarrow> f x w1)"

section \<open>Data of the ports\<close>

record ResolvedIdentity =
  ri_IdentityID :: string
  ri_Status :: string
  ri_CorporateID :: string

record RegisteredDevice =
  rd_ID :: string
  rd_TrustStatus :: string
  rd_LastSeenAt :: time

record LoginAttemptRecord =
  lar_IdentityID :: "string option"
  lar_IdentifierHash :: string
  lar_Outcome :: string
  lar_FailureReason :: string
  lar_IPAddress :: string
  lar_UserAgent :: string
  lar_DeviceFingerprint :: string
  lar_SessionID :: "string option"
  lar_MFAFactorType :: string
  lar_AttemptedAt :: time

record MFASessionState =
  ms_IdentityID :: string
  ms_CredentialVerifiedAt :: time
  ms_AvailableFactors :: "FactorType list"
  ms_FailedMFAAttempts :: int
  ms_ClientID :: string
  ms_DeviceFingerprint :: string

record RefreshTokenRecord =
  rtr_FamilyID :: string
  rtr_TokenHash :: string
  rtr_ClientID :: string
  rtr_IssuerIP :: string
  rtr_IssuedAt :: time
  rtr_ExpiresAt :: time

section \<open>Interfaces\<close>

record 'w TxSessions =
  tx_Create :: "AuthenticationSession \<Rightarrow> string \<Rightarrow> ('w, unit) port"
  tx_Revoke :: "AuthenticationSession \<Rightarrow> ('w, unit) port"
  tx_CountActive :: "string \<Rightarrow> string \<Rightarrow> ('w, int) port"
  tx_FindOldestActive :: "string \<Rightarrow> string \<Rightarrow> ('w, AuthenticationSession option) port"
  tx_ListActive :: "string \<Rightarrow> string \<Rightarrow> ('w, AuthenticationSession list) port"

record 'w TxRepositories =
  r_Credentials_Save :: "Credential \<Rightarrow> ('w, unit) port"
  r_Sessions :: "'w TxSessions"
  r_CreateFamily :: "string \<Rightarrow> string \<Rightarrow> string \<Rightarrow> ('w, unit) port"
  r_CreateToken :: "RefreshTokenRecord \<Rightarrow> ('w, unit) port"
  r_Devices_Register :: "string \<Rightarrow> string \<Rightarrow> int \<Rightarrow> string \<Rightarrow> string \<Rightarrow> time \<Rightarrow> ('w, string) port"
  r_Devices_Touch :: "string \<Rightarrow> time \<Rightarrow> ('w, unit) port"
  r_LoginAttempts_Record :: "LoginAttemptRecord \<Rightarrow> ('w, unit) port"
  r_Outbox_Append :: "domain_event list \<Rightarrow> ('w, unit) port"

section \<open>The use case's configuration, input and result\<close>

record RateLimitConfig =
  rl_IPMaxAttempts :: int
  rl_IPWindow :: duration
  rl_IdentityMaxAttempts :: int
  rl_IdentityWindow :: duration

record UsecaseConfig =
  uc_Lockout :: LockoutPolicy
  uc_CredentialPolicy :: CredentialPolicy
  uc_SessionPolicy :: SessionPolicy
  uc_ConcurrentPolicy :: string
  uc_ConcurrentMax :: int
  uc_MFASessionWindow :: duration
  uc_ForcedChangeWindow :: duration
  uc_AccessTokenTTL :: duration
  uc_RefreshTokenTTL :: duration
  uc_Argon2id :: Argon2idParams
  uc_FingerprintVersion :: int
  uc_RateLimit :: RateLimitConfig

record LoginInput =
  li_Identifier :: string
  li_Password :: string
  li_ClientID :: string
  li_CompanyCode :: string
  li_DeviceFingerprint :: DeviceFingerprintInput
  li_IP :: addr
  li_UserAgent :: string
  li_AcceptLanguage :: string

record LoginResult =
  lr_AuthenticationResult :: string
  lr_AccessToken :: string
  lr_TokenType :: string
  lr_ExpiresIn :: int
  lr_RefreshToken :: string
  lr_SessionID :: string
  lr_AAL :: string
  lr_ForcePasswordChange :: bool
  lr_MFASessionToken :: string
  lr_AvailableFactors :: "FactorType list"
  lr_ForcedChangeSessionToken :: string

definition zero_LoginResult :: LoginResult where
  "zero_LoginResult = \<lparr>lr_AuthenticationResult = '''', lr_AccessToken = '''', lr_TokenType = '''',
     lr_ExpiresIn = 0, lr_RefreshToken = '''', lr_SessionID = '''', lr_AAL = '''',
     lr_ForcePasswordChange = False, lr_MFASessionToken = '''', lr_AvailableFactors = [],
     lr_ForcedChangeSessionToken = ''''\<rparr>"

section \<open>Dependencies\<close>

text \<open>
  \<open>d_ResolveIdentity\<close>, \<open>d_FindByFingerprint\<close> and \<open>tx_FindOldestActive\<close> return \<open>None\<close> for "not found".
  The logger has no effect on what the use case does and is left out.
\<close>

record 'w Dependencies =
  d_Execute :: "('w TxRepositories \<Rightarrow> ('w, unit) port) \<Rightarrow> ('w, unit) port"
  d_FindByIdentity :: "string \<Rightarrow> ('w, Credential) port"
  d_FindByFingerprint :: "string \<Rightarrow> string \<Rightarrow> ('w, RegisteredDevice option) port"
  d_ListActiveFactorTypes :: "string \<Rightarrow> ('w, FactorType list) port"
  d_HasActiveFactor :: "string \<Rightarrow> ('w, bool) port"
  d_LoginAttempts_Record :: "LoginAttemptRecord \<Rightarrow> ('w, unit) port"
  d_ResolveIdentity :: "string \<Rightarrow> string \<Rightarrow> ('w, ResolvedIdentity option) port"
  d_MFASession_Create :: "string \<Rightarrow> MFASessionState \<Rightarrow> duration \<Rightarrow> ('w, unit) port"
  d_Allow :: "string \<Rightarrow> int \<Rightarrow> duration \<Rightarrow> ('w, bool \<times> duration) port"
  d_SignAccessToken :: "AccessTokenClaims \<Rightarrow> duration \<Rightarrow> ('w, string) port"
  d_SignRestrictedToken :: "string \<Rightarrow> string \<Rightarrow> duration \<Rightarrow> ('w, string) port"
  d_Clock :: "'w \<Rightarrow> time \<times> 'w"
  d_NewID :: "'w \<Rightarrow> string \<times> 'w"
  d_Config :: UsecaseConfig

text \<open>The libraries that the use case calls directly.\<close>

record 'w Runtime =
  rt_rand :: "'w rand_read"
  rt_IDKey :: "'w idkey"
  rt_bcrypt :: "string \<Rightarrow> string \<Rightarrow> bool"
  rt_sha256 :: "string \<Rightarrow> string"
  rt_unicode :: unicode_tables

end
