(* ===== verification/Utf8.thy ===== *)
theory Utf8
  imports Text
begin

text \<open>
  Text as bytes: which strings are UTF-8, what \<open>encoding/json\<close> makes of the others, and which strings a
  \<open>TEXT\<close> column takes.
\<close>

definition in_range :: "nat \<times> nat \<Rightarrow> char \<Rightarrow> bool" where
  "in_range r c \<longleftrightarrow> fst r \<le> of_char c \<and> of_char c \<le> snd r"

text \<open>The ranges of the bytes that follow a first byte, as in the tables of \<open>unicode/utf8\<close>.\<close>

definition tail_ranges :: "char \<Rightarrow> (nat \<times> nat) list option" where
  "tail_ranges a =
     (if in_range (0, 127) a then Some []
      else if in_range (194, 223) a then Some [(128, 191)]
      else if in_range (224, 239) a then
        Some [(if a = CHR 0xE0 then 160 else 128, if a = CHR 0xED then 159 else 191), (128, 191)]
      else if in_range (240, 244) a then
        Some [(if a = CHR 0xF0 then 144 else 128, if a = CHR 0xF4 then 143 else 191), (128, 191), (128, 191)]
      else None)"

fun follows :: "(nat \<times> nat) list \<Rightarrow> string \<Rightarrow> bool" where
  "follows [] s = True"
| "follows (r # rs) [] = False"
| "follows (r # rs) (c # s) = (in_range r c \<and> follows rs s)"

text \<open>How many bytes after \<open>a\<close> belong to the character that \<open>a\<close> starts, if it starts one.\<close>

definition rune_tail :: "char \<Rightarrow> string \<Rightarrow> nat option" where
  "rune_tail a s = (case tail_ranges a of None \<Rightarrow> None | Some rs \<Rightarrow> if follows rs s then Some (length rs) else None)"

fun valid_utf8 :: "string \<Rightarrow> bool" where
  "valid_utf8 [] = True"
| "valid_utf8 (a # s) = (case rune_tail a s of None \<Rightarrow> False | Some n \<Rightarrow> valid_utf8 (drop n s))"

text \<open>Every byte that starts no character is replaced by the character U+FFFD.\<close>

definition replacement :: string where
  "replacement = [CHR 0xEF, CHR 0xBF, CHR 0xBD]"

fun to_utf8 :: "string \<Rightarrow> string" where
  "to_utf8 [] = []"
| "to_utf8 (a # s) = (case rune_tail a s of
      None \<Rightarrow> replacement @ to_utf8 s
    | Some n \<Rightarrow> a # take n s @ to_utf8 (drop n s))"

lemma follows_take: "follows rs s \<Longrightarrow> follows rs (take (length rs) s @ t) \<and> length rs \<le> length s"
  by (induction rs s rule: follows.induct) auto

lemma rune_tail_append: "rune_tail a s = Some n \<Longrightarrow> rune_tail a (take n s @ t) = Some n \<and> n \<le> length s"
  by (auto simp: rune_tail_def follows_take split: option.splits if_splits)

lemma replacement_valid: "valid_utf8 (replacement @ s) = valid_utf8 s"
  by (simp add: replacement_def in_range_def rune_tail_def tail_ranges_def)

lemma to_utf8_valid: "valid_utf8 (to_utf8 s)"
proof (induction s rule: to_utf8.induct)
  case (2 a s)
  show ?case
  proof (cases "rune_tail a s")
    case (Some n)
    then show ?thesis using 2(2) [OF Some] rune_tail_append [OF Some, of "to_utf8 (drop n s)"] by simp
  qed (use 2 in \<open>simp add: replacement_valid\<close>)
qed simp

lemma to_utf8_id: "valid_utf8 s \<Longrightarrow> to_utf8 s = s"
  by (induction s rule: to_utf8.induct) (auto split: option.splits)

lemma to_utf8_idem [simp]: "to_utf8 (to_utf8 s) = to_utf8 s"
  by (simp add: to_utf8_id to_utf8_valid)

lemma ascii_valid: "is_ascii s \<Longrightarrow> valid_utf8 s"
  by (induction s) (auto simp: is_ascii_def in_range_def rune_tail_def tail_ranges_def)

text \<open>A NUL byte is a character of its own and stays.\<close>

definition NUL :: char where
  "NUL = CHR 0x00"

lemma to_utf8_nul: "NUL \<in> set (to_utf8 s) \<longleftrightarrow> NUL \<in> set s"
proof (induction s rule: to_utf8.induct)
  case (2 a s)
  show ?case
  proof (cases "rune_tail a s")
    case None
    then have "a \<noteq> NUL" by (auto simp: NUL_def in_range_def rune_tail_def tail_ranges_def)
    with 2(1) [OF None] None show ?thesis by (auto simp: replacement_def NUL_def)
  next
    case (Some n)
    have "set s = set (take n s) \<union> set (drop n s)" by (metis append_take_drop_id set_append)
    with 2(2) [OF Some] Some show ?thesis by (auto)
  qed
qed simp

text \<open>The server's encoding is UTF-8, and no text contains a NUL.\<close>

definition pg_text :: "string \<Rightarrow> bool" where
  "pg_text s \<longleftrightarrow> valid_utf8 s \<and> NUL \<notin> set s"

end
