(* ===== verification/Json.thy ===== *)
theory Json
  imports Utf8 Apperror
begin

text \<open>
  JSON documents: what \<open>encoding/json\<close> makes of the domain events, whose structs have no tags, so that the keys are
  the names of the fields; and what a \<open>JSONB\<close> column keeps of a document.
\<close>

section \<open>Values\<close>

text \<open>Numbers are not interpreted, and the escapes of the text form are resolved.\<close>

datatype json = JNull | JBool bool | JNum string | JStr string | JArr "json list" | JObj "(string \<times> json) list"

definition json_str :: "string \<Rightarrow> json" where
  "json_str s = JStr (to_utf8 s)"

definition json_int :: "int \<Rightarrow> json" where
  "json_int i = JNum (Itoa i)"

definition json_time :: "time \<Rightarrow> json" where
  "json_time t = JStr (RFC3339Nano t)"

definition json_time_ptr :: "time_ptr \<Rightarrow> json" where
  "json_time_ptr p = (case p of None \<Rightarrow> JNull | Some t \<Rightarrow> json_time t)"

text \<open>\<open>netip.Addr.MarshalText\<close>: the zero address has an empty text.\<close>

definition json_addr :: "addr \<Rightarrow> json" where
  "json_addr a = (case a of NoAddr \<Rightarrow> JStr '''' | _ \<Rightarrow> json_str (addr_String a))"

text \<open>A time is encoded only within the years 0 to 9999 and with a zone of less than a day.\<close>

definition time_encodable :: "time \<Rightarrow> bool" where
  "time_encodable t \<longleftrightarrow> 0 \<le> time_year t \<and> time_year t \<le> 9999 \<and> \<bar>zone_offset (loc t)\<bar> div 3600 < 24"

section \<open>Events\<close>

fun event_json :: "domain_event \<Rightarrow> json" where
  "event_json (EvLoginFailed e) = JObj
     [(''CredentialID'', json_str (lf_CredentialID e)), (''IdentityID'', json_str (lf_IdentityID e)),
      (''CompanyCode'', json_str (lf_CompanyCode e)), (''Reason'', json_str (lf_Reason e)),
      (''FailedAttemptCount'', json_int (lf_FailedAttemptCount e)), (''IPAddress'', json_addr (lf_IPAddress e)),
      (''UserAgent'', json_str (lf_UserAgent e)), (''DeviceFingerprint'', json_str (lf_DeviceFingerprint e)),
      (''At'', json_time (lf_At e))]"
| "event_json (EvAccountLocked e) = JObj
     [(''CredentialID'', json_str (al_CredentialID e)), (''IdentityID'', json_str (al_IdentityID e)),
      (''LockoutType'', json_str (al_LockoutType e)), (''LockedUntil'', json_time_ptr (al_LockedUntil e)),
      (''TriggerIP'', json_addr (al_TriggerIP e)), (''FailedAttemptCount'', json_int (al_FailedAttemptCount e)),
      (''At'', json_time (al_At e))]"
| "event_json (EvAccountUnlocked e) = JObj
     [(''CredentialID'', json_str (au_CredentialID e)), (''IdentityID'', json_str (au_IdentityID e)),
      (''UnlockedBy'', json_str (au_UnlockedBy e)), (''PreviousLockoutType'', json_str (au_PreviousLockoutType e)),
      (''At'', json_time (au_At e))]"
| "event_json (EvPasswordChanged e) = JObj
     [(''CredentialID'', json_str (pc_CredentialID e)), (''IdentityID'', json_str (pc_IdentityID e)),
      (''ChangedBy'', json_str (pc_ChangedBy e)), (''ChangeType'', json_str (pc_ChangeType e)),
      (''At'', json_time (pc_At e))]"
| "event_json (EvPasswordResetCompleted e) = JObj
     [(''CredentialID'', json_str (pr_CredentialID e)), (''IdentityID'', json_str (pr_IdentityID e)),
      (''At'', json_time (pr_At e))]"
| "event_json (EvAdminInitiatedPasswordReset e) = JObj
     [(''CredentialID'', json_str (ar_CredentialID e)), (''IdentityID'', json_str (ar_IdentityID e)),
      (''InitiatedBy'', json_str (ar_InitiatedBy e)), (''At'', json_time (ar_At e))]"
| "event_json (EvSessionCreated e) = JObj
     [(''SessionID'', json_str (sc_SessionID e)), (''IdentityID'', json_str (sc_IdentityID e)),
      (''DeviceID'', json_str (sc_DeviceID e)), (''AAL'', json_str (sc_AAL e)),
      (''IPAddress'', json_addr (sc_IPAddress e)), (''IdleTimeout'', json_int (sc_IdleTimeout e)),
      (''AbsoluteExpiresAt'', json_time (sc_AbsoluteExpiresAt e)), (''At'', json_time (sc_At e))]"
| "event_json (EvSessionRevoked e) = JObj
     [(''SessionID'', json_str (sr_SessionID e)), (''IdentityID'', json_str (sr_IdentityID e)),
      (''Reason'', json_str (sr_Reason e)), (''RevokedBy'', json_str (sr_RevokedBy e)),
      (''At'', json_time (sr_At e))]"

fun event_times :: "domain_event \<Rightarrow> time list" where
  "event_times (EvAccountLocked e) = al_At e # (case al_LockedUntil e of Some t \<Rightarrow> [t] | None \<Rightarrow> [])"
| "event_times (EvSessionCreated e) = [sc_At e, sc_AbsoluteExpiresAt e]"
| "event_times e = [OccurredAt e]"

text \<open>Encoding fails only on a time.\<close>

definition marshal_event :: "domain_event \<Rightarrow> port_error + json" where
  "marshal_event e =
     (if list_all time_encodable (event_times e) then Inr (event_json e)
      else Inl (TextE ''json: error calling MarshalJSON for type time.Time''))"

section \<open>Binary JSON\<close>

text \<open>The column orders the keys by length and then by their bytes. The documents here repeat no key.\<close>

fun bytes_le :: "string \<Rightarrow> string \<Rightarrow> bool" where
  "bytes_le [] t = True"
| "bytes_le (a # s) [] = False"
| "bytes_le (a # s) (b # t) = (if a = b then bytes_le s t else (of_char a :: nat) < of_char b)"

definition key_le :: "string \<Rightarrow> string \<Rightarrow> bool" where
  "key_le k l \<longleftrightarrow> length k < length l \<or> (length k = length l \<and> bytes_le k l)"

fun insert_field :: "string \<times> json \<Rightarrow> (string \<times> json) list \<Rightarrow> (string \<times> json) list" where
  "insert_field f [] = [f]"
| "insert_field f (g # fs) = (if key_le (fst f) (fst g) then f # g # fs else g # insert_field f fs)"

primrec jsonb :: "json \<Rightarrow> json" where
  "jsonb JNull = JNull"
| "jsonb (JBool b) = JBool b"
| "jsonb (JNum n) = JNum n"
| "jsonb (JStr s) = JStr s"
| "jsonb (JArr js) = JArr (map jsonb js)"
| "jsonb (JObj fs) = JObj (foldr insert_field (map (map_prod id jsonb) fs) [])"

text \<open>No string of a document in the column contains a NUL.\<close>

primrec jsonb_ok :: "json \<Rightarrow> bool" where
  "jsonb_ok JNull = True"
| "jsonb_ok (JBool b) = True"
| "jsonb_ok (JNum n) = True"
| "jsonb_ok (JStr s) = (NUL \<notin> set s)"
| "jsonb_ok (JArr js) = list_all id (map jsonb_ok js)"
| "jsonb_ok (JObj fs) = list_all (\<lambda>(k, ok). NUL \<notin> set k \<and> ok) (map (map_prod id jsonb_ok) fs)"

definition json_field :: "string \<Rightarrow> json \<Rightarrow> json option" where
  "json_field k j = (case j of JObj fs \<Rightarrow> map_of fs k | _ \<Rightarrow> None)"

text \<open>Reading a field does not depend on the order of the keys.\<close>

lemma insert_field_set: "set (insert_field f fs) = insert f (set fs)"
  by (induction fs) auto

lemma insert_field_distinct: "distinct (map fst (insert_field f fs)) \<longleftrightarrow> fst f \<notin> fst ` set fs \<and> distinct (map fst fs)"
  by (induction fs) (auto simp: insert_field_set)

lemma sorted_fields: "set (foldr insert_field fs []) = set fs \<and> (distinct (map fst fs) \<longrightarrow> distinct (map fst (foldr insert_field fs [])))"
  by (induction fs) (auto simp: insert_field_set insert_field_distinct)

lemma sorted_map_of: "distinct (map fst fs) \<Longrightarrow> map_of (foldr insert_field fs []) = map_of fs"
  using sorted_fields [of fs] by (metis map_of_inject_set)

lemma json_field_jsonb:
  "distinct (map fst fs) \<Longrightarrow> json_field k (jsonb (JObj fs)) = map_option jsonb (json_field k (JObj fs))"
proof -
  assume "distinct (map fst fs)"
  then have "distinct (map fst (map (map_prod id jsonb) fs))" by (simp add: comp_def)
  then show ?thesis by (simp add: json_field_def sorted_map_of map_prod_def id_def map_of_map)
qed

text \<open>The document of an event as the column keeps it.\<close>

definition stored_event :: "domain_event \<Rightarrow> json" where
  "stored_event e = jsonb (event_json e)"

text \<open>What a consumer finds: the fields of the struct by their names, and no type of the event.\<close>

definition event_keys :: "domain_event \<Rightarrow> string list" where
  "event_keys e = (case event_json e of JObj fs \<Rightarrow> map fst fs | _ \<Rightarrow> [])"

lemma event_keys_distinct: "distinct (event_keys e)"
  by (cases e) (simp_all add: event_keys_def)

lemma event_field: "json_field k (stored_event e) = map_option jsonb (json_field k (event_json e))"
  using event_keys_distinct [of e] json_field_jsonb by (cases e) (simp_all add: event_keys_def stored_event_def del: jsonb.simps)

lemma jsonb_ok_field: "jsonb_ok j \<Longrightarrow> json_field k j = Some v \<Longrightarrow> jsonb_ok v"
  by (cases j) (auto simp: json_field_def list_all_iff dest!: map_of_SomeD)

lemma failed_company: "json_field ''CompanyCode'' (event_json (EvLoginFailed e)) = Some (json_str (lf_CompanyCode e))"
  by (simp add: json_field_def)

text \<open>A NUL in the company code of a failed login makes its event one that the column refuses.\<close>

lemma failed_event_refused: "NUL \<in> set (lf_CompanyCode e) \<Longrightarrow> \<not> jsonb_ok (event_json (EvLoginFailed e))"
  using jsonb_ok_field [OF _ failed_company] by (auto simp: json_str_def to_utf8_nul)

end
