(* ===== verification/World.thy ===== *)
theory World
  imports Ports Json
begin

text \<open>
  The state outside the use case: the tables of the database (\<open>migrations/\<close>), the keys of Redis, and
  what the environment will answer. Every call that leaves the process takes the next number; the
  environment decides by that number whether the call fails and with which text, what the clocks
  show, which identifiers and random bytes are drawn, and how a commit is answered. Theorems
  quantify over all environments.
\<close>


section \<open>Tables\<close>

record cred_row =
  cr_id :: string
  cr_identity_id :: string
  cr_password_hash :: string
  cr_password_salt :: string
  cr_password_algorithm :: string
  cr_password_version :: int
  cr_password_created_at :: time
  cr_password_expires_at :: time_ptr
  cr_force_password_change :: bool
  cr_failed_attempt_count :: int
  cr_last_failed_at :: time_ptr
  cr_lockout_status :: string
  cr_locked_at :: time_ptr
  cr_locked_until :: time_ptr
  cr_lockout_history_count :: int

record session_row =
  sn_id :: string
  sn_identity_id :: string
  sn_device_id :: "string option"
  sn_client_id :: string
  sn_status :: string
  sn_aal :: string
  sn_mfa_factors_used :: json
  sn_created_at :: time
  sn_last_activity_at :: time
  sn_idle_timeout_secs :: int
  sn_absolute_expires_at :: time
  sn_creation_ip :: string
  sn_creation_user_agent :: string
  sn_revoked_at :: time_ptr
  sn_revoke_reason :: "string option"

record family_row =
  fm_id :: string
  fm_session_id :: string
  fm_identity_id :: string
  fm_status :: string

record token_row =
  tr_family_id :: string
  tr_token_hash :: string
  tr_status :: string
  tr_client_id :: string
  tr_issued_at :: time
  tr_expires_at :: time
  tr_issuer_ip :: string

record device_row =
  dv_id :: string
  dv_identity_id :: string
  dv_fingerprint_hash :: string
  dv_fingerprint_version :: int
  dv_display_name :: string
  dv_trust_status :: string
  dv_registration_ip :: string
  dv_last_seen_at :: time
  dv_created_at :: time

record factor_row =
  mf_identity_id :: string
  mf_factor_type :: string
  mf_status :: string

record attempt_row =
  at_identity_id :: "string option"
  at_identifier_hash :: string
  at_outcome :: string
  at_failure_reason :: string
  at_ip_address :: string
  at_user_agent :: string
  at_device_fingerprint :: "string option"
  at_attempted_at :: time
  at_session_id :: "string option"
  at_mfa_factor_type :: "string option"

record outbox_row =
  ob_id :: string
  ob_aggregate_type :: string
  ob_aggregate_id :: string
  ob_event_type :: string
  ob_payload :: json
  ob_occurred_at :: time
  ob_published_at :: time_ptr
  ob_attempts :: int
  ob_last_error :: "string option"
  ob_created_at :: time

record database =
  db_credentials :: "cred_row list"
  db_sessions :: "session_row list"
  db_families :: "family_row list"
  db_tokens :: "token_row list"
  db_devices :: "device_row list"
  db_factors :: "factor_row list"
  db_attempts :: "attempt_row list"
  db_outbox :: "outbox_row list"

section \<open>Redis\<close>

text \<open>A key holds a counter or a JSON document; expiry is an instant in nanoseconds.\<close>

datatype redis_value = Counter int | Document json

record redis_entry =
  re_value :: redis_value
  re_expires :: "int option"

type_synonym redis_db = "(string \<times> redis_entry) list"

section \<open>The world\<close>

datatype commit_reply = Committed | CommitRefused string | CommitReplyLost string

record argon_call =
  ag_password :: string
  ag_salt :: string
  ag_params :: Argon2idParams
  ag_keyLen :: "32 word"

record world =
  w_db :: database
  w_redis :: redis_db
  w_argon :: "argon_call list"
  w_tick :: nat
  w_tx_start :: time
  w_fault :: "nat \<Rightarrow> string option"
  w_commit :: "nat \<Rightarrow> commit_reply"
  w_clock :: "nat \<Rightarrow> time"
  w_uuid :: "nat \<Rightarrow> string"
  w_random :: "nat \<Rightarrow> nat \<Rightarrow> string"

definition tick :: "world \<Rightarrow> world" where
  "tick w = w\<lparr>w_tick := Suc (w_tick w)\<rparr>"

definition ext :: "(world, 'a) port \<Rightarrow> (world, 'a) port" where
  "ext body w = (case w_fault w (w_tick w) of
      Some msg \<Rightarrow> (Inl (DriverE msg), tick w)
    | None \<Rightarrow> body (tick w))"

definition wrap_err :: "string \<Rightarrow> (world, 'a) port \<Rightarrow> (world, 'a) port" where
  "wrap_err msg m w = (case m w of (Inl e, w1) \<Rightarrow> (Inl (WrapE msg e), w1) | (Inr x, w1) \<Rightarrow> (Inr x, w1))"

text \<open>A statement that cannot fail but by a fault: what it returns and what it does to the tables.\<close>

definition sql :: "(world \<Rightarrow> 'a \<times> database) \<Rightarrow> (world, 'a) port" where
  "sql f = ext (\<lambda>w. case f w of (x, db) \<Rightarrow> (Inr x, w\<lparr>w_db := db\<rparr>))"

definition query :: "(database \<Rightarrow> 'a) \<Rightarrow> (world, 'a) port" where
  "query f = ext (\<lambda>w. (Inr (f (w_db w)), w))"

definition exec :: "(world \<Rightarrow> database) \<Rightarrow> (world, unit) port" where
  "exec f = ext (\<lambda>w. (Inr (), w\<lparr>w_db := f w\<rparr>))"

text \<open>A statement that a constraint of the table can refuse.\<close>

definition exec_if :: "(database \<Rightarrow> bool) \<Rightarrow> string \<Rightarrow> (world \<Rightarrow> database) \<Rightarrow> (world, unit) port" where
  "exec_if ok msg f = ext (\<lambda>w. if ok (w_db w) then (Inr (), w\<lparr>w_db := f w\<rparr>) else (Inl (DriverE msg), w))"

text \<open>A statement whose text arguments have to be text for the server.\<close>

definition with_text :: "string list \<Rightarrow> (world, 'a) port \<Rightarrow> (world, 'a) port" where
  "with_text args m w = (if list_all pg_text args then m w
     else ext (\<lambda>u. (Inl (DriverE ''invalid byte sequence for encoding UTF8''), u)) w)"

definition update_where :: "('r \<Rightarrow> bool) \<Rightarrow> ('r \<Rightarrow> 'r) \<Rightarrow> 'r list \<Rightarrow> 'r list" where
  "update_where p f rows = map (\<lambda>r. if p r then f r else r) rows"

text \<open>A column of type \<open>TIMESTAMPTZ\<close> keeps microseconds, one of type \<open>INT\<close> four bytes.\<close>

definition timestamptz :: "time \<Rightarrow> time" where
  "timestamptz t = \<lparr>nanos = nanos t - nanos t mod 1000, loc = UTC\<rparr>"

definition int4 :: "int \<Rightarrow> bool" where
  "int4 i \<longleftrightarrow> - (2 ^ 31) \<le> i \<and> i < 2 ^ 31"

section \<open>Laws of statements\<close>

lemma tick_sel [simp]:
  "w_db (tick w) = w_db w" "w_redis (tick w) = w_redis w" "w_argon (tick w) = w_argon w"
  "w_tick (tick w) = Suc (w_tick w)" "w_tx_start (tick w) = w_tx_start w" "w_fault (tick w) = w_fault w"
  "w_commit (tick w) = w_commit w" "w_clock (tick w) = w_clock w" "w_uuid (tick w) = w_uuid w"
  "w_random (tick w) = w_random w"
  by (simp_all add: tick_def)

text \<open>What a statement cannot touch: everything but the tables and the number of the next call.\<close>

definition db_frame :: "world \<Rightarrow> world \<Rightarrow> bool" where
  "db_frame w w' \<longleftrightarrow> w_redis w' = w_redis w \<and> w_argon w' = w_argon w \<and> w_tick w \<le> w_tick w'
     \<and> w_tx_start w' = w_tx_start w \<and> w_fault w' = w_fault w \<and> w_commit w' = w_commit w
     \<and> w_clock w' = w_clock w \<and> w_uuid w' = w_uuid w \<and> w_random w' = w_random w"

definition framed :: "(world, 'a) port \<Rightarrow> bool" where
  "framed m \<longleftrightarrow> (\<forall>w. db_frame w (snd (m w)))"

named_theorems framed_intros

lemma db_frame_refl [simp]: "db_frame w w"
  by (simp add: db_frame_def)

lemma db_frame_trans: "db_frame u v \<Longrightarrow> db_frame v w \<Longrightarrow> db_frame u w"
  by (simp add: db_frame_def)

lemma db_frame_tick: "db_frame (tick w) w' \<Longrightarrow> db_frame w w'"
  by (simp add: db_frame_def)

lemma db_frame_db [simp]: "db_frame w (w'\<lparr>w_db := d\<rparr>) = db_frame w w'"
  by (simp add: db_frame_def)

lemma framedD: "framed m \<Longrightarrow> m w = (r, w') \<Longrightarrow> db_frame w w'"
  by (auto simp: framed_def dest: spec [of _ w])

lemma framed_preturn [framed_intros]: "framed (preturn x)"
  by (simp add: framed_def preturn_def)

lemma framed_pbind [framed_intros]:
  assumes "framed m" "\<And>x. framed (f x)"
  shows "framed (pbind m f)"
  unfolding framed_def
proof
  fix w
  show "db_frame w (snd (pbind m f w))"
  proof (cases "m w")
    case (Pair r w1)
    with assms(1) have "db_frame w w1" by (rule framedD)
    moreover have "db_frame w1 (snd (f x w1))" for x using assms(2) by (simp add: framed_def)
    ultimately show ?thesis using Pair db_frame_trans by (auto simp: pbind_def split: sum.split)
  qed
qed

lemma framed_ext: "(\<And>w. db_frame w (snd (body w))) \<Longrightarrow> framed (ext body)"
  by (auto simp: framed_def ext_def db_frame_tick split: option.split)

lemma framed_sql [framed_intros]: "framed (sql f)"
  unfolding sql_def by (rule framed_ext) (simp split: prod.split)

lemma framed_query [framed_intros]: "framed (query f)"
  unfolding query_def by (rule framed_ext) simp

lemma framed_exec [framed_intros]: "framed (exec f)"
  unfolding exec_def by (rule framed_ext) simp

lemma framed_exec_if [framed_intros]: "framed (exec_if p msg f)"
  unfolding exec_if_def by (rule framed_ext) simp

lemma framed_with_text [framed_intros]: "framed m \<Longrightarrow> framed (with_text args m)"
  by (simp add: framed_def with_text_def ext_def db_frame_tick split: option.split)

lemma framed_wrap_err [framed_intros]: "framed m \<Longrightarrow> framed (wrap_err msg m)"
  by (simp add: framed_def wrap_err_def split: prod.split sum.split) (metis snd_conv)

end
