(* ===== verification/Postgres.thy ===== *)
theory Postgres
  imports World
begin

text \<open>
  The Postgres adapter of the login feature (\<open>repository/db\<close>) and \<open>outbox.InsertEvents\<close>. A query is
  the statement of the source over lists of rows; a table's primary key, unique and foreign keys
  refuse a row as the migrations say. Identifiers are compared as text, and a JSON column holds the
  value of the document.
\<close>

section \<open>Credentials\<close>

definition cred_of_row :: "cred_row \<Rightarrow> port_error + Credential" where
  "cred_of_row r =
     (case NewPasswordHash (cr_password_hash r) (cr_password_salt r) (cr_password_algorithm r) (cr_password_version r) of
        Inl e \<Rightarrow> Inl (WrapE ''login/db: rehydrate password hash'' (DomainE e))
      | Inr passwordHash \<Rightarrow>
          (case RehydrateCredential
                  \<lparr>cs_ID = cr_id r, cs_IdentityID = cr_identity_id r, cs_Password = passwordHash,
                   cs_PasswordCreatedAt = cr_password_created_at r, cs_PasswordExpiresAt = cr_password_expires_at r,
                   cs_ForcePasswordChange = cr_force_password_change r, cs_FailedAttemptCount = cr_failed_attempt_count r,
                   cs_LastFailedAt = cr_last_failed_at r, cs_LockoutStatus = cr_lockout_status r,
                   cs_LockedAt = cr_locked_at r, cs_LockedUntil = cr_locked_until r,
                   cs_LockoutHistoryCount = cr_lockout_history_count r, cs_History = []\<rparr>
                  DefaultCredentialPolicy of
             Inl e \<Rightarrow> Inl (DomainE e)
           | Inr c \<Rightarrow> Inr c))"

definition findCredentialByIdentity :: "string \<Rightarrow> (world, Credential) port" where
  "findCredentialByIdentity identityID =
     pbind (wrap_err ''login/db: find credential''
             (query (\<lambda>db. find (\<lambda>r. cr_identity_id r = identityID) (db_credentials db))))
       (\<lambda>row w. case row of
          None \<Rightarrow> (Inl (DomainE (Err ErrCredentialNotFound Plain)), w)
        | Some r \<Rightarrow> (cred_of_row r, w))"

definition row_of_cred :: "CredentialSnapshot \<Rightarrow> cred_row \<Rightarrow> cred_row" where
  "row_of_cred snap r = r
     \<lparr>cr_password_hash := ph_hash (cs_Password snap), cr_password_salt := ph_salt (cs_Password snap),
      cr_password_created_at := timestamptz (cs_PasswordCreatedAt snap),
      cr_password_expires_at := map_option timestamptz (cs_PasswordExpiresAt snap),
      cr_force_password_change := cs_ForcePasswordChange snap,
      cr_failed_attempt_count := cs_FailedAttemptCount snap,
      cr_last_failed_at := map_option timestamptz (cs_LastFailedAt snap),
      cr_lockout_status := cs_LockoutStatus snap,
      cr_locked_at := map_option timestamptz (cs_LockedAt snap),
      cr_locked_until := map_option timestamptz (cs_LockedUntil snap),
      cr_lockout_history_count := cs_LockoutHistoryCount snap\<rparr>"

definition txCredentials_Save :: "Credential \<Rightarrow> (world, unit) port" where
  "txCredentials_Save c =
     (let snap = Credential_Snapshot c in
      wrap_err ''login/db: save credential''
        (with_text [ph_hash (cs_Password snap), ph_salt (cs_Password snap), cs_LockoutStatus snap] (exec_if (\<lambda>_. int4 (cs_FailedAttemptCount snap) \<and> int4 (cs_LockoutHistoryCount snap)) ''integer out of range''
           (\<lambda>w. (w_db w)\<lparr>db_credentials :=
              update_where (\<lambda>r. cr_id r = cs_ID snap) (row_of_cred snap) (db_credentials (w_db w))\<rparr>))))"

section \<open>Sessions\<close>

text \<open>The factors as a JSON array of strings; encoding it cannot fail.\<close>

definition marshalFactors :: "FactorType list \<Rightarrow> json" where
  "marshalFactors factors = JArr (map json_str factors)"

text \<open>
  Decoding into a slice of strings: \<open>null\<close> gives no elements and as an element the empty string, any
  other value that is no string is an error.
\<close>

fun unmarshal_strings :: "json list \<Rightarrow> port_error + string list" where
  "unmarshal_strings [] = Inr []"
| "unmarshal_strings (j # js) = (case unmarshal_strings js of
      Inl e \<Rightarrow> Inl e
    | Inr ss \<Rightarrow> (case j of JStr s \<Rightarrow> Inr (s # ss) | JNull \<Rightarrow> Inr ('''' # ss) | _ \<Rightarrow> Inl (TextE ''json: cannot unmarshal'')))"

definition unmarshalFactors :: "json \<Rightarrow> port_error + FactorType list" where
  "unmarshalFactors j =
     (case (case j of JArr js \<Rightarrow> unmarshal_strings js | JNull \<Rightarrow> Inr [] | _ \<Rightarrow> Inl (TextE ''json: cannot unmarshal'')) of
        Inl e \<Rightarrow> Inl (WrapE ''login/db: unmarshal factors'' e)
      | Inr raw \<Rightarrow> Inr raw)"

lemma unmarshal_marshal: "list_all valid_utf8 fs \<Longrightarrow> unmarshalFactors (marshalFactors fs) = Inr fs"
proof -
  assume "list_all valid_utf8 fs"
  then have "unmarshal_strings (map json_str fs) = Inr fs" by (induction fs) (simp_all add: json_str_def to_utf8_id)
  then show ?thesis by (simp add: unmarshalFactors_def marshalFactors_def)
qed

lemma jsonb_factors [simp]: "jsonb (marshalFactors fs) = marshalFactors fs"
  by (simp add: marshalFactors_def json_str_def)

definition row_of_session :: "AuthenticationSession \<Rightarrow> string \<Rightarrow> session_row" where
  "row_of_session s clientID =
     (let snap = Session_Snapshot s in
      \<lparr>sn_id = ss_ID snap, sn_identity_id = ss_IdentityID snap,
       sn_device_id = (if ss_DeviceID snap \<noteq> '''' then Some (ss_DeviceID snap) else None),
       sn_client_id = clientID, sn_status = ss_Status snap, sn_aal = ss_AAL snap,
       sn_mfa_factors_used = jsonb (marshalFactors (ss_FactorsUsed snap)), sn_created_at = timestamptz (ss_CreatedAt snap),
       sn_last_activity_at = timestamptz (ss_LastActivityAt snap),
       sn_idle_timeout_secs = whole_seconds (ss_IdleTimeout snap),
       sn_absolute_expires_at = timestamptz (ss_AbsoluteExpiresAt snap),
       sn_creation_ip = addr_String (ci_IP (ss_Client snap)),
       sn_creation_user_agent = ci_UserAgent (ss_Client snap),
       sn_revoked_at = None, sn_revoke_reason = None\<rparr>)"

definition txSessions_Create :: "AuthenticationSession \<Rightarrow> string \<Rightarrow> (world, unit) port" where
  "txSessions_Create s clientID =
     (let row = row_of_session s clientID in
      wrap_err ''login/db: create session''
        (with_text [sn_client_id row, sn_status row, sn_aal row, sn_creation_ip row, sn_creation_user_agent row]
          (exec_if (\<lambda>db. sn_id row \<notin> sn_id ` set (db_sessions db) \<and> int4 (sn_idle_timeout_secs row)
                      \<and> jsonb_ok (sn_mfa_factors_used row))
             ''authentication_sessions''
             (\<lambda>w. (w_db w)\<lparr>db_sessions := db_sessions (w_db w) @ [row]\<rparr>))))"

definition revoke_row :: "SessionSnapshot \<Rightarrow> session_row \<Rightarrow> session_row" where
  "revoke_row snap r = r
     \<lparr>sn_status := ss_Status snap, sn_revoked_at := map_option timestamptz (ss_RevokedAt snap),
      sn_revoke_reason := (if ss_RevokeReason snap \<noteq> '''' then Some (ss_RevokeReason snap) else None)\<rparr>"

definition txSessions_Revoke :: "AuthenticationSession \<Rightarrow> (world, unit) port" where
  "txSessions_Revoke s =
     (let snap = Session_Snapshot s in
      wrap_err ''login/db: revoke session''
        (with_text [ss_Status snap, ss_RevokeReason snap] (exec (\<lambda>w. (w_db w)\<lparr>db_sessions :=
           update_where (\<lambda>r. sn_id r = ss_ID snap) (revoke_row snap) (db_sessions (w_db w))\<rparr>))))"

definition is_active_row :: "string \<Rightarrow> string \<Rightarrow> session_row \<Rightarrow> bool" where
  "is_active_row identityID clientID r \<longleftrightarrow>
     sn_identity_id r = identityID \<and> sn_client_id r = clientID \<and> sn_status r = ''ACTIVE''"

definition active_rows :: "string \<Rightarrow> string \<Rightarrow> database \<Rightarrow> session_row list" where
  "active_rows identityID clientID db =
     sort_key (\<lambda>r. nanos (sn_created_at r)) (filter (is_active_row identityID clientID) (db_sessions db))"

definition scanSessionRow :: "session_row \<Rightarrow> port_error + AuthenticationSession" where
  "scanSessionRow r =
     (case unmarshalFactors (sn_mfa_factors_used r) of Inl e \<Rightarrow> Inl e | Inr factors \<Rightarrow>
     (case ParseAddr (sn_creation_ip r) of
        None \<Rightarrow> Inl (WrapE (''parse creation_ip '' @ sn_creation_ip r) (TextE ''ParseAddr''))
      | Some ip \<Rightarrow>
          (case RehydrateSession
                  \<lparr>ss_ID = sn_id r, ss_IdentityID = sn_identity_id r,
                   ss_DeviceID = (case sn_device_id r of None \<Rightarrow> '''' | Some d \<Rightarrow> d),
                   ss_Status = sn_status r, ss_AAL = sn_aal r, ss_FactorsUsed = factors,
                   ss_CreatedAt = sn_created_at r, ss_LastActivityAt = sn_last_activity_at r,
                   ss_IdleTimeout = seconds (sn_idle_timeout_secs r),
                   ss_AbsoluteExpiresAt = sn_absolute_expires_at r, ss_RevokedAt = sn_revoked_at r,
                   ss_RevokeReason = (case sn_revoke_reason r of None \<Rightarrow> '''' | Some x \<Rightarrow> x),
                   ss_Client = \<lparr>ci_IP = ip, ci_UserAgent = sn_creation_user_agent r\<rparr>\<rparr> of
             Inl e \<Rightarrow> Inl (DomainE e)
           | Inr s \<Rightarrow> Inr s)))"

definition txSessions_CountActive :: "string \<Rightarrow> string \<Rightarrow> (world, int) port" where
  "txSessions_CountActive identityID clientID =
     wrap_err ''login/db: count active sessions''
       (with_text [clientID] (query (\<lambda>db. int (length (filter (is_active_row identityID clientID) (db_sessions db))))))"

text \<open>Among rows of the same creation time the first of the table is taken.\<close>

definition txSessions_FindOldestActive :: "string \<Rightarrow> string \<Rightarrow> (world, AuthenticationSession option) port" where
  "txSessions_FindOldestActive identityID clientID =
     wrap_err ''login/db: find oldest active session''
       (pbind (with_text [clientID] (query (active_rows identityID clientID))) (\<lambda>rows w.
          case rows of
            [] \<Rightarrow> (Inr None, w)
          | r # _ \<Rightarrow> (case scanSessionRow r of Inl e \<Rightarrow> (Inl e, w) | Inr s \<Rightarrow> (Inr (Some s), w))))"

fun scan_all :: "session_row list \<Rightarrow> port_error + AuthenticationSession list" where
  "scan_all [] = Inr []"
| "scan_all (r # rs) = (case scanSessionRow r of
      Inl e \<Rightarrow> Inl (WrapE ''login/db: scan active session'' e)
    | Inr s \<Rightarrow> (case scan_all rs of Inl e \<Rightarrow> Inl e | Inr ss \<Rightarrow> Inr (s # ss)))"

definition txSessions_ListActive :: "string \<Rightarrow> string \<Rightarrow> (world, AuthenticationSession list) port" where
  "txSessions_ListActive identityID clientID =
     pbind (wrap_err ''login/db: list active sessions'' (with_text [clientID] (query (active_rows identityID clientID))))
       (\<lambda>rows w. (scan_all rows, w))"

section \<open>Refresh tokens\<close>

definition txRefreshTokens_CreateFamily :: "string \<Rightarrow> string \<Rightarrow> string \<Rightarrow> (world, unit) port" where
  "txRefreshTokens_CreateFamily familyID sessionID identityID =
     wrap_err ''login/db: create refresh token family''
       (exec_if (\<lambda>db. familyID \<notin> fm_id ` set (db_families db) \<and> sessionID \<in> sn_id ` set (db_sessions db))
          ''refresh_token_families''
          (\<lambda>w. (w_db w)\<lparr>db_families := db_families (w_db w) @
             [\<lparr>fm_id = familyID, fm_session_id = sessionID, fm_identity_id = identityID, fm_status = ''ACTIVE''\<rparr>]\<rparr>))"

definition txRefreshTokens_CreateToken :: "RefreshTokenRecord \<Rightarrow> (world, unit) port" where
  "txRefreshTokens_CreateToken r =
     wrap_err ''login/db: create refresh token''
       (with_text [rtr_TokenHash r, rtr_ClientID r, rtr_IssuerIP r]
         (exec_if (\<lambda>db. rtr_FamilyID r \<in> fm_id ` set (db_families db)
                    \<and> rtr_TokenHash r \<notin> tr_token_hash ` set (db_tokens db))
          ''refresh_tokens''
          (\<lambda>w. (w_db w)\<lparr>db_tokens := db_tokens (w_db w) @
             [\<lparr>tr_family_id = rtr_FamilyID r, tr_token_hash = rtr_TokenHash r, tr_status = ''ACTIVE'',
               tr_client_id = rtr_ClientID r, tr_issued_at = timestamptz (rtr_IssuedAt r),
               tr_expires_at = timestamptz (rtr_ExpiresAt r), tr_issuer_ip = rtr_IssuerIP r\<rparr>]\<rparr>)))"

section \<open>Devices\<close>

definition FindByFingerprint :: "string \<Rightarrow> string \<Rightarrow> (world, RegisteredDevice option) port" where
  "FindByFingerprint identityID fingerprintHash =
     wrap_err ''login/db: find device''
       (with_text [fingerprintHash] (query (\<lambda>db. map_option (\<lambda>r. \<lparr>rd_ID = dv_id r, rd_TrustStatus = dv_trust_status r, rd_LastSeenAt = dv_last_seen_at r\<rparr>)
          (find (\<lambda>r. dv_identity_id r = identityID \<and> dv_fingerprint_hash r = fingerprintHash
                    \<and> dv_trust_status r \<noteq> ''REVOKED'') (db_devices db)))))"

text \<open>\<open>ON CONFLICT DO NOTHING\<close> returns no row, which is the empty identifier.\<close>

definition txDevices_Register :: "string \<Rightarrow> string \<Rightarrow> int \<Rightarrow> string \<Rightarrow> string \<Rightarrow> time \<Rightarrow> (world, string) port" where
  "txDevices_Register identityID fingerprintHash fingerprintVersion displayName registrationIP now =
     wrap_err ''login/db: register device''
       (with_text [fingerprintHash, displayName, registrationIP] (sql (\<lambda>w.
          if list_ex (\<lambda>r. dv_identity_id r = identityID \<and> dv_fingerprint_hash r = fingerprintHash) (db_devices (w_db w))
          then ('''', w_db w)
          else let newID = w_uuid w (w_tick w) in
            (newID, (w_db w)\<lparr>db_devices := db_devices (w_db w) @
               [\<lparr>dv_id = newID, dv_identity_id = identityID, dv_fingerprint_hash = fingerprintHash,
                 dv_fingerprint_version = fingerprintVersion, dv_display_name = displayName,
                 dv_trust_status = ''REGISTERED'', dv_registration_ip = registrationIP,
                 dv_last_seen_at = timestamptz now, dv_created_at = timestamptz now\<rparr>]\<rparr>))))"

definition txDevices_Touch :: "string \<Rightarrow> time \<Rightarrow> (world, unit) port" where
  "txDevices_Touch deviceID at_time =
     wrap_err ''login/db: touch device''
       (exec (\<lambda>w. (w_db w)\<lparr>db_devices :=
          update_where (\<lambda>r. dv_id r = deviceID) (\<lambda>r. r\<lparr>dv_last_seen_at := timestamptz at_time\<rparr>) (db_devices (w_db w))\<rparr>))"

section \<open>MFA factors\<close>

definition toDomainFactorType :: "string \<Rightarrow> FactorType option" where
  "toDomainFactorType raw =
     (if raw = FactorTOTP \<or> raw = FactorSMSOTP \<or> raw = FactorFIDO2 \<or> raw = FactorPasskey then Some raw else None)"

definition active_factor :: "string \<Rightarrow> factor_row \<Rightarrow> bool" where
  "active_factor identityID r \<longleftrightarrow> mf_identity_id r = identityID \<and> mf_status r = ''ACTIVE''"

definition ListActiveFactorTypes :: "string \<Rightarrow> (world, FactorType list) port" where
  "ListActiveFactorTypes identityID =
     wrap_err ''login/db: list active factor types''
       (query (\<lambda>db. List.map_filter toDomainFactorType
          (remdups (map mf_factor_type (filter (active_factor identityID) (db_factors db))))))"

definition HasActiveFactor :: "string \<Rightarrow> (world, bool) port" where
  "HasActiveFactor identityID =
     wrap_err ''login/db: has active factor'' (query (\<lambda>db. list_ex (active_factor identityID) (db_factors db)))"

section \<open>Login attempts\<close>

definition nullIfEmpty :: "string \<Rightarrow> string option" where
  "nullIfEmpty s = (if s = '''' then None else Some s)"

definition row_of_attempt :: "LoginAttemptRecord \<Rightarrow> attempt_row" where
  "row_of_attempt a =
     \<lparr>at_identity_id = lar_IdentityID a, at_identifier_hash = lar_IdentifierHash a, at_outcome = lar_Outcome a,
      at_failure_reason = lar_FailureReason a, at_ip_address = lar_IPAddress a, at_user_agent = lar_UserAgent a,
      at_device_fingerprint = nullIfEmpty (lar_DeviceFingerprint a), at_attempted_at = timestamptz (lar_AttemptedAt a),
      at_session_id = lar_SessionID a, at_mfa_factor_type = nullIfEmpty (lar_MFAFactorType a)\<rparr>"

definition attempt_texts :: "attempt_row \<Rightarrow> string list" where
  "attempt_texts r = [at_identifier_hash r, at_outcome r, at_failure_reason r, at_ip_address r, at_user_agent r]
     @ (case at_device_fingerprint r of Some f \<Rightarrow> [f] | None \<Rightarrow> []) @ (case at_mfa_factor_type r of Some f \<Rightarrow> [f] | None \<Rightarrow> [])"

definition recordLoginAttempt :: "LoginAttemptRecord \<Rightarrow> (world, unit) port" where
  "recordLoginAttempt a =
     wrap_err ''login/db: record login attempt''
       (with_text (attempt_texts (row_of_attempt a))
         (exec (\<lambda>w. (w_db w)\<lparr>db_attempts := db_attempts (w_db w) @ [row_of_attempt a]\<rparr>)))"

section \<open>Outbox\<close>

record OutboxEvent =
  oe_ID :: string
  oe_AggregateType :: string
  oe_AggregateID :: string
  oe_EventType :: string
  oe_Payload :: json
  oe_OccurredAt :: time

text \<open>The columns of a new row; the creation time is the start of the transaction.\<close>

definition row_of_event :: "OutboxEvent \<Rightarrow> time \<Rightarrow> outbox_row" where
  "row_of_event e now = \<lparr>ob_id = oe_ID e, ob_aggregate_type = oe_AggregateType e, ob_aggregate_id = oe_AggregateID e,
     ob_event_type = oe_EventType e, ob_payload = jsonb (oe_Payload e), ob_occurred_at = timestamptz (oe_OccurredAt e),
     ob_published_at = None, ob_attempts = 0, ob_last_error = None, ob_created_at = now\<rparr>"

fun InsertEvents :: "OutboxEvent list \<Rightarrow> (world, unit) port" where
  "InsertEvents [] = preturn ()"
| "InsertEvents (e # es) =
     pbind (wrap_err (''outbox: insert event '' @ oe_EventType e)
       (with_text [oe_AggregateType e, oe_AggregateID e, oe_EventType e]
         (exec_if (\<lambda>db. oe_ID e \<notin> ob_id ` set (db_outbox db) \<and> jsonb_ok (oe_Payload e)) ''outbox_events''
            (\<lambda>w. (w_db w)\<lparr>db_outbox := db_outbox (w_db w) @ [row_of_event e (w_tx_start w)]\<rparr>))))
       (\<lambda>_. InsertEvents es)"

text \<open>\<open>uuid.NewString\<close> for each event.\<close>

definition newID :: "world \<Rightarrow> string \<times> world" where
  "newID w = (w_uuid w (w_tick w), tick w)"

fun outbox_events :: "domain_event list \<Rightarrow> (world, OutboxEvent list) port" where
  "outbox_events [] w = (Inr [], w)"
| "outbox_events (e # es) w =
     (case marshal_event e of
        Inl x \<Rightarrow> (Inl (WrapE (''login/db: marshal event '' @ EventType e) x), w)
      | Inr payload \<Rightarrow>
          (let (i, w1) = newID w in
           case outbox_events es w1 of
             (Inl x, w2) \<Rightarrow> (Inl x, w2)
           | (Inr rows, w2) \<Rightarrow>
               (Inr (\<lparr>oe_ID = i, oe_AggregateType = AggregateType e, oe_AggregateID = AggregateID e, oe_EventType = EventType e,
                  oe_Payload = payload, oe_OccurredAt = OccurredAt e\<rparr> # rows), w2)))"

definition txOutbox_Append :: "domain_event list \<Rightarrow> (world, unit) port" where
  "txOutbox_Append events w =
     (if length events = 0 then (Inr (), w)
      else pbind (outbox_events events) InsertEvents w)"

section \<open>Transactions\<close>

definition tx_repositories :: "world TxRepositories" where
  "tx_repositories =
     \<lparr>r_Credentials_Save = txCredentials_Save,
      r_Sessions = \<lparr>tx_Create = txSessions_Create, tx_Revoke = txSessions_Revoke,
        tx_CountActive = txSessions_CountActive, tx_FindOldestActive = txSessions_FindOldestActive,
        tx_ListActive = txSessions_ListActive\<rparr>,
      r_CreateFamily = txRefreshTokens_CreateFamily, r_CreateToken = txRefreshTokens_CreateToken,
      r_Devices_Register = txDevices_Register, r_Devices_Touch = txDevices_Touch,
      r_LoginAttempts_Record = recordLoginAttempt, r_Outbox_Append = txOutbox_Append\<rparr>"

text \<open>
  An error of the closure rolls back. A commit can be refused, which rolls back, or its reply can be
  lost, in which case the caller sees an error although the writes are durable.
\<close>

definition Execute :: "(world TxRepositories \<Rightarrow> (world, unit) port) \<Rightarrow> (world, unit) port" where
  "Execute fn w =
     (case wrap_err ''login/db: begin tx'' (ext (\<lambda>u. (Inr (w_clock u (w_tick u)), u))) w of
        (Inl e, w1) \<Rightarrow> (Inl e, w1)
      | (Inr start, w1) \<Rightarrow>
          (case fn tx_repositories (w1\<lparr>w_tx_start := start\<rparr>) of
             (Inl e, w2) \<Rightarrow> (Inl e, (tick w2)\<lparr>w_db := w_db w\<rparr>)
           | (Inr _, w2) \<Rightarrow>
               (case w_commit w2 (w_tick w2) of
                  Committed \<Rightarrow> (Inr (), tick w2)
                | CommitRefused msg \<Rightarrow> (Inl (WrapE ''login/db: commit tx'' (DriverE msg)), (tick w2)\<lparr>w_db := w_db w\<rparr>)
                | CommitReplyLost msg \<Rightarrow> (Inl (WrapE ''login/db: commit tx'' (DriverE msg)), tick w2))))"

end
