(* ===== verification/Login.thy ===== *)
theory Login
  imports Ports
begin

text \<open>
  The login use case of \<open>usecase/login.go\<close>. \<open>rt\<close> holds the libraries it calls and \<open>deps\<close> its ports.
  An outcome is the returned application error or result; \<open>None\<close> is a panic of the credential
  aggregate. The state after the call is returned in every case.
\<close>

type_synonym 'w login = "(AppError + LoginResult) option \<times> 'w"

definition maxPasswordLen :: nat where "maxPasswordLen = 128"

section \<open>Helpers\<close>

definition attempt_record ::
  "string option \<Rightarrow> string \<Rightarrow> string \<Rightarrow> LoginInput \<Rightarrow> string \<Rightarrow> string option \<Rightarrow> time \<Rightarrow> LoginAttemptRecord" where
  "attempt_record identityID identifierHash outcome inp fingerprintHash sessionID now =
     \<lparr>lar_IdentityID = identityID, lar_IdentifierHash = identifierHash, lar_Outcome = outcome,
      lar_FailureReason = '''', lar_IPAddress = ipString (li_IP inp), lar_UserAgent = li_UserAgent inp,
      lar_DeviceFingerprint = fingerprintHash, lar_SessionID = sessionID, lar_MFAFactorType = '''',
      lar_AttemptedAt = now\<rparr>"

definition recordAttemptBestEffort :: "'w Dependencies \<Rightarrow> LoginAttemptRecord \<Rightarrow> 'w \<Rightarrow> 'w" where
  "recordAttemptBestEffort deps r w = snd (d_LoginAttempts_Record deps r w)"

text \<open>\<open>Inr (Some e)\<close> is a refusal, \<open>Inr None\<close> lets the request pass.\<close>

definition checkRateLimit ::
  "'w Dependencies \<Rightarrow> string \<Rightarrow> string \<Rightarrow> 'w \<Rightarrow> (AppError + AppError option) \<times> 'w" where
  "checkRateLimit deps ip identifierHash w =
     (let rl = uc_RateLimit (d_Config deps) in
      case d_Allow deps (''ratelimit:login:ip:'' @ ip) (rl_IPMaxAttempts rl) (rl_IPWindow rl) w of
        (Inl e, w1) \<Rightarrow> (Inl (apperror_Wrap ErrSystemUpstream ''rate limit check'' e), w1)
      | (Inr (allowed, retryAfter), w1) \<Rightarrow>
          if \<not> allowed then (Inr (Some (RateLimited retryAfter)), w1)
          else case d_Allow deps (''ratelimit:login:identity:'' @ identifierHash @ '':'' @ ip)
                      (rl_IdentityMaxAttempts rl) (rl_IdentityWindow rl) w1 of
              (Inl e, w2) \<Rightarrow> (Inl (apperror_Wrap ErrSystemUpstream ''rate limit check'' e), w2)
            | (Inr (allowed, retryAfter), w2) \<Rightarrow>
                if \<not> allowed then (Inr (Some (RateLimited retryAfter)), w2) else (Inr None, w2))"

definition verifyPassword ::
  "'w Runtime \<Rightarrow> string \<Rightarrow> Credential \<Rightarrow> Argon2idParams \<Rightarrow> 'w \<Rightarrow> bool \<times> 'w" where
  "verifyPassword rt password cred params w =
     (let ph = c_password cred in
      if ph_algorithm ph = PasswordArgon2id
      then Verify (rt_IDKey rt) password (ph_hash ph) (ph_salt ph) params w
      else if ph_algorithm ph = PasswordBcrypt
      then (VerifyBcrypt (rt_bcrypt rt) password (ph_hash ph), w)
      else (False, w))"

definition randomOpaqueToken :: "'w Runtime \<Rightarrow> ('w, string) port" where
  "randomOpaqueToken rt w = (case rt_rand rt 32 w of
      (Inl e, w1) \<Rightarrow> (Inl (WrapE ''generate random token'' e), w1)
    | (Inr b, w1) \<Rightarrow> (Inr (b64_encode b64_url b), w1))"

definition invalid_credentials_error :: AppError where
  "invalid_credentials_error = apperror_New ErrLoginInvalidCredentials ''invalid credentials''"

section \<open>Refused logins\<close>

definition invalidCredentials ::
  "'w Runtime \<Rightarrow> 'w Dependencies \<Rightarrow> string option \<Rightarrow> string \<Rightarrow> string \<Rightarrow> string \<Rightarrow> LoginInput \<Rightarrow> time \<Rightarrow> 'w \<Rightarrow> 'w login" where
  "invalidCredentials rt deps identityID identifierHash fingerprintHash password inp now w =
     (let w1 = DummyVerify (rt_IDKey rt) password (uc_Argon2id (d_Config deps)) w;
          w2 = recordAttemptBestEffort deps
                 (attempt_record identityID identifierHash ''FAILED_CREDENTIALS'' inp fingerprintHash None now) w1
      in (Some (Inl invalid_credentials_error), w2))"

text \<open>The three statements that every recorded outcome of a known credential writes.\<close>

definition save_outcome ::
  "Credential \<Rightarrow> domain_event list \<Rightarrow> LoginAttemptRecord \<Rightarrow> 'w TxRepositories \<Rightarrow> ('w, unit) port" where
  "save_outcome cred events attempt r =
     pbind (r_Credentials_Save r cred) (\<lambda>_.
     pbind (r_Outbox_Append r events) (\<lambda>_.
     r_LoginAttempts_Record r attempt))"

definition failCredential ::
  "'w Dependencies \<Rightarrow> Credential \<Rightarrow> AttemptContext \<Rightarrow> string \<Rightarrow> string \<Rightarrow> string \<Rightarrow> LoginInput \<Rightarrow> time \<Rightarrow> 'w \<Rightarrow> 'w login" where
  "failCredential deps cred attempt identityID identifierHash fingerprintHash inp now w =
     (case RecordFailedAttempt attempt (uc_Lockout (d_Config deps)) now cred of
        None \<Rightarrow> (None, w)
      | Some (_, cred1) \<Rightarrow>
          (case Credential_PullEvents cred1 of (events, cred2) \<Rightarrow>
            (case d_Execute deps (save_outcome cred2 events
                    (attempt_record (Some identityID) identifierHash ''FAILED_CREDENTIALS'' inp fingerprintHash None now)) w of
               (Inl e, w1) \<Rightarrow> (Some (Inl (apperror_Wrap ErrSystemDatabase ''persist failed login attempt'' e)), w1)
             | (Inr _, w1) \<Rightarrow> (Some (Inl invalid_credentials_error), w1))))"

section \<open>Verified logins\<close>

definition completeForcedChange ::
  "'w Dependencies \<Rightarrow> Credential \<Rightarrow> string \<Rightarrow> string \<Rightarrow> string \<Rightarrow> LoginInput \<Rightarrow> time \<Rightarrow> 'w \<Rightarrow> 'w login" where
  "completeForcedChange deps cred identityID identifierHash fingerprintHash inp now w =
     (case d_SignRestrictedToken deps identityID ''password_change'' (uc_ForcedChangeWindow (d_Config deps)) w of
        (Inl e, w1) \<Rightarrow> (Some (Inl (apperror_Wrap ErrSystemInternal ''sign restricted token'' e)), w1)
      | (Inr token, w1) \<Rightarrow>
          (case Credential_PullEvents cred of (events, cred1) \<Rightarrow>
            (case d_Execute deps (save_outcome cred1 events
                    (attempt_record (Some identityID) identifierHash ''PASSWORD_CHANGE_REQUIRED'' inp fingerprintHash None now)) w1 of
               (Inl e, w2) \<Rightarrow>
                 (Some (Inl (apperror_Wrap ErrSystemDatabase ''persist password-change-required outcome'' e)), w2)
             | (Inr _, w2) \<Rightarrow>
                 (Some (Inr (zero_LoginResult\<lparr>lr_AuthenticationResult := ''PASSWORD_CHANGE_REQUIRED'',
                    lr_ForcePasswordChange := True, lr_ForcedChangeSessionToken := token\<rparr>)), w2))))"

definition completeMFARequired ::
  "'w Runtime \<Rightarrow> 'w Dependencies \<Rightarrow> Credential \<Rightarrow> string \<Rightarrow> string \<Rightarrow> string \<Rightarrow> LoginInput \<Rightarrow> time \<Rightarrow> 'w \<Rightarrow> 'w login" where
  "completeMFARequired rt deps cred identityID identifierHash fingerprintHash inp now w =
     (case d_ListActiveFactorTypes deps identityID w of
        (Inl e, w1) \<Rightarrow> (Some (Inl (apperror_Wrap ErrSystemDatabase ''list active mfa factors'' e)), w1)
      | (Inr factors, w1) \<Rightarrow>
     (case randomOpaqueToken rt w1 of
        (Inl e, w2) \<Rightarrow> (Some (Inl (apperror_Wrap ErrSystemInternal ''generate mfa session token'' e)), w2)
      | (Inr token, w2) \<Rightarrow>
     (case Credential_PullEvents cred of (events, cred1) \<Rightarrow>
     (case d_Execute deps (save_outcome cred1 events
             (attempt_record (Some identityID) identifierHash ''MFA_REQUIRED'' inp fingerprintHash None now)) w2 of
        (Inl e, w3) \<Rightarrow> (Some (Inl (apperror_Wrap ErrSystemDatabase ''persist mfa-required outcome'' e)), w3)
      | (Inr _, w3) \<Rightarrow>
     (case d_MFASession_Create deps token
             \<lparr>ms_IdentityID = identityID, ms_CredentialVerifiedAt = now, ms_AvailableFactors = factors,
              ms_FailedMFAAttempts = 0, ms_ClientID = li_ClientID inp, ms_DeviceFingerprint = fingerprintHash\<rparr>
             (uc_MFASessionWindow (d_Config deps)) w3 of
        (Inl e, w4) \<Rightarrow> (Some (Inl (apperror_Wrap ErrSystemUpstream ''create mfa session'' e)), w4)
      | (Inr _, w4) \<Rightarrow>
          (Some (Inr (zero_LoginResult\<lparr>lr_AuthenticationResult := ''MFA_REQUIRED'',
             lr_MFASessionToken := token, lr_AvailableFactors := factors\<rparr>)), w4))))))"

subsection \<open>Concurrent sessions\<close>

text \<open>A session that has just expired is skipped: its transition stays in memory.\<close>

fun evict_all :: "'w TxSessions \<Rightarrow> time \<Rightarrow> AuthenticationSession list \<Rightarrow> ('w, unit) port" where
  "evict_all sessions now [] = preturn ()"
| "evict_all sessions now (s # ss) =
     (case Revoke ReasonConcurrentSessionLimit '''' now s of
        (Some e, s') \<Rightarrow> evict_all sessions now ss
      | (None, s') \<Rightarrow> pbind (tx_Revoke sessions s') (\<lambda>_. evict_all sessions now ss))"

definition applyConcurrentSessionPolicy ::
  "'w TxSessions \<Rightarrow> string \<Rightarrow> string \<Rightarrow> UsecaseConfig \<Rightarrow> time \<Rightarrow> ('w, unit) port" where
  "applyConcurrentSessionPolicy sessions identityID clientID cfg now =
     (if uc_ConcurrentPolicy cfg = ''SINGLE'' then
        pbind (tx_ListActive sessions identityID clientID) (evict_all sessions now)
      else if uc_ConcurrentPolicy cfg = ''LIMIT_N'' then
        pbind (tx_CountActive sessions identityID clientID) (\<lambda>count.
          if count \<ge> uc_ConcurrentMax cfg then
            pbind (tx_FindOldestActive sessions identityID clientID) (\<lambda>oldest.
              case oldest of
                None \<Rightarrow> preturn ()
              | Some s \<Rightarrow> (case Revoke ReasonConcurrentSessionLimit '''' now s of
                  (Some e, s') \<Rightarrow> preturn ()
                | (None, s') \<Rightarrow> pbind (tx_Revoke sessions s') (\<lambda>_. preturn ())))
          else preturn ())
      else preturn ())"

subsection \<open>Completing a session\<close>

definition touch_or_register ::
  "'w TxRepositories \<Rightarrow> RegisteredDevice option \<Rightarrow> string \<Rightarrow> string \<Rightarrow> UsecaseConfig \<Rightarrow> LoginInput \<Rightarrow> time \<Rightarrow> ('w, string) port" where
  "touch_or_register r device identityID fingerprintHash cfg inp now =
     (case device of
        Some d \<Rightarrow> pbind (r_Devices_Touch r (rd_ID d) now) (\<lambda>_. preturn (rd_ID d))
      | None \<Rightarrow> r_Devices_Register r identityID fingerprintHash (uc_FingerprintVersion cfg)
                 (inferDeviceName (li_UserAgent inp)) (ipString (li_IP inp)) now)"

definition session_tx ::
  "'w Runtime \<Rightarrow> UsecaseConfig \<Rightarrow> Credential \<Rightarrow> domain_event list \<Rightarrow> AuthenticationSession \<Rightarrow> ResolvedIdentity \<Rightarrow>
     RegisteredDevice option \<Rightarrow> string \<Rightarrow> string \<Rightarrow> string \<Rightarrow> string \<Rightarrow> string \<Rightarrow> LoginInput \<Rightarrow> time \<Rightarrow>
     'w TxRepositories \<Rightarrow> ('w, unit) port" where
  "session_tx rt cfg cred credEvents session resolved device sessionID familyID rawRefreshToken identifierHash
     fingerprintHash inp now r =
     pbind (applyConcurrentSessionPolicy (r_Sessions r) (ri_IdentityID resolved) (li_ClientID inp) cfg now) (\<lambda>_.
     pbind (touch_or_register r device (ri_IdentityID resolved) fingerprintHash cfg inp now) (\<lambda>_.
     pbind (r_Credentials_Save r cred) (\<lambda>_.
     pbind (tx_Create (r_Sessions r) session (li_ClientID inp)) (\<lambda>_.
     pbind (r_CreateFamily r familyID sessionID (ri_IdentityID resolved)) (\<lambda>_.
     pbind (r_CreateToken r \<lparr>rtr_FamilyID = familyID, rtr_TokenHash = sha256Hex (rt_sha256 rt) rawRefreshToken,
              rtr_ClientID = li_ClientID inp, rtr_IssuerIP = ipString (li_IP inp), rtr_IssuedAt = now,
              rtr_ExpiresAt = time_Add now (uc_RefreshTokenTTL cfg)\<rparr>) (\<lambda>_.
     pbind (r_Outbox_Append r (credEvents @ fst (Session_PullEvents session))) (\<lambda>_.
     r_LoginAttempts_Record r (attempt_record (Some (ri_IdentityID resolved)) identifierHash ''SUCCEEDED'' inp
       fingerprintHash (Some sessionID) now))))))))"

definition completeSession ::
  "'w Runtime \<Rightarrow> 'w Dependencies \<Rightarrow> Credential \<Rightarrow> ResolvedIdentity \<Rightarrow> RegisteredDevice option \<Rightarrow> string \<Rightarrow> string \<Rightarrow>
     LoginInput \<Rightarrow> time \<Rightarrow> 'w \<Rightarrow> 'w login" where
  "completeSession rt deps cred resolved device identifierHash fingerprintHash inp now w =
     (let cfg = d_Config deps; (sessionID, w1) = d_NewID deps w in
      case NewAuthenticationSession
             \<lparr>nsp_ID = sessionID, nsp_Identity = ri_IdentityID resolved, nsp_Device = '''', nsp_AAL = AAL1,
              nsp_FactorsUsed = [], nsp_Client = \<lparr>ci_IP = li_IP inp, ci_UserAgent = li_UserAgent inp\<rparr>,
              nsp_Policy = uc_SessionPolicy cfg, nsp_Now = now\<rparr> of
        Inl e \<Rightarrow> (Some (Inl (apperror_Wrap ErrSystemInternal ''create session'' (DomainE e))), w1)
      | Inr session \<Rightarrow>
     (case randomOpaqueToken rt w1 of
        (Inl e, w2) \<Rightarrow> (Some (Inl (apperror_Wrap ErrSystemInternal ''generate refresh token'' e)), w2)
      | (Inr rawRefreshToken, w2) \<Rightarrow>
     (let (familyID, w3) = d_NewID deps w2 in
      case d_SignAccessToken deps
             \<lparr>atc_Subject = ri_IdentityID resolved, atc_Audience = [li_ClientID inp], atc_SessionID = sessionID,
              atc_AAL = AAL1, atc_DeviceID = '''', atc_CorporateID = ri_CorporateID resolved, atc_Scope = ''''\<rparr>
             (uc_AccessTokenTTL cfg) w3 of
        (Inl e, w4) \<Rightarrow> (Some (Inl (apperror_Wrap ErrSystemInternal ''sign access token'' e)), w4)
      | (Inr accessToken, w4) \<Rightarrow>
     (case Credential_PullEvents cred of (credEvents, cred1) \<Rightarrow>
     (case d_Execute deps (session_tx rt cfg cred1 credEvents session resolved device sessionID familyID
             rawRefreshToken identifierHash fingerprintHash inp now) w4 of
        (Inl e, w5) \<Rightarrow> (Some (Inl (apperror_Wrap ErrSystemDatabase ''persist completed login'' e)), w5)
      | (Inr _, w5) \<Rightarrow>
          (Some (Inr (zero_LoginResult\<lparr>lr_AuthenticationResult := ''COMPLETED'', lr_AccessToken := accessToken,
             lr_TokenType := ''Bearer'', lr_ExpiresIn := whole_seconds (uc_AccessTokenTTL cfg),
             lr_RefreshToken := rawRefreshToken, lr_SessionID := sessionID, lr_AAL := AAL1,
             lr_ForcePasswordChange := False\<rparr>)), w5))))))"

section \<open>Login\<close>

text \<open>The decision after a verified password: a password change comes before a second factor.\<close>

definition complete_login ::
  "'w Runtime \<Rightarrow> 'w Dependencies \<Rightarrow> Credential \<Rightarrow> ResolvedIdentity \<Rightarrow> string \<Rightarrow> string \<Rightarrow> LoginInput \<Rightarrow> time \<Rightarrow> 'w \<Rightarrow> 'w login" where
  "complete_login rt deps cred resolved identifierHash fingerprintHash inp now w =
     (case d_FindByFingerprint deps (ri_IdentityID resolved) fingerprintHash w of
        (Inl e, w1) \<Rightarrow> (Some (Inl (apperror_Wrap ErrSystemDatabase ''find device'' e)), w1)
      | (Inr device, w1) \<Rightarrow>
     (case d_HasActiveFactor deps (ri_IdentityID resolved) w1 of
        (Inl e, w2) \<Rightarrow> (Some (Inl (apperror_Wrap ErrSystemDatabase ''check active mfa factor'' e)), w2)
      | (Inr hasActiveFactor, w2) \<Rightarrow>
          let mfaRequired = hasActiveFactor \<or> device = None in
          if c_forcePasswordChange cred \<or> IsPasswordExpired now cred
          then completeForcedChange deps cred (ri_IdentityID resolved) identifierHash fingerprintHash inp now w2
          else if mfaRequired
          then completeMFARequired rt deps cred (ri_IdentityID resolved) identifierHash fingerprintHash inp now w2
          else completeSession rt deps cred resolved device identifierHash fingerprintHash inp now w2))"

definition locked_error :: "Credential \<Rightarrow> AppError" where
  "locked_error cred =
     (let e = apperror_New ErrLoginAccountLocked ''account is locked'' in
      case copyTime (c_lockedUntil cred) of
        None \<Rightarrow> e
      | Some until \<Rightarrow> WithDetail ''locked_until'' (RFC3339 until) e)"

text \<open>The steps for a credential that was found.\<close>

definition login_credential ::
  "'w Runtime \<Rightarrow> 'w Dependencies \<Rightarrow> Credential \<Rightarrow> ResolvedIdentity \<Rightarrow> string \<Rightarrow> string \<Rightarrow> string \<Rightarrow> string \<Rightarrow>
     LoginInput \<Rightarrow> time \<Rightarrow> 'w \<Rightarrow> 'w login" where
  "login_credential rt deps cred resolved identifierHash fingerprintHash companyCode password inp now w =
     (case EnsureVerifiable now cred of
        None \<Rightarrow> (None, w)
      | Some (Some e, cred1) \<Rightarrow>
          (Some (Inl (locked_error cred1)), recordAttemptBestEffort deps
             (attempt_record (Some (ri_IdentityID resolved)) identifierHash ''LOCKED'' inp fingerprintHash None now) w)
      | Some (None, cred1) \<Rightarrow>
          let attempt = \<lparr>ac_CompanyCode = companyCode, ac_IP = li_IP inp, ac_UserAgent = li_UserAgent inp,
                         ac_DeviceFingerprint = fingerprintHash\<rparr> in
          (case verifyPassword rt password cred1 (uc_Argon2id (d_Config deps)) w of
             (False, w1) \<Rightarrow>
               failCredential deps cred1 attempt (ri_IdentityID resolved) identifierHash fingerprintHash inp now w1
           | (True, w1) \<Rightarrow>
               (case RecordSuccessfulVerification now cred1 of
                  None \<Rightarrow> (None, w1)
                | Some (Some e, cred2) \<Rightarrow>
                    (Some (Inl (apperror_Wrap ErrSystemInternal ''record successful verification'' (DomainE e))), w1)
                | Some (None, cred2) \<Rightarrow>
                    complete_login rt deps cred2 resolved identifierHash fingerprintHash inp now w1)))"

definition Login :: "'w Runtime \<Rightarrow> 'w Dependencies \<Rightarrow> LoginInput \<Rightarrow> 'w \<Rightarrow> 'w login" where
  "Login rt deps inp w =
     (let (t, w0) = d_Clock deps w; now = time_UTC t;
          identifierHash = sha256Hex (rt_sha256 rt) (li_Identifier inp);
          password = truncate_string (li_Password inp) maxPasswordLen in
      case checkRateLimit deps (ipString (li_IP inp)) identifierHash w0 of
        (Inl e, w1) \<Rightarrow> (Some (Inl e), w1)
      | (Inr (Some rlErr), w1) \<Rightarrow>
          (Some (Inl rlErr), recordAttemptBestEffort deps
             (attempt_record None identifierHash ''RATE_LIMITED'' inp '''' None now) w1)
      | (Inr None, w1) \<Rightarrow>
          let identifier = normalize (rt_unicode rt) (li_Identifier inp);
              companyCode = ToUpper (rt_unicode rt) (TrimSpace (rt_unicode rt) (li_CompanyCode inp));
              fingerprintHash = computeFingerprint (rt_unicode rt) (rt_sha256 rt) (li_UserAgent inp)
                (li_AcceptLanguage inp) (li_DeviceFingerprint inp) (li_IP inp) in
          (case d_ResolveIdentity deps identifier companyCode w1 of
             (Inl e, w2) \<Rightarrow> (Some (Inl (apperror_Wrap ErrSystemUpstream ''resolve identity'' e)), w2)
           | (Inr None, w2) \<Rightarrow>
               invalidCredentials rt deps None identifierHash fingerprintHash password inp now w2
           | (Inr (Some resolved), w2) \<Rightarrow>
               if ri_Status resolved \<noteq> ''ACTIVE''
               then invalidCredentials rt deps None identifierHash fingerprintHash password inp now w2
               else (case d_FindByIdentity deps (ri_IdentityID resolved) w2 of
                  (Inl e, w3) \<Rightarrow>
                    if err_Is e ErrCredentialNotFound
                    then invalidCredentials rt deps (Some (ri_IdentityID resolved)) identifierHash fingerprintHash
                           password inp now w3
                    else (Some (Inl (apperror_Wrap ErrSystemDatabase ''load credential'' e)), w3)
                | (Inr cred, w3) \<Rightarrow>
                    login_credential rt deps cred resolved identifierHash fingerprintHash companyCode password
                      inp now w3)))"

end
