(* ===== verification/Login_Facts.thy ===== *)
theory Login_Facts
  imports Login
begin

text \<open>
  Facts about the login use case that hold for every implementation of its ports: which outcomes its
  parts can have, and the chain of checks behind a successful login.
\<close>

section \<open>Outcomes of the parts\<close>

lemma invalidCredentials_outcome [simp]:
  "fst (invalidCredentials rt deps i ih fp pw inp now w) = Some (Inl invalid_credentials_error)"
  by (simp add: invalidCredentials_def Let_def)

lemma failCredential_refuses [simp]: "failCredential deps cred a i ih fp inp now w \<noteq> (Some (Inr r), w')"
  by (auto simp: failCredential_def split: option.splits prod.splits sum.splits)

text \<open>An error with the code of invalid credentials is always the same error.\<close>

definition uniform_refusal :: "(AppError + LoginResult) option \<Rightarrow> bool" where
  "uniform_refusal res \<longleftrightarrow> (\<forall>e. res = Some (Inl e) \<longrightarrow> ae_Code e = ErrLoginInvalidCredentials \<longrightarrow>
     e = invalid_credentials_error)"

lemma uniform_simps [simp]:
  "uniform_refusal None" "uniform_refusal (Some (Inr r))" "uniform_refusal (Some (Inl invalid_credentials_error))"
  by (simp_all add: uniform_refusal_def)

lemma other_codes [simp]:
  "ErrSystemDatabase \<noteq> ErrLoginInvalidCredentials" "ErrSystemUpstream \<noteq> ErrLoginInvalidCredentials"
  "ErrSystemInternal \<noteq> ErrLoginInvalidCredentials" "ErrRateLimited \<noteq> ErrLoginInvalidCredentials"
  "ErrLoginAccountLocked \<noteq> ErrLoginInvalidCredentials"
  by (simp_all add: const_defs)

lemma uniform_wrap [simp]:
  "c \<noteq> ErrLoginInvalidCredentials \<Longrightarrow> uniform_refusal (Some (Inl (apperror_Wrap c m e)))"
  by (simp add: uniform_refusal_def apperror_Wrap_def)

lemma uniform_locked [simp]: "uniform_refusal (Some (Inl (locked_error c)))"
  by (simp add: uniform_refusal_def locked_error_def apperror_New_def WithDetail_def Let_def split: option.split)

lemma uniform_limited [simp]: "uniform_refusal (Some (Inl (RateLimited d)))"
  by (simp add: uniform_refusal_def RateLimited_def apperror_New_def WithDetail_def)

lemma failCredential_uniform: "uniform_refusal (fst (failCredential deps cred a i ih fp inp now w))"
  by (simp add: failCredential_def split: option.split prod.split sum.split)

lemma completeForcedChange_uniform: "uniform_refusal (fst (completeForcedChange deps cred i ih fp inp now w))"
  by (simp add: completeForcedChange_def split: prod.split sum.split)

lemma completeMFARequired_uniform: "uniform_refusal (fst (completeMFARequired rt deps cred i ih fp inp now w))"
  by (simp add: completeMFARequired_def split: prod.split sum.split)

lemma completeSession_uniform: "uniform_refusal (fst (completeSession rt deps cred res dev ih fp inp now w))"
  by (simp add: completeSession_def Let_def split: prod.split sum.split)

lemma complete_login_uniform: "uniform_refusal (fst (complete_login rt deps cred res ih fp inp now w))"
  by (simp add: complete_login_def Let_def completeForcedChange_uniform completeMFARequired_uniform
      completeSession_uniform split: prod.split sum.split)

lemma login_credential_uniform:
  "uniform_refusal (fst (login_credential rt deps cred res ih fp cc pw inp now w))"
  by (simp add: login_credential_def Let_def complete_login_uniform failCredential_uniform
      split: option.split prod.split bool.split)

lemma checkRateLimit_codes:
  assumes "checkRateLimit deps ip ih w = (r, w')"
  shows "r = Inl e \<Longrightarrow> uniform_refusal (Some (Inl e))" "r = Inr (Some e) \<Longrightarrow> uniform_refusal (Some (Inl e))"
  using assms by (auto simp: checkRateLimit_def Let_def split: prod.splits sum.splits if_splits)

lemma Login_uniform: "uniform_refusal (fst (Login rt deps inp w))"
proof -
  obtain t w0 where c: "d_Clock deps w = (t, w0)" by (cases "d_Clock deps w")
  let ?ih = "sha256Hex (rt_sha256 rt) (li_Identifier inp)"
  obtain r w1 where rl: "checkRateLimit deps (ipString (li_IP inp)) ?ih w0 = (r, w1)"
    by (cases "checkRateLimit deps (ipString (li_IP inp)) ?ih w0")
  note codes = checkRateLimit_codes [OF rl]
  show ?thesis
    using codes by (auto simp: Login_def Let_def c rl login_credential_uniform
        split: sum.split option.split prod.split)
qed

section \<open>The checks behind a success\<close>

lemma login_credential_success:
  assumes "login_credential rt deps cred res ih fp cc pw inp now w = (Some (Inr r), w')"
  shows "\<exists>cred1 cred2 w1. EnsureVerifiable now cred = Some (None, cred1)
    \<and> verifyPassword rt pw cred1 (uc_Argon2id (d_Config deps)) w = (True, w1)
    \<and> RecordSuccessfulVerification now cred1 = Some (None, cred2)
    \<and> complete_login rt deps cred2 res ih fp inp now w1 = (Some (Inr r), w')"
proof -
  from assms obtain cred1 where ev: "EnsureVerifiable now cred = Some (None, cred1)"
    by (auto simp: login_credential_def split: option.splits prod.splits)
  obtain b w1 where v: "verifyPassword rt pw cred1 (uc_Argon2id (d_Config deps)) w = (b, w1)"
    by (cases "verifyPassword rt pw cred1 (uc_Argon2id (d_Config deps)) w")
  have b using assms ev v by (cases b) (simp_all add: login_credential_def Let_def)
  with v have vp: "verifyPassword rt pw cred1 (uc_Argon2id (d_Config deps)) w = (True, w1)" by simp
  from assms ev vp obtain cred2 where "RecordSuccessfulVerification now cred1 = Some (None, cred2)"
    by (auto simp: login_credential_def Let_def split: option.splits prod.splits)
  with assms ev vp show ?thesis by (auto simp: login_credential_def Let_def)
qed

lemma complete_login_success:
  assumes "complete_login rt deps cred res ih fp inp now w = (Some (Inr r), w')"
  shows "\<exists>device has w1 w2. d_FindByFingerprint deps (ri_IdentityID res) fp w = (Inr device, w1)
    \<and> d_HasActiveFactor deps (ri_IdentityID res) w1 = (Inr has, w2)
    \<and> (if c_forcePasswordChange cred \<or> IsPasswordExpired now cred
       then completeForcedChange deps cred (ri_IdentityID res) ih fp inp now w2 = (Some (Inr r), w')
       else if has \<or> device = None
       then completeMFARequired rt deps cred (ri_IdentityID res) ih fp inp now w2 = (Some (Inr r), w')
       else completeSession rt deps cred res device ih fp inp now w2 = (Some (Inr r), w'))"
  using assms by (auto simp: complete_login_def Let_def split: prod.splits sum.splits if_splits)

lemma outcome_kinds:
  "completeForcedChange deps cred i ih fp inp now w = (Some (Inr r), w') \<Longrightarrow> lr_AuthenticationResult r = ''PASSWORD_CHANGE_REQUIRED''"
  "completeMFARequired rt deps cred i ih fp inp now w = (Some (Inr r), w') \<Longrightarrow> lr_AuthenticationResult r = ''MFA_REQUIRED''"
  "completeSession rt deps cred res dev ih fp inp now w = (Some (Inr r), w') \<Longrightarrow> lr_AuthenticationResult r = ''COMPLETED''"
  by (auto simp: completeForcedChange_def completeMFARequired_def completeSession_def Let_def
      split: prod.splits sum.splits)

end
