(* ===== verification/Postgres_Facts.thy ===== *)
theory Postgres_Facts
  imports Postgres Login_Facts
begin

text \<open>
  What the statements of the adapter do when they succeed, and the contract of a unit of work with its
  interpretation on \<open>Execute\<close>.
\<close>

section \<open>Successful statements\<close>

lemma pbind_ok: "pbind m f w = (Inr x, w') \<longleftrightarrow> (\<exists>y w1. m w = (Inr y, w1) \<and> f y w1 = (Inr x, w'))"
  by (auto simp: pbind_def split: prod.splits sum.splits)

lemma preturn_ok: "preturn x w = (Inr y, w') \<longleftrightarrow> y = x \<and> w' = w"
  by (auto simp: preturn_def)

lemma wrap_ok: "wrap_err msg m w = (Inr x, w') \<longleftrightarrow> m w = (Inr x, w')"
  by (auto simp: wrap_err_def split: prod.splits sum.splits)

lemma exec_ok: "exec f w = (Inr u, w') \<Longrightarrow> w' = (tick w)\<lparr>w_db := f (tick w)\<rparr>"
  by (auto simp: exec_def ext_def split: option.splits)

lemma exec_if_ok: "exec_if p msg f w = (Inr u, w') \<Longrightarrow> p (w_db w) \<and> w' = (tick w)\<lparr>w_db := f (tick w)\<rparr>"
  by (auto simp: exec_if_def ext_def split: option.splits if_splits)

lemma query_ok: "query f w = (Inr x, w') \<Longrightarrow> x = f (w_db w) \<and> w' = tick w"
  by (auto simp: query_def ext_def split: option.splits)

lemma query_result: "query f w = (case w_fault w (w_tick w) of Some m \<Rightarrow> (Inl (DriverE m), tick w) | None \<Rightarrow> (Inr (f (w_db w)), tick w))"
  by (simp add: query_def ext_def split: option.split)

lemma with_text_ok: "with_text args m w = (Inr x, w') \<longleftrightarrow> list_all pg_text args \<and> m w = (Inr x, w')"
  by (auto simp: with_text_def ext_def split: option.splits)

lemmas stmt_ok = wrap_ok with_text_ok pbind_ok preturn_ok

text \<open>The two counters of a credential fit their columns.\<close>

definition counters_fit :: "Credential \<Rightarrow> bool" where
  "counters_fit c \<longleftrightarrow> int4 (c_failedAttemptCount c) \<and> int4 (c_lockoutHistoryCount c)"

lemma Save_ok:
  "txCredentials_Save c w = (Inr u, w') \<Longrightarrow> counters_fit c \<and> w' = (tick w)\<lparr>w_db := (w_db w)\<lparr>db_credentials :=
     update_where (\<lambda>r. cr_id r = c_id c) (row_of_cred (Credential_Snapshot c)) (db_credentials (w_db w))\<rparr>\<rparr>"
  by (auto simp: txCredentials_Save_def Let_def stmt_ok Credential_Snapshot_def counters_fit_def dest!: exec_if_ok)

lemma Attempt_ok:
  "recordLoginAttempt a w = (Inr u, w') \<Longrightarrow>
     w' = (tick w)\<lparr>w_db := (w_db w)\<lparr>db_attempts := db_attempts (w_db w) @ [row_of_attempt a]\<rparr>\<rparr>"
  by (auto simp: recordLoginAttempt_def stmt_ok dest!: exec_ok)

text \<open>New rows of the outbox: not published yet, with keys of their own.\<close>

definition fresh_events :: "outbox_row list \<Rightarrow> database \<Rightarrow> bool" where
  "fresh_events new db \<longleftrightarrow> list_all (\<lambda>r. ob_published_at r = None) new
     \<and> (distinct (map ob_id (db_outbox db)) \<longrightarrow> distinct (map ob_id (db_outbox db @ new)))"

lemma fresh_events_Nil [simp]: "fresh_events [] db"
  by (simp add: fresh_events_def)

lemma row_of_event_sel [simp]:
  "ob_id (row_of_event e t) = oe_ID e" "ob_payload (row_of_event e t) = jsonb (oe_Payload e)"
  "ob_event_type (row_of_event e t) = oe_EventType e" "ob_aggregate_id (row_of_event e t) = oe_AggregateID e"
  "ob_published_at (row_of_event e t) = None"
  by (simp_all add: row_of_event_def)

lemma InsertEvents_ok:
  "InsertEvents es w = (Inr u, w') \<Longrightarrow> \<exists>new. w_db w' = (w_db w)\<lparr>db_outbox := db_outbox (w_db w) @ new\<rparr>
     \<and> map ob_payload new = map (\<lambda>e. jsonb (oe_Payload e)) es \<and> map ob_event_type new = map oe_EventType es
     \<and> map ob_aggregate_id new = map oe_AggregateID es \<and> fresh_events new (w_db w) \<and> db_frame w w'
     \<and> list_all (\<lambda>e. jsonb_ok (oe_Payload e)) es"
proof (induction es arbitrary: w)
  case (Cons e es)
  then obtain w1 where s: "exec_if (\<lambda>db. oe_ID e \<notin> ob_id ` set (db_outbox db) \<and> jsonb_ok (oe_Payload e)) ''outbox_events''
        (\<lambda>w. (w_db w)\<lparr>db_outbox := db_outbox (w_db w) @ [row_of_event e (w_tx_start w)]\<rparr>) w = (Inr (), w1)"
    and r: "InsertEvents es w1 = (Inr u, w')"
    by (auto simp: stmt_ok)
  have f: "db_frame w w1" using framedD [OF framed_exec_if s] .
  obtain new where n: "w_db w' = (w_db w1)\<lparr>db_outbox := db_outbox (w_db w1) @ new\<rparr>"
    "map ob_payload new = map (\<lambda>e. jsonb (oe_Payload e)) es" "map ob_event_type new = map oe_EventType es"
    "map ob_aggregate_id new = map oe_AggregateID es" "fresh_events new (w_db w1)" "db_frame w1 w'"
    "list_all (\<lambda>e. jsonb_ok (oe_Payload e)) es"
    using Cons.IH [OF r] by blast
  let ?row = "row_of_event e (w_tx_start w)"
  have "w_db w1 = (w_db w)\<lparr>db_outbox := db_outbox (w_db w) @ [?row]\<rparr>" "oe_ID e \<notin> ob_id ` set (db_outbox (w_db w))"
    "jsonb_ok (oe_Payload e)"
    using exec_if_ok [OF s] by simp_all
  with n db_frame_trans [OF f n(6)] show ?case by (intro exI [of _ "?row # new"]) (simp add: fresh_events_def)
qed (simp add: preturn_ok)

lemma outbox_events_rows:
  "outbox_events evs w = (Inr rows, w') \<Longrightarrow> map oe_Payload rows = map event_json evs \<and> map oe_EventType rows = map EventType evs
     \<and> map oe_AggregateID rows = map AggregateID evs \<and> w_db w' = w_db w \<and> db_frame w w'"
proof (induction evs arbitrary: w rows w')
  case (Cons e evs)
  then obtain rows2 w2 where r: "outbox_events evs (tick w) = (Inr rows2, w2)" and m: "marshal_event e = Inr (event_json e)"
    by (auto simp: newID_def marshal_event_def split: sum.splits prod.splits if_splits)
  with Cons.prems Cons.IH [OF r] show ?case
    by (auto simp: newID_def intro: db_frame_tick)
qed simp

lemma framed_outbox_events [framed_intros]: "framed (outbox_events evs)"
  unfolding framed_def
proof
  fix w show "db_frame w (snd (outbox_events evs w))"
  proof (induction evs arbitrary: w)
    case (Cons e evs)
    have "db_frame w (snd (outbox_events evs (tick w)))" using Cons by (rule db_frame_tick)
    then show ?case by (auto simp: newID_def split: sum.splits prod.splits)
  qed simp
qed

lemma Append_ok:
  assumes "txOutbox_Append evs w = (Inr u, w')"
  shows "\<exists>new. w_db w' = (w_db w)\<lparr>db_outbox := db_outbox (w_db w) @ new\<rparr> \<and> map ob_payload new = map stored_event evs
    \<and> map ob_event_type new = map EventType evs \<and> map ob_aggregate_id new = map AggregateID evs
    \<and> fresh_events new (w_db w) \<and> db_frame w w'"
    and "list_all (\<lambda>e. jsonb_ok (event_json e)) evs"
proof -
  consider "evs = []" | rows w1 where "outbox_events evs w = (Inr rows, w1)" "InsertEvents rows w1 = (Inr u, w')"
    using assms by (auto simp: txOutbox_Append_def pbind_ok split: if_splits)
  then have "(\<exists>new. w_db w' = (w_db w)\<lparr>db_outbox := db_outbox (w_db w) @ new\<rparr> \<and> map ob_payload new = map stored_event evs
    \<and> map ob_event_type new = map EventType evs \<and> map ob_aggregate_id new = map AggregateID evs
    \<and> fresh_events new (w_db w) \<and> db_frame w w') \<and> list_all (\<lambda>e. jsonb_ok (event_json e)) evs"
  proof cases
    case (2 rows w1)
    note rows = outbox_events_rows [OF 2(1)] and ins = InsertEvents_ok [OF 2(2)]
    have "map (\<lambda>e. jsonb (oe_Payload e)) rows = map jsonb (map oe_Payload rows)" by simp
    also have "\<dots> = map stored_event evs" using rows by (simp add: stored_event_def)
    finally have "map (\<lambda>e. jsonb (oe_Payload e)) rows = map stored_event evs" .
    moreover have "list_all (\<lambda>e. jsonb_ok (event_json e)) evs"
      using ins rows by (metis (mono_tags, lifting) comp_def list.pred_map list_all_cong)
    ultimately show ?thesis using ins rows by (auto intro: db_frame_trans)
  qed (use assms in \<open>auto simp: txOutbox_Append_def\<close>)
  then show "\<exists>new. w_db w' = (w_db w)\<lparr>db_outbox := db_outbox (w_db w) @ new\<rparr> \<and> map ob_payload new = map stored_event evs
    \<and> map ob_event_type new = map EventType evs \<and> map ob_aggregate_id new = map AggregateID evs
    \<and> fresh_events new (w_db w) \<and> db_frame w w'" "list_all (\<lambda>e. jsonb_ok (event_json e)) evs" by simp_all
qed

lemma tx_repositories_sel [simp]:
  "r_Credentials_Save tx_repositories = txCredentials_Save" "r_Outbox_Append tx_repositories = txOutbox_Append"
  "r_LoginAttempts_Record tx_repositories = recordLoginAttempt"
  "r_CreateFamily tx_repositories = txRefreshTokens_CreateFamily" "r_CreateToken tx_repositories = txRefreshTokens_CreateToken"
  "r_Devices_Register tx_repositories = txDevices_Register" "r_Devices_Touch tx_repositories = txDevices_Touch"
  "tx_Create (r_Sessions tx_repositories) = txSessions_Create" "tx_Revoke (r_Sessions tx_repositories) = txSessions_Revoke"
  "tx_CountActive (r_Sessions tx_repositories) = txSessions_CountActive"
  "tx_FindOldestActive (r_Sessions tx_repositories) = txSessions_FindOldestActive"
  "tx_ListActive (r_Sessions tx_repositories) = txSessions_ListActive"
  by (simp_all add: tx_repositories_def)

text \<open>What a recorded outcome of a known credential changes.\<close>

definition outcome_saved :: "Credential \<Rightarrow> domain_event list \<Rightarrow> LoginAttemptRecord \<Rightarrow> database \<Rightarrow> database \<Rightarrow> bool" where
  "outcome_saved c evs a db db' \<longleftrightarrow> counters_fit c \<and> (\<exists>new. map ob_payload new = map stored_event evs \<and> fresh_events new db
     \<and> db' = db\<lparr>db_credentials := update_where (\<lambda>r. cr_id r = c_id c) (row_of_cred (Credential_Snapshot c)) (db_credentials db),
                db_attempts := db_attempts db @ [row_of_attempt a], db_outbox := db_outbox db @ new\<rparr>)"

lemma save_outcome_ok:
  assumes "save_outcome c evs a tx_repositories w = (Inr u, w')"
  shows "outcome_saved c evs a (w_db w) (w_db w')"
proof -
  from assms obtain w1 w2 where s: "txCredentials_Save c w = (Inr (), w1)" "txOutbox_Append evs w1 = (Inr (), w2)"
    "recordLoginAttempt a w2 = (Inr u, w')"
    by (auto simp: save_outcome_def stmt_ok)
  from Save_ok [OF s(1)] Append_ok(1) [OF s(2)] Attempt_ok [OF s(3)] show ?thesis
    by (auto simp: outcome_saved_def fresh_events_def)
qed

section \<open>The unit of work\<close>

text \<open>
  What the use case relies on: after a success the durable state is what the closure made of the state
  before, and after a failure it is either untouched or, if only the reply was lost, the same.
\<close>

locale unit_of_work =
  fixes execute :: "('r \<Rightarrow> 'w \<Rightarrow> ('e + unit) \<times> 'w) \<Rightarrow> 'w \<Rightarrow> ('e + unit) \<times> 'w"
    and repos :: 'r
    and durable :: "'w \<Rightarrow> 'd"
  assumes committed: "execute fn w = (Inr u, w') \<Longrightarrow>
      \<exists>w1 w2. durable w1 = durable w \<and> fn repos w1 = (Inr (), w2) \<and> durable w' = durable w2"
    and failed: "execute fn w = (Inl e, w') \<Longrightarrow> durable w' = durable w \<or>
      (\<exists>w1 w2. durable w1 = durable w \<and> fn repos w1 = (Inr (), w2) \<and> durable w' = durable w2)"
begin

lemma all_or_nothing:
  "durable (snd (execute fn w)) = durable w \<or>
     (\<exists>w1 w2. durable w1 = durable w \<and> fn repos w1 = (Inr (), w2) \<and> durable (snd (execute fn w)) = durable w2)"
  using committed [of fn w "()" "snd (execute fn w)"] failed [of fn w _ "snd (execute fn w)"]
  by (cases "execute fn w"; cases "fst (execute fn w)") auto

lemma keeps_invariant:
  assumes "\<And>w1 w2. P (durable w1) \<Longrightarrow> fn repos w1 = (Inr (), w2) \<Longrightarrow> P (durable w2)" "P (durable w)"
  shows "P (durable (snd (execute fn w)))"
  using all_or_nothing [of fn w] assms by metis

text \<open>A relation that every successful run of the closure establishes.\<close>

lemma committed_rel:
  assumes "\<And>w1 w2. fn repos w1 = (Inr (), w2) \<Longrightarrow> R (durable w1) (durable w2)" "execute fn w = (Inr u, w')"
  shows "R (durable w) (durable w')"
  using committed [OF assms(2)] assms(1) by metis

lemma failed_rel:
  assumes "\<And>w1 w2. fn repos w1 = (Inr (), w2) \<Longrightarrow> R (durable w1) (durable w2)" "execute fn w = (Inl e, w')"
  shows "durable w' = durable w \<or> R (durable w) (durable w')"
  using failed [OF assms(2)] assms(1) by metis

end

lemma Execute_fault: "w_fault w (w_tick w) = Some msg \<Longrightarrow>
   Execute fn w = (Inl (WrapE ''login/db: begin tx'' (DriverE msg)), tick w)"
  by (simp add: Execute_def wrap_err_def ext_def)

definition begun :: "world \<Rightarrow> world" where
  "begun w = (tick w)\<lparr>w_tx_start := w_clock w (Suc (w_tick w))\<rparr>"

lemma begun_db [simp]: "w_db (begun w) = w_db w"
  by (simp add: begun_def)

lemma Execute_begun: "w_fault w (w_tick w) = None \<Longrightarrow> Execute fn w =
     (case fn tx_repositories (begun w) of
        (Inl e, w2) \<Rightarrow> (Inl e, (tick w2)\<lparr>w_db := w_db w\<rparr>)
      | (Inr _, w2) \<Rightarrow> (case w_commit w2 (w_tick w2) of
          Committed \<Rightarrow> (Inr (), tick w2)
        | CommitRefused msg \<Rightarrow> (Inl (WrapE ''login/db: commit tx'' (DriverE msg)), (tick w2)\<lparr>w_db := w_db w\<rparr>)
        | CommitReplyLost msg \<Rightarrow> (Inl (WrapE ''login/db: commit tx'' (DriverE msg)), tick w2)))"
  by (simp add: Execute_def wrap_err_def ext_def begun_def)

lemma Execute_durable:
  "Execute fn w = (r, w') \<Longrightarrow>
     (\<exists>w2. fn tx_repositories (begun w) = (Inr (), w2) \<and> w_db w' = w_db w2)
   \<or> (w_db w' = w_db w \<and> (\<exists>e. r = Inl e))"
proof (cases "w_fault w (w_tick w)")
  case None
  assume "Execute fn w = (r, w')"
  with None show ?thesis
    by (cases "fn tx_repositories (begun w)")
       (auto simp: Execute_begun split: sum.splits commit_reply.splits)
qed (auto simp: Execute_fault)

interpretation pg: unit_of_work Execute tx_repositories w_db
proof
  fix fn :: "world TxRepositories \<Rightarrow> (world, unit) port" and w u w'
  assume "Execute fn w = (Inr u, w')"
  from Execute_durable [OF this] show "\<exists>w1 w2. w_db w1 = w_db w \<and> fn tx_repositories w1 = (Inr (), w2) \<and> w_db w' = w_db w2"
    using begun_db by blast
next
  fix fn :: "world TxRepositories \<Rightarrow> (world, unit) port" and w e w'
  assume "Execute fn w = (Inl e, w')"
  from Execute_durable [OF this]
  show "w_db w' = w_db w \<or> (\<exists>w1 w2. w_db w1 = w_db w \<and> fn tx_repositories w1 = (Inr (), w2) \<and> w_db w' = w_db w2)"
    using begun_db by blast
qed

end
