(* ===== verification/Ratelimit.thy ===== *)
theory Ratelimit
  imports World
begin

text \<open>
  The fixed-window limiter of \<open>internal/platform/ratelimit\<close> with the Redis commands its script
  calls, and the MFA session store of \<open>repository/redis\<close>. A key that has expired is absent; the
  commands of one script see one instant.
\<close>

section \<open>Redis commands\<close>

definition redis_get :: "int \<Rightarrow> string \<Rightarrow> redis_db \<Rightarrow> redis_entry option" where
  "redis_get now key db = (case map_of db key of
      None \<Rightarrow> None
    | Some e \<Rightarrow> (case re_expires e of
        Some t \<Rightarrow> if t \<le> now then None else Some e
      | None \<Rightarrow> Some e))"

definition redis_put :: "string \<Rightarrow> redis_entry \<Rightarrow> redis_db \<Rightarrow> redis_db" where
  "redis_put key e db = AList.update key e db"

definition INCR :: "int \<Rightarrow> string \<Rightarrow> redis_db \<Rightarrow> (string + int) \<times> redis_db" where
  "INCR now key db = (case redis_get now key db of
      None \<Rightarrow> (Inr 1, redis_put key \<lparr>re_value = Counter 1, re_expires = None\<rparr> db)
    | Some e \<Rightarrow> (case re_value e of
        Counter n \<Rightarrow> if n < max_int64
                     then (Inr (n + 1), redis_put key (e\<lparr>re_value := Counter (n + 1)\<rparr>) db)
                     else (Inl ''ERR increment or decrement would overflow'', db)
      | Document _ \<Rightarrow> (Inl ''ERR value is not an integer or out of range'', db)))"

definition EXPIRE :: "int \<Rightarrow> string \<Rightarrow> int \<Rightarrow> redis_db \<Rightarrow> redis_db" where
  "EXPIRE now key secs db = (case redis_get now key db of
      None \<Rightarrow> db
    | Some e \<Rightarrow> if secs \<le> 0 then AList.delete key db
               else redis_put key (e\<lparr>re_expires := Some (now + secs * Second)\<rparr>) db)"

text \<open>The remaining time in seconds, rounded to the nearest; -1 without an expiry, -2 without the key.\<close>

definition TTL :: "int \<Rightarrow> string \<Rightarrow> redis_db \<Rightarrow> int" where
  "TTL now key db = (case redis_get now key db of
      None \<Rightarrow> -2
    | Some e \<Rightarrow> (case re_expires e of None \<Rightarrow> -1 | Some t \<Rightarrow> ((t - now) div 1000000 + 500) div 1000))"

section \<open>The limiter\<close>

definition allowScript :: "int \<Rightarrow> string \<Rightarrow> int \<Rightarrow> redis_db \<Rightarrow> (string + int \<times> int) \<times> redis_db" where
  "allowScript now key secs db = (case INCR now key db of
      (Inl e, db1) \<Rightarrow> (Inl e, db1)
    | (Inr current, db1) \<Rightarrow>
        let db2 = (if current = 1 then EXPIRE now key secs db1 else db1)
        in (Inr (current, TTL now key db2), db2))"

definition redis_eval :: "string \<Rightarrow> int \<Rightarrow> (world, int \<times> int) port" where
  "redis_eval key secs = ext (\<lambda>w.
     case allowScript (nanos (w_clock w (w_tick w))) key secs (w_redis w) of
       (Inl e, db) \<Rightarrow> (Inl (DriverE e), w\<lparr>w_redis := db\<rparr>)
     | (Inr r, db) \<Rightarrow> (Inr r, w\<lparr>w_redis := db\<rparr>))"

definition Allow :: "string \<Rightarrow> int \<Rightarrow> duration \<Rightarrow> (world, bool \<times> duration) port" where
  "Allow key max_attempts window w =
     (case redis_eval key (whole_seconds window) w of
        (Inl e, w1) \<Rightarrow> (Inl (WrapE ''ratelimit: eval'' e), w1)
      | (Inr (current, ttl), w1) \<Rightarrow>
          if current > max_attempts
          then (let ttl' = (if ttl < 0 then whole_seconds window else ttl) in (Inr (False, seconds ttl'), w1))
          else (Inr (True, 0), w1))"

section \<open>MFA sessions\<close>

definition keyPrefix :: string where "keyPrefix = ''mfa_session:''"

text \<open>The document of a session. Encoding strings and an integer cannot fail.\<close>

definition mfa_document :: "MFASessionState \<Rightarrow> json" where
  "mfa_document inp = JObj
     [(''identity_id'', json_str (ms_IdentityID inp)),
      (''credential_verified_at'', JStr (RFC3339 (time_UTC (ms_CredentialVerifiedAt inp)))),
      (''available_factor_ids'', JArr (map json_str (ms_AvailableFactors inp))),
      (''failed_mfa_attempts'', json_int (ms_FailedMFAAttempts inp)),
      (''client_id'', json_str (ms_ClientID inp)),
      (''device_fingerprint'', json_str (ms_DeviceFingerprint inp))]"

text \<open>\<open>SET\<close> with an expiry.\<close>

definition MFASession_Create :: "string \<Rightarrow> MFASessionState \<Rightarrow> duration \<Rightarrow> (world, unit) port" where
  "MFASession_Create token inp ttl =
     wrap_err ''login/redis: create mfa session'' (ext (\<lambda>w.
       let now = nanos (w_clock w (w_tick w))
       in (Inr (), w\<lparr>w_redis := redis_put (keyPrefix @ token)
             \<lparr>re_value = Document (mfa_document inp), re_expires = (if ttl > 0 then Some (now + ttl) else None)\<rparr> (w_redis w)\<rparr>)))"

section \<open>A window\<close>

lemma redis_get_put [simp]:
  "redis_get now key (redis_put key e db) =
     (case re_expires e of Some t \<Rightarrow> if t \<le> now then None else Some e | None \<Rightarrow> Some e)"
  by (simp add: redis_get_def redis_put_def update_conv')

lemma redis_get_put_other: "key' \<noteq> key \<Longrightarrow> redis_get now key' (redis_put key e db) = redis_get now key' db"
  by (simp add: redis_get_def redis_put_def update_conv')

definition redis_window :: "int \<Rightarrow> string \<Rightarrow> redis_db \<Rightarrow> (int \<times> int) option" where
  "redis_window now key db = (case redis_get now key db of
      Some e \<Rightarrow> (case (re_value e, re_expires e) of (Counter n, Some t) \<Rightarrow> Some (n, t) | _ \<Rightarrow> None)
    | None \<Rightarrow> None)"

text \<open>Opening a window, and counting within it.\<close>

lemma allowScript_open:
  assumes "redis_get now key db = None" "0 < secs"
  shows "\<exists>db'. allowScript now key secs db = (Inr (1, TTL now key db'), db')
    \<and> redis_window now key db' = Some (1, now + secs * Second)
    \<and> (\<forall>k. k \<noteq> key \<longrightarrow> redis_get t k db' = redis_get t k db)"
proof -
  have "\<not> secs * Second \<le> 0" using mult_pos_pos [OF assms(2) Second_pos] by (simp only: not_le)
  with assms show ?thesis
    by (simp add: allowScript_def INCR_def EXPIRE_def redis_window_def redis_get_put_other Let_def)
qed

lemma allowScript_count:
  assumes "redis_window now key db = Some (n, t)" "1 \<le> n" "n < max_int64"
  shows "\<exists>db'. allowScript now key secs db = (Inr (n + 1, TTL now key db'), db')
    \<and> redis_window now key db' = Some (n + 1, t) \<and> now < t \<and> 0 \<le> TTL now key db'
    \<and> (\<forall>k. k \<noteq> key \<longrightarrow> redis_get t' k db' = redis_get t' k db)"
proof -
  from assms(1) obtain e where e: "redis_get now key db = Some e" "re_value e = Counter n" "re_expires e = Some t"
    by (auto simp: redis_window_def split: option.splits redis_value.splits)
  then have "now < t" by (auto simp: redis_get_def split: option.splits if_splits)
  with e assms(2,3) show ?thesis
    by (auto simp: allowScript_def INCR_def redis_window_def TTL_def redis_get_put_other Let_def
        intro!: pos_imp_zdiv_nonneg_iff [THEN iffD2])
qed

section \<open>The interface of a window counter\<close>

text \<open>
  What the use case relies on: while a window is open, each call counts one and is accepted exactly
  while the count is within the limit; what happens elsewhere does not change the count.
\<close>

locale window_counter =
  fixes call :: "'w \<Rightarrow> bool \<times> 'w"
    and count :: "'w \<Rightarrow> int"
    and inside :: "'w \<Rightarrow> bool"
    and keeps :: "('w \<Rightarrow> 'w) \<Rightarrow> bool"
    and limit :: int
    and capacity :: int
  assumes call_counts: "inside w \<Longrightarrow> count w < capacity \<Longrightarrow> inside (snd (call w))
      \<and> count (snd (call w)) = count w + 1 \<and> (fst (call w) \<longleftrightarrow> count w + 1 \<le> limit)"
    and other_keeps: "keeps f \<Longrightarrow> inside w \<Longrightarrow> inside (f w) \<and> count (f w) = count w"
begin

primrec run :: "('w \<Rightarrow> 'w) list \<Rightarrow> 'w \<Rightarrow> bool list \<times> 'w" where
  "run [] w = ([], w)"
| "run (f # fs) w = (let (b, w1) = call (f w); (bs, w2) = run fs w1 in (b # bs, w2))"

lemma run_window:
  "inside w \<Longrightarrow> list_all keeps fs \<Longrightarrow> count w + int (length fs) \<le> capacity \<Longrightarrow>
     fst (run fs w) = map (\<lambda>i. count w + int i \<le> limit) [1..<Suc (length fs)]"
proof (induction fs arbitrary: w)
  case (Cons f fs)
  have f: "inside (f w)" "count (f w) = count w" using other_keeps [of f w] Cons.prems by simp_all
  obtain b w1 where c: "call (f w) = (b, w1)" by (cases "call (f w)")
  have w1: "inside w1" "count w1 = count w + 1" "b = (count w + 1 \<le> limit)"
    using call_counts [OF f(1)] f(2) c Cons.prems(3) by simp_all
  have "fst (run (f # fs) w) = b # map (\<lambda>i. count w1 + int i \<le> limit) [1..<Suc (length fs)]"
    using Cons.IH [OF w1(1)] Cons.prems w1(2) c by (simp add: split_beta del: upt_Suc)
  also have "\<dots> = map (\<lambda>i. count w + int i \<le> limit) (1 # [2..<Suc (Suc (length fs))])"
    using w1 by (simp add: map_Suc_upt [symmetric] numeral_2_eq_2 comp_def add.assoc del: upt_Suc)
  finally show ?case by (simp add: upt_conv_Cons numeral_2_eq_2 del: upt_Suc)
qed simp

end

subsection \<open>The limiter as a window counter\<close>

definition allow_call :: "string \<Rightarrow> int \<Rightarrow> duration \<Rightarrow> world \<Rightarrow> bool \<times> world" where
  "allow_call key m window w = (case Allow key m window w of
      (Inr (b, _), w1) \<Rightarrow> (b, w1) | (Inl _, w1) \<Rightarrow> (False, w1))"

definition stored_count :: "string \<Rightarrow> world \<Rightarrow> int" where
  "stored_count key w = (case map_of (w_redis w) key of
      Some e \<Rightarrow> (case re_value e of Counter n \<Rightarrow> n | Document _ \<Rightarrow> 0) | None \<Rightarrow> 0)"

text \<open>No call fails, the clock stays before \<open>t\<close>, and the key counts in a window that ends at \<open>t\<close>.\<close>

definition in_window :: "string \<Rightarrow> int \<Rightarrow> world \<Rightarrow> bool" where
  "in_window key t w \<longleftrightarrow> (\<forall>k. w_fault w k = None \<and> nanos (w_clock w k) < t)
     \<and> (\<exists>e n. map_of (w_redis w) key = Some e \<and> re_value e = Counter n \<and> re_expires e = Some t \<and> 1 \<le> n)"

definition keeps_key :: "string \<Rightarrow> (world \<Rightarrow> world) \<Rightarrow> bool" where
  "keeps_key key f \<longleftrightarrow> (\<forall>w. map_of (w_redis (f w)) key = map_of (w_redis w) key
     \<and> w_fault (f w) = w_fault w \<and> w_clock (f w) = w_clock w)"

lemma stored_count_put [simp]:
  "stored_count key (w\<lparr>w_redis := redis_put key e db\<rparr>) = (case re_value e of Counter n \<Rightarrow> n | Document _ \<Rightarrow> 0)"
  by (simp add: stored_count_def redis_put_def update_conv')

lemma allow_call_window:
  assumes "in_window key t w" "stored_count key w < max_int64"
  shows "in_window key t (snd (allow_call key m window w))
    \<and> stored_count key (snd (allow_call key m window w)) = stored_count key w + 1
    \<and> (fst (allow_call key m window w) \<longleftrightarrow> stored_count key w + 1 \<le> m)"
proof -
  obtain e n where e: "map_of (w_redis w) key = Some e" "re_value e = Counter n" "re_expires e = Some t" "1 \<le> n"
    and env: "\<And>k. w_fault w k = None" "\<And>k. nanos (w_clock w k) < t"
    using assms(1) by (auto simp: in_window_def)
  have n: "stored_count key w = n" using e by (simp add: stored_count_def)
  let ?now = "nanos (w_clock w (Suc (w_tick w)))"
  have g: "redis_get ?now key (w_redis w) = Some e"
    using e env(2) [of "Suc (w_tick w)"] by (simp add: redis_get_def)
  have ne: "n + 1 \<noteq> 1" using e(4) by simp
  define db' where "db' = redis_put key (e\<lparr>re_value := Counter (n + 1)\<rparr>) (w_redis w)"
  have s: "allowScript ?now key secs (w_redis w) = (Inr (n + 1, TTL ?now key db'), db')" for secs
    using g e assms(2) n ne by (simp add: allowScript_def INCR_def db'_def Let_def)
  have "allow_call key m window w = (n + 1 \<le> m, (tick w)\<lparr>w_redis := db'\<rparr>)"
    using s env by (simp add: allow_call_def Allow_def redis_eval_def ext_def Let_def not_le)
  then show ?thesis using e env n
    by (auto simp: in_window_def db'_def redis_put_def update_conv' stored_count_def)
qed

interpretation limiter: window_counter "allow_call key m window" "stored_count key" "in_window key t"
    "keeps_key key" m max_int64 for key m window t
proof
  fix w assume "in_window key t w" "stored_count key w < max_int64"
  then show "in_window key t (snd (allow_call key m window w))
      \<and> stored_count key (snd (allow_call key m window w)) = stored_count key w + 1
      \<and> (fst (allow_call key m window w) \<longleftrightarrow> stored_count key w + 1 \<le> m)"
    by (rule allow_call_window)
next
  fix f w assume "keeps_key key f" "in_window key t w"
  then show "in_window key t (f w) \<and> stored_count key (f w) = stored_count key w"
    by (auto simp: keeps_key_def in_window_def stored_count_def)
qed

subsection \<open>From the opening of a window\<close>

primrec allow_run :: "string \<Rightarrow> int \<Rightarrow> duration \<Rightarrow> (world \<Rightarrow> world) list \<Rightarrow> world \<Rightarrow> bool list \<times> world" where
  "allow_run key m window [] w = ([], w)"
| "allow_run key m window (f # fs) w =
     (let (b, w1) = allow_call key m window (f w); (bs, w2) = allow_run key m window fs w1 in (b # bs, w2))"

lemma allow_run_eq: "allow_run key m window fs w = limiter.run key m window fs w"
  by (induction fs arbitrary: w) (simp_all add: limiter.run.simps)

lemma allow_call_opens:
  assumes "\<forall>k. w_fault w k = None \<and> nanos (w_clock w k) < nanos (w_clock w (Suc (w_tick w))) + whole_seconds window * Second"
    and "redis_get (nanos (w_clock w (Suc (w_tick w)))) key (w_redis w) = None" "Second \<le> window"
  shows "in_window key (nanos (w_clock w (Suc (w_tick w))) + whole_seconds window * Second) (snd (allow_call key m window w))
    \<and> stored_count key (snd (allow_call key m window w)) = 1 \<and> (fst (allow_call key m window w) \<longleftrightarrow> 1 \<le> m)"
proof -
  let ?now = "nanos (w_clock w (Suc (w_tick w)))"
  have "0 \<le> window" using assms(3) Second_pos by linarith
  then have secs: "0 < whole_seconds window" using assms(3) by (simp add: whole_seconds_def pos_imp_zdiv_pos_iff)
  then have p: "\<not> whole_seconds window * Second \<le> 0" using mult_pos_pos [OF secs Second_pos] by (simp only: not_le)
  define e where "e = \<lparr>re_value = Counter 1, re_expires = Some (?now + whole_seconds window * Second)\<rparr>"
  define db' where "db' = redis_put key e (redis_put key \<lparr>re_value = Counter 1, re_expires = None\<rparr> (w_redis w))"
  have s: "allowScript ?now key (whole_seconds window) (w_redis w) = (Inr (1, TTL ?now key db'), db')"
    using assms(2) secs by (simp add: allowScript_def INCR_def EXPIRE_def db'_def e_def Let_def)
  have "allow_call key m window w = (1 \<le> m, (tick w)\<lparr>w_redis := db'\<rparr>)"
    using s assms(1) by (simp add: allow_call_def Allow_def redis_eval_def ext_def Let_def not_le)
  moreover have "map_of db' key = Some e" by (simp add: db'_def redis_put_def update_conv')
  ultimately show ?thesis using assms(1) by (simp add: in_window_def stored_count_def e_def)
qed

section \<open>Properties\<close>

text \<open>
  C19. The limit of a window: from the call that opens a window of at least a second on, as long as the
  clock stays within it and no call fails, exactly the first calls up to the maximum are allowed and
  every later one is refused, whatever happens to other keys between the calls.
\<close>

theorem limiter_window_exact:
  assumes "\<forall>k. w_fault w k = None \<and> nanos (w_clock w k) < nanos (w_clock w (Suc (w_tick w))) + whole_seconds window * Second"
    and "redis_get (nanos (w_clock w (Suc (w_tick w)))) key (w_redis w) = None"
    and "Second \<le> window" "list_all (keeps_key key) fs" "int (length fs) < max_int64"
  shows "fst (allow_run key m window (id # fs) w) = map (\<lambda>i. int i \<le> m) [1..<Suc (Suc (length fs))]"
proof -
  obtain b w1 where c: "allow_call key m window w = (b, w1)" by (cases "allow_call key m window w")
  note op = allow_call_opens [OF assms(1-3), of m, unfolded c, simplified]
  have "fst (allow_run key m window (id # fs) w) = b # fst (limiter.run key m window fs w1)"
    using c by (simp add: allow_run_eq limiter.run.simps split_beta)
  also have "fst (limiter.run key m window fs w1) = map (\<lambda>i. 1 + int i \<le> m) [1..<Suc (length fs)]"
    using limiter.run_window [OF conjunct1 [OF op] assms(4), of m window] op assms(5) by (simp del: upt_Suc)
  also have "b # map (\<lambda>i. 1 + int i \<le> m) [1..<Suc (length fs)] = map (\<lambda>i. int i \<le> m) (1 # [2..<Suc (Suc (length fs))])"
    using op by (simp add: map_Suc_upt [symmetric] numeral_2_eq_2 comp_def del: upt_Suc)
  finally show ?thesis by (simp add: upt_conv_Cons numeral_2_eq_2 del: upt_Suc)
qed

definition empty_db :: database where
  "empty_db = \<lparr>db_credentials = [], db_sessions = [], db_families = [], db_tokens = [], db_devices = [],
     db_factors = [], db_attempts = [], db_outbox = []\<rparr>"

text \<open>A quiet environment: no fault, every commit succeeds, the clock stands still.\<close>

definition sample_world :: world where
  "sample_world = \<lparr>w_db = empty_db, w_redis = [], w_argon = [], w_tick = 0,
     w_tx_start = zero_time, w_fault = (\<lambda>_. None), w_commit = (\<lambda>_. Committed),
     w_clock = (\<lambda>_. \<lparr>nanos = 5000 * Second, loc = UTC\<rparr>),
     w_uuid = (\<lambda>k. CHR ''u'' # replicate k (CHR ''x'')), w_random = (\<lambda>k n. replicate n (CHR ''r''))\<rparr>"

theorem limiter_window_exact_witness:
  "fst (allow_run ''k'' 2 Minute [id, tick, id] sample_world) = [True, True, False]"
proof -
  have "0 < whole_seconds Minute * Second" by (simp add: time_simps whole_seconds_def)
  moreover have "list_all (keeps_key ''k'') [tick, id]" by (simp add: keeps_key_def)
  ultimately show ?thesis
    using limiter_window_exact [of sample_world Minute "''k''" "[tick, id]" 2]
    by (simp add: sample_world_def redis_get_def max_int64_def time_simps upt_rec)
qed

text \<open>
  A window below one second never limits: the script then asks for an expiry of zero seconds,
  which deletes the key it has just counted, so every call is the first one.
\<close>

lemma subsecond_window_never_limits:
  assumes "0 \<le> window" "window < Second" "1 \<le> m" "\<forall>k. w_fault w k = None" "map_of (w_redis w) key = None"
  shows "\<exists>w'. Allow key m window w = (Inr (True, 0), w') \<and> map_of (w_redis w') key = None \<and> w_fault w' = w_fault w"
proof -
  have z: "whole_seconds window = 0" using assms(1,2) by (rule whole_seconds_zero)
  let ?now = "nanos (w_clock w (Suc (w_tick w)))"
  have "redis_get ?now key (w_redis w) = None" using assms(5) by (simp add: redis_get_def)
  then have "allowScript ?now key 0 (w_redis w) = (Inr (1, TTL ?now key
      (AList.delete key (redis_put key \<lparr>re_value = Counter 1, re_expires = None\<rparr> (w_redis w)))),
      AList.delete key (redis_put key \<lparr>re_value = Counter 1, re_expires = None\<rparr> (w_redis w)))"
    by (simp add: allowScript_def INCR_def EXPIRE_def Let_def)
  then show ?thesis using assms(3,4) z
    by (simp add: Allow_def redis_eval_def ext_def delete_conv')
qed

end
