(* ===== verification/Config.thy ===== *)
theory Config
  imports Ports Complex_Main
begin

text \<open>
  The configuration of \<open>config/config.go\<close>: its structure, the check of required keys, the mapping of
  environment variables to keys, and the part of \<open>container.Build\<close> that derives the use case's
  policies from it. Reading yaml and merging the environment is done by a library and is a
  parameter of \<open>Load\<close>.
\<close>

section \<open>Structure\<close>

record App =
  app_Name :: string
  app_Env :: string
  app_Version :: string

record OpsServer =
  ops_MetricsPort :: int
  ops_ShutdownTimeout :: duration

record PostgresConfig =
  pgc_Host :: string
  pgc_Port :: int
  pgc_User :: string
  pgc_Password :: string
  pgc_Database :: string
  pgc_SSLMode :: string
  pgc_MaxConns :: int
  pgc_MinConns :: int
  pgc_MaxConnLifetime :: duration

record RedisConfig =
  rdc_Addr :: string
  rdc_Password :: string
  rdc_DB :: int
  rdc_DefaultTTL :: duration

record LogConfig =
  log_Level :: string
  log_Format :: string

record TelemetryConfig =
  tel_Enabled :: bool
  tel_OTLPEndpoint :: string
  tel_SampleRatio :: real

record IdentityConfig =
  idc_Addr :: string

record ServicesConfig =
  svc_Identity :: IdentityConfig

record KafkaConfig =
  kfk_Brokers :: "string list"
  kfk_OutboxTopic :: string
  kfk_PublishInterval :: duration
  kfk_BatchSize :: int

record SessionConfig =
  sec_IdleTimeoutWeb :: duration
  sec_IdleTimeoutMobile :: duration
  sec_AbsoluteWeb :: duration
  sec_AbsoluteMobile :: duration
  sec_ConcurrentPolicy :: string
  sec_ConcurrentMax :: int
  sec_MFASessionWindow :: duration
  sec_ForcedChangeWindow :: duration

record TokenConfig =
  tkc_AccessTTL :: duration
  tkc_RefreshTTLWeb :: duration
  tkc_RefreshTTLMobile :: duration
  tkc_Issuer :: string
  tkc_RotationGraceWindow :: duration
  tkc_PrivateKeyPEM :: string
  tkc_PrivateKeyPath :: string
  tkc_Kid :: string

record LockoutConfig =
  lkc_Threshold :: int
  lkc_Window :: duration
  lkc_Tier1Duration :: duration
  lkc_Tier2Duration :: duration

record Argon2idConfig =
  agc_TimeCost :: "32 word"
  agc_MemoryKB :: "32 word"
  agc_Parallelism :: "8 word"

record RateLimitSettings =
  rls_IPMaxAttempts :: int
  rls_IPWindow :: duration
  rls_IdentityMaxAttempts :: int
  rls_IdentityWindow :: duration

record MFAConfig =
  mfc_OTPTTL :: duration
  mfc_OTPMaxAttempts :: int
  mfc_OTPResendRateLimit :: int
  mfc_OTPResendWindow :: duration
  mfc_TOTPWindow :: int
  mfc_EnrollmentWindow :: duration
  mfc_RecoveryCodeCount :: int
  mfc_RecoveryCodeLowThreshold :: int

record DeviceConfig =
  dvc_TrustDuration :: duration
  dvc_FingerprintVersion :: int

record FIDO2Config =
  fdc_RPID :: string
  fdc_RPName :: string
  fdc_RPOrigin :: string
  fdc_UserVerification :: string
  fdc_Attestation :: string
  fdc_ChallengeTTL :: duration

record AuthConfig =
  ath_Session :: SessionConfig
  ath_Token :: TokenConfig
  ath_RateLimit :: RateLimitSettings
  ath_Lockout :: LockoutConfig
  ath_Argon2id :: Argon2idConfig
  ath_MFA :: MFAConfig
  ath_Device :: DeviceConfig
  ath_FIDO2 :: FIDO2Config

record Config =
  cf_App :: App
  cf_OpsServer :: OpsServer
  cf_Postgres :: PostgresConfig
  cf_Redis :: RedisConfig
  cf_Log :: LogConfig
  cf_Telemetry :: TelemetryConfig
  cf_Services :: ServicesConfig
  cf_Auth :: AuthConfig
  cf_Kafka :: KafkaConfig

definition App_IsProduction :: "App \<Rightarrow> bool" where
  "App_IsProduction a \<longleftrightarrow> app_Env a = ''production''"

definition Postgres_DSN :: "PostgresConfig \<Rightarrow> string" where
  "Postgres_DSN p = ''postgres://'' @ pgc_User p @ '':'' @ pgc_Password p @ ''@'' @ pgc_Host p @ '':''
     @ Itoa (pgc_Port p) @ ''/'' @ pgc_Database p @ ''?sslmode='' @ pgc_SSLMode p"

section \<open>Validation\<close>

definition required_keys :: "Config \<Rightarrow> (string \<times> bool) list" where
  "required_keys c = (let a = cf_Auth c in
    [(''app.name'', app_Name (cf_App c) \<noteq> ''''),
     (''app.env'', app_Env (cf_App c) \<noteq> ''''),
     (''ops_server.metrics_port'', ops_MetricsPort (cf_OpsServer c) > 0),
     (''ops_server.shutdown_timeout'', ops_ShutdownTimeout (cf_OpsServer c) > 0),
     (''postgres.host'', pgc_Host (cf_Postgres c) \<noteq> ''''),
     (''postgres.port'', pgc_Port (cf_Postgres c) > 0),
     (''postgres.user'', pgc_User (cf_Postgres c) \<noteq> ''''),
     (''postgres.database'', pgc_Database (cf_Postgres c) \<noteq> ''''),
     (''postgres.ssl_mode'', pgc_SSLMode (cf_Postgres c) \<noteq> ''''),
     (''postgres.max_conns'', pgc_MaxConns (cf_Postgres c) > 0),
     (''postgres.max_conn_lifetime'', pgc_MaxConnLifetime (cf_Postgres c) > 0),
     (''redis.addr'', rdc_Addr (cf_Redis c) \<noteq> ''''),
     (''redis.default_ttl'', rdc_DefaultTTL (cf_Redis c) > 0),
     (''log.level'', log_Level (cf_Log c) \<noteq> ''''),
     (''log.format'', log_Format (cf_Log c) \<noteq> ''''),
     (''telemetry.otlp_endpoint'', \<not> tel_Enabled (cf_Telemetry c) \<or> tel_OTLPEndpoint (cf_Telemetry c) \<noteq> ''''),
     (''auth.lockout.threshold'', lkc_Threshold (ath_Lockout a) > 0),
     (''auth.lockout.window'', lkc_Window (ath_Lockout a) > 0),
     (''auth.lockout.tier1_duration'', lkc_Tier1Duration (ath_Lockout a) > 0),
     (''auth.lockout.tier2_duration'', lkc_Tier2Duration (ath_Lockout a) > 0),
     (''auth.argon2id.time_cost'', agc_TimeCost (ath_Argon2id a) > 0),
     (''auth.argon2id.memory_kb'', agc_MemoryKB (ath_Argon2id a) > 0),
     (''auth.argon2id.parallelism'', agc_Parallelism (ath_Argon2id a) > 0),
     (''auth.session.idle_timeout_web'', sec_IdleTimeoutWeb (ath_Session a) > 0),
     (''auth.session.idle_timeout_mobile'', sec_IdleTimeoutMobile (ath_Session a) > 0),
     (''auth.session.absolute_web'', sec_AbsoluteWeb (ath_Session a) > 0),
     (''auth.session.absolute_mobile'', sec_AbsoluteMobile (ath_Session a) > 0),
     (''auth.session.concurrent_policy'', sec_ConcurrentPolicy (ath_Session a) \<noteq> ''''),
     (''auth.session.concurrent_max'', sec_ConcurrentMax (ath_Session a) > 0),
     (''auth.session.mfa_session_window'', sec_MFASessionWindow (ath_Session a) > 0),
     (''auth.session.forced_change_window'', sec_ForcedChangeWindow (ath_Session a) > 0),
     (''auth.token.access_ttl'', tkc_AccessTTL (ath_Token a) > 0),
     (''auth.token.refresh_ttl_web'', tkc_RefreshTTLWeb (ath_Token a) > 0),
     (''auth.token.refresh_ttl_mobile'', tkc_RefreshTTLMobile (ath_Token a) > 0),
     (''auth.token.issuer'', tkc_Issuer (ath_Token a) \<noteq> ''''),
     (''auth.token.kid'', tkc_Kid (ath_Token a) \<noteq> ''''),
     (''auth.token.private_key_pem or auth.token.private_key_path'',
        tkc_PrivateKeyPEM (ath_Token a) \<noteq> '''' \<or> tkc_PrivateKeyPath (ath_Token a) \<noteq> ''''),
     (''auth.rate_limit.ip_max_attempts'', rls_IPMaxAttempts (ath_RateLimit a) > 0),
     (''auth.rate_limit.ip_window'', rls_IPWindow (ath_RateLimit a) > 0),
     (''auth.rate_limit.identity_max_attempts'', rls_IdentityMaxAttempts (ath_RateLimit a) > 0),
     (''auth.rate_limit.identity_window'', rls_IdentityWindow (ath_RateLimit a) > 0),
     (''auth.mfa.otp_ttl'', mfc_OTPTTL (ath_MFA a) > 0),
     (''auth.mfa.otp_max_attempts'', mfc_OTPMaxAttempts (ath_MFA a) > 0),
     (''auth.mfa.otp_resend_rate_limit'', mfc_OTPResendRateLimit (ath_MFA a) > 0),
     (''auth.mfa.otp_resend_window'', mfc_OTPResendWindow (ath_MFA a) > 0),
     (''auth.mfa.enrollment_window'', mfc_EnrollmentWindow (ath_MFA a) > 0),
     (''auth.mfa.recovery_code_count'', mfc_RecoveryCodeCount (ath_MFA a) > 0),
     (''auth.device.trust_duration'', dvc_TrustDuration (ath_Device a) > 0),
     (''auth.device.fingerprint_version'', dvc_FingerprintVersion (ath_Device a) > 0),
     (''auth.fido2.rp_id'', fdc_RPID (ath_FIDO2 a) \<noteq> ''''),
     (''auth.fido2.rp_name'', fdc_RPName (ath_FIDO2 a) \<noteq> ''''),
     (''auth.fido2.rp_origin'', fdc_RPOrigin (ath_FIDO2 a) \<noteq> ''''),
     (''auth.fido2.user_verification'', fdc_UserVerification (ath_FIDO2 a) \<noteq> ''''),
     (''auth.fido2.attestation'', fdc_Attestation (ath_FIDO2 a) \<noteq> ''''),
     (''auth.fido2.challenge_ttl'', fdc_ChallengeTTL (ath_FIDO2 a) > 0),
     (''kafka.brokers'', length (kfk_Brokers (cf_Kafka c)) > 0),
     (''kafka.outbox_topic'', kfk_OutboxTopic (cf_Kafka c) \<noteq> ''''),
     (''kafka.publish_interval'', kfk_PublishInterval (cf_Kafka c) > 0),
     (''kafka.batch_size'', kfk_BatchSize (cf_Kafka c) > 0)])"

definition envPrefix :: string where "envPrefix = ''ARAQUANID_''"

definition Config_validate :: "Config \<Rightarrow> port_error option" where
  "Config_validate c =
     (let missing = map fst (filter (\<lambda>(_, ok). \<not> ok) (required_keys c)) in
      if length missing > 0
      then Some (TextE (''config: required keys are unset or zero (set them in the yaml file or via ''
             @ envPrefix @ '' env vars): '' @ join_with '', '' missing))
      else None)"

section \<open>Loading\<close>

definition TrimPrefix :: "string \<Rightarrow> string \<Rightarrow> string" where
  "TrimPrefix p s = (if prefix p s then drop (length p) s else s)"

fun dots_for_underscores :: "string \<Rightarrow> string" where
  "dots_for_underscores (a # b # s) =
     (if a = CHR ''_'' \<and> b = CHR ''_'' then CHR ''.'' # dots_for_underscores s
      else a # dots_for_underscores (b # s))"
| "dots_for_underscores s = s"

definition env_key :: "unicode_tables \<Rightarrow> string \<Rightarrow> string" where
  "env_key u s = dots_for_underscores (ToLower u (TrimPrefix envPrefix s))"

text \<open>
  \<open>readYaml\<close> loads the file into a tree, \<open>mergeEnv\<close> lays the environment over it with the key
  mapping it is given, and \<open>unmarshal\<close> fills the structure.
\<close>

definition Load ::
  "unicode_tables \<Rightarrow> (string \<Rightarrow> port_error + 't) \<Rightarrow> ((string \<Rightarrow> string) \<Rightarrow> 't \<Rightarrow> port_error + 't) \<Rightarrow>
     ('t \<Rightarrow> port_error + Config) \<Rightarrow> string \<Rightarrow> port_error + Config" where
  "Load u readYaml mergeEnv unmarshal path =
     (case readYaml path of
        Inl e \<Rightarrow> Inl (WrapE (''config: load '' @ path) e)
      | Inr k \<Rightarrow> (case mergeEnv (env_key u) k of
          Inl e \<Rightarrow> Inl (WrapE ''config: load env'' e)
        | Inr k' \<Rightarrow> (case unmarshal k' of
            Inl e \<Rightarrow> Inl (WrapE ''config: unmarshal'' e)
          | Inr cfg \<Rightarrow> (case Config_validate cfg of Some e \<Rightarrow> Inl e | None \<Rightarrow> Inr cfg))))"

section \<open>Policies of the use case\<close>

definition usecase_config :: "Config \<Rightarrow> UsecaseConfig" where
  "usecase_config cfg = (let a = cf_Auth cfg in
     \<lparr>uc_Lockout = \<lparr>lp_Threshold = lkc_Threshold (ath_Lockout a), lp_Window = lkc_Window (ath_Lockout a),
        lp_TemporaryDurations = [lkc_Tier1Duration (ath_Lockout a), lkc_Tier2Duration (ath_Lockout a)]\<rparr>,
      uc_CredentialPolicy = DefaultCredentialPolicy,
      uc_SessionPolicy = \<lparr>sp_IdleTimeout = sec_IdleTimeoutWeb (ath_Session a),
        sp_AbsoluteLifetime = sec_AbsoluteWeb (ath_Session a)\<rparr>,
      uc_ConcurrentPolicy = sec_ConcurrentPolicy (ath_Session a),
      uc_ConcurrentMax = sec_ConcurrentMax (ath_Session a),
      uc_MFASessionWindow = sec_MFASessionWindow (ath_Session a),
      uc_ForcedChangeWindow = sec_ForcedChangeWindow (ath_Session a),
      uc_AccessTokenTTL = tkc_AccessTTL (ath_Token a),
      uc_RefreshTokenTTL = tkc_RefreshTTLWeb (ath_Token a),
      uc_Argon2id = \<lparr>ap_TimeCost = agc_TimeCost (ath_Argon2id a), ap_MemoryKB = agc_MemoryKB (ath_Argon2id a),
        ap_Parallelism = agc_Parallelism (ath_Argon2id a)\<rparr>,
      uc_FingerprintVersion = dvc_FingerprintVersion (ath_Device a),
      uc_RateLimit = \<lparr>rl_IPMaxAttempts = rls_IPMaxAttempts (ath_RateLimit a), rl_IPWindow = rls_IPWindow (ath_RateLimit a),
        rl_IdentityMaxAttempts = rls_IdentityMaxAttempts (ath_RateLimit a),
        rl_IdentityWindow = rls_IdentityWindow (ath_RateLimit a)\<rparr>\<rparr>)"

lemma Config_validate_None: "Config_validate c = None \<longleftrightarrow> list_all snd (required_keys c)"
  by (force simp: Config_validate_def Let_def list_all_iff filter_empty_conv)

section \<open>What startup guarantees\<close>

text \<open>
  C21. The startup check and the lockout: from a configuration that \<open>validate\<close> accepts, the use case gets a
  lockout policy and a credential policy that the domain accepts, so that a failed attempt is never
  dropped for an invalid policy.
\<close>

theorem validated_lockout_policy:
  assumes "Config_validate c = None"
  shows "LockoutPolicy_Validate (uc_Lockout (usecase_config c)) = None
    \<and> CredentialPolicy_Validate (uc_CredentialPolicy (usecase_config c)) = None"
proof -
  have "list_all snd (required_keys c)" using assms by (simp add: Config_validate_None)
  then have "0 < lkc_Threshold (ath_Lockout (cf_Auth c))" "0 < lkc_Window (ath_Lockout (cf_Auth c))"
    "0 < lkc_Tier1Duration (ath_Lockout (cf_Auth c))" "0 < lkc_Tier2Duration (ath_Lockout (cf_Auth c))"
    by (simp_all add: required_keys_def Let_def)
  then show ?thesis
    by (simp add: usecase_config_def Let_def LockoutPolicy_Validate_None CredentialPolicy_Validate_None
        DefaultCredentialPolicy_def time_simps)
qed

text \<open>The library's key derivation panics on zero rounds or threads; an accepted configuration has neither.\<close>

lemma validated_argon2:
  assumes "Config_validate c = None"
  shows "0 < ap_TimeCost (uc_Argon2id (usecase_config c))" "0 < ap_Parallelism (uc_Argon2id (usecase_config c))"
proof -
  have "list_all snd (required_keys c)" using assms by (simp add: Config_validate_None)
  then show "0 < ap_TimeCost (uc_Argon2id (usecase_config c))" "0 < ap_Parallelism (uc_Argon2id (usecase_config c))"
    by (simp_all add: required_keys_def usecase_config_def Let_def)
qed

definition sample_auth :: AuthConfig where
  "sample_auth =
    \<lparr>ath_Session = \<lparr>sec_IdleTimeoutWeb = 15 * Minute, sec_IdleTimeoutMobile = 30 * Minute, sec_AbsoluteWeb = 8 * Hour,
       sec_AbsoluteMobile = 24 * Hour, sec_ConcurrentPolicy = ''SINGLE'', sec_ConcurrentMax = 1,
       sec_MFASessionWindow = 5 * Minute, sec_ForcedChangeWindow = 10 * Minute\<rparr>,
     ath_Token = \<lparr>tkc_AccessTTL = 15 * Minute, tkc_RefreshTTLWeb = 8 * Hour, tkc_RefreshTTLMobile = 24 * Hour,
       tkc_Issuer = ''iss'', tkc_RotationGraceWindow = 0, tkc_PrivateKeyPEM = ''pem'', tkc_PrivateKeyPath = '''',
       tkc_Kid = ''kid''\<rparr>,
     ath_RateLimit = \<lparr>rls_IPMaxAttempts = 20, rls_IPWindow = Minute, rls_IdentityMaxAttempts = 10,
       rls_IdentityWindow = 15 * Minute\<rparr>,
     ath_Lockout = \<lparr>lkc_Threshold = 5, lkc_Window = 15 * Minute, lkc_Tier1Duration = 30 * Minute, lkc_Tier2Duration = 2 * Hour\<rparr>,
     ath_Argon2id = \<lparr>agc_TimeCost = 3, agc_MemoryKB = 65536, agc_Parallelism = 4\<rparr>,
     ath_MFA = \<lparr>mfc_OTPTTL = 5 * Minute, mfc_OTPMaxAttempts = 5, mfc_OTPResendRateLimit = 3, mfc_OTPResendWindow = Hour,
       mfc_TOTPWindow = 1, mfc_EnrollmentWindow = Hour, mfc_RecoveryCodeCount = 10, mfc_RecoveryCodeLowThreshold = 3\<rparr>,
     ath_Device = \<lparr>dvc_TrustDuration = 720 * Hour, dvc_FingerprintVersion = 1\<rparr>,
     ath_FIDO2 = \<lparr>fdc_RPID = ''id'', fdc_RPName = ''name'', fdc_RPOrigin = ''origin'', fdc_UserVerification = ''required'',
       fdc_Attestation = ''none'', fdc_ChallengeTTL = 5 * Minute\<rparr>\<rparr>"

definition sample_config :: Config where
  "sample_config =
    \<lparr>cf_App = \<lparr>app_Name = ''araquanid'', app_Env = ''development'', app_Version = ''1''\<rparr>,
     cf_OpsServer = \<lparr>ops_MetricsPort = 9090, ops_ShutdownTimeout = 10 * Second\<rparr>,
     cf_Postgres = \<lparr>pgc_Host = ''db'', pgc_Port = 5432, pgc_User = ''u'', pgc_Password = ''p'', pgc_Database = ''d'',
       pgc_SSLMode = ''disable'', pgc_MaxConns = 10, pgc_MinConns = 0, pgc_MaxConnLifetime = Hour\<rparr>,
     cf_Redis = \<lparr>rdc_Addr = ''r'', rdc_Password = '''', rdc_DB = 0, rdc_DefaultTTL = Minute\<rparr>,
     cf_Log = \<lparr>log_Level = ''info'', log_Format = ''json''\<rparr>,
     cf_Telemetry = \<lparr>tel_Enabled = False, tel_OTLPEndpoint = '''', tel_SampleRatio = 0\<rparr>,
     cf_Services = \<lparr>svc_Identity = \<lparr>idc_Addr = ''identity:1''\<rparr>\<rparr>,
     cf_Auth = sample_auth,
     cf_Kafka = \<lparr>kfk_Brokers = [''k''], kfk_OutboxTopic = ''t'', kfk_PublishInterval = Second, kfk_BatchSize = 100\<rparr>\<rparr>"

lemma sample_config_valid: "Config_validate sample_config = None"
  by (simp add: Config_validate_None required_keys_def sample_config_def sample_auth_def Let_def time_simps)

theorem validated_lockout_policy_witness:
  "LockoutPolicy_Validate (uc_Lockout (usecase_config sample_config)) = None"
  using validated_lockout_policy [OF sample_config_valid] by simp

text \<open>
  What the startup check lets through: a configuration whose web idle timeout exceeds its absolute
  lifetime is accepted although the domain refuses the session policy made from it.
\<close>

lemma validated_session_policy_may_be_invalid:
  "\<exists>c. Config_validate c = None \<and> SessionPolicy_Validate (uc_SessionPolicy (usecase_config c)) \<noteq> None"
proof (intro exI conjI)
  let ?c = "sample_config\<lparr>cf_Auth := sample_auth\<lparr>ath_Session := (ath_Session sample_auth)\<lparr>sec_IdleTimeoutWeb := 9 * Hour\<rparr>\<rparr>\<rparr>"
  show "Config_validate ?c = None"
    by (simp add: Config_validate_None required_keys_def sample_config_def sample_auth_def Let_def time_simps)
  show "SessionPolicy_Validate (uc_SessionPolicy (usecase_config ?c)) \<noteq> None"
    by (simp add: usecase_config_def sample_auth_def Let_def SessionPolicy_Validate_def time_simps)
qed

end
