(* ===== verification/System.thy ===== *)
theory System
  imports Postgres_Facts Ratelimit Config
begin

text \<open>
  The login use case wired to its adapters, as \<open>container.Build\<close> does it, with the identity adapter of
  \<open>repository/identity\<close>. \<open>'k Platform\<close> collects what is not part of the repository: the identity
  service's client, the signing key and the library that signs, Argon2id, bcrypt, SHA-256 and the
  tables of Unicode.
\<close>

section \<open>The identity adapter\<close>

datatype IdentityStatus = STATUS_UNSPECIFIED | STATUS_ACTIVE | STATUS_INACTIVE | STATUS_SUSPENDED
  | STATUS_PENDING_ACTIVATION | STATUS_DELETED | STATUS_OTHER nat

record ResolveIdentityResponse =
  rir_Found :: bool
  rir_IdentityId :: string
  rir_Status :: IdentityStatus
  rir_CorporateId :: string

fun identityStatusString :: "IdentityStatus \<Rightarrow> string" where
  "identityStatusString STATUS_ACTIVE = ''ACTIVE''"
| "identityStatusString STATUS_INACTIVE = ''INACTIVE''"
| "identityStatusString STATUS_SUSPENDED = ''SUSPENDED''"
| "identityStatusString STATUS_PENDING_ACTIVATION = ''PENDING_ACTIVATION''"
| "identityStatusString STATUS_DELETED = ''DELETED''"
| "identityStatusString _ = ''UNSPECIFIED''"

type_synonym identity_client = "string \<Rightarrow> string \<Rightarrow> port_error + ResolveIdentityResponse"

definition acl_ErrUnavailable :: port_error where
  "acl_ErrUnavailable = TextE ''login/identity: identity context unavailable''"

text \<open>A nil client is \<open>None\<close>; the remote call takes the next number.\<close>

definition ResolveIdentity :: "identity_client option \<Rightarrow> string \<Rightarrow> string \<Rightarrow> (world, ResolvedIdentity option) port" where
  "ResolveIdentity client identifier companyCode w =
     (case client of
        None \<Rightarrow> (Inl acl_ErrUnavailable, w)
      | Some call \<Rightarrow>
          (case wrap_err ''login/identity: resolve identity'' (ext (\<lambda>u. (call identifier companyCode, u))) w of
             (Inl e, w1) \<Rightarrow> (Inl e, w1)
           | (Inr resp, w1) \<Rightarrow>
               if \<not> rir_Found resp then (Inr None, w1)
               else (Inr (Some \<lparr>ri_IdentityID = rir_IdentityId resp, ri_Status = identityStatusString (rir_Status resp),
                               ri_CorporateID = rir_CorporateId resp\<rparr>), w1)))"

section \<open>Wiring\<close>

record 'k Platform =
  pf_identity :: "identity_client option"
  pf_signer :: "'k Signer"
  pf_signedString :: "'k signing"
  pf_argon2 :: "string \<Rightarrow> string \<Rightarrow> Argon2idParams \<Rightarrow> 32 word \<Rightarrow> string"
  pf_bcrypt :: "string \<Rightarrow> string \<Rightarrow> bool"
  pf_sha256 :: "string \<Rightarrow> string"
  pf_unicode :: unicode_tables

definition time_Now :: "world \<Rightarrow> time \<times> world" where
  "time_Now w = (w_clock w (w_tick w), tick w)"

definition world_rand :: "world rand_read" where
  "world_rand n = ext (\<lambda>w. (Inr (w_random w (w_tick w) n), w))"

definition world_IDKey :: "'k Platform \<Rightarrow> world idkey" where
  "world_IDKey pf pw salt p n w = (pf_argon2 pf pw salt p n, w\<lparr>w_argon := w_argon w @
     [\<lparr>ag_password = pw, ag_salt = salt, ag_params = p, ag_keyLen = n\<rparr>]\<rparr>)"

definition app_runtime :: "'k Platform \<Rightarrow> world Runtime" where
  "app_runtime pf = \<lparr>rt_rand = world_rand, rt_IDKey = world_IDKey pf, rt_bcrypt = pf_bcrypt pf,
     rt_sha256 = pf_sha256 pf, rt_unicode = pf_unicode pf\<rparr>"

definition app_deps :: "'k Platform \<Rightarrow> UsecaseConfig \<Rightarrow> world Dependencies" where
  "app_deps pf cfg =
     \<lparr>d_Execute = Execute, d_FindByIdentity = findCredentialByIdentity, d_FindByFingerprint = FindByFingerprint,
      d_ListActiveFactorTypes = ListActiveFactorTypes, d_HasActiveFactor = HasActiveFactor,
      d_LoginAttempts_Record = recordLoginAttempt, d_ResolveIdentity = ResolveIdentity (pf_identity pf),
      d_MFASession_Create = MFASession_Create, d_Allow = Allow,
      d_SignAccessToken = SignAccessToken (pf_signedString pf) time_Now newID (pf_signer pf),
      d_SignRestrictedToken = SignRestrictedToken (pf_signedString pf) time_Now newID (pf_signer pf),
      d_Clock = time_Now, d_NewID = newID, d_Config = cfg\<rparr>"

definition app_Login :: "'k Platform \<Rightarrow> UsecaseConfig \<Rightarrow> LoginInput \<Rightarrow> world \<Rightarrow> world login" where
  "app_Login pf cfg inp w = Login (app_runtime pf) (app_deps pf cfg) inp w"

lemma app_deps_sel [simp]:
  "d_Execute (app_deps pf cfg) = Execute" "d_FindByIdentity (app_deps pf cfg) = findCredentialByIdentity"
  "d_FindByFingerprint (app_deps pf cfg) = FindByFingerprint"
  "d_ListActiveFactorTypes (app_deps pf cfg) = ListActiveFactorTypes"
  "d_HasActiveFactor (app_deps pf cfg) = HasActiveFactor" "d_LoginAttempts_Record (app_deps pf cfg) = recordLoginAttempt"
  "d_ResolveIdentity (app_deps pf cfg) = ResolveIdentity (pf_identity pf)"
  "d_MFASession_Create (app_deps pf cfg) = MFASession_Create" "d_Allow (app_deps pf cfg) = Allow"
  "d_SignAccessToken (app_deps pf cfg) = SignAccessToken (pf_signedString pf) time_Now newID (pf_signer pf)"
  "d_SignRestrictedToken (app_deps pf cfg) = SignRestrictedToken (pf_signedString pf) time_Now newID (pf_signer pf)"
  "d_Clock (app_deps pf cfg) = time_Now" "d_NewID (app_deps pf cfg) = newID" "d_Config (app_deps pf cfg) = cfg"
  by (simp_all add: app_deps_def)

lemma app_runtime_sel [simp]:
  "rt_rand (app_runtime pf) = world_rand" "rt_IDKey (app_runtime pf) = world_IDKey pf"
  "rt_bcrypt (app_runtime pf) = pf_bcrypt pf" "rt_sha256 (app_runtime pf) = pf_sha256 pf"
  "rt_unicode (app_runtime pf) = pf_unicode pf"
  by (simp_all add: app_runtime_def)

section \<open>What the calls leave alone\<close>

text \<open>Reads and the clock: only the number of the next call moves, and Redis keys.\<close>

definition same_db :: "world \<Rightarrow> world \<Rightarrow> bool" where
  "same_db w w' \<longleftrightarrow> w_db w' = w_db w \<and> w_argon w' = w_argon w"

lemma same_db_refl [simp]: "same_db w w"
  by (simp add: same_db_def)

lemma same_db_trans: "same_db u v \<Longrightarrow> same_db v w \<Longrightarrow> same_db u w"
  by (simp add: same_db_def)

lemma same_db_tick [simp]: "same_db w (tick w)"
  by (simp add: same_db_def)

lemma Allow_same: "Allow key m win w = (r, w') \<Longrightarrow> same_db w w'"
  by (auto simp: Allow_def redis_eval_def ext_def same_db_def Let_def split: prod.splits sum.splits option.splits if_splits)

lemma ResolveIdentity_same: "ResolveIdentity c i cc w = (r, w') \<Longrightarrow> same_db w w'"
  by (auto simp: ResolveIdentity_def wrap_err_def ext_def same_db_def split: prod.splits sum.splits option.splits if_splits)

lemma query_same: "query f w = (r, w') \<Longrightarrow> same_db w w'"
  by (auto simp: query_result same_db_def split: option.splits)

lemma wrap_same: "(\<And>r u. m w = (r, u) \<Longrightarrow> same_db w u) \<Longrightarrow> wrap_err msg m w = (r', w') \<Longrightarrow> same_db w w'"
  by (auto simp: wrap_err_def split: prod.splits sum.splits)

lemma text_same: "(\<And>r u. m w = (r, u) \<Longrightarrow> same_db w u) \<Longrightarrow> with_text args m w = (r', w') \<Longrightarrow> same_db w w'"
  by (auto simp: with_text_def ext_def split: if_splits option.splits)

lemma FindByFingerprint_same: "FindByFingerprint i f w = (r, w') \<Longrightarrow> same_db w w'"
  unfolding FindByFingerprint_def by (rule wrap_same) (auto intro: query_same text_same)

lemma HasActiveFactor_same: "HasActiveFactor i w = (r, w') \<Longrightarrow> same_db w w'"
  unfolding HasActiveFactor_def by (rule wrap_same) (auto intro: query_same)

lemma ListActiveFactorTypes_same: "ListActiveFactorTypes i w = (r, w') \<Longrightarrow> same_db w w'"
  unfolding ListActiveFactorTypes_def by (rule wrap_same) (auto intro: query_same)

lemma findCredential_same: "findCredentialByIdentity i w = (r, w') \<Longrightarrow> same_db w w'"
  by (auto simp: findCredentialByIdentity_def pbind_def wrap_err_def query_result same_db_def
      split: prod.splits sum.splits option.splits)

lemma checkRateLimit_same:
  assumes "checkRateLimit (app_deps pf cfg) ip ih w = (r, w')"
  shows "same_db w w'"
proof (cases "Allow (''ratelimit:login:ip:'' @ ip) (rl_IPMaxAttempts (uc_RateLimit cfg)) (rl_IPWindow (uc_RateLimit cfg)) w")
  case (Pair r1 w1)
  have 1: "same_db w w1" using Allow_same [OF Pair] .
  obtain r2 w2 where a2: "Allow (''ratelimit:login:identity:'' @ ih @ '':'' @ ip)
      (rl_IdentityMaxAttempts (uc_RateLimit cfg)) (rl_IdentityWindow (uc_RateLimit cfg)) w1 = (r2, w2)"
    by (meson surj_pair)
  have 2: "same_db w w2" using same_db_trans [OF 1 Allow_same [OF a2]] .
  show ?thesis using assms 1 2 Pair a2
    by (auto simp: checkRateLimit_def Let_def split: sum.splits prod.splits if_splits)
qed

lemma newID_same: "newID w = (i, w') \<Longrightarrow> same_db w w'"
  by (auto simp: newID_def)

lemma time_Now_same: "time_Now w = (t, w') \<Longrightarrow> same_db w w'"
  by (auto simp: time_Now_def)

lemma randomOpaqueToken_same: "randomOpaqueToken (app_runtime pf) w = (r, w') \<Longrightarrow> same_db w w'"
  by (auto simp: randomOpaqueToken_def world_rand_def ext_def same_db_def split: prod.splits sum.splits option.splits)

lemma SignAccessToken_same: "SignAccessToken ss time_Now newID s c ttl w = (r, w') \<Longrightarrow> same_db w w'"
  by (auto simp: SignAccessToken_def time_Now_def newID_def same_db_def Let_def)

lemma SignRestrictedToken_same: "SignRestrictedToken ss time_Now newID s c p ttl w = (r, w') \<Longrightarrow> same_db w w'"
  by (auto simp: SignRestrictedToken_def time_Now_def newID_def same_db_def Let_def)

lemma MFASession_Create_same: "MFASession_Create tok st ttl w = (r, w') \<Longrightarrow> same_db w w'"
  by (auto simp: MFASession_Create_def wrap_err_def ext_def same_db_def Let_def split: option.splits prod.splits sum.splits)

lemmas same_db_rules = Allow_same ResolveIdentity_same FindByFingerprint_same HasActiveFactor_same
  ListActiveFactorTypes_same findCredential_same newID_same time_Now_same randomOpaqueToken_same
  SignAccessToken_same SignRestrictedToken_same MFASession_Create_same

text \<open>A best-effort record adds at most its own row.\<close>

definition only_attempts :: "database \<Rightarrow> database \<Rightarrow> bool" where
  "only_attempts db db' \<longleftrightarrow> (\<exists>rows. db' = db\<lparr>db_attempts := db_attempts db @ rows\<rparr>)"

lemma only_attempts_refl [simp]: "only_attempts db db"
  by (auto simp: only_attempts_def intro: exI [of _ "[]"])

lemma record_best_effort:
  "only_attempts (w_db w) (w_db (recordAttemptBestEffort (app_deps pf cfg) a w))
   \<and> w_argon (recordAttemptBestEffort (app_deps pf cfg) a w) = w_argon w"
proof (cases "w_fault w (w_tick w) = None \<and> list_all pg_text (attempt_texts (row_of_attempt a))")
  case True
  then have "w_db (recordAttemptBestEffort (app_deps pf cfg) a w)
      = (w_db w)\<lparr>db_attempts := db_attempts (w_db w) @ [row_of_attempt a]\<rparr>"
    by (simp add: recordAttemptBestEffort_def recordLoginAttempt_def with_text_def wrap_err_def exec_def ext_def)
  with True show ?thesis
    by (auto simp: only_attempts_def recordAttemptBestEffort_def recordLoginAttempt_def with_text_def wrap_err_def exec_def ext_def)
qed (auto simp: recordAttemptBestEffort_def recordLoginAttempt_def with_text_def wrap_err_def exec_def ext_def split: option.split)

end
