(* ===== verification/Login_Effects.thy ===== *)
theory Login_Effects
  imports System Session_Runs
begin

text \<open>
  What a login does to the database, whatever the environment answers: nothing but the audit row, one
  recorded outcome of a credential, or one completed session with everything that belongs to it.
\<close>

section \<open>The concurrent-session policy\<close>

definition live_row :: "time \<Rightarrow> session_row \<Rightarrow> bool" where
  "live_row t r \<longleftrightarrow> (case scanSessionRow r of Inr s \<Rightarrow> IsActive t s | Inl _ \<Rightarrow> False)"

definition evict_row :: "time \<Rightarrow> session_row \<Rightarrow> session_row" where
  "evict_row now r = r\<lparr>sn_status := SessionStatusRevoked, sn_revoked_at := Some (timestamptz now),
     sn_revoke_reason := Some ReasonConcurrentSessionLimit\<rparr>"

definition evictions :: "string set \<Rightarrow> time \<Rightarrow> session_row list \<Rightarrow> session_row list" where
  "evictions E now rows = update_where (\<lambda>r. sn_id r \<in> E) (evict_row now) rows"

text \<open>The sessions that a policy ends: an abstract reading of \<open>applyConcurrentSessionPolicy\<close>.\<close>

definition policy_evicts :: "UsecaseConfig \<Rightarrow> string \<Rightarrow> string \<Rightarrow> time \<Rightarrow> database \<Rightarrow> string set" where
  "policy_evicts cfg i c now db =
     (if uc_ConcurrentPolicy cfg = ''SINGLE'' then sn_id ` {r \<in> set (active_rows i c db). live_row now r}
      else if uc_ConcurrentPolicy cfg = ''LIMIT_N'' \<and> uc_ConcurrentMax cfg \<le> int (length (active_rows i c db)) then
        (case active_rows i c db of [] \<Rightarrow> {} | r # _ \<Rightarrow> if live_row now r then {sn_id r} else {})
      else {})"

lemma evictions_empty [simp]: "evictions {} now rows = rows"
  by (simp add: evictions_def update_where_def)

lemma evict_row_id [simp]: "sn_id (evict_row now r) = sn_id r"
  by (simp add: evict_row_def)

lemma evictions_twice: "evictions F now (evictions E now rows) = evictions (E \<union> F) now rows"
  by (auto simp: evictions_def update_where_def evict_row_def)

lemma evictions_ids [simp]: "map sn_id (evictions E now rows) = map sn_id rows"
  by (simp add: evictions_def update_where_def)

lemma scan_wf: "scanSessionRow r = Inr s \<Longrightarrow> wf_session s \<and> s_id s = sn_id r"
proof -
  assume h: "scanSessionRow r = Inr s"
  then obtain snap where "RehydrateSession snap = Inr s" "ss_ID snap = sn_id r"
    by (auto simp: scanSessionRow_def split: option.splits sum.splits)
  moreover have "s_id s = ss_ID snap" if "RehydrateSession snap = Inr s" for snap
    using that unfolding RehydrateSession_def by (simp split: if_split_asm option.split_asm) (hypsubst, simp)+
  ultimately show ?thesis using RehydrateSession_wf by auto
qed

lemma Revoke_ok:
  assumes "txSessions_Revoke (terminate SessionStatusRevoked ReasonConcurrentSessionLimit b (time_UTC now) s) w = (Inr u, w')"
    "loc now = UTC"
  shows "w' = (tick w)\<lparr>w_db := (w_db w)\<lparr>db_sessions := evictions {s_id s} now (db_sessions (w_db w))\<rparr>\<rparr>"
proof -
  let ?s = "terminate SessionStatusRevoked ReasonConcurrentSessionLimit b (time_UTC now) s"
  have "revoke_row (Session_Snapshot ?s) = evict_row now"
    using assms(2) by (auto simp: fun_eq_iff revoke_row_def Session_Snapshot_def Session_RevokedAt_def evict_row_def
        const_defs)
  then show ?thesis using assms(1)
    by (auto simp: txSessions_Revoke_def Let_def stmt_ok Session_Snapshot_def evictions_def dest!: exec_ok)
qed

lemma not_active_Revoke:
  "wf_session s \<Longrightarrow> \<not> IsActive now s \<Longrightarrow> \<exists>e s'. Revoke reason b now s = (Some e, s')"
  using ensureActive_None(1) [of s now] by (cases "ensureActive now s") (auto simp: Revoke_def split: option.splits)

lemma evict_all_ok:
  assumes "evict_all (r_Sessions tx_repositories) now ss w = (Inr u, w')" "list_all wf_session ss" "loc now = UTC"
  shows "w_db w' = (w_db w)\<lparr>db_sessions := evictions (s_id ` {s \<in> set ss. IsActive now s}) now (db_sessions (w_db w))\<rparr>
    \<and> db_frame w w'"
  using assms(1,2)
proof (induction ss arbitrary: w)
  case (Cons s ss)
  have wf: "wf_session s" "list_all wf_session ss" using Cons.prems(2) by simp_all
  show ?case
  proof (cases "IsActive now s")
    case True
    let ?s = "terminate SessionStatusRevoked ReasonConcurrentSessionLimit '''' (time_UTC now) s"
    from Cons.prems(1) True obtain w1 where r: "txSessions_Revoke ?s w = (Inr (), w1)"
      and rest: "evict_all (r_Sessions tx_repositories) now ss w1 = (Inr u, w')"
      using Revoke_active [OF wf(1) True, of ReasonConcurrentSessionLimit] by (auto simp: stmt_ok)
    have "s_id ` {x \<in> set (s # ss). IsActive now x} = {s_id s} \<union> s_id ` {x \<in> set ss. IsActive now x}"
      using True by auto
    with Revoke_ok [OF r assms(3)] Cons.IH [OF rest wf(2)] show ?thesis
      by (auto simp: evictions_twice intro: db_frame_tick simp: db_frame_def)
  next
    case False
    then have "\<exists>e s'. Revoke ReasonConcurrentSessionLimit '''' now s = (Some e, s')"
      by (rule not_active_Revoke [OF wf(1)])
    with Cons.prems(1) have "evict_all (r_Sessions tx_repositories) now ss w = (Inr u, w')" by auto
    moreover have "{x \<in> set (s # ss). IsActive now x} = {x \<in> set ss. IsActive now x}" using False by auto
    ultimately show ?thesis using Cons.IH wf(2) by simp
  qed
qed (simp add: preturn_ok)

lemma scan_all_ok:
  "scan_all rows = Inr ss \<Longrightarrow> list_all wf_session ss
     \<and> s_id ` {s \<in> set ss. IsActive now s} = sn_id ` {r \<in> set rows. live_row now r}"
proof (induction rows arbitrary: ss)
  case (Cons r rows)
  then obtain s ss' where s: "scanSessionRow r = Inr s" "scan_all rows = Inr ss'" "ss = s # ss'"
    by (auto split: sum.splits)
  have "{x \<in> set (s # ss'). IsActive now x} = {x. x = s \<and> IsActive now s} \<union> {x \<in> set ss'. IsActive now x}"
    "{x \<in> set (r # rows). live_row now x} = {x. x = r \<and> live_row now r} \<union> {x \<in> set rows. live_row now x}" by auto
  with s Cons.IH [OF s(2)] scan_wf [OF s(1)] show ?case
    by (simp add: image_Un) (auto simp: live_row_def)
qed simp

lemma ListActive_ok:
  "txSessions_ListActive i c w = (Inr ss, w') \<Longrightarrow> scan_all (active_rows i c (w_db w)) = Inr ss \<and> w' = tick w"
  by (auto simp: txSessions_ListActive_def stmt_ok dest!: query_ok)

lemma CountActive_ok:
  "txSessions_CountActive i c w = (Inr n, w') \<Longrightarrow> n = int (length (active_rows i c (w_db w))) \<and> w' = tick w"
  by (auto simp: txSessions_CountActive_def stmt_ok active_rows_def dest!: query_ok)

lemma FindOldest_ok:
  "txSessions_FindOldestActive i c w = (Inr oldest, w') \<Longrightarrow> w' = tick w \<and>
     (case active_rows i c (w_db w) of [] \<Rightarrow> oldest = None | r # _ \<Rightarrow> (\<exists>s. scanSessionRow r = Inr s \<and> oldest = Some s))"
proof -
  assume "txSessions_FindOldestActive i c w = (Inr oldest, w')"
  then obtain rows w1 where q: "query (active_rows i c) w = (Inr rows, w1)"
    and r: "(case rows of [] \<Rightarrow> (Inr None, w1) | r # _ \<Rightarrow> (case scanSessionRow r of Inl e \<Rightarrow> (Inl e, w1) | Inr s \<Rightarrow> (Inr (Some s), w1)))
      = (Inr oldest, w')"
    by (auto simp: txSessions_FindOldestActive_def wrap_ok with_text_ok pbind_ok)
  from query_ok [OF q] have q': "active_rows i c (w_db w) = rows" "w1 = tick w" by simp_all
  show ?thesis using r unfolding q' by (cases rows) (auto split: sum.splits)
qed


text \<open>The two policies that end sessions, one after the other.\<close>

lemma policy_single:
  assumes "uc_ConcurrentPolicy cfg = ''SINGLE''" "loc now = UTC"
    "applyConcurrentSessionPolicy (r_Sessions tx_repositories) i c cfg now w = (Inr u, w')"
  shows "w_db w' = (w_db w)\<lparr>db_sessions := evictions (policy_evicts cfg i c now (w_db w)) now (db_sessions (w_db w))\<rparr>
    \<and> db_frame w w'"
proof -
  from assms(1,3) obtain ss w1 where l: "txSessions_ListActive i c w = (Inr ss, w1)"
    and e: "evict_all (r_Sessions tx_repositories) now ss w1 = (Inr u, w')"
    by (auto simp: applyConcurrentSessionPolicy_def pbind_ok)
  from ListActive_ok [OF l] have sc: "scan_all (active_rows i c (w_db w)) = Inr ss" and w1: "w1 = tick w"
    by simp_all
  from evict_all_ok [OF e _ assms(2)] scan_all_ok [OF sc, of now] w1 assms(1) show ?thesis
    by (auto simp: policy_evicts_def intro: db_frame_tick)
qed

definition evict_oldest :: "time \<Rightarrow> AuthenticationSession option \<Rightarrow> (world, unit) port" where
  "evict_oldest now oldest = (case oldest of None \<Rightarrow> preturn ()
     | Some s \<Rightarrow> (case Revoke ReasonConcurrentSessionLimit '''' now s of
         (Some e, s') \<Rightarrow> preturn ()
       | (None, s') \<Rightarrow> pbind (tx_Revoke (r_Sessions tx_repositories) s') (\<lambda>_. preturn ())))"

lemma evict_oldest_ok:
  assumes "evict_oldest now (Some s) w = (Inr u, w')" "scanSessionRow r = Inr s" "loc now = UTC"
  shows "w_db w' = (w_db w)\<lparr>db_sessions := evictions (if live_row now r then {sn_id r} else {}) now (db_sessions (w_db w))\<rparr>
    \<and> db_frame w w'"
proof -
  have wf: "wf_session s" "s_id s = sn_id r" using scan_wf [OF assms(2)] by simp_all
  have live: "live_row now r = IsActive now s" using assms(2) by (simp add: live_row_def)
  show ?thesis
  proof (cases "IsActive now s")
    case True
    with assms(1) have "txSessions_Revoke (terminate SessionStatusRevoked ReasonConcurrentSessionLimit '''' (time_UTC now) s) w = (Inr (), w')"
      using Revoke_active [OF wf(1) True, of ReasonConcurrentSessionLimit] by (auto simp: evict_oldest_def stmt_ok)
    from Revoke_ok [OF this assms(3)] True live wf(2) show ?thesis by (simp add: db_frame_def)
  next
    case False
    then have "\<exists>e s'. Revoke ReasonConcurrentSessionLimit '''' now s = (Some e, s')"
      by (rule not_active_Revoke [OF wf(1)])
    with assms(1) False live show ?thesis by (auto simp: evict_oldest_def preturn_ok)
  qed
qed

lemma policy_limit:
  assumes "uc_ConcurrentPolicy cfg = ''LIMIT_N''" "uc_ConcurrentMax cfg \<le> int (length (active_rows i c (w_db w)))" "loc now = UTC"
    "applyConcurrentSessionPolicy (r_Sessions tx_repositories) i c cfg now w = (Inr u, w')"
  shows "w_db w' = (w_db w)\<lparr>db_sessions := evictions (policy_evicts cfg i c now (w_db w)) now (db_sessions (w_db w))\<rparr>
    \<and> db_frame w w'"
proof -
  from assms(1,4) obtain n w1 where cnt: "txSessions_CountActive i c w = (Inr n, w1)"
    and rest: "(if uc_ConcurrentMax cfg \<le> n then pbind (txSessions_FindOldestActive i c) (evict_oldest now) else preturn ()) w1 = (Inr u, w')"
    by (auto simp: applyConcurrentSessionPolicy_def pbind_ok evict_oldest_def [abs_def] simp del: if_split_asm cong: if_cong)
  from CountActive_ok [OF cnt] assms(2) rest obtain oldest w2
    where fo: "txSessions_FindOldestActive i c w1 = (Inr oldest, w2)" and fin: "evict_oldest now oldest w2 = (Inr u, w')"
    by (auto simp: pbind_ok)
  from CountActive_ok [OF cnt] FindOldest_ok [OF fo] have w2: "w2 = tick (tick w)"
    and old: "(case active_rows i c (w_db w) of [] \<Rightarrow> oldest = None
      | r # _ \<Rightarrow> (\<exists>s. scanSessionRow r = Inr s \<and> oldest = Some s))"
    by simp_all
  show ?thesis
  proof (cases "active_rows i c (w_db w)")
    case Nil
    with old fin w2 assms(1) show ?thesis by (simp add: policy_evicts_def evict_oldest_def preturn_ok db_frame_def)
  next
    case (Cons r rs)
    with old obtain s where s: "scanSessionRow r = Inr s" "oldest = Some s" by auto
    have "policy_evicts cfg i c now (w_db w) = (if live_row now r then {sn_id r} else {})"
      using Cons assms(1,2) by (simp add: policy_evicts_def)
    with evict_oldest_ok [OF fin [unfolded s(2)] s(1) assms(3)] w2 show ?thesis by (auto simp: db_frame_def)
  qed
qed

lemma policy_ok:
  assumes "applyConcurrentSessionPolicy (r_Sessions tx_repositories) i c cfg now w = (Inr u, w')" "loc now = UTC"
  shows "w_db w' = (w_db w)\<lparr>db_sessions := evictions (policy_evicts cfg i c now (w_db w)) now (db_sessions (w_db w))\<rparr>
    \<and> db_frame w w'"
proof -
  consider (single) "uc_ConcurrentPolicy cfg = ''SINGLE''"
    | (limit) "uc_ConcurrentPolicy cfg = ''LIMIT_N''" "uc_ConcurrentMax cfg \<le> int (length (active_rows i c (w_db w)))"
    | (none) "uc_ConcurrentPolicy cfg \<noteq> ''SINGLE''" "\<not> (uc_ConcurrentPolicy cfg = ''LIMIT_N''
        \<and> uc_ConcurrentMax cfg \<le> int (length (active_rows i c (w_db w))))" by blast
  then show ?thesis
  proof cases
    case none
    then show ?thesis using assms(1)
      by (auto simp: applyConcurrentSessionPolicy_def policy_evicts_def stmt_ok db_frame_def
          dest!: CountActive_ok split: if_splits)
  qed (use policy_single [OF _ assms(2,1)] policy_limit [OF _ _ assms(2,1)] in auto)
qed

section \<open>The transaction of a completed login\<close>

lemma Create_ok:
  "txSessions_Create s c w = (Inr u, w') \<Longrightarrow> s_id s \<notin> sn_id ` set (db_sessions (w_db w))
     \<and> w' = (tick w)\<lparr>w_db := (w_db w)\<lparr>db_sessions := db_sessions (w_db w) @ [row_of_session s c]\<rparr>\<rparr>"
  by (auto simp: txSessions_Create_def Let_def wrap_ok with_text_ok row_of_session_def Session_Snapshot_def dest!: exec_if_ok)

definition new_family :: "string \<Rightarrow> string \<Rightarrow> string \<Rightarrow> family_row" where
  "new_family f s i = \<lparr>fm_id = f, fm_session_id = s, fm_identity_id = i, fm_status = ''ACTIVE''\<rparr>"

lemma CreateFamily_ok:
  "txRefreshTokens_CreateFamily f s i w = (Inr u, w') \<Longrightarrow> f \<notin> fm_id ` set (db_families (w_db w))
     \<and> w' = (tick w)\<lparr>w_db := (w_db w)\<lparr>db_families := db_families (w_db w) @ [new_family f s i]\<rparr>\<rparr>"
  by (auto simp: txRefreshTokens_CreateFamily_def wrap_ok with_text_ok new_family_def dest!: exec_if_ok)

definition new_token :: "RefreshTokenRecord \<Rightarrow> token_row" where
  "new_token r = \<lparr>tr_family_id = rtr_FamilyID r, tr_token_hash = rtr_TokenHash r, tr_status = ''ACTIVE'',
     tr_client_id = rtr_ClientID r, tr_issued_at = timestamptz (rtr_IssuedAt r),
     tr_expires_at = timestamptz (rtr_ExpiresAt r), tr_issuer_ip = rtr_IssuerIP r\<rparr>"

lemma CreateToken_ok:
  "txRefreshTokens_CreateToken r w = (Inr u, w') \<Longrightarrow> rtr_TokenHash r \<notin> tr_token_hash ` set (db_tokens (w_db w))
     \<and> w' = (tick w)\<lparr>w_db := (w_db w)\<lparr>db_tokens := db_tokens (w_db w) @ [new_token r]\<rparr>\<rparr>"
  by (auto simp: txRefreshTokens_CreateToken_def wrap_ok with_text_ok new_token_def dest!: exec_if_ok)

definition touch_row :: "time \<Rightarrow> device_row \<Rightarrow> device_row" where
  "touch_row now r = r\<lparr>dv_last_seen_at := timestamptz now\<rparr>"

lemma Touch_ok:
  "txDevices_Touch d now w = (Inr u, w') \<Longrightarrow> w' = (tick w)\<lparr>w_db := (w_db w)\<lparr>db_devices :=
     update_where (\<lambda>r. dv_id r = d) (touch_row now) (db_devices (w_db w))\<rparr>\<rparr>"
  by (auto simp: txDevices_Touch_def wrap_ok with_text_ok touch_row_def [abs_def] dest!: exec_ok)

text \<open>Everything a completed login writes, and the keys that were free before.\<close>

record completed =
  co_cred :: Credential
  co_events :: "domain_event list"
  co_session :: AuthenticationSession
  co_device :: string
  co_family :: string
  co_token :: RefreshTokenRecord
  co_attempt :: LoginAttemptRecord

definition session_saved :: "UsecaseConfig \<Rightarrow> string \<Rightarrow> time \<Rightarrow> completed \<Rightarrow> database \<Rightarrow> database \<Rightarrow> bool" where
  "session_saved cfg client now co db db' \<longleftrightarrow>
     counters_fit (co_cred co) \<and> s_id (co_session co) \<notin> sn_id ` set (db_sessions db) \<and> co_family co \<notin> fm_id ` set (db_families db)
     \<and> rtr_TokenHash (co_token co) \<notin> tr_token_hash ` set (db_tokens db)
     \<and> (\<exists>new. map ob_payload new = map stored_event (co_events co) \<and> fresh_events new db \<and> db' = db
      \<lparr>db_credentials := update_where (\<lambda>r. cr_id r = c_id (co_cred co)) (row_of_cred (Credential_Snapshot (co_cred co))) (db_credentials db),
       db_sessions := evictions (policy_evicts cfg (s_identity (co_session co)) client now db) now (db_sessions db)
          @ [row_of_session (co_session co) client],
       db_families := db_families db @ [new_family (co_family co) (s_id (co_session co)) (s_identity (co_session co))],
       db_tokens := db_tokens db @ [new_token (co_token co)],
       db_devices := update_where (\<lambda>r. dv_id r = co_device co) (touch_row now) (db_devices db),
       db_attempts := db_attempts db @ [row_of_attempt (co_attempt co)],
       db_outbox := db_outbox db @ new\<rparr>)"

lemma set_evictions_ids [simp]: "sn_id ` set (evictions E now rows) = sn_id ` set rows"
  by (metis evictions_ids set_map)

definition completed_login ::
  "(string \<Rightarrow> string) \<Rightarrow> UsecaseConfig \<Rightarrow> Credential \<Rightarrow> domain_event list \<Rightarrow> AuthenticationSession \<Rightarrow> string \<Rightarrow> string \<Rightarrow> string \<Rightarrow>
     string \<Rightarrow> string \<Rightarrow> LoginInput \<Rightarrow> time \<Rightarrow> completed" where
  "completed_login sha cfg cred evs s dev fam raw ih fp inp now =
    \<lparr>co_cred = cred, co_events = evs @ fst (Session_PullEvents s), co_session = s, co_device = dev, co_family = fam,
     co_token = \<lparr>rtr_FamilyID = fam, rtr_TokenHash = sha256Hex sha raw, rtr_ClientID = li_ClientID inp,
       rtr_IssuerIP = ipString (li_IP inp), rtr_IssuedAt = now, rtr_ExpiresAt = time_Add now (uc_RefreshTokenTTL cfg)\<rparr>,
     co_attempt = attempt_record (Some (s_identity s)) ih ''SUCCEEDED'' inp fp (Some (s_id s)) now\<rparr>"

lemma session_tx_ok:
  assumes "session_tx rt cfg cred evs s res (Some d) (s_id s) fam raw ih fp inp now tx_repositories w = (Inr u, w')"
    "loc now = UTC" "s_identity s = ri_IdentityID res"
  shows "session_saved cfg (li_ClientID inp) now
    (completed_login (rt_sha256 rt) cfg cred evs s (rd_ID d) fam raw ih fp inp now) (w_db w) (w_db w')"
proof -
  let ?t = "\<lparr>rtr_FamilyID = fam, rtr_TokenHash = sha256Hex (rt_sha256 rt) raw, rtr_ClientID = li_ClientID inp,
       rtr_IssuerIP = ipString (li_IP inp), rtr_IssuedAt = now, rtr_ExpiresAt = time_Add now (uc_RefreshTokenTTL cfg)\<rparr>"
  let ?a = "attempt_record (Some (ri_IdentityID res)) ih ''SUCCEEDED'' inp fp (Some (s_id s)) now"
  from assms(1) obtain w1 w2 w3 w4 w5 w6 w7
    where t: "applyConcurrentSessionPolicy (r_Sessions tx_repositories) (ri_IdentityID res) (li_ClientID inp) cfg now w = (Inr (), w1)"
      "txDevices_Touch (rd_ID d) now w1 = (Inr (), w2)" "txCredentials_Save cred w2 = (Inr (), w3)"
      "txSessions_Create s (li_ClientID inp) w3 = (Inr (), w4)"
      "txRefreshTokens_CreateFamily fam (s_id s) (ri_IdentityID res) w4 = (Inr (), w5)"
      "txRefreshTokens_CreateToken ?t w5 = (Inr (), w6)"
      "txOutbox_Append (evs @ fst (Session_PullEvents s)) w6 = (Inr (), w7)" "recordLoginAttempt ?a w7 = (Inr u, w')"
    by (auto simp: session_tx_def touch_or_register_def stmt_ok)
  note p = policy_ok [OF t(1) assms(2)] and s4 = Create_ok [OF t(4)] and s5 = CreateFamily_ok [OF t(5)]
    and s6 = CreateToken_ok [OF t(6)]
  obtain new where n: "w_db w7 = (w_db w6)\<lparr>db_outbox := db_outbox (w_db w6) @ new\<rparr>"
    "map ob_payload new = map stored_event (evs @ fst (Session_PullEvents s))" "fresh_events new (w_db w6)" using Append_ok(1) [OF t(7)] by blast
  show ?thesis using p s4 s5 s6 n Touch_ok [OF t(2)] Save_ok [OF t(3)] Attempt_ok [OF t(8)] assms(3)
    by (simp add: session_saved_def completed_login_def fresh_events_def) (auto intro: exI [of _ new])
qed


section \<open>The steps of the database\<close>

definition stored :: "database \<Rightarrow> Credential \<Rightarrow> bool" where
  "stored db c \<longleftrightarrow> (\<exists>r\<in>set (db_credentials db). cred_of_row r = Inr c)"

text \<open>
  The durable effect of one login: an audit row at most, the outcome of a failed or of a verified
  password with the credential that was read, or a completed session.
\<close>

inductive login_step :: "UsecaseConfig \<Rightarrow> database \<Rightarrow> database \<Rightarrow> bool" for cfg where
  audit: "only_attempts db db' \<Longrightarrow> login_step cfg db db'"
| failed: "stored db c0 \<Longrightarrow> EnsureVerifiable now c0 = Some (None, c1) \<Longrightarrow>
     RecordFailedAttempt att (uc_Lockout cfg) now c1 = Some (err, c2) \<Longrightarrow> Credential_PullEvents c2 = (evs, c3) \<Longrightarrow>
     outcome_saved c3 evs a db db' \<Longrightarrow> lar_Outcome a = ''FAILED_CREDENTIALS'' \<Longrightarrow> login_step cfg db db'"
| verified: "stored db c0 \<Longrightarrow> EnsureVerifiable now c0 = Some (None, c1) \<Longrightarrow>
     RecordSuccessfulVerification now c1 = Some (None, c2) \<Longrightarrow> Credential_PullEvents c2 = (evs, c3) \<Longrightarrow>
     outcome_saved c3 evs a db db' \<Longrightarrow> lar_Outcome a \<in> {''PASSWORD_CHANGE_REQUIRED'', ''MFA_REQUIRED''} \<Longrightarrow> login_step cfg db db'"
| completed: "stored db c0 \<Longrightarrow> EnsureVerifiable now c0 = Some (None, c1) \<Longrightarrow>
     RecordSuccessfulVerification now c1 = Some (None, c2) \<Longrightarrow> Credential_PullEvents c2 = (evs, co_cred co) \<Longrightarrow>
     NewAuthenticationSession p = Inr (co_session co) \<Longrightarrow> nsp_Policy p = uc_SessionPolicy cfg \<Longrightarrow> nsp_Now p = now \<Longrightarrow>
     loc now = UTC \<Longrightarrow> co_events co = evs @ fst (Session_PullEvents (co_session co)) \<Longrightarrow>
     rtr_FamilyID (co_token co) = co_family co \<Longrightarrow>
     session_saved cfg client now co db db' \<Longrightarrow> login_step cfg db db'"

inductive_cases login_stepE: "login_step cfg db db'"

lemma Execute_saved:
  assumes "Execute (save_outcome c evs a) w = (r, w')"
  shows "w_db w' = w_db w \<or> outcome_saved c evs a (w_db w) (w_db w')" "r = Inr u \<Longrightarrow> outcome_saved c evs a (w_db w) (w_db w')"
  using assms Execute_durable [OF assms] save_outcome_ok by (auto, metis begun_db, metis begun_db)

lemma best_effort_step: "login_step cfg (w_db w) (w_db (recordAttemptBestEffort (app_deps pf cfg) a w))"
  using record_best_effort [of w pf cfg a] by (simp add: login_step.audit)

lemma IDKey_db [simp]: "w_db (snd (world_IDKey pf pw salt p n w)) = w_db w"
  by (simp add: world_IDKey_def)

lemma Dummy_db [simp]: "w_db (DummyVerify (world_IDKey pf) pw p w) = w_db w"
  by (simp add: DummyVerify_def)

lemma verifyPassword_db: "verifyPassword (app_runtime pf) pw c p w = (b, w') \<Longrightarrow> w_db w' = w_db w"
  by (auto simp: verifyPassword_def Verify_def world_IDKey_def Let_def split: if_splits option.splits prod.splits)

lemma invalidCredentials_db:
  "only_attempts (w_db w) (w_db (snd (invalidCredentials (app_runtime pf) (app_deps pf cfg) i ih fp pw inp now w)))"
  using record_best_effort [of "DummyVerify (world_IDKey pf) pw (uc_Argon2id cfg) w" pf cfg]
  by (simp add: invalidCredentials_def Let_def)

lemma attempt_record_Outcome [simp]: "lar_Outcome (attempt_record i ih out inp fp s now) = out"
  by (simp add: attempt_record_def)

lemma failCredential_step:
  assumes "failCredential (app_deps pf cfg) c1 att i ih fp inp now w = (r, w')" "stored (w_db w) c0"
    "EnsureVerifiable now c0 = Some (None, c1)"
  shows "login_step cfg (w_db w) (w_db w')"
proof (cases "RecordFailedAttempt att (uc_Lockout cfg) now c1")
  case None
  with assms(1) show ?thesis by (auto simp: failCredential_def intro: login_step.audit)
next
  case (Some ec)
  obtain err c2 where ec: "ec = (err, c2)" by (cases ec)
  obtain evs c3 where pe: "Credential_PullEvents c2 = (evs, c3)" by (cases "Credential_PullEvents c2")
  let ?a = "attempt_record (Some i) ih ''FAILED_CREDENTIALS'' inp fp None now"
  obtain r1 where x: "Execute (save_outcome c3 evs ?a) w = (r1, w')"
    using assms(1) Some ec pe by (auto simp: failCredential_def split: prod.splits sum.splits)
  from Execute_saved(1) [OF x] show ?thesis
  proof
    assume "outcome_saved c3 evs ?a (w_db w) (w_db w')"
    with Some ec pe assms(2,3) show ?thesis by (auto intro: login_step.failed)
  qed (simp add: login_step.audit)
qed


lemma forced_change_step:
  assumes "completeForcedChange (app_deps pf cfg) c2 i ih fp inp now w = (r, w')" "stored (w_db w) c0"
    "EnsureVerifiable now c0 = Some (None, c1)" "RecordSuccessfulVerification now c1 = Some (None, c2)"
  shows "login_step cfg (w_db w) (w_db w')"
proof -
  obtain r1 w1 where t: "SignRestrictedToken (pf_signedString pf) time_Now newID (pf_signer pf) i ''password_change''
      (uc_ForcedChangeWindow cfg) w = (r1, w1)" by (meson surj_pair)
  have db1: "w_db w1 = w_db w" using SignRestrictedToken_same [OF t] by (simp add: same_db_def)
  obtain evs c3 where pe: "Credential_PullEvents c2 = (evs, c3)" by (cases "Credential_PullEvents c2")
  let ?a = "attempt_record (Some i) ih ''PASSWORD_CHANGE_REQUIRED'' inp fp None now"
  have "w_db w' = w_db w \<or> (\<exists>r2. Execute (save_outcome c3 evs ?a) w1 = (r2, w'))"
    using assms(1) pe t db1 by (auto simp: completeForcedChange_def split: prod.splits sum.splits)
  with Execute_saved(1) db1 have "w_db w' = w_db w \<or> outcome_saved c3 evs ?a (w_db w) (w_db w')" by metis
  with assms(2-) pe show ?thesis by (auto intro: login_step.verified login_step.audit)
qed

lemma mfa_required_step:
  assumes "completeMFARequired (app_runtime pf) (app_deps pf cfg) c2 i ih fp inp now w = (r, w')" "stored (w_db w) c0"
    "EnsureVerifiable now c0 = Some (None, c1)" "RecordSuccessfulVerification now c1 = Some (None, c2)"
  shows "login_step cfg (w_db w) (w_db w')"
proof -
  obtain r1 w1 where f: "ListActiveFactorTypes i w = (r1, w1)" by (meson surj_pair)
  obtain r2 w2 where t: "randomOpaqueToken (app_runtime pf) w1 = (r2, w2)" by (meson surj_pair)
  have db: "w_db w1 = w_db w" "w_db w2 = w_db w"
    using ListActiveFactorTypes_same [OF f] randomOpaqueToken_same [OF t] by (simp_all add: same_db_def)
  obtain evs c3 where pe: "Credential_PullEvents c2 = (evs, c3)" by (cases "Credential_PullEvents c2")
  let ?a = "attempt_record (Some i) ih ''MFA_REQUIRED'' inp fp None now"
  obtain r3 w3 where x: "Execute (save_outcome c3 evs ?a) w2 = (r3, w3)" by (meson surj_pair)
  have "w_db w' = w_db w \<or> w_db w' = w_db w3"
    using assms(1) pe f t db x MFASession_Create_same
    by (auto simp: completeMFARequired_def same_db_def split: prod.splits sum.splits)
  with Execute_saved(1) [OF x] db have "w_db w' = w_db w \<or> outcome_saved c3 evs ?a (w_db w) (w_db w')" by metis
  with assms(2-) pe show ?thesis by (auto intro: login_step.verified login_step.audit)
qed


lemma NewSession_fields:
  "NewAuthenticationSession p = Inr s \<Longrightarrow> s_id s = nsp_ID p \<and> s_identity s = nsp_Identity p
     \<and> s_aal s = nsp_AAL p \<and> s_device s = nsp_Device p"
  by (auto simp: NewAuthenticationSession_def session_record_def Let_def split: if_splits option.splits)

definition login_session :: "string \<Rightarrow> string \<Rightarrow> LoginInput \<Rightarrow> UsecaseConfig \<Rightarrow> time \<Rightarrow> NewSessionParams" where
  "login_session sid i inp cfg now = \<lparr>nsp_ID = sid, nsp_Identity = i, nsp_Device = '''', nsp_AAL = AAL1,
     nsp_FactorsUsed = [], nsp_Client = \<lparr>ci_IP = li_IP inp, ci_UserAgent = li_UserAgent inp\<rparr>,
     nsp_Policy = uc_SessionPolicy cfg, nsp_Now = now\<rparr>"

text \<open>
  Either nothing is written, or everything of one session; a success is the second, with the session
  and the refresh token that the result names.
\<close>

lemma completeSession_effect:
  assumes "completeSession (app_runtime pf) (app_deps pf cfg) c2 res (Some d) ih fp inp now w = (r, w')" "loc now = UTC"
    "Credential_PullEvents c2 = (evs, c3)"
  shows "(w_db w' = w_db w \<and> (\<exists>e. r = Some (Inl e))) \<or>
    (\<exists>sid s fam raw. NewAuthenticationSession (login_session sid (ri_IdentityID res) inp cfg now) = Inr s
       \<and> session_saved cfg (li_ClientID inp) now
           (completed_login (pf_sha256 pf) cfg c3 evs s (rd_ID d) fam raw ih fp inp now) (w_db w) (w_db w')
       \<and> (\<forall>x. r = Some (Inr x) \<longrightarrow> lr_SessionID x = sid \<and> lr_RefreshToken x = raw))"
proof -
  let ?sid = "w_uuid w (w_tick w)" and ?w1 = "tick w"
  have id: "newID w = (?sid, ?w1)" by (simp add: newID_def)
  show ?thesis
  proof (cases "NewAuthenticationSession (login_session ?sid (ri_IdentityID res) inp cfg now)")
    case (Inl e)
    with assms(1) id show ?thesis by (auto simp: completeSession_def login_session_def Let_def)
  next
    case (Inr s)
    obtain rt2 w2 where t: "randomOpaqueToken (app_runtime pf) ?w1 = (rt2, w2)" by (meson surj_pair)
    obtain fam w3 where f: "newID w2 = (fam, w3)" by (meson surj_pair)
    let ?claims = "\<lparr>atc_Subject = ri_IdentityID res, atc_Audience = [li_ClientID inp], atc_SessionID = ?sid,
              atc_AAL = AAL1, atc_DeviceID = '''', atc_CorporateID = ri_CorporateID res, atc_Scope = ''''\<rparr>"
    obtain rt4 w4 where a: "SignAccessToken (pf_signedString pf) time_Now newID (pf_signer pf) ?claims (uc_AccessTokenTTL cfg) w3
      = (rt4, w4)" by (meson surj_pair)
    have db: "w_db w2 = w_db w" "w_db w3 = w_db w" "w_db w4 = w_db w"
      using randomOpaqueToken_same [OF t] newID_same [OF f] SignAccessToken_same [OF a] by (simp_all add: same_db_def)
    show ?thesis
    proof (cases "\<exists>raw tok. rt2 = Inr raw \<and> rt4 = Inr tok")
      case False
      with assms(1) id t f a Inr db show ?thesis
        by (cases rt2; cases rt4) (auto simp: completeSession_def login_session_def Let_def)
    next
      case True
      then obtain raw tok where rt: "rt2 = Inr raw" "rt4 = Inr tok" by blast
      let ?tx = "session_tx (app_runtime pf) cfg c3 evs s res (Some d) ?sid fam raw ih fp inp now"
      obtain r5 where x: "Execute ?tx w4 = (r5, w')"
        using assms(1,3) id t f a Inr rt by (auto simp: completeSession_def login_session_def Let_def split: prod.splits sum.splits)
      have res: "r5 = Inl e \<Longrightarrow> \<exists>e. r = Some (Inl e)" "r = Some (Inr y) \<Longrightarrow> lr_SessionID y = ?sid \<and> lr_RefreshToken y = raw" for e y
        using assms(1,3) id t f a Inr rt x by (auto simp: completeSession_def login_session_def Let_def split: sum.splits)
      have "s_id s = ?sid" "s_identity s = ri_IdentityID res" using NewSession_fields [OF Inr] by (simp_all add: login_session_def)
      then show ?thesis using Execute_durable [OF x] session_tx_ok [of "app_runtime pf" cfg c3 evs s res d fam raw ih fp inp now]
          assms(2) db res Inr by (fastforce simp del: begun_db simp add: begun_db)
    qed
  qed
qed


lemma session_step:
  assumes "completeSession (app_runtime pf) (app_deps pf cfg) c2 res (Some d) ih fp inp now w = (r, w')" "loc now = UTC"
    "stored (w_db w) c0" "EnsureVerifiable now c0 = Some (None, c1)" "RecordSuccessfulVerification now c1 = Some (None, c2)"
  shows "login_step cfg (w_db w) (w_db w')"
proof -
  obtain evs c3 where pe: "Credential_PullEvents c2 = (evs, c3)" by (cases "Credential_PullEvents c2")
  from completeSession_effect [OF assms(1,2) pe] show ?thesis
  proof (elim disjE exE conjE)
    fix sid s fam raw
    let ?co = "completed_login (pf_sha256 pf) cfg c3 evs s (rd_ID d) fam raw ih fp inp now"
    let ?p = "login_session sid (ri_IdentityID res) inp cfg now"
    assume n: "NewAuthenticationSession ?p = Inr s" and s: "session_saved cfg (li_ClientID inp) now ?co (w_db w) (w_db w')"
    show ?thesis by (rule login_step.completed [where co = ?co and p = ?p and evs = evs, OF assms(3-5) _ _ _ _ assms(2) _ _ s])
        (simp_all add: completed_login_def pe n login_session_def [symmetric], simp_all add: login_session_def)
  qed (simp add: login_step.audit)
qed

lemma complete_login_step:
  assumes "complete_login (app_runtime pf) (app_deps pf cfg) c2 res ih fp inp now w = (r, w')" "loc now = UTC"
    "stored (w_db w) c0" "EnsureVerifiable now c0 = Some (None, c1)" "RecordSuccessfulVerification now c1 = Some (None, c2)"
  shows "login_step cfg (w_db w) (w_db w')"
proof -
  obtain r1 w1 where f: "FindByFingerprint (ri_IdentityID res) fp w = (r1, w1)" by (meson surj_pair)
  obtain r2 w2 where h: "HasActiveFactor (ri_IdentityID res) w1 = (r2, w2)" by (meson surj_pair)
  have db: "w_db w1 = w_db w" "w_db w2 = w_db w"
    using FindByFingerprint_same [OF f] HasActiveFactor_same [OF h] by (simp_all add: same_db_def)
  have st: "stored (w_db w2) c0" using assms(3) db by simp
  note steps = forced_change_step [OF _ st assms(4,5)] mfa_required_step [OF _ st assms(4,5)]
    session_step [OF _ assms(2) st assms(4,5)]
  show ?thesis
  proof (cases "\<exists>dev has. r1 = Inr dev \<and> r2 = Inr has")
    case True
    with assms(1) f h steps db show ?thesis by (auto simp: complete_login_def split: if_splits)
  next
    case False
    with assms(1) f h db show ?thesis
      by (cases r1; cases r2) (auto simp: complete_login_def intro: login_step.audit)
  qed
qed

lemma login_credential_step:
  assumes "login_credential (app_runtime pf) (app_deps pf cfg) c0 res ih fp cc pw inp now w = (r, w')" "loc now = UTC"
    "stored (w_db w) c0"
  shows "login_step cfg (w_db w) (w_db w')"
proof -
  consider (panic) "EnsureVerifiable now c0 = None" | (locked) e c1 where "EnsureVerifiable now c0 = Some (Some e, c1)"
    | (ok) c1 where "EnsureVerifiable now c0 = Some (None, c1)"
    by (metis not_None_eq surj_pair)
  then show ?thesis
  proof cases
    case locked
    with assms(1) show ?thesis by (auto simp: login_credential_def best_effort_step)
  next
    case ok
    obtain b w1 where v: "verifyPassword (app_runtime pf) pw c1 (uc_Argon2id cfg) w = (b, w1)" by (meson surj_pair)
    have db: "w_db w1 = w_db w" using verifyPassword_db [OF v] .
    have st: "stored (w_db w1) c0" using assms(3) db by simp
    show ?thesis
    proof (cases b)
      case True
      have "RecordSuccessfulVerification now c1 = Some (None, c2) \<Longrightarrow>
          complete_login (app_runtime pf) (app_deps pf cfg) c2 res ih fp inp now w1 = (r, w') \<Longrightarrow> ?thesis" for c2
        using complete_login_step [OF _ assms(2) st ok] db by metis
      with assms(1) ok v True db show ?thesis
        by (auto simp: login_credential_def Let_def intro: login_step.audit split: option.splits prod.splits)
    next
      case False
      with assms(1) ok v failCredential_step [OF _ st ok] db show ?thesis
        by (auto simp: login_credential_def Let_def)
    qed
  qed (use assms(1) in \<open>auto simp: login_credential_def intro: login_step.audit\<close>)
qed

lemma findCredential_stored:
  "findCredentialByIdentity i w = (Inr c, w') \<Longrightarrow> stored (w_db w') c"
proof -
  assume "findCredentialByIdentity i w = (Inr c, w')"
  then obtain row where q: "Some row = find (\<lambda>r. cr_identity_id r = i) (db_credentials (w_db w))"
    and c: "cred_of_row row = Inr c" "w' = tick w"
    by (auto simp: findCredentialByIdentity_def pbind_ok wrap_ok with_text_ok dest!: query_ok split: option.splits)
  from q [symmetric] have "row \<in> set (db_credentials (w_db w))" by (auto simp: find_Some_iff)
  with c show ?thesis by (auto simp: stored_def)
qed

end
