(* ===== verification/Login_Front.thy ===== *)
theory Login_Front
  imports Login_Effects
begin

text \<open>
  The wired login as a whole: either it is refused before a credential is loaded, or it continues with
  the stored credential of an active identity that the rate limiter let pass.
\<close>

definition login_now :: "world \<Rightarrow> time" where
  "login_now w = time_UTC (w_clock w (w_tick w))"

definition login_password :: "LoginInput \<Rightarrow> string" where
  "login_password inp = truncate_string (li_Password inp) maxPasswordLen"

definition login_fingerprint :: "'k Platform \<Rightarrow> LoginInput \<Rightarrow> string" where
  "login_fingerprint pf inp = computeFingerprint (pf_unicode pf) (pf_sha256 pf) (li_UserAgent inp) (li_AcceptLanguage inp)
     (li_DeviceFingerprint inp) (li_IP inp)"

definition login_company :: "'k Platform \<Rightarrow> LoginInput \<Rightarrow> string" where
  "login_company pf inp = ToUpper (pf_unicode pf) (TrimSpace (pf_unicode pf) (li_CompanyCode inp))"

text \<open>The Argon2id call that stands in for a verification.\<close>

definition dummy_call :: "string \<Rightarrow> UsecaseConfig \<Rightarrow> argon_call" where
  "dummy_call pw cfg = \<lparr>ag_password = pw, ag_salt = take saltLen dummySalt, ag_params = uc_Argon2id cfg, ag_keyLen = keyLen\<rparr>"

lemma Dummy_argon [simp]:
  "w_argon (DummyVerify (world_IDKey pf) pw (uc_Argon2id cfg) w) = w_argon w @ [dummy_call pw cfg]"
  by (simp add: DummyVerify_def world_IDKey_def dummy_call_def)

lemma invalidCredentials_effect:
  assumes "invalidCredentials (app_runtime pf) (app_deps pf cfg) i ih fp pw inp now w = (r, w')"
  shows "r = Some (Inl invalid_credentials_error) \<and> only_attempts (w_db w) (w_db w')
    \<and> w_argon w' = w_argon w @ [dummy_call pw cfg]"
  using assms record_best_effort [of "DummyVerify (world_IDKey pf) pw (uc_Argon2id cfg) w" pf cfg]
  by (auto simp: invalidCredentials_def Let_def)

lemma error_codes [simp]:
  "ae_Code (apperror_Wrap c m e) = c" "ae_Code (apperror_New c m) = c" "ae_Code (WithDetail k v a) = ae_Code a"
  "ae_Code (RateLimited d) = ErrRateLimited"
  by (simp_all add: apperror_Wrap_def apperror_New_def WithDetail_def RateLimited_def)

lemma invalid_code [simp]: "ae_Code invalid_credentials_error = ErrLoginInvalidCredentials"
  by (simp add: invalid_credentials_error_def)

lemma other_error: "ae_Code e \<noteq> ErrLoginInvalidCredentials \<Longrightarrow> e \<noteq> invalid_credentials_error"
  by auto

lemma limit_codes:
  assumes "checkRateLimit deps ip ih w = (r, w')"
  shows "r = Inl e \<Longrightarrow> ae_Code e = ErrSystemUpstream" "r = Inr (Some e) \<Longrightarrow> ae_Code e = ErrRateLimited"
  using assms by (auto simp: checkRateLimit_def Let_def split: prod.splits sum.splits if_splits)

lemma same_dbD: "same_db w w' \<Longrightarrow> w_db w' = w_db w \<and> w_argon w' = w_argon w"
  by (simp add: same_db_def)

text \<open>A refusal before any credential is loaded.\<close>

definition refused_early :: "UsecaseConfig \<Rightarrow> LoginInput \<Rightarrow> world \<Rightarrow> AppError \<Rightarrow> world \<Rightarrow> bool" where
  "refused_early cfg inp w e w' \<longleftrightarrow> only_attempts (w_db w) (w_db w')
     \<and> (if ae_Code e = ErrLoginInvalidCredentials
        then e = invalid_credentials_error \<and> w_argon w' = w_argon w @ [dummy_call (login_password inp) cfg]
        else w_argon w' = w_argon w)"

lemma refused_unchanged: "same_db w w' \<Longrightarrow> ae_Code e \<noteq> ErrLoginInvalidCredentials \<Longrightarrow> refused_early cfg inp w e w'"
  by (auto simp: refused_early_def dest!: same_dbD)

lemma refused_recorded:
  "same_db w w1 \<Longrightarrow> ae_Code e \<noteq> ErrLoginInvalidCredentials \<Longrightarrow>
     refused_early cfg inp w e (recordAttemptBestEffort (app_deps pf cfg) a w1)"
  using record_best_effort [of w1 pf cfg a] by (auto simp: refused_early_def dest!: same_dbD)

lemma refused_invalid:
  assumes "same_db w w1"
    "invalidCredentials (app_runtime pf) (app_deps pf cfg) i ih fp (login_password inp) inp now w1 = (r, w')"
  shows "\<exists>e. r = Some (Inl e) \<and> refused_early cfg inp w e w'"
  using invalidCredentials_effect [OF assms(2)] same_dbD [OF assms(1)] by (auto simp: refused_early_def)

text \<open>The call of the credential phase, with every check before it passed.\<close>

definition credential_phase ::
  "'k Platform \<Rightarrow> UsecaseConfig \<Rightarrow> LoginInput \<Rightarrow> world \<Rightarrow> ResolvedIdentity \<Rightarrow> Credential \<Rightarrow> world \<Rightarrow> bool" where
  "credential_phase pf cfg inp w res cred w3 \<longleftrightarrow> (\<exists>w1 w2.
     checkRateLimit (app_deps pf cfg) (ipString (li_IP inp)) (sha256Hex (pf_sha256 pf) (li_Identifier inp)) (tick w) = (Inr None, w1)
     \<and> ResolveIdentity (pf_identity pf) (normalize (pf_unicode pf) (li_Identifier inp)) (login_company pf inp) w1 = (Inr (Some res), w2)
     \<and> ri_Status res = ''ACTIVE''
     \<and> findCredentialByIdentity (ri_IdentityID res) w2 = (Inr cred, w3) \<and> same_db w w3)"

lemma login_front:
  assumes "app_Login pf cfg inp w = (r, w')"
  shows "(\<exists>e. r = Some (Inl e) \<and> refused_early cfg inp w e w') \<or>
    (\<exists>res cred w3. credential_phase pf cfg inp w res cred w3
       \<and> login_credential (app_runtime pf) (app_deps pf cfg) cred res (sha256Hex (pf_sha256 pf) (li_Identifier inp))
           (login_fingerprint pf inp) (login_company pf inp) (login_password inp) inp (login_now w) w3 = (r, w'))"
proof -
  have c: "time_Now w = (w_clock w (w_tick w), tick w)" by (simp add: time_Now_def)
  let ?ih = "sha256Hex (pf_sha256 pf) (li_Identifier inp)" and ?id = "normalize (pf_unicode pf) (li_Identifier inp)"
  obtain r1 w1 where rl: "checkRateLimit (app_deps pf cfg) (ipString (li_IP inp)) ?ih (tick w) = (r1, w1)" by (meson surj_pair)
  have s1: "same_db w w1" using checkRateLimit_same [OF rl] same_db_trans [OF same_db_tick] by blast
  obtain r2 w2 where ri: "ResolveIdentity (pf_identity pf) ?id (login_company pf inp) w1 = (r2, w2)" by (meson surj_pair)
  have s2: "same_db w w2" using same_db_trans [OF s1 ResolveIdentity_same [OF ri]] .
  note defs = app_Login_def Login_def Let_def login_now_def login_password_def login_fingerprint_def login_company_def
  consider (limited) "r1 \<noteq> Inr None" | (unresolved) "r1 = Inr None" "\<not> (\<exists>res. r2 = Inr (Some res) \<and> ri_Status res = ''ACTIVE'')"
    | (resolved) res where "r1 = Inr None" "r2 = Inr (Some res)" "ri_Status res = ''ACTIVE''" by blast
  then show ?thesis
  proof cases
    case limited
    then show ?thesis using assms c rl limit_codes [OF rl] refused_unchanged [OF s1] refused_recorded [OF s1, where pf = pf]
      by (cases r1) (auto simp: defs)
  next
    case unresolved
    then show ?thesis using assms c rl ri refused_invalid [OF s2] refused_unchanged [OF s2]
      by (cases r2) (auto simp: defs split: option.splits if_splits)
  next
    case resolved
    obtain r3 w3 where fc: "findCredentialByIdentity (ri_IdentityID res) w2 = (r3, w3)" by (meson surj_pair)
    have s3: "same_db w w3" using same_db_trans [OF s2 findCredential_same [OF fc]] .
    show ?thesis
    proof (cases r3)
      case (Inl e)
      then show ?thesis using assms c rl ri fc resolved refused_invalid [OF s3] refused_unchanged [OF s3]
        by (auto simp: defs split: if_splits)
    next
      case (Inr cred)
      then have "credential_phase pf cfg inp w res cred w3"
        using rl ri fc resolved s3 by (auto simp: credential_phase_def login_company_def)
      then show ?thesis using assms c rl ri fc resolved Inr by (auto simp: defs)
    qed
  qed
qed

lemma phase_stored: "credential_phase pf cfg inp w res cred w3 \<Longrightarrow> stored (w_db w3) cred \<and> w_db w3 = w_db w \<and> w_argon w3 = w_argon w"
  by (auto simp: credential_phase_def same_db_def dest: findCredential_stored)


lemma app_Login_step:
  assumes "app_Login pf cfg inp w = (r, w')"
  shows "login_step cfg (w_db w) (w_db w')"
  using login_front [OF assms]
proof (elim disjE exE conjE)
  fix e assume "refused_early cfg inp w e w'"
  then show ?thesis by (auto simp: refused_early_def intro: login_step.audit)
next
  fix res cred w3
  assume p: "credential_phase pf cfg inp w res cred w3"
    and l: "login_credential (app_runtime pf) (app_deps pf cfg) cred res (sha256Hex (pf_sha256 pf) (li_Identifier inp))
           (login_fingerprint pf inp) (login_company pf inp) (login_password inp) inp (login_now w) w3 = (r, w')"
  from phase_stored [OF p] have st: "stored (w_db w3) cred" "w_db w3 = w_db w" by blast+
  from login_credential_step [OF l _ st(1)] st(2) show ?thesis by (simp add: login_now_def)
qed

end
