(* ===== verification/Login_Invariants.thy ===== *)
theory Login_Invariants
  imports Login_Front
begin

text \<open>
  Invariants of the database under logins: keys stay unique, references resolve, every credential
  row can be loaded again, and therefore the use case never panics.
\<close>

section \<open>Rows that load\<close>

text \<open>The two counters are columns of four bytes and the stored instant is already in microseconds.\<close>

definition cred_row_ok :: "cred_row \<Rightarrow> bool" where
  "cred_row_ok r \<longleftrightarrow> (\<exists>c. cred_of_row r = Inr c) \<and> int4 (cr_failed_attempt_count r)
     \<and> int4 (cr_lockout_history_count r) \<and> timestamptz (cr_password_created_at r) = cr_password_created_at r"

definition db_ok :: "database \<Rightarrow> bool" where
  "db_ok db \<longleftrightarrow> list_all cred_row_ok (db_credentials db) \<and> distinct (map cr_id (db_credentials db))
     \<and> distinct (map sn_id (db_sessions db)) \<and> distinct (map fm_id (db_families db))
     \<and> distinct (map tr_token_hash (db_tokens db))
     \<and> (\<forall>f\<in>set (db_families db). fm_session_id f \<in> sn_id ` set (db_sessions db))
     \<and> (\<forall>t\<in>set (db_tokens db). tr_family_id t \<in> fm_id ` set (db_families db))"

lemma nanos_timestamptz: "nanos (timestamptz t) = nanos t - nanos t mod 1000" "loc (timestamptz t) = UTC"
  by (simp_all add: timestamptz_def)

lemma timestamptz_idem [simp]: "timestamptz (timestamptz t) = timestamptz t"
  by (simp add: timestamptz_def mod_diff_left_eq)

lemma int4_max: "int4 i \<Longrightarrow> i < max_int64"
  by (simp add: int4_def max_int64_def)

lemma Rehydrated_fields:
  assumes "RehydrateCredential snap p = Inr c"
  shows "c_id c = cs_ID snap \<and> c_identity c = cs_IdentityID snap \<and> c_password c = cs_Password snap
    \<and> c_failedAttemptCount c = cs_FailedAttemptCount snap \<and> c_lockoutHistoryCount c = cs_LockoutHistoryCount snap
    \<and> c_passwordCreatedAt c = time_UTC (cs_PasswordCreatedAt snap) \<and> c_history c = cs_History snap \<and> c_events c = []
    \<and> c_lockoutStatus c = cs_LockoutStatus snap \<and> c_lockedUntil c = utcTime (cs_LockedUntil snap)"
  using assms unfolding RehydrateCredential_def by (simp split: if_split_asm option.split_asm, hypsubst) simp

text \<open>What a loaded credential shares with its row.\<close>

lemma cred_of_row_fields:
  assumes "cred_of_row r = Inr c"
  shows "wf_credential DefaultCredentialPolicy c" "c_id c = cr_id r" "c_identity c = cr_identity_id r"
    "c_failedAttemptCount c = cr_failed_attempt_count r" "c_lockoutHistoryCount c = cr_lockout_history_count r"
    "c_passwordCreatedAt c = time_UTC (cr_password_created_at r)" "c_history c = []" "c_events c = []"
    "NewPasswordHash (cr_password_hash r) (cr_password_salt r) (cr_password_algorithm r) (cr_password_version r) = Inr (c_password c)"
proof -
  from assms obtain ph where n: "NewPasswordHash (cr_password_hash r) (cr_password_salt r) (cr_password_algorithm r)
        (cr_password_version r) = Inr ph"
    and r: "RehydrateCredential
                  \<lparr>cs_ID = cr_id r, cs_IdentityID = cr_identity_id r, cs_Password = ph,
                   cs_PasswordCreatedAt = cr_password_created_at r, cs_PasswordExpiresAt = cr_password_expires_at r,
                   cs_ForcePasswordChange = cr_force_password_change r, cs_FailedAttemptCount = cr_failed_attempt_count r,
                   cs_LastFailedAt = cr_last_failed_at r, cs_LockoutStatus = cr_lockout_status r,
                   cs_LockedAt = cr_locked_at r, cs_LockedUntil = cr_locked_until r,
                   cs_LockoutHistoryCount = cr_lockout_history_count r, cs_History = []\<rparr>
                  DefaultCredentialPolicy = Inr c"
    by (auto simp: cred_of_row_def split: sum.splits)
  show "wf_credential DefaultCredentialPolicy c" using RehydrateCredential_wf [OF r] .
  note rehydrated = Rehydrated_fields [OF r]
  then show "c_id c = cr_id r" "c_identity c = cr_identity_id r"
    "c_failedAttemptCount c = cr_failed_attempt_count r" "c_lockoutHistoryCount c = cr_lockout_history_count r"
    "c_passwordCreatedAt c = time_UTC (cr_password_created_at r)" "c_history c = []" "c_events c = []" by simp_all
  show "NewPasswordHash (cr_password_hash r) (cr_password_salt r) (cr_password_algorithm r) (cr_password_version r) = Inr (c_password c)"
    using n rehydrated by simp
qed


section \<open>What a login leaves alone in a credential\<close>

definition cred_core :: "Credential \<Rightarrow> CredentialID \<times> IdentityRef \<times> PasswordHash \<times> time \<times> PasswordHistoryEntry list" where
  "cred_core c = (c_id c, c_identity c, c_password c, c_passwordCreatedAt c, c_history c)"

lemma core_simps [simp]:
  "cred_core (c\<lparr>c_events := es\<rparr>) = cred_core c" "cred_core (c\<lparr>c_failedAttemptCount := n\<rparr>) = cred_core c"
  "cred_core (c\<lparr>c_lastFailedAt := t\<rparr>) = cred_core c" "cred_core (c\<lparr>c_lockoutStatus := s\<rparr>) = cred_core c"
  "cred_core (c\<lparr>c_lockedAt := t\<rparr>) = cred_core c" "cred_core (c\<lparr>c_lockedUntil := t\<rparr>) = cred_core c"
  "cred_core (c\<lparr>c_lockoutHistoryCount := n\<rparr>) = cred_core c"
  by (simp_all add: cred_core_def)

lemma core_record [simp]: "cred_core (record_event e c) = cred_core c"
  by (simp add: record_event_def)

lemma core_failed [simp]: "cred_core (recordLoginFailed a r t c) = cred_core c"
  by (simp add: recordLoginFailed_def Let_def)

lemma core_unlock [simp]: "cred_core (unlock r t c) = cred_core c"
  by (simp add: unlock_def Let_def)

lemma core_lock: "lock p ip t c = Some c' \<Longrightarrow> cred_core c' = cred_core c"
  by (auto simp: lock_def Let_def split: if_splits Option.bind_splits)

lemma core_EnsureVerifiable: "EnsureVerifiable t c = Some (e, c') \<Longrightarrow> cred_core c' = cred_core c"
  using EnsureVerifiable_result by fastforce

lemma core_RecordFailedAttempt:
  assumes "RecordFailedAttempt a p t c = Some (e, c')" shows "cred_core c' = cred_core c"
proof (cases "LockoutPolicy_Validate p")
  case None
  with assms obtain err c1 where ev: "EnsureVerifiable (time_UTC t) c = Some (err, c1)"
    by (auto simp: RecordFailedAttempt_def Let_def split: Option.bind_splits)
  then show ?thesis using assms None core_EnsureVerifiable [OF ev] core_lock
    by (fastforce simp: RecordFailedAttempt_def Let_def split: option.splits if_splits Option.bind_splits)
qed (use assms in \<open>simp add: RecordFailedAttempt_def\<close>)

lemma core_RecordSuccess:
  "RecordSuccessfulVerification t c = Some (e, c') \<Longrightarrow> cred_core c' = cred_core c"
  using core_EnsureVerifiable by (fastforce simp: RecordSuccessfulVerification_def split: Option.bind_splits option.splits)

lemma core_PullEvents: "Credential_PullEvents c = (evs, c') \<Longrightarrow> cred_core c' = cred_core c \<and> c' = c\<lparr>c_events := []\<rparr> \<and> evs = c_events c"
  by (auto simp: Credential_PullEvents_def)

lemmas core_ops = core_EnsureVerifiable core_RecordFailedAttempt core_RecordSuccess

section \<open>Saving keeps rows loadable\<close>

lemma time_UTC_tz: "timestamptz t = t \<Longrightarrow> timestamptz (time_UTC t) = time_UTC t"
  by (metis nanos_timestamptz(2) time_UTC_id)

lemma saved_row_ok:
  assumes "cred_row_ok r" "cred_of_row r = Inr c0" "cred_core c = cred_core c0" "counters_fit c"
    "wf_credential DefaultCredentialPolicy c"
  shows "cred_row_ok (row_of_cred (Credential_Snapshot c) r)"
proof -
  note f = cred_of_row_fields [OF assms(2)]
  have tz: "timestamptz (c_passwordCreatedAt c0) = c_passwordCreatedAt c0"
    using assms(1) f(6) time_UTC_tz by (auto simp: cred_row_ok_def)
  have core: "c_id c = cr_id r" "c_identity c = cr_identity_id r" "c_password c = c_password c0"
      "c_passwordCreatedAt c = c_passwordCreatedAt c0" "c_history c = []"
    using assms(3) f by (simp_all add: cred_core_def)
  have ph: "ph_hash (c_password c0) = cr_password_hash r" "ph_salt (c_password c0) = cr_password_salt r"
    using f(9) [symmetric] by (auto simp: NewPasswordHash_def split: if_splits)
  let ?snap = "\<lparr>cs_ID = c_id c, cs_IdentityID = c_identity c, cs_Password = c_password c,
     cs_PasswordCreatedAt = c_passwordCreatedAt c, cs_PasswordExpiresAt = map_option timestamptz (c_passwordExpiresAt c),
     cs_ForcePasswordChange = c_forcePasswordChange c, cs_FailedAttemptCount = c_failedAttemptCount c,
     cs_LastFailedAt = map_option timestamptz (c_lastFailedAt c), cs_LockoutStatus = c_lockoutStatus c,
     cs_LockedAt = map_option timestamptz (c_lockedAt c), cs_LockedUntil = map_option timestamptz (c_lockedUntil c),
     cs_LockoutHistoryCount = c_lockoutHistoryCount c, cs_History = []\<rparr>"
  have "\<exists>c'. RehydrateCredential ?snap DefaultCredentialPolicy = Inr c'"
    using assms(5) wf_lockout_valid [OF assms(5)]
    by (auto simp: RehydrateCredential_def wf_defs CredentialPolicy_Validate_def DefaultCredentialPolicy_def time_simps)
  then show ?thesis using assms(4) f(9) tz core ph
    by (auto simp: cred_row_ok_def cred_of_row_def row_of_cred_def Credential_Snapshot_def counters_fit_def)
qed


lemma stored_row:
  "stored db c \<Longrightarrow> \<exists>r\<in>set (db_credentials db). cred_of_row r = Inr c"
  by (simp add: stored_def)

lemma credentials_saved:
  assumes "list_all cred_row_ok rows" "distinct (map cr_id rows)" "\<exists>r\<in>set rows. cred_of_row r = Inr c0"
    "cred_core c = cred_core c0" "counters_fit c" "wf_credential DefaultCredentialPolicy c"
  shows "list_all cred_row_ok (update_where (\<lambda>r. cr_id r = c_id c) (row_of_cred (Credential_Snapshot c)) rows)"
proof -
  obtain r0 where r0: "r0 \<in> set rows" "cred_of_row r0 = Inr c0" using assms(3) by blast
  have id: "c_id c = cr_id r0" using cred_of_row_fields(2) [OF r0(2)] assms(4) by (simp add: cred_core_def)
  have "cred_row_ok (row_of_cred (Credential_Snapshot c) r)" if "r \<in> set rows" "cr_id r = c_id c" for r
  proof -
    have "r = r0" using that r0(1) id assms(2) by (metis eq_key_imp_eq_value map_of_eq_Some_iff distinct_map inj_onD)
    with saved_row_ok [OF _ r0(2) assms(4-6)] r0(1) assms(1) show ?thesis by (auto simp: list_all_iff)
  qed
  with assms(1) show ?thesis by (auto simp: list_all_iff update_where_def)
qed

lemma update_where_keys [simp]: "(\<And>r. k (f r) = k r) \<Longrightarrow> map k (update_where p f rows) = map k rows"
  by (simp add: update_where_def)

lemma row_of_cred_id [simp]: "cr_id (row_of_cred snap r) = cr_id r"
  by (simp add: row_of_cred_def)

lemma stored_wf: "stored db c \<Longrightarrow> wf_credential DefaultCredentialPolicy c"
  using cred_of_row_fields(1) by (auto simp: stored_def)

lemma stored_counters:
  assumes "db_ok db" "stored db c"
  shows "c_failedAttemptCount c < max_int64" "c_lockoutHistoryCount c < max_int64"
proof -
  obtain r where "r \<in> set (db_credentials db)" "cred_of_row r = Inr c" using assms(2) by (auto simp: stored_def)
  with assms(1) cred_of_row_fields(4,5) [of r c] show "c_failedAttemptCount c < max_int64" "c_lockoutHistoryCount c < max_int64"
    by (auto simp: db_ok_def list_all_iff cred_row_ok_def int4_max)
qed

lemma EnsureVerifiable_counters:
  "EnsureVerifiable t c = Some (e, c') \<Longrightarrow> c_failedAttemptCount c < max_int64 \<Longrightarrow> c_lockoutHistoryCount c < max_int64 \<Longrightarrow>
     c_failedAttemptCount c' < max_int64 \<and> c_lockoutHistoryCount c' < max_int64"
  using EnsureVerifiable_result by (fastforce simp: max_int64_def)

text \<open>The credential of a login, after each of its operations.\<close>

lemma login_failed_cred:
  assumes "db_ok db" "stored db c0" "EnsureVerifiable now c0 = Some (None, c1)"
  shows "\<exists>e c2. RecordFailedAttempt att p now c1 = Some (e, c2) \<and> wf_credential DefaultCredentialPolicy c2"
  using EnsureVerifiable_counters [OF assms(3) stored_counters [OF assms(1,2)]]
    EnsureVerifiable_wf [OF stored_wf [OF assms(2)] assms(3)] RecordFailedAttempt_total by blast

lemma login_verified_cred:
  assumes "stored db c0" "EnsureVerifiable now c0 = Some (None, c1)"
  shows "\<exists>e c2. RecordSuccessfulVerification now c1 = Some (e, c2) \<and> wf_credential DefaultCredentialPolicy c2"
  using EnsureVerifiable_wf [OF stored_wf [OF assms(1)] assms(2)] RecordSuccessfulVerification_total by blast

lemma outcome_saved_ok:
  assumes "db_ok db" "stored db c0" "cred_core c = cred_core c0" "wf_credential DefaultCredentialPolicy c"
    "outcome_saved c evs a db db'"
  shows "db_ok db'"
  using assms credentials_saved [of "db_credentials db" c0 c] by (auto simp: db_ok_def outcome_saved_def stored_def)

lemma session_saved_ok:
  assumes "db_ok db" "stored db c0" "cred_core (co_cred co) = cred_core c0" "wf_credential DefaultCredentialPolicy (co_cred co)"
    "rtr_FamilyID (co_token co) = co_family co" "session_saved cfg client now co db db'"
  shows "db_ok db'"
  using assms credentials_saved [of "db_credentials db" c0 "co_cred co"]
  by (auto simp: db_ok_def session_saved_def stored_def new_family_def new_token_def row_of_session_def Session_Snapshot_def Let_def
      simp flip: set_map)

lemma login_step_ok:
  assumes "login_step cfg db db'" "db_ok db"
  shows "db_ok db'"
  using assms
proof (induction rule: login_step.induct)
  case (audit db db')
  then show ?case by (auto simp: only_attempts_def db_ok_def)
next
  case (failed db c0 now c1 att err c2 evs c3 a db')
  have "cred_core c3 = cred_core c0" "wf_credential DefaultCredentialPolicy c3"
    using failed.hyps core_ops core_PullEvents [OF failed.hyps(4)] login_failed_cred [OF failed.prems failed.hyps(1,2), of att "uc_Lockout cfg"]
    by (metis, auto)
  with outcome_saved_ok [OF failed.prems failed.hyps(1)] failed.hyps(5) show ?case by blast
next
  case (verified db c0 now c1 c2 evs c3 a db')
  have "cred_core c3 = cred_core c0" "wf_credential DefaultCredentialPolicy c3"
    using verified.hyps core_ops core_PullEvents [OF verified.hyps(4)] login_verified_cred [OF verified.hyps(1,2)]
    by (metis, auto)
  with outcome_saved_ok [OF verified.prems verified.hyps(1)] verified.hyps(5) show ?case by blast
next
  case (completed db c0 now c1 c2 evs co p client db')
  have "cred_core (co_cred co) = cred_core c0" "wf_credential DefaultCredentialPolicy (co_cred co)"
    using completed.hyps(1-4) core_ops core_PullEvents [OF completed.hyps(4)] login_verified_cred [OF completed.hyps(1,2)]
    by (metis, auto)
  with session_saved_ok [OF completed.prems completed.hyps(1)] completed.hyps(10,11) show ?case by blast
qed


section \<open>No panic\<close>

lemma complete_login_returns: "fst (complete_login rt deps cred res ih fp inp now w) \<noteq> None"
proof -
  have "fst (completeForcedChange deps cred i ih fp inp now w) \<noteq> None" for i w
    by (simp add: completeForcedChange_def split: prod.split sum.split)
  moreover have "fst (completeMFARequired rt deps cred i ih fp inp now w) \<noteq> None" for i w
    by (simp add: completeMFARequired_def split: prod.split sum.split)
  moreover have "fst (completeSession rt deps cred res dev ih fp inp now w) \<noteq> None" for dev w
    by (simp add: completeSession_def Let_def split: prod.split sum.split)
  ultimately show ?thesis by (simp add: complete_login_def Let_def split: prod.split sum.split)
qed

lemma login_credential_returns:
  assumes "db_ok db" "stored db c0"
  shows "fst (login_credential rt deps c0 res ih fp cc pw inp now w) \<noteq> None"
proof -
  obtain e c1 where ev: "EnsureVerifiable now c0 = Some (e, c1)"
    using EnsureVerifiable_Some [OF stored_wf [OF assms(2)]] by blast
  show ?thesis
  proof (cases e)
    case None
    with ev have ok: "EnsureVerifiable now c0 = Some (None, c1)" by simp
    obtain b w1 where v: "verifyPassword rt pw c1 (uc_Argon2id (d_Config deps)) w = (b, w1)" by (meson surj_pair)
    show ?thesis
    proof (cases b)
      case True
      obtain e2 c2 where "RecordSuccessfulVerification now c1 = Some (e2, c2)" using login_verified_cred [OF assms(2) ok] by blast
      with ok v True complete_login_returns [of rt deps c2 res ih fp inp now w1] show ?thesis
        by (cases e2) (auto simp: login_credential_def Let_def)
    next
      case False
      obtain e2 c2 where "RecordFailedAttempt \<lparr>ac_CompanyCode = cc, ac_IP = li_IP inp, ac_UserAgent = li_UserAgent inp,
                         ac_DeviceFingerprint = fp\<rparr> (uc_Lockout (d_Config deps)) now c1 = Some (e2, c2)"
        using login_failed_cred [OF assms ok] by blast
      with ok v False show ?thesis
        by (auto simp: login_credential_def Let_def failCredential_def split: prod.splits sum.splits)
    qed
  qed (use ev in \<open>auto simp: login_credential_def\<close>)
qed

lemma app_Login_returns:
  assumes "db_ok (w_db w)"
  shows "fst (app_Login pf cfg inp w) \<noteq> None"
proof (cases "app_Login pf cfg inp w")
  case (Pair r w')
  from login_front [OF Pair] show ?thesis
  proof (elim disjE exE conjE)
    fix res cred w3
    assume "credential_phase pf cfg inp w res cred w3"
      and l: "login_credential (app_runtime pf) (app_deps pf cfg) cred res (sha256Hex (pf_sha256 pf) (li_Identifier inp))
           (login_fingerprint pf inp) (login_company pf inp) (login_password inp) inp (login_now w) w3 = (r, w')"
    then have "stored (w_db w) cred" using phase_stored by metis
    from login_credential_returns [OF assms this] l Pair show ?thesis by (metis fst_conv)
  qed (use Pair in simp)
qed

end
