(* ===== verification/Login_Outcomes.thy ===== *)
theory Login_Outcomes
  imports Login_Invariants
begin

text \<open>
  What a login with a loaded credential answers and does, branch by branch: refused because locked,
  refused because the password is wrong, or verified.
\<close>

section \<open>Transactions leave the rest of the world alone\<close>

lemma framed_Save [framed_intros]: "framed (txCredentials_Save c)"
  unfolding txCredentials_Save_def Let_def by (intro framed_intros)

lemma framed_Attempt [framed_intros]: "framed (recordLoginAttempt a)"
  unfolding recordLoginAttempt_def by (intro framed_intros)

lemma framed_InsertEvents [framed_intros]: "framed (InsertEvents es)"
  by (induction es) (auto intro!: framed_intros)

lemma framed_Append [framed_intros]: "framed (txOutbox_Append evs)"
proof -
  have "framed (pbind (outbox_events evs) InsertEvents)" by (intro framed_intros)
  then show ?thesis by (auto simp: framed_def txOutbox_Append_def)
qed

lemma framed_save_outcome: "framed (save_outcome c evs a tx_repositories)"
  unfolding save_outcome_def by (intro framed_intros) (simp_all add: framed_intros)

lemma Execute_argon:
  assumes "framed (fn tx_repositories)" "Execute fn w = (r, w')"
  shows "w_argon w' = w_argon w"
proof (cases "w_fault w (w_tick w)")
  case None
  obtain r2 w2 where f: "fn tx_repositories (begun w) = (r2, w2)" by (meson surj_pair)
  have "w_argon w2 = w_argon w" using framedD [OF assms(1) f] by (simp add: db_frame_def begun_def)
  then show ?thesis using assms(2) None f by (auto simp: Execute_begun split: sum.splits commit_reply.splits)
qed (use assms in \<open>auto simp: Execute_fault\<close>)

section \<open>The credential phase determines the answer\<close>

lemma phase_Login:
  assumes "credential_phase pf cfg inp w res cred w3"
  shows "app_Login pf cfg inp w = login_credential (app_runtime pf) (app_deps pf cfg) cred res
    (sha256Hex (pf_sha256 pf) (li_Identifier inp)) (login_fingerprint pf inp) (login_company pf inp) (login_password inp)
    inp (login_now w) w3"
  using assms by (auto simp: credential_phase_def app_Login_def Login_def Let_def time_Now_def login_company_def
      login_fingerprint_def login_password_def login_now_def)

definition login_attempt :: "'k Platform \<Rightarrow> LoginInput \<Rightarrow> AttemptContext" where
  "login_attempt pf inp = \<lparr>ac_CompanyCode = login_company pf inp, ac_IP = li_IP inp, ac_UserAgent = li_UserAgent inp,
     ac_DeviceFingerprint = login_fingerprint pf inp\<rparr>"

definition login_record :: "'k Platform \<Rightarrow> LoginInput \<Rightarrow> string \<Rightarrow> string \<Rightarrow> string option \<Rightarrow> time \<Rightarrow> LoginAttemptRecord" where
  "login_record pf inp i outcome sid now = attempt_record (Some i) (sha256Hex (pf_sha256 pf) (li_Identifier inp)) outcome inp
     (login_fingerprint pf inp) sid now"

text \<open>Which branch answers invalid credentials once a credential is loaded.\<close>

lemma completed_codes:
  "complete_login rt deps cred res ih fp inp now w = (Some (Inl e), w') \<Longrightarrow> ae_Code e \<noteq> ErrLoginInvalidCredentials"
proof -
  have "completeForcedChange deps cred i ih fp inp now w = (Some (Inl e), w') \<Longrightarrow> ae_Code e \<noteq> ErrLoginInvalidCredentials" for i w
    by (auto simp: completeForcedChange_def split: prod.splits sum.splits)
  moreover have "completeMFARequired rt deps cred i ih fp inp now w = (Some (Inl e), w') \<Longrightarrow> ae_Code e \<noteq> ErrLoginInvalidCredentials" for i w
    by (auto simp: completeMFARequired_def split: prod.splits sum.splits)
  moreover have "completeSession rt deps cred res dev ih fp inp now w = (Some (Inl e), w') \<Longrightarrow> ae_Code e \<noteq> ErrLoginInvalidCredentials" for dev w
    by (auto simp: completeSession_def Let_def split: prod.splits sum.splits)
  moreover assume "complete_login rt deps cred res ih fp inp now w = (Some (Inl e), w')"
  ultimately show ?thesis by (auto simp: complete_login_def Let_def split: prod.splits sum.splits if_splits)
qed

lemma locked_error_code [simp]: "ae_Code (locked_error c) = ErrLoginAccountLocked"
  by (simp add: locked_error_def Let_def split: option.split)

lemma credential_refused:
  assumes "login_credential rt deps cred res ih fp cc pw inp now w = (Some (Inl e), w')"
    "ae_Code e = ErrLoginInvalidCredentials"
  shows "\<exists>c1 w1. EnsureVerifiable now cred = Some (None, c1)
    \<and> verifyPassword rt pw c1 (uc_Argon2id (d_Config deps)) w = (False, w1)
    \<and> failCredential deps c1 \<lparr>ac_CompanyCode = cc, ac_IP = li_IP inp, ac_UserAgent = li_UserAgent inp,
         ac_DeviceFingerprint = fp\<rparr> (ri_IdentityID res) ih fp inp now w1 = (Some (Inl e), w')"
proof -
  from assms obtain c1 where ev: "EnsureVerifiable now cred = Some (None, c1)"
    by (auto simp: login_credential_def split: option.splits prod.splits)
  obtain b w1 where v: "verifyPassword rt pw c1 (uc_Argon2id (d_Config deps)) w = (b, w1)" by (meson surj_pair)
  have "\<not> b" using assms ev v by (auto simp: login_credential_def Let_def dest: completed_codes split: option.splits prod.splits bool.splits)
  with assms ev v show ?thesis by (auto simp: login_credential_def Let_def)
qed

lemma failCredential_recorded:
  assumes "failCredential (app_deps pf cfg) c1 att i ih fp inp now w = (Some (Inl e), w')" "ae_Code e = ErrLoginInvalidCredentials"
  shows "\<exists>err c2. RecordFailedAttempt att (uc_Lockout cfg) now c1 = Some (err, c2)
    \<and> outcome_saved (c2\<lparr>c_events := []\<rparr>) (c_events c2) (attempt_record (Some i) ih ''FAILED_CREDENTIALS'' inp fp None now) (w_db w) (w_db w')
    \<and> w_argon w' = w_argon w"
proof -
  from assms(1) obtain err c2 where r: "RecordFailedAttempt att (uc_Lockout cfg) now c1 = Some (err, c2)"
    by (auto simp: failCredential_def split: option.splits)
  let ?a = "attempt_record (Some i) ih ''FAILED_CREDENTIALS'' inp fp None now"
  obtain r1 w1 where x: "Execute (save_outcome (c2\<lparr>c_events := []\<rparr>) (c_events c2) ?a) w = (r1, w1)" by (meson surj_pair)
  with assms r have "r1 = Inr ()" "w1 = w'"
    by (auto simp: failCredential_def Credential_PullEvents_def split: sum.splits)
  with Execute_saved(2) [OF x] Execute_argon [OF framed_save_outcome x] r show ?thesis by auto
qed

lemma verifyPassword_argon:
  assumes "verifyPassword (app_runtime pf) pw c p w = (b, w')" "ph_algorithm (c_password c) = PasswordArgon2id"
    "b64_decode b64_std (ph_salt (c_password c)) = Some salt" "b64_decode b64_std (ph_hash (c_password c)) = Some want"
  shows "w_argon w' = w_argon w @ [\<lparr>ag_password = pw, ag_salt = salt, ag_params = p, ag_keyLen = word_of_nat (length want)\<rparr>]"
  using assms by (auto simp: verifyPassword_def Verify_def world_IDKey_def Let_def)


section \<open>Success\<close>

text \<open>Every check that stands before a result.\<close>

definition checked :: "'k Platform \<Rightarrow> UsecaseConfig \<Rightarrow> LoginInput \<Rightarrow> world \<Rightarrow> ResolvedIdentity \<Rightarrow> Credential \<Rightarrow> Credential \<Rightarrow> world \<Rightarrow> bool" where
  "checked pf cfg inp w res cred c2 w4 \<longleftrightarrow> (\<exists>w3 c1. credential_phase pf cfg inp w res cred w3
     \<and> EnsureVerifiable (login_now w) cred = Some (None, c1)
     \<and> verifyPassword (app_runtime pf) (login_password inp) c1 (uc_Argon2id cfg) w3 = (True, w4)
     \<and> RecordSuccessfulVerification (login_now w) c1 = Some (None, c2))"

lemma app_Login_success:
  assumes "app_Login pf cfg inp w = (Some (Inr x), w')"
  shows "\<exists>res cred c2 w4. checked pf cfg inp w res cred c2 w4
    \<and> complete_login (app_runtime pf) (app_deps pf cfg) c2 res (sha256Hex (pf_sha256 pf) (li_Identifier inp))
        (login_fingerprint pf inp) inp (login_now w) w4 = (Some (Inr x), w')"
  using login_front [OF assms] login_credential_success
  by (fastforce simp: checked_def)

lemma checked_db: "checked pf cfg inp w res cred c2 w4 \<Longrightarrow> w_db w4 = w_db w \<and> stored (w_db w) cred"
  using phase_stored verifyPassword_db by (fastforce simp: checked_def)

lemma complete_login_completed:
  assumes "complete_login (app_runtime pf) (app_deps pf cfg) c2 res ih fp inp now w = (Some (Inr x), w')"
    "lr_AuthenticationResult x = ''COMPLETED''" "loc now = UTC"
  shows "\<exists>d s fam. find (\<lambda>r. dv_identity_id r = ri_IdentityID res \<and> dv_fingerprint_hash r = fp \<and> dv_trust_status r \<noteq> ''REVOKED'')
        (db_devices (w_db w)) = Some d
    \<and> \<not> list_ex (active_factor (ri_IdentityID res)) (db_factors (w_db w))
    \<and> \<not> c_forcePasswordChange c2 \<and> \<not> IsPasswordExpired now c2
    \<and> NewAuthenticationSession (login_session (lr_SessionID x) (ri_IdentityID res) inp cfg now) = Inr s
    \<and> session_saved cfg (li_ClientID inp) now
        (completed_login (pf_sha256 pf) cfg (c2\<lparr>c_events := []\<rparr>) (c_events c2) s (dv_id d) fam (lr_RefreshToken x) ih fp inp now)
        (w_db w) (w_db w')"
proof -
  obtain device has w1 w2 where f: "FindByFingerprint (ri_IdentityID res) fp w = (Inr device, w1)"
    "HasActiveFactor (ri_IdentityID res) w1 = (Inr has, w2)"
    and br: "if c_forcePasswordChange c2 \<or> IsPasswordExpired now c2
       then completeForcedChange (app_deps pf cfg) c2 (ri_IdentityID res) ih fp inp now w2 = (Some (Inr x), w')
       else if has \<or> device = None
       then completeMFARequired (app_runtime pf) (app_deps pf cfg) c2 (ri_IdentityID res) ih fp inp now w2 = (Some (Inr x), w')
       else completeSession (app_runtime pf) (app_deps pf cfg) c2 res device ih fp inp now w2 = (Some (Inr x), w')"
    using complete_login_success [OF assms(1)] by auto
  have db: "w_db w1 = w_db w" "w_db w2 = w_db w"
    using FindByFingerprint_same [OF f(1)] HasActiveFactor_same [OF f(2)] by (simp_all add: same_db_def)
  have q: "device = map_option (\<lambda>r. \<lparr>rd_ID = dv_id r, rd_TrustStatus = dv_trust_status r, rd_LastSeenAt = dv_last_seen_at r\<rparr>)
        (find (\<lambda>r. dv_identity_id r = ri_IdentityID res \<and> dv_fingerprint_hash r = fp \<and> dv_trust_status r \<noteq> ''REVOKED'') (db_devices (w_db w)))"
    "has = list_ex (active_factor (ri_IdentityID res)) (db_factors (w_db w))"
    using f db by (auto simp: FindByFingerprint_def HasActiveFactor_def wrap_ok with_text_ok dest!: query_ok)
  from br assms(2) have no: "\<not> c_forcePasswordChange c2" "\<not> IsPasswordExpired now c2" "\<not> has" "device \<noteq> None"
    and cs: "completeSession (app_runtime pf) (app_deps pf cfg) c2 res device ih fp inp now w2 = (Some (Inr x), w')"
    by (auto dest: outcome_kinds split: if_splits)
  from no(4) q(1) obtain d where d: "find (\<lambda>r. dv_identity_id r = ri_IdentityID res \<and> dv_fingerprint_hash r = fp \<and> dv_trust_status r \<noteq> ''REVOKED'')
        (db_devices (w_db w)) = Some d" "device = Some \<lparr>rd_ID = dv_id d, rd_TrustStatus = dv_trust_status d, rd_LastSeenAt = dv_last_seen_at d\<rparr>"
    by auto
  have "Credential_PullEvents c2 = (c_events c2, c2\<lparr>c_events := []\<rparr>)" by (simp add: Credential_PullEvents_def)
  from completeSession_effect [OF cs [unfolded d(2)] assms(3) this] d(1) no q(2) db show ?thesis by auto
qed

lemma app_Login_completed:
  assumes "app_Login pf cfg inp w = (Some (Inr x), w')" "lr_AuthenticationResult x = ''COMPLETED''"
  shows "\<exists>res cred c2 w4 d s fam. checked pf cfg inp w res cred c2 w4
    \<and> find (\<lambda>r. dv_identity_id r = ri_IdentityID res \<and> dv_fingerprint_hash r = login_fingerprint pf inp
        \<and> dv_trust_status r \<noteq> ''REVOKED'') (db_devices (w_db w)) = Some d
    \<and> \<not> list_ex (active_factor (ri_IdentityID res)) (db_factors (w_db w))
    \<and> \<not> c_forcePasswordChange c2 \<and> \<not> IsPasswordExpired (login_now w) c2
    \<and> NewAuthenticationSession (login_session (lr_SessionID x) (ri_IdentityID res) inp cfg (login_now w)) = Inr s
    \<and> session_saved cfg (li_ClientID inp) (login_now w)
        (completed_login (pf_sha256 pf) cfg (c2\<lparr>c_events := []\<rparr>) (c_events c2) s (dv_id d) fam (lr_RefreshToken x)
           (sha256Hex (pf_sha256 pf) (li_Identifier inp)) (login_fingerprint pf inp) inp (login_now w))
        (w_db w) (w_db w')"
proof -
  obtain res cred c2 w4 where c: "checked pf cfg inp w res cred c2 w4"
    and l: "complete_login (app_runtime pf) (app_deps pf cfg) c2 res (sha256Hex (pf_sha256 pf) (li_Identifier inp))
        (login_fingerprint pf inp) inp (login_now w) w4 = (Some (Inr x), w')"
    using app_Login_success [OF assms(1)] by blast
  have db: "w_db w4 = w_db w" using checked_db [OF c] by simp
  have "loc (login_now w) = UTC" by (simp add: login_now_def)
  from complete_login_completed [OF l assms(2) this, unfolded db] c show ?thesis by blast
qed

lemma completed_session:
  assumes "app_Login pf cfg inp w = (Some (Inr x), w')" "lr_AuthenticationResult x = ''COMPLETED''"
  obtains co where "session_saved cfg (li_ClientID inp) (login_now w) co (w_db w) (w_db w')" "s_id (co_session co) = lr_SessionID x"
  using app_Login_completed [OF assms] NewSession_fields by (fastforce simp: completed_login_def login_session_def)

end
