(* ===== verification/Session_Limits.thy ===== *)
theory Session_Limits
  imports Login_Outcomes
begin

text \<open>
  How many sessions a user keeps at one client after a completed login, under the concurrent-session
  policies. A session counts while its row can be loaded and is active at the instant asked about.
\<close>

definition live_sessions :: "string \<Rightarrow> string \<Rightarrow> time \<Rightarrow> database \<Rightarrow> session_row list" where
  "live_sessions i c t db = filter (\<lambda>r. sn_identity_id r = i \<and> sn_client_id r = c \<and> live_row t r) (db_sessions db)"

lemma scan_status: "scanSessionRow r = Inr s \<Longrightarrow> s_status s = sn_status r"
proof -
  assume h: "scanSessionRow r = Inr s"
  then obtain snap where "RehydrateSession snap = Inr s" "ss_Status snap = sn_status r"
    by (auto simp: scanSessionRow_def split: option.splits sum.splits)
  moreover have "s_status s = ss_Status snap" if "RehydrateSession snap = Inr s" for snap
    using that unfolding RehydrateSession_def by (simp split: if_split_asm option.split_asm) (hypsubst, simp)+
  ultimately show ?thesis by auto
qed

lemma live_status: "live_row t r \<Longrightarrow> sn_status r = SessionStatusActive"
  using scan_status by (fastforce simp: live_row_def IsActive_iff split: sum.splits)

lemma live_earlier: "live_row t r \<Longrightarrow> nanos t' \<le> nanos t \<Longrightarrow> live_row t' r"
  by (auto simp: live_row_def IsActive_iff split: sum.splits)

lemma evicted_not_live [simp]: "\<not> live_row t (evict_row now r)"
  using live_status [of t "evict_row now r"] by (auto simp: evict_row_def)

lemma evict_row_sel [simp]:
  "sn_identity_id (evict_row now r) = sn_identity_id r" "sn_client_id (evict_row now r) = sn_client_id r"
  by (simp_all add: evict_row_def)

text \<open>The live rows after an eviction are the live rows before that were not evicted.\<close>

lemma live_evictions:
  "filter (\<lambda>r. sn_identity_id r = i \<and> sn_client_id r = c \<and> live_row t r) (evictions E now rows)
   = filter (\<lambda>r. sn_identity_id r = i \<and> sn_client_id r = c \<and> live_row t r \<and> sn_id r \<notin> E) rows"
  by (induction rows) (auto simp: evictions_def update_where_def)

lemma set_active_rows: "r \<in> set (active_rows i c db) \<longleftrightarrow> r \<in> set (db_sessions db) \<and> sn_identity_id r = i \<and> sn_client_id r = c
     \<and> sn_status r = SessionStatusActive"
  by (auto simp: active_rows_def is_active_row_def const_defs)

lemma length_active_rows: "length (active_rows i c db) = length (filter (is_active_row i c) (db_sessions db))"
  by (simp add: active_rows_def)

lemma live_sessions_saved:
  assumes "session_saved cfg c now co db db'"
  defines "i \<equiv> s_identity (co_session co)"
  shows "live_sessions i c t db' = filter (\<lambda>r. sn_identity_id r = i \<and> sn_client_id r = c \<and> live_row t r
        \<and> sn_id r \<notin> policy_evicts cfg i c now db) (db_sessions db)
     @ filter (live_row t) [row_of_session (co_session co) c]"
  using assms by (auto simp: session_saved_def live_sessions_def live_evictions row_of_session_def Session_Snapshot_def Let_def)

lemma single_leaves_none:
  assumes "uc_ConcurrentPolicy cfg = ''SINGLE''" "nanos now \<le> nanos t"
  shows "filter (\<lambda>r. sn_identity_id r = i \<and> sn_client_id r = c \<and> live_row t r
        \<and> sn_id r \<notin> policy_evicts cfg i c now db) (db_sessions db) = []"
  using assms live_earlier [of t _ now] live_status
  by (fastforce simp: filter_empty_conv policy_evicts_def set_active_rows)

lemma filter_mono_length: "(\<And>y. Q y \<Longrightarrow> P y) \<Longrightarrow> length (filter Q xs) \<le> length (filter P xs)"
  by (induction xs) (auto simp: le_Suc_eq)

lemma filter_shrinks:
  assumes "x \<in> set xs" "P x" "\<not> Q x" "\<And>y. Q y \<Longrightarrow> P y"
  shows "length (filter Q xs) < length (filter P xs)"
proof -
  have "filter Q xs = filter Q (filter P xs)" using assms(4) by (auto intro: filter_cong)
  moreover have "length (filter Q (filter P xs)) < length (filter P xs)"
    using assms(1-3) by (intro length_filter_less) auto
  ultimately show ?thesis by simp
qed

lemma limit_leaves_room:
  assumes "uc_ConcurrentPolicy cfg = ''LIMIT_N''" "1 \<le> uc_ConcurrentMax cfg"
    "list_all (live_row now) (active_rows i c db)" "int (length (active_rows i c db)) \<le> uc_ConcurrentMax cfg"
  shows "int (length (filter (\<lambda>r. sn_identity_id r = i \<and> sn_client_id r = c \<and> live_row now r
        \<and> sn_id r \<notin> policy_evicts cfg i c now db) (db_sessions db))) < uc_ConcurrentMax cfg"
proof -
  let ?Q = "\<lambda>r. sn_identity_id r = i \<and> sn_client_id r = c \<and> live_row now r \<and> sn_id r \<notin> policy_evicts cfg i c now db"
  have sub: "?Q r \<Longrightarrow> is_active_row i c r" for r using live_status by (auto simp: is_active_row_def const_defs)
  show ?thesis
  proof (cases "active_rows i c db")
    case Nil
    then have "filter ?Q (db_sessions db) = []"
      using sub set_active_rows [of _ i c db] by (auto simp: filter_empty_conv is_active_row_def const_defs)
    with assms(2) show ?thesis by (simp only: list.size)
  next
    case (Cons r rs)
    have mem: "r \<in> set (db_sessions db)" "is_active_row i c r"
      using Cons set_active_rows [of r i c db] by (auto simp: is_active_row_def const_defs)
    show ?thesis
    proof (cases "uc_ConcurrentMax cfg \<le> int (length (active_rows i c db))")
      case True
      then have "\<not> ?Q r" using assms(1,3) Cons by (simp add: policy_evicts_def)
      from filter_shrinks [of r "db_sessions db" "is_active_row i c" ?Q, OF mem this sub] assms(4)
      show ?thesis by (simp add: length_active_rows)
    next
      case False
      have "length (filter ?Q (db_sessions db)) \<le> length (filter (is_active_row i c) (db_sessions db))"
        by (rule filter_mono_length) (rule sub)
      with False show ?thesis by (simp add: length_active_rows)
    qed
  qed
qed

end
