(* ===== verification/Netip6.thy ===== *)
theory Netip6
  imports Netip
begin

text \<open>The text of an IPv6 address is read back as the same address.\<close>

section \<open>Groups\<close>

lemma of_char_hex: "k < 16 \<Longrightarrow> (of_char (digit_char k) :: nat) = (if k < 10 then 48 + k else 87 + k)"
  by (simp add: digit_char_def of_char_of)

lemma hex_val_digit [simp]: "k < 16 \<Longrightarrow> hex_val (digit_char k) = Some k"
  by (simp add: hex_val_def of_char_hex)

lemma hex_val_sep [simp]: "hex_val CHR '':'' = None" "hex_val CHR ''.'' = None" "hex_val CHR ''%'' = None"
  by (simp_all add: hex_val_def)

lemma hex_length: "n < 16 ^ Suc k \<Longrightarrow> length (digits_base 16 n) \<le> Suc k"
proof (induction k arbitrary: n)
  case (Suc k)
  then have "n div 16 < 16 ^ Suc k" by (simp add: div_less_iff_less_mult mult.commute)
  with Suc show ?case by (auto simp: digits_base.simps [of 16 n])
qed (simp add: digits_base.simps)

lemma hex_ne [simp]: "digits_base 16 n \<noteq> []"
  by (simp add: digits_base.simps)

lemma hex_group_digits:
  "length (digits_base 16 n) \<le> 4 \<Longrightarrow> hex_group 0 0 (digits_base 16 n @ rest) = hex_group n (length (digits_base 16 n)) rest"
proof (induction "16 :: nat" n arbitrary: rest rule: digits_base.induct)
  case (1 n)
  show ?case
  proof (cases "n < 16")
    case True
    then show ?thesis by (simp add: digits_base.simps)
  next
    case False
    then have d: "digits_base 16 n = digits_base 16 (n div 16) @ [digit_char (n mod 16)]" by (simp add: digits_base.simps [of 16 n])
    with 1(2) have "length (digits_base 16 (n div 16)) \<le> 3" by simp
    with 1(1) [of "digit_char (n mod 16) # rest"] False d show ?thesis by simp
  qed
qed

lemma hex_group_read:
  assumes "g < 65536" "rest = [] \<or> hex_val (hd rest) = None"
  shows "\<exists>k > 0. hex_group 0 0 (hex_of_nat g @ rest) = Some (g, k, rest)"
proof -
  have "length (digits_base 16 g) \<le> 4" using hex_length [of g 3] assms(1) by simp
  with hex_group_digits assms(2) show ?thesis
    by (intro exI [of _ "length (digits_base 16 g)"], cases rest)
      (use hex_group_digits [of g "[]"] in \<open>auto simp: hex_of_nat_def\<close>)
qed

lemma hex_digit_set: "c \<in> set (hex_of_nat n) \<Longrightarrow> hex_val c \<noteq> None"
proof -
  have "c \<in> set (digits_base 16 n) \<Longrightarrow> hex_val c \<noteq> None"
  proof (induction "16 :: nat" n rule: digits_base.induct)
    case (1 n)
    then show ?case by (cases "n < 16") (auto simp: digits_base.simps [of 16 n])
  qed
  then show "c \<in> set (hex_of_nat n) \<Longrightarrow> hex_val c \<noteq> None" by (simp add: hex_of_nat_def)
qed

lemma hex_of_nat_ne [simp]: "hex_of_nat n \<noteq> []"
  by (simp add: hex_of_nat_def)

section \<open>Joined groups\<close>

lemma colon_join_simps:
  "colon_join [] = []" "colon_join [g] = hex_of_nat g"
  "colon_join (g # h # gs) = hex_of_nat g @ '':'' @ colon_join (h # gs)"
  by (simp_all add: colon_join_def)

lemma colon_join_hd: "gs \<noteq> [] \<Longrightarrow> colon_join gs \<noteq> [] \<and> hex_val (hd (colon_join gs)) \<noteq> None"
  using hex_digit_set [of "hd (hex_of_nat (hd gs))" "hd gs"]
  by (induction gs rule: induct_list012) (simp_all add: colon_join_simps)

lemma colon_join_set: "c \<in> set (colon_join gs) \<Longrightarrow> hex_val c \<noteq> None \<or> c = CHR '':''"
  by (induction gs rule: induct_list012) (auto simp: colon_join_simps dest: hex_digit_set)

lemma not_colon: "hex_val c \<noteq> None \<Longrightarrow> c \<noteq> CHR '':'' \<and> c \<noteq> CHR ''.'' \<and> c \<noteq> CHR ''%''"
  by auto

text \<open>The groups of a list with nothing behind them.\<close>

lemma parse6_groups:
  assumes "R \<noteq> []" "length P + length R \<le> 8" "list_all (\<lambda>g. g < 65536) R"
  shows "parse6_loop P ell (colon_join R) = Some (P @ R, ell, [])"
  using assms
proof (induction R arbitrary: P rule: induct_list012)
  case (2 g)
  then obtain k where "k > 0" "hex_group 0 0 (hex_of_nat g) = Some (g, k, [])" using hex_group_read [of g "[]"] by auto
  with 2 show ?case by (simp add: parse6_loop.simps [of P] colon_join_simps)
next
  case (3 g h R)
  let ?r = "colon_join (h # R)"
  obtain k where "k > 0" "hex_group 0 0 (hex_of_nat g @ '':'' @ ?r) = Some (g, k, '':'' @ ?r)"
    using hex_group_read [of g "'':'' @ ?r"] 3 by auto
  moreover have "?r \<noteq> []" "hd ?r \<noteq> CHR '':''" using colon_join_hd [of "h # R"] not_colon by auto
  moreover have "parse6_loop (P @ [g]) ell ?r = Some ((P @ [g]) @ h # R, ell, [])" using 3 by (intro 3(2)) auto
  ultimately show ?case using 3 by (simp add: parse6_loop.simps [of P] colon_join_simps)
qed simp

text \<open>Groups before and after the double colon.\<close>

lemma parse6_ellipsis:
  assumes "A \<noteq> []" "length P + length A + length B < 8" "list_all (\<lambda>g. g < 65536) (A @ B)"
  shows "parse6_loop P None (colon_join A @ ''::'' @ colon_join B) = Some (P @ A @ B, Some (length P + length A), [])"
  using assms
proof (induction A arbitrary: P rule: induct_list012)
  case (2 g)
  let ?r = "''::'' @ colon_join B"
  obtain k where "k > 0" "hex_group 0 0 (hex_of_nat g @ ?r) = Some (g, k, ?r)" using hex_group_read [of g ?r] 2 by auto
  moreover have "B \<noteq> [] \<Longrightarrow> parse6_loop (P @ [g]) (Some (Suc (length P))) (colon_join B) = Some ((P @ [g]) @ B, Some (Suc (length P)), [])"
    using 2 by (intro parse6_groups) auto
  moreover have "colon_join B = [] \<longleftrightarrow> B = []" using colon_join_hd [of B] by (cases B) (auto simp: colon_join_simps)
  ultimately show ?case using 2 by (cases B) (simp_all add: parse6_loop.simps [of P] colon_join_simps)
next
  case (3 g h A)
  let ?r = "colon_join (h # A) @ ''::'' @ colon_join B"
  obtain k where "k > 0" "hex_group 0 0 (hex_of_nat g @ '':'' @ ?r) = Some (g, k, '':'' @ ?r)"
    using hex_group_read [of g "'':'' @ ?r"] 3 by auto
  moreover have "?r \<noteq> []" "hd ?r \<noteq> CHR '':''" using colon_join_hd [of "h # A"] not_colon by auto
  moreover have "parse6_loop (P @ [g]) None ?r = Some ((P @ [g]) @ (h # A) @ B, Some (length (P @ [g]) + length (h # A)), [])"
    using 3 by (intro 3(2)) auto
  ultimately show ?case using 3 by (simp add: parse6_loop.simps [of P] colon_join_simps)
qed simp

section \<open>The zero run\<close>

lemma zero_run_split: "gs = take i gs @ replicate (zero_run gs i) 0 @ drop (i + zero_run gs i) gs"
proof -
  have "takeWhile (\<lambda>g. g = 0) (drop i gs) = replicate (zero_run gs i) 0"
    unfolding zero_run_def by (intro replicate_eqI [symmetric, OF refl, symmetric]) (auto dest: set_takeWhileD)
  then have "drop i gs = replicate (zero_run gs i) 0 @ dropWhile (\<lambda>g. g = 0) (drop i gs)"
    by (metis takeWhile_dropWhile_id)
  moreover have "dropWhile (\<lambda>g. g = 0) (drop i gs) = drop (i + zero_run gs i) gs"
    by (simp add: zero_run_def dropWhile_eq_drop add.commute)
  ultimately show ?thesis by (metis append_take_drop_id)
qed

lemma best_run_Some:
  assumes "best_run gs = Some (i, l)"
  shows "l = zero_run gs i \<and> 2 \<le> l"
proof -
  have "case best_run gs of None \<Rightarrow> True | Some (i, l) \<Rightarrow> l = zero_run gs i \<and> 2 \<le> l"
    unfolding best_run_def by (rule fold_invariant [where Q = "\<lambda>_. True"]) (auto simp: Let_def split: option.splits)
  with assms show ?thesis by simp
qed

section \<open>Zones and the whole text\<close>

lemma split_zone_suffix: "CHR ''%'' \<notin> set s \<Longrightarrow> split_zone (s @ zone_suffix z) = (s, if z = [] then None else Some z)"
proof -
  assume "CHR ''%'' \<notin> set s"
  then have "takeWhile (\<lambda>c. c \<noteq> CHR ''%'') s = s" by (auto simp: takeWhile_eq_all_conv)
  then show ?thesis by (auto simp: split_zone_def zone_suffix_def takeWhile_append takeWhile_eq_all_conv Let_def)
qed

lemma expand6_run: "length A + l + length B = 8 \<Longrightarrow> 0 < l \<Longrightarrow> expand6 (A @ B) (Some (length A)) = Some (A @ replicate l 0 @ B)"
  by (simp add: expand6_def)

lemma unat_group_less [simp]: "unat (w :: 16 word) < 65536"
  using unsigned_less [of w, where 'a = nat] by simp

lemma of_nat_groups: "map of_nat (map unat ws) = (ws :: 16 word list)"
  by (simp add: comp_def)

text \<open>The shapes of the text: no run, a run at the beginning, and a run further on.\<close>

lemma parseIPv6_text:
  assumes "CHR ''%'' \<notin> set s" "s = ''::'' @ r \<or> take 2 s \<noteq> ''::'' \<and> r = s"
    "parse6_loop [] (if s = ''::'' @ r then Some 0 else None) r = Some (gs, e, [])" "expand6 gs e = Some hs"
    "s = ''::'' @ r \<Longrightarrow> r \<noteq> []"
  shows "parseIPv6 (s @ zone_suffix z) = Some (V6 (map of_nat hs) z)"
proof -
  have "s \<noteq> ''::'' @ r \<Longrightarrow> take 2 s \<noteq> ''::'' \<and> r = s" using assms(2) by blast
  then show ?thesis using assms(3-5) split_zone_suffix [OF assms(1), of z]
    by (cases "s = ''::'' @ r"; cases z) (auto simp: parseIPv6_def Let_def)
qed

lemma parseIPv6_string6:
  assumes "length ws = 8"
  shows "parseIPv6 (string6 ws @ zone_suffix z) = Some (V6 ws z)"
proof -
  let ?gs = "map unat ws"
  have small: "list_all (\<lambda>g. g < 65536) ?gs" by (simp add: list_all_iff)
  have join: "gs \<noteq> [] \<Longrightarrow> take 2 (colon_join gs @ s) \<noteq> ''::''" for gs s
    using colon_join_hd [of gs] not_colon by (cases "colon_join gs") auto
  have pct: "CHR ''%'' \<notin> set (colon_join gs)" for gs using colon_join_set by fastforce
  show ?thesis
  proof (cases "best_run ?gs")
    case None
    have "parse6_loop [] None (colon_join ?gs) = Some (?gs, None, [])"
      using parse6_groups [of ?gs "[]" None, OF _ _ small] assms by (cases ws) auto
    moreover have "expand6 ?gs None = Some ?gs" using assms by (simp add: expand6_def)
    moreover have "?gs \<noteq> []" using assms by auto
    ultimately show ?thesis
      using parseIPv6_text [of "colon_join ?gs" "colon_join ?gs" ?gs None ?gs z] join [of ?gs "[]"] pct None of_nat_groups
      by (simp add: string6_def)
  next
    case (Some il)
    obtain i l where il: "il = (i, l)" by (cases il)
    define A B where "A = take i ?gs" and "B = drop (i + l) ?gs"
    have l: "2 \<le> l" and gs: "?gs = A @ replicate l 0 @ B"
      using best_run_Some Some il zero_run_split [of ?gs i] by (auto simp: A_def B_def)
    then have len: "length A + l + length B = 8" using assms by (metis add.assoc length_append length_map length_replicate)
    have s: "string6 ws = colon_join A @ ''::'' @ colon_join B" using Some il by (simp add: string6_def A_def B_def Let_def)
    have sm: "list_all (\<lambda>g. g < 65536) (A @ B)" using small unfolding gs by simp
    have ex: "expand6 (A @ B) (Some (length A)) = Some ?gs" using expand6_run [OF len] l gs by simp
    have pc: "CHR ''%'' \<notin> set (string6 ws)" using s pct by simp
    consider "A = []" "B = []" | "A = []" "B \<noteq> []" | "A \<noteq> []" by blast
    then show ?thesis
    proof cases
      case 1
      then have "?gs = replicate 8 0" using gs len by simp
      then have "\<And>w. w \<in> set ws \<Longrightarrow> unat w = 0" by (metis image_eqI in_set_replicate list.set_map)
      then have "ws = replicate 8 0" using assms by (intro replicate_eqI) (auto simp: unsigned_eq_0_iff)
      with 1 s split_zone_suffix [OF pc, of z] show ?thesis by (cases z) (auto simp: parseIPv6_def colon_join_simps Let_def)
    next
      case 2
      have "parse6_loop [] (Some 0) (colon_join B) = Some (B, Some 0, [])"
        using parse6_groups [of B "[]"] 2 sm len by auto
      with parseIPv6_text [OF pc, of "colon_join B" B "Some 0" ?gs z] 2 ex s colon_join_hd [of B] of_nat_groups show ?thesis
        by (simp add: colon_join_simps)
    next
      case 3
      have "parse6_loop [] None (colon_join A @ ''::'' @ colon_join B) = Some (A @ B, Some (length A), [])"
        using parse6_ellipsis [of A "[]" B] 3 sm len l by auto
      with parseIPv6_text [OF pc, of "string6 ws" "A @ B" "Some (length A)" ?gs z] 3 ex s join [OF 3] of_nat_groups show ?thesis
        by simp
    qed
  qed
qed

section \<open>IPv4-mapped addresses\<close>

lemma hex_group_decimal:
  assumes "n < 256"
  shows "\<exists>v k. 0 < k \<and> hex_group 0 0 (string_of_nat n @ CHR ''.'' # rest) = Some (v, k, CHR ''.'' # rest)"
proof -
  have d: "n div 10 < 16 \<or> 100 \<le> n" "n mod 10 < 16" "n div 10 mod 10 < 16" "n div 100 < 16" using assms by auto
  consider "n < 10" | "10 \<le> n \<and> n < 100" | "100 \<le> n" by linarith
  then show ?thesis
    using assms d by cases (auto simp: string_of_nat_1 string_of_nat_2 string_of_nat_3)
qed

lemma parse4_string4: "parse4_loop 0 0 [] (string4 a b c d) = Some [unat a, unat b, unat c, unat d]"
  by (simp add: string4_def byte_dec_def parse4_field_dot parse4_field_end)

lemma string4_hd: "string4 a b c d \<noteq> [] \<and> hd (string4 a b c d) \<noteq> CHR '':''"
proof -
  have "hd (string_of_nat (unat a)) \<in> set (digits_base 10 (unat a))" by (simp add: string_of_nat_def [symmetric])
  from digits_base_10_set [OF this] obtain k where "k < 10" "hd (string_of_nat (unat a)) = digit_char k" by blast
  with digit_char_not_sep [of k] show ?thesis by (simp add: string4_def byte_dec_def)
qed

lemma parse6_mapped:
  "parse6_loop [] (Some 0) (''ffff:'' @ string4 a b c d)
     = Some ([65535, unat a * 256 + unat b, unat c * 256 + unat d], Some 0, [])"
proof -
  have f: "hex_group 0 0 (''ffff:'' @ s) = Some (65535, 4, CHR '':'' # s)" for s by (simp add: hex_val_def)
  obtain v k where "0 < k" "hex_group 0 0 (string4 a b c d) = Some (v, k, CHR ''.'' # byte_dec b @ ''.'' @ byte_dec c @ ''.'' @ byte_dec d)"
    using hex_group_decimal [OF unat_byte_less, of a "byte_dec b @ ''.'' @ byte_dec c @ ''.'' @ byte_dec d"]
    by (auto simp: string4_def byte_dec_def)
  then have "parse6_loop [65535] (Some 0) (string4 a b c d)
      = Some ([65535, unat a * 256 + unat b, unat c * 256 + unat d], Some 0, [])"
    by (simp add: parse6_loop.simps [of "[65535]"] parse4_string4)
  with f [of "string4 a b c d"] string4_hd [of a b c d] show ?thesis by (simp add: parse6_loop.simps [of "[]"])
qed

lemma bytes_of_group: "unat (hi_byte w) * 256 + unat (lo_byte w) = unat w"
proof -
  have "unat (hi_byte w) = unat w div 256"
    using unsigned_less [of w, where 'a = nat]
    by (simp add: hi_byte_def unsigned_ucast_eq take_bit_eq_mod drop_bit_eq_div unat_div div_less_iff_less_mult)
  moreover have "unat (lo_byte w) = unat w mod 256"
    by (simp add: lo_byte_def unsigned_ucast_eq take_bit_eq_mod)
  ultimately show ?thesis by simp
qed

lemma string4_pct: "CHR ''%'' \<notin> set (string4 a b c d)"
  using digits_base_10_set digit_char_not_sep by (fastforce simp: string4_def byte_dec_def string_of_nat_def)

lemma parseIPv6_mapped:
  assumes "length ws = 8" "is4in6 ws"
  shows "parseIPv6 (addr_String (V6 ws z)) = Some (V6 ws z)"
proof -
  have "drop 6 ws = [ws ! 6, ws ! 7]" using assms(1) by (simp add: Cons_nth_drop_Suc [symmetric])
  then have ws: "ws = [0, 0, 0, 0, 0, 65535, ws ! 6, ws ! 7]"
    using assms(2) append_take_drop_id [of 6 ws] by (simp add: is4in6_def)
  let ?s = "string4 (hi_byte (ws ! 6)) (lo_byte (ws ! 6)) (hi_byte (ws ! 7)) (lo_byte (ws ! 7))"
  have "replicate 5 (0 :: nat) = [0, 0, 0, 0, 0]" by (simp add: eval_nat_numeral)
  then have "expand6 [65535, unat (ws ! 6), unat (ws ! 7)] (Some 0) = Some [0, 0, 0, 0, 0, 65535, unat (ws ! 6), unat (ws ! 7)]"
    by (simp add: expand6_def)
  moreover have "parse6_loop [] (Some 0) (''ffff:'' @ ?s) = Some ([65535, unat (ws ! 6), unat (ws ! 7)], Some 0, [])"
    unfolding parse6_mapped by (simp only: bytes_of_group)
  moreover have "CHR ''%'' \<notin> set (''::ffff:'' @ ?s)" using string4_pct by simp
  ultimately have "parseIPv6 ((''::ffff:'' @ ?s) @ zone_suffix z) = Some (V6 (map of_nat [0, 0, 0, 0, 0, 65535, unat (ws ! 6), unat (ws ! 7)]) z)"
    by (intro parseIPv6_text [of _ "''ffff:'' @ ?s"]) simp_all
  moreover have "map of_nat [0, 0, 0, 0, 0, 65535, unat (ws ! 6), unat (ws ! 7)] = ws" by (subst (3) ws) simp
  ultimately show ?thesis using assms(2) by simp
qed

section \<open>Every address\<close>

lemma ParseAddr_colon:
  assumes "s = pre @ CHR '':'' # rest" "\<And>c. c \<in> set pre \<Longrightarrow> hex_val c \<noteq> None"
  shows "ParseAddr s = parseIPv6 s"
proof -
  have "dropWhile (\<lambda>c. c \<notin> {CHR ''.'', CHR '':'', CHR ''%''}) s = CHR '':'' # rest"
    unfolding assms(1) using assms(2) not_colon by (subst dropWhile_append2) auto
  then show ?thesis by (simp add: ParseAddr_def)
qed

lemma string6_colon:
  assumes "length ws = 8"
  shows "\<exists>pre rest. string6 ws = pre @ CHR '':'' # rest \<and> (\<forall>c\<in>set pre. hex_val c \<noteq> None)"
proof -
  have join: "\<exists>pre rest. colon_join gs @ CHR '':'' # s = pre @ CHR '':'' # rest \<and> (\<forall>c\<in>set pre. hex_val c \<noteq> None)" for gs s
  proof (induction gs rule: induct_list012)
    case 1
    show ?case by (rule exI [of _ "[]"]) (simp add: colon_join_simps)
  next
    case (2 g)
    show ?case by (rule exI [of _ "hex_of_nat g"]) (auto simp: colon_join_simps dest: hex_digit_set)
  next
    case (3 g h gs)
    show ?case by (rule exI [of _ "hex_of_nat g"]) (auto simp: colon_join_simps dest: hex_digit_set)
  qed
  show ?thesis
  proof (cases "best_run (map unat ws)")
    case None
    obtain g h gs where "map unat ws = g # h # gs" using assms by (cases ws; cases "tl ws") auto
    with None show ?thesis 
      by (intro exI [of _ "hex_of_nat g"] exI [of _ "colon_join (h # gs)"]) (auto simp: string6_def colon_join_simps dest: hex_digit_set)
  next
    case (Some il)
    with join show ?thesis by (cases il) (auto simp: string6_def Let_def)
  qed
qed

lemma ParseAddr_String:
  assumes "wf_addr a" "addr_IsValid a"
  shows "ParseAddr (addr_String a) = Some a"
proof (cases a)
  case (V6 ws z)
  then have len: "length ws = 8" using assms(1) by simp
  show ?thesis
  proof (cases "is4in6 ws")
    case True
    then have "ParseAddr (addr_String a) = parseIPv6 (addr_String a)"
      using V6 by (intro ParseAddr_colon [of _ "[]"]) auto
    with parseIPv6_mapped [OF len True] V6 show ?thesis by simp
  next
    case False
    obtain pre rest where p: "string6 ws = pre @ CHR '':'' # rest" "\<forall>c\<in>set pre. hex_val c \<noteq> None"
      using string6_colon [OF len] by blast
    have "ParseAddr (addr_String a) = parseIPv6 (addr_String a)"
      using V6 False p by (intro ParseAddr_colon [of _ pre]) auto
    with parseIPv6_string6 [OF len] V6 False show ?thesis by simp
  qed
qed (use assms ParseAddr_String_V4 in \<open>auto simp: addr_IsValid_def\<close>)

end
