(* ===== verification/Session_Rows.thy ===== *)
theory Session_Rows
  imports Session_Limits Netip6
begin

text \<open>
  A session in its row: the columns keep microseconds and whole seconds, so what is loaded again is the
  session with slightly earlier deadlines.
\<close>

definition stored_session :: "AuthenticationSession \<Rightarrow> AuthenticationSession" where
  "stored_session s = s\<lparr>s_createdAt := timestamptz (s_createdAt s), s_lastActivityAt := timestamptz (s_lastActivityAt s),
     s_idleTimeout := seconds (whole_seconds (s_idleTimeout s)), s_absoluteExpiresAt := timestamptz (s_absoluteExpiresAt s),
     s_events := []\<rparr>"

lemma timestamptz_le: "nanos (timestamptz t) \<le> nanos t" "nanos t < nanos (timestamptz t) + 1000"
  by (simp_all add: nanos_timestamptz)

lemma timestamptz_mono: "nanos t \<le> nanos u \<Longrightarrow> nanos (timestamptz t) \<le> nanos (timestamptz u)"
proof -
  have e: "nanos (timestamptz v) = 1000 * (nanos v div 1000)" for v
    by (simp add: nanos_timestamptz minus_mod_eq_mult_div [symmetric])
  assume "nanos t \<le> nanos u"
  then show ?thesis unfolding e by (simp add: zdiv_mono1)
qed

lemma timestamptz_apart: "nanos t + 1000 \<le> nanos u \<Longrightarrow> nanos (timestamptz t) < nanos (timestamptz u)"
  using timestamptz_le(1) [of t] timestamptz_le(2) [of u] by linarith

lemma whole_seconds_bounds:
  assumes "0 \<le> d" "d \<le> max_int64"
  shows "seconds (whole_seconds d) \<le> d" "d - Second < seconds (whole_seconds d)"
proof -
  have "0 \<le> d div Second" using assms(1) by (simp add: pos_imp_zdiv_nonneg_iff)
  then have "0 \<le> d div Second * Second" by (intro mult_nonneg_nonneg less_imp_le [OF Second_pos])
  moreover have "d div Second * Second \<le> d"
    using div_mult_mod_eq [of d Second] pos_mod_sign [OF Second_pos, of d] by linarith
  ultimately
  have s: "seconds (whole_seconds d) = d div Second * Second"
    using assms by (simp add: seconds_def whole_seconds_def int64_range_def min_int64_def)
  show "seconds (whole_seconds d) \<le> d" "d - Second < seconds (whole_seconds d)" unfolding s
    using div_mult_mod_eq [of d Second] pos_mod_bound [OF Second_pos, of d] pos_mod_sign [OF Second_pos, of d] by linarith+
qed

lemma NewSession_times:
  assumes "NewAuthenticationSession p = Inr s"
  shows "s_createdAt s = time_UTC (nsp_Now p) \<and> s_lastActivityAt s = s_createdAt s \<and> s_idleTimeout s = sp_IdleTimeout (nsp_Policy p)
    \<and> s_absoluteExpiresAt s = time_Add (s_createdAt s) (sp_AbsoluteLifetime (nsp_Policy p)) \<and> s_client s = nsp_Client p
    \<and> s_factorsUsed s = nsp_FactorsUsed p \<and> s_status s = SessionStatusActive \<and> s_revokedAt s = None \<and> s_revokeReason s = ''''
    \<and> sp_IdleTimeout (nsp_Policy p) \<le> sp_AbsoluteLifetime (nsp_Policy p)"
  using assms by (auto simp: NewAuthenticationSession_def session_record_def SessionPolicy_Validate_None Let_def
      split: if_splits option.splits)

lemma scan_new_row:
  assumes "NewAuthenticationSession p = Inr s" "ParseAddr (addr_String (ci_IP (nsp_Client p))) = Some (ci_IP (nsp_Client p))"
    "Second \<le> sp_IdleTimeout (nsp_Policy p)" "sp_IdleTimeout (nsp_Policy p) \<le> max_int64" "list_all valid_utf8 (nsp_FactorsUsed p)"
  shows "scanSessionRow (row_of_session s c) = Inr (stored_session s)"
proof -
  note t = NewSession_times [OF assms(1)] and wf = NewAuthenticationSession_wf [OF assms(1)]
  have sec: "(1000 :: int) \<le> Second" by (simp add: time_simps)
  have idle: "0 < seconds (whole_seconds (s_idleTimeout s))"
    using whole_seconds_bounds(2) [of "s_idleTimeout s"] assms(3,4) t Second_pos by linarith
  have abs: "nanos (timestamptz (s_createdAt s)) < nanos (timestamptz (s_absoluteExpiresAt s))"
    using t assms(3) sec by (intro timestamptz_apart) simp
  have ip: "ParseAddr (addr_String (ci_IP (s_client s))) = Some (ci_IP (s_client s))" using assms(2) t by simp
  have utc: "time_UTC (timestamptz x) = timestamptz x" for x by (simp add: nanos_timestamptz)
  have aal: "AAL_Valid (s_aal s)" "validateAALFactors (s_aal s) (s_factorsUsed s) = None"
    using wf aal_ok_Valid validateAALFactors_ok by (auto simp: wf_session_def)
  have fs: "unmarshalFactors (marshalFactors (s_factorsUsed s)) = Inr (s_factorsUsed s)" using assms(5) t by (simp add: unmarshal_marshal)
  show ?thesis using idle abs wf t aal ip fs
    by (simp add: scanSessionRow_def row_of_session_def Session_Snapshot_def RehydrateSession_def revocation_error_def stored_session_def
        wf_session_defs time_After_def time_Before_def utc Let_def split: option.split)
qed

lemma stored_deadline:
  assumes "0 \<le> s_idleTimeout s" "s_idleTimeout s \<le> max_int64"
  shows "session_deadline (stored_session s) \<le> session_deadline s"
    "session_deadline s < session_deadline (stored_session s) + Second + 1000"
  using whole_seconds_bounds [OF assms] timestamptz_le [of "s_lastActivityAt s"] timestamptz_le [of "s_absoluteExpiresAt s"] Second_pos
  by (auto simp: session_deadline_def stored_session_def min_def)

text \<open>Below a second the column holds zero, and such a row is refused.\<close>

lemma scan_short_row:
  assumes "NewAuthenticationSession p = Inr s" "sp_IdleTimeout (nsp_Policy p) < Second"
  shows "\<exists>e. scanSessionRow (row_of_session s c) = Inl e"
proof -
  have "0 < sp_IdleTimeout (nsp_Policy p)"
    using assms(1) by (auto simp: NewAuthenticationSession_def SessionPolicy_Validate_None Let_def split: if_splits option.splits)
  then have "0 \<le> s_idleTimeout s" "s_idleTimeout s div Second = 0" using NewSession_times [OF assms(1)] assms(2) by simp_all
  then have "seconds (whole_seconds (s_idleTimeout s)) = 0"
    by (simp add: seconds_def whole_seconds_def int64_range_def min_int64_def max_int64_def)
  then show ?thesis
    by (auto simp: scanSessionRow_def row_of_session_def Session_Snapshot_def RehydrateSession_def Let_def split: sum.split option.split)
qed

text \<open>
  C31. Storing a session, for every valid client address, IPv4 or IPv6, and factors that are text. When the
  idle timeout is at least a second, the row that \<open>Create\<close> writes for a new session is loaded again by
  \<open>scanSessionRow\<close>; the loaded session is the same up to the resolution of the columns, it never lives
  longer than the one in memory, and its deadline is early by less than a second and a microsecond. When the
  idle timeout is shorter, which the domain accepts, the row cannot be loaded at all.
\<close>

theorem session_row_roundtrip:
  assumes "NewAuthenticationSession p = Inr s" "wf_addr (ci_IP (nsp_Client p))"
    "sp_IdleTimeout (nsp_Policy p) \<le> max_int64" "list_all valid_utf8 (nsp_FactorsUsed p)"
  shows "if Second \<le> sp_IdleTimeout (nsp_Policy p)
    then scanSessionRow (row_of_session s client) = Inr (stored_session s)
      \<and> session_deadline (stored_session s) \<le> session_deadline s
      \<and> session_deadline s < session_deadline (stored_session s) + Second + 1000
    else \<exists>e. scanSessionRow (row_of_session s client) = Inl e"
proof (cases "Second \<le> sp_IdleTimeout (nsp_Policy p)")
  case True
  have "0 \<le> s_idleTimeout s" "s_idleTimeout s \<le> max_int64"
    using NewSession_times [OF assms(1)] True assms(3) Second_pos by linarith+
  moreover have "addr_IsValid (ci_IP (nsp_Client p))"
    using assms(1) by (auto simp: NewAuthenticationSession_def split: if_splits)
  ultimately show ?thesis
    using stored_deadline scan_new_row [OF assms(1) ParseAddr_String [OF assms(2)] True assms(3,4)] True by simp
qed (use scan_short_row [OF assms(1)] in simp)

definition sample_session_params :: NewSessionParams where
  "sample_session_params = \<lparr>nsp_ID = ''S'', nsp_Identity = ''I'', nsp_Device = '''', nsp_AAL = AAL1, nsp_FactorsUsed = [],
     nsp_Client = \<lparr>ci_IP = V6 [253, 18, 0, 0, 0, 0, 0, 1] ''eth0'', ci_UserAgent = ''ua''\<rparr>, nsp_Policy = DefaultSessionPolicy,
     nsp_Now = \<lparr>nanos = 5000, loc = UTC\<rparr>\<rparr>"

theorem session_row_roundtrip_witness:
  "\<exists>s. NewAuthenticationSession sample_session_params = Inr s
     \<and> sn_creation_ip (row_of_session s ''web'') = ''fd:12::1%eth0''
     \<and> scanSessionRow (row_of_session s ''web'') = Inr (stored_session s)"
proof -
  have "case NewAuthenticationSession sample_session_params of
      Inr s \<Rightarrow> sn_creation_ip (row_of_session s ''web'') = ''fd:12::1%eth0'' | Inl e \<Rightarrow> False" by code_simp
  then obtain s where s: "NewAuthenticationSession sample_session_params = Inr s"
    "sn_creation_ip (row_of_session s ''web'') = ''fd:12::1%eth0''" by (auto split: sum.splits)
  from session_row_roundtrip [OF s(1), of "''web''"] s show ?thesis
    by (simp add: sample_session_params_def DefaultSessionPolicy_def time_simps max_int64_def)
qed

end
