(* ===== verification/Login_Samples.thy ===== *)
theory Login_Samples
  imports Login_Invariants
begin

text \<open>
  A small concrete system: one identity with a password, a registered device and no second factor. It
  evaluates whole logins and witnesses the properties of the use case.
\<close>

text \<open>Stand-ins for the libraries: the key is the password, the digest the first eight bytes.\<close>

definition sample_platform :: "unit Platform" where
  "sample_platform =
     \<lparr>pf_identity = Some (\<lambda>i cc. Inr \<lparr>rir_Found = i = ''ann'', rir_IdentityId = ''I'', rir_Status = STATUS_ACTIVE, rir_CorporateId = cc\<rparr>),
      pf_signer = \<lparr>sg_key = (), sg_kid = ''kid'', sg_issuer = ''iss''\<rparr>,
      pf_signedString = (\<lambda>_ _ _. Inr ''jwt''), pf_argon2 = (\<lambda>pw salt p n. pw), pf_bcrypt = (\<lambda>h pw. False),
      pf_sha256 = take 8, pf_unicode = sample_unicode\<rparr>"

definition sample_cfg :: UsecaseConfig where
  "sample_cfg = usecase_config sample_config"

definition sample_input :: "string \<Rightarrow> LoginInput" where
  "sample_input pw = \<lparr>li_Identifier = '' Ann '', li_Password = pw, li_ClientID = ''web'', li_CompanyCode = ''acme'',
     li_DeviceFingerprint = \<lparr>df_ScreenResolution = '''', df_Timezone = '''', df_Platform = '''', df_ColorDepth = 24, df_Language = ''''\<rparr>,
     li_IP = V4 10 0 0 1, li_UserAgent = ''Firefox'', li_AcceptLanguage = ''''\<rparr>"

definition sample_row :: cred_row where
  "sample_row = \<lparr>cr_id = ''C'', cr_identity_id = ''I'', cr_password_hash = ''cHc'', cr_password_salt = ''c2FsdA'',
     cr_password_algorithm = PasswordArgon2id, cr_password_version = 1, cr_password_created_at = \<lparr>nanos = 1000 * Second, loc = UTC\<rparr>,
     cr_password_expires_at = None, cr_force_password_change = False, cr_failed_attempt_count = 0, cr_last_failed_at = None,
     cr_lockout_status = LockoutUnlocked, cr_locked_at = None, cr_locked_until = None, cr_lockout_history_count = 0\<rparr>"

definition sample_device :: device_row where
  "sample_device = \<lparr>dv_id = ''D'', dv_identity_id = ''I'',
     dv_fingerprint_hash = login_fingerprint sample_platform (sample_input ''pw''), dv_fingerprint_version = 1,
     dv_display_name = ''Firefox on Linux'', dv_trust_status = ''TRUSTED'', dv_registration_ip = ''10.0.0.1'',
     dv_last_seen_at = \<lparr>nanos = 1000 * Second, loc = UTC\<rparr>, dv_created_at = \<lparr>nanos = 1000 * Second, loc = UTC\<rparr>\<rparr>"

definition login_world :: world where
  "login_world = sample_world\<lparr>w_db := empty_db\<lparr>db_credentials := [sample_row], db_devices := [sample_device]\<rparr>\<rparr>"


text \<open>The checks before the credential phase as a function, to evaluate them.\<close>

definition phase_run :: "'k Platform \<Rightarrow> UsecaseConfig \<Rightarrow> LoginInput \<Rightarrow> world \<Rightarrow> (ResolvedIdentity \<times> Credential \<times> world) option" where
  "phase_run pf cfg inp w =
     (case checkRateLimit (app_deps pf cfg) (ipString (li_IP inp)) (sha256Hex (pf_sha256 pf) (li_Identifier inp)) (tick w) of
        (Inr None, w1) \<Rightarrow>
          (case ResolveIdentity (pf_identity pf) (normalize (pf_unicode pf) (li_Identifier inp)) (login_company pf inp) w1 of
             (Inr (Some res), w2) \<Rightarrow>
               if ri_Status res = ''ACTIVE''
               then (case findCredentialByIdentity (ri_IdentityID res) w2 of (Inr cred, w3) \<Rightarrow> Some (res, cred, w3) | _ \<Rightarrow> None)
               else None
           | _ \<Rightarrow> None)
      | _ \<Rightarrow> None)"

lemma phase_run_phase:
  assumes "phase_run pf cfg inp w = Some (res, cred, w3)"
  shows "credential_phase pf cfg inp w res cred w3"
proof -
  let ?ih = "sha256Hex (pf_sha256 pf) (li_Identifier inp)"
  from assms obtain w1 where rl: "checkRateLimit (app_deps pf cfg) (ipString (li_IP inp)) ?ih (tick w) = (Inr None, w1)"
    by (auto simp: phase_run_def split: prod.splits sum.splits option.splits)
  with assms obtain w2 where ri: "ResolveIdentity (pf_identity pf) (normalize (pf_unicode pf) (li_Identifier inp))
      (login_company pf inp) w1 = (Inr (Some res), w2)" "ri_Status res = ''ACTIVE''"
    and fc: "findCredentialByIdentity (ri_IdentityID res) w2 = (Inr cred, w3)"
    by (auto simp: phase_run_def split: prod.splits sum.splits option.splits if_splits)
  have "same_db w w3"
    using same_db_trans [OF same_db_tick same_db_trans [OF checkRateLimit_same [OF rl]
      same_db_trans [OF ResolveIdentity_same [OF ri(1)] findCredential_same [OF fc]]]] .
  with rl ri fc show ?thesis by (auto simp: credential_phase_def)
qed

section \<open>Evaluated runs\<close>

lemma sample_run_completed:
  "case app_Login sample_platform sample_cfg (sample_input ''pw'') login_world of
     (Some (Inr x), w') \<Rightarrow> lr_AuthenticationResult x = ''COMPLETED'' | _ \<Rightarrow> False"
  by code_simp

lemma sample_run_refused:
  "case app_Login sample_platform sample_cfg (sample_input ''no'') login_world of
     (Some (Inl e), w') \<Rightarrow> ae_Code e = ErrLoginInvalidCredentials | _ \<Rightarrow> False"
  by code_simp

lemma sample_phase:
  "case phase_run sample_platform sample_cfg (sample_input ''no'') login_world of
     Some (res, cred, w3) \<Rightarrow> ri_IdentityID res = ''I'' | None \<Rightarrow> False"
  by code_simp

definition locked_row :: cred_row where
  "locked_row = sample_row\<lparr>cr_failed_attempt_count := 5, cr_lockout_status := LockoutTemporary, cr_lockout_history_count := 1,
     cr_last_failed_at := Some \<lparr>nanos = 4000 * Second, loc = UTC\<rparr>, cr_locked_at := Some \<lparr>nanos = 4000 * Second, loc = UTC\<rparr>,
     cr_locked_until := Some \<lparr>nanos = 5800 * Second, loc = UTC\<rparr>\<rparr>"

definition locked_world :: world where
  "locked_world = login_world\<lparr>w_db := (w_db login_world)\<lparr>db_credentials := [locked_row]\<rparr>\<rparr>"

lemma sample_phase_locked:
  "case phase_run sample_platform sample_cfg (sample_input ''pw'') locked_world of
     Some (res, cred, w3) \<Rightarrow> IsLocked (login_now locked_world) cred = Some True | None \<Rightarrow> False"
  by code_simp

lemma login_db_ok: "db_ok (w_db login_world)"
proof -
  have "case cred_of_row sample_row of Inr c \<Rightarrow> True | Inl e \<Rightarrow> False" by code_simp
  then have "\<exists>c. cred_of_row sample_row = Inr c" by (auto split: sum.splits)
  then show ?thesis
    by (simp add: db_ok_def cred_row_ok_def login_world_def sample_world_def empty_db_def sample_row_def int4_def timestamptz_def time_simps)
qed

end
