(* ===== verification/Login_Props.thy ===== *)
theory Login_Props
  imports Session_Limits Login_Samples
begin

text \<open>The properties of the wired login.\<close>

text \<open>
  C23. Refinement: whatever the environment does (faults of any call, refused commits, lost replies), the
  durable effect of one login is one step of the abstract database: at most audit rows, the outcome
  of one verification with its events and its audit row, or one complete session.
\<close>

theorem login_refines: "login_step cfg (w_db w) (w_db (snd (app_Login pf cfg inp w)))"
  by (cases "app_Login pf cfg inp w") (auto dest: app_Login_step)

primrec run_logins :: "'k Platform \<Rightarrow> UsecaseConfig \<Rightarrow> (LoginInput \<times> (world \<Rightarrow> world)) list \<Rightarrow> world \<Rightarrow> world" where
  "run_logins pf cfg [] w = w"
| "run_logins pf cfg (x # xs) w = run_logins pf cfg xs (snd (app_Login pf cfg (fst x) (snd x w)))"

text \<open>
  C24. Any number of logins, with any change of the environment between them that leaves the tables
  alone, keeps the database consistent (unique keys, resolving references, credential rows that load
  again with counters inside their columns), and no further login panics.
\<close>

theorem logins_safe:
  assumes "db_ok (w_db w)" "\<forall>x\<in>set xs. \<forall>u. w_db (snd x u) = w_db u"
  shows "db_ok (w_db (run_logins pf cfg xs w)) \<and> fst (app_Login pf cfg inp (run_logins pf cfg xs w)) \<noteq> None"
proof -
  have "db_ok (w_db (run_logins pf cfg xs w))" using assms
  proof (induction xs arbitrary: w)
    case (Cons x xs)
    have "db_ok (w_db (snd (app_Login pf cfg (fst x) (snd x w))))"
      using Cons.prems login_step_ok [of cfg "w_db (snd x w)"] app_Login_step [of pf cfg "fst x" "snd x w"]
      by (metis list.set_intros(1) surjective_pairing)
    with Cons show ?case by simp
  qed simp
  with app_Login_returns show ?thesis by blast
qed

theorem logins_safe_witness:
  "db_ok (w_db (run_logins sample_platform sample_cfg [(sample_input ''no'', tick), (sample_input ''pw'', id)] login_world))
   \<and> fst (app_Login sample_platform sample_cfg (sample_input ''pw'')
       (run_logins sample_platform sample_cfg [(sample_input ''no'', tick), (sample_input ''pw'', id)] login_world)) \<noteq> None"
  by (rule logins_safe) (simp_all add: login_db_ok)

text \<open>
  C25. No result without the password: a login answers with a result only if the rate limiter let it
  pass, the identity service reported an active identity, that identity has a stored credential that
  is not locked, and the (truncated) password matches it.
\<close>

theorem login_success_checked:
  assumes "app_Login pf cfg inp w = (Some (Inr x), w')"
  shows "\<exists>res cred w3 c1 w4. credential_phase pf cfg inp w res cred w3 \<and> stored (w_db w) cred
    \<and> IsLocked (login_now w) cred = Some False \<and> c_password c1 = c_password cred
    \<and> verifyPassword (app_runtime pf) (login_password inp) c1 (uc_Argon2id cfg) w3 = (True, w4)"
proof -
  obtain res cred c2 w4 where c: "checked pf cfg inp w res cred c2 w4" using app_Login_success [OF assms] by blast
  then obtain w3 c1 where p: "credential_phase pf cfg inp w res cred w3" "EnsureVerifiable (login_now w) cred = Some (None, c1)"
    "verifyPassword (app_runtime pf) (login_password inp) c1 (uc_Argon2id cfg) w3 = (True, w4)"
    by (auto simp: checked_def)
  have st: "stored (w_db w) cred" using checked_db [OF c] by simp
  have "IsLocked (login_now w) cred = Some False"
    using EnsureVerifiable_total [OF stored_wf [OF st], of "login_now w"] p(2) by (auto split: if_splits)
  moreover have "c_password c1 = c_password cred" using core_EnsureVerifiable [OF p(2)] by (simp add: cred_core_def)
  ultimately show ?thesis using p st by blast
qed

theorem login_success_checked_witness:
  "\<exists>x w'. app_Login sample_platform sample_cfg (sample_input ''pw'') login_world = (Some (Inr x), w')
     \<and> (\<exists>cred. stored (w_db login_world) cred \<and> IsLocked (login_now login_world) cred = Some False)"
proof -
  obtain x w' where "app_Login sample_platform sample_cfg (sample_input ''pw'') login_world = (Some (Inr x), w')"
    using sample_run_completed by (auto split: prod.splits option.splits sum.splits)
  with login_success_checked [OF this] show ?thesis by blast
qed

text \<open>
  C26. Failures are counted before they are answered: if a login with a loaded credential answers
  invalid credentials, then the failed attempt has been recorded on the aggregate and the updated
  credential, its events in the outbox and the audit row are durable, all of them.
\<close>

theorem refusal_recorded:
  assumes "app_Login pf cfg inp w = (Some (Inl e), w')" "ae_Code e = ErrLoginInvalidCredentials"
    "credential_phase pf cfg inp w res cred w3"
  shows "\<exists>c1 err c2. EnsureVerifiable (login_now w) cred = Some (None, c1)
    \<and> RecordFailedAttempt (login_attempt pf inp) (uc_Lockout cfg) (login_now w) c1 = Some (err, c2)
    \<and> outcome_saved (c2\<lparr>c_events := []\<rparr>) (c_events c2)
        (login_record pf inp (ri_IdentityID res) ''FAILED_CREDENTIALS'' None (login_now w)) (w_db w) (w_db w')"
proof -
  obtain c1 w1 where r: "EnsureVerifiable (login_now w) cred = Some (None, c1)"
    "verifyPassword (app_runtime pf) (login_password inp) c1 (uc_Argon2id cfg) w3 = (False, w1)"
    "failCredential (app_deps pf cfg) c1 (login_attempt pf inp) (ri_IdentityID res) (sha256Hex (pf_sha256 pf) (li_Identifier inp))
       (login_fingerprint pf inp) inp (login_now w) w1 = (Some (Inl e), w')"
    using credential_refused [OF assms(1) [unfolded phase_Login [OF assms(3)]] assms(2)] by (auto simp: login_attempt_def)
  have "w_db w1 = w_db w" using phase_stored [OF assms(3)] verifyPassword_db [OF r(2)] by simp
  with failCredential_recorded [OF r(3) assms(2)] r(1) show ?thesis by (auto simp: login_record_def)
qed

theorem refusal_recorded_witness:
  "\<exists>res cred w3 c1 err c2. credential_phase sample_platform sample_cfg (sample_input ''no'') login_world res cred w3
     \<and> RecordFailedAttempt (login_attempt sample_platform (sample_input ''no'')) (uc_Lockout sample_cfg)
         (login_now login_world) c1 = Some (err, c2)"
proof -
  obtain e w' where l: "app_Login sample_platform sample_cfg (sample_input ''no'') login_world = (Some (Inl e), w')"
    "ae_Code e = ErrLoginInvalidCredentials"
    using sample_run_refused by (auto split: prod.splits option.splits sum.splits)
  obtain res cred w3 where "phase_run sample_platform sample_cfg (sample_input ''no'') login_world = Some (res, cred, w3)"
    using sample_phase by (auto split: option.splits)
  note p = phase_run_phase [OF this]
  from refusal_recorded [OF l p] p show ?thesis by blast
qed

definition argon_row :: "cred_row \<Rightarrow> bool" where
  "argon_row r \<longleftrightarrow> cr_password_algorithm r = PasswordArgon2id \<and> b64_decode b64_std (cr_password_salt r) \<noteq> None
     \<and> b64_decode b64_std (cr_password_hash r) \<noteq> None"

text \<open>What checking a password costs depends on the row the credential was read from.\<close>

lemma row_password:
  assumes "cred_of_row r = Inr cred"
  shows "c_password cred = \<lparr>ph_hash = cr_password_hash r, ph_salt = cr_password_salt r, ph_algorithm = cr_password_algorithm r,
      ph_version = cr_password_version r\<rparr>"
  using cred_of_row_fields(9) [OF assms] by (auto simp: NewPasswordHash_def split: if_splits)

lemma verifyPassword_cost:
  assumes "verifyPassword (app_runtime pf) pw c p w = (b, w')" "cred_of_row r = Inr cred" "c_password c = c_password cred"
  shows "if argon_row r then \<exists>call. w_argon w' = w_argon w @ [call] \<and> ag_password call = pw \<and> ag_params call = p
    else w_argon w' = w_argon w"
proof (cases "argon_row r")
  case True
  then obtain salt want where "ph_algorithm (c_password c) = PasswordArgon2id"
    "b64_decode b64_std (ph_salt (c_password c)) = Some salt" "b64_decode b64_std (ph_hash (c_password c)) = Some want"
    using row_password [OF assms(2)] assms(3) by (auto simp: argon_row_def)
  from verifyPassword_argon [OF assms(1) this] True show ?thesis by simp
next
  case False
  then show ?thesis using assms row_password [OF assms(2)]
    by (auto simp: argon_row_def verifyPassword_def Verify_def Let_def split: if_splits option.splits)
qed

text \<open>
  C27. Refusals look alike: every answer with the code of invalid credentials (unknown identifier, inactive
  identity, no credential, wrong password) is the same error. It costs exactly one key derivation, for the given
  password under the configured parameters, except in one case: the credential that was loaded comes from
  a row that is not a decodable Argon2id hash (a bcrypt hash, an unknown algorithm, broken base64), and then no
  key is derived at all.
\<close>

theorem refusals_uniform:
  assumes "app_Login pf cfg inp w = (Some (Inl e), w')" "ae_Code e = ErrLoginInvalidCredentials"
  shows "e = invalid_credentials_error \<and>
    ((\<exists>call. w_argon w' = w_argon w @ [call] \<and> ag_password call = login_password inp \<and> ag_params call = uc_Argon2id cfg)
     \<or> w_argon w' = w_argon w \<and> (\<exists>res cred w3. credential_phase pf cfg inp w res cred w3
         \<and> (\<exists>r\<in>set (db_credentials (w_db w)). cred_of_row r = Inr cred \<and> \<not> argon_row r)))"
proof (rule conjI)
  show "e = invalid_credentials_error"
    using Login_uniform [of "app_runtime pf" "app_deps pf cfg" inp w] assms(1,2) by (simp add: app_Login_def uniform_refusal_def)
  let ?one = "\<exists>call. w_argon w' = w_argon w @ [call] \<and> ag_password call = login_password inp \<and> ag_params call = uc_Argon2id cfg"
  from login_front [OF assms(1)]
  show "?one \<or> w_argon w' = w_argon w \<and> (\<exists>res cred w3. credential_phase pf cfg inp w res cred w3
         \<and> (\<exists>r\<in>set (db_credentials (w_db w)). cred_of_row r = Inr cred \<and> \<not> argon_row r))"
  proof (elim disjE exE conjE)
    fix e' assume "Some (Inl e) = Some (Inl e' :: AppError + LoginResult)" "refused_early cfg inp w e' w'"
    then have ?one using assms(2) by (auto simp: refused_early_def dummy_call_def)
    then show ?thesis ..
  next
    fix res cred w3
    assume p: "credential_phase pf cfg inp w res cred w3"
      and l: "login_credential (app_runtime pf) (app_deps pf cfg) cred res (sha256Hex (pf_sha256 pf) (li_Identifier inp))
           (login_fingerprint pf inp) (login_company pf inp) (login_password inp) inp (login_now w) w3 = (Some (Inl e), w')"
    obtain c1 w1 where r: "EnsureVerifiable (login_now w) cred = Some (None, c1)"
      "verifyPassword (app_runtime pf) (login_password inp) c1 (uc_Argon2id cfg) w3 = (False, w1)"
      "failCredential (app_deps pf cfg) c1 \<lparr>ac_CompanyCode = login_company pf inp, ac_IP = li_IP inp, ac_UserAgent = li_UserAgent inp,
         ac_DeviceFingerprint = login_fingerprint pf inp\<rparr> (ri_IdentityID res) (sha256Hex (pf_sha256 pf) (li_Identifier inp))
       (login_fingerprint pf inp) inp (login_now w) w1 = (Some (Inl e), w')"
      using credential_refused [OF l assms(2)] by auto
    obtain row where row: "row \<in> set (db_credentials (w_db w))" "cred_of_row row = Inr cred" "w_argon w3 = w_argon w"
      using phase_stored [OF p] by (auto simp: stored_def)
    have "c_password c1 = c_password cred" using core_EnsureVerifiable [OF r(1)] by (simp add: cred_core_def)
    from verifyPassword_cost [OF r(2) row(2) this] failCredential_recorded [OF r(3) assms(2)] row p show ?thesis
      by (cases "argon_row row") auto
  qed
qed

text \<open>A wrong password for an Argon2id hash costs one derivation, the same password for a bcrypt hash none.\<close>

definition bcrypt_world :: world where
  "bcrypt_world = login_world\<lparr>w_db := (w_db login_world)\<lparr>db_credentials := [sample_row\<lparr>cr_password_algorithm := PasswordBcrypt\<rparr>]\<rparr>\<rparr>"

lemma bcrypt_run_refused:
  "case app_Login sample_platform sample_cfg (sample_input ''no'') bcrypt_world of
     (Some (Inl e), w') \<Rightarrow> ae_Code e = ErrLoginInvalidCredentials \<and> w_argon w' = w_argon bcrypt_world | _ \<Rightarrow> False"
  by code_simp

theorem refusals_uniform_witness:
  "(\<exists>w' call. app_Login sample_platform sample_cfg (sample_input ''no'') login_world = (Some (Inl invalid_credentials_error), w')
     \<and> w_argon w' = w_argon login_world @ [call] \<and> ag_password call = login_password (sample_input ''no''))
   \<and> (\<exists>w'. app_Login sample_platform sample_cfg (sample_input ''no'') bcrypt_world = (Some (Inl invalid_credentials_error), w')
     \<and> w_argon w' = w_argon bcrypt_world)"
proof -
  obtain e w' where l: "app_Login sample_platform sample_cfg (sample_input ''no'') login_world = (Some (Inl e), w')"
    "ae_Code e = ErrLoginInvalidCredentials"
    using sample_run_refused by (auto split: prod.splits option.splits sum.splits)
  obtain e2 w2 where b: "app_Login sample_platform sample_cfg (sample_input ''no'') bcrypt_world = (Some (Inl e2), w2)"
    "ae_Code e2 = ErrLoginInvalidCredentials" "w_argon w2 = w_argon bcrypt_world"
    using bcrypt_run_refused by (auto split: prod.splits option.splits sum.splits)
  have "list_all argon_row (db_credentials (w_db login_world))"
    by code_simp
  then have "\<not> (\<exists>r\<in>set (db_credentials (w_db login_world)). cred_of_row r = Inr cred \<and> \<not> argon_row r)" for cred
    by (auto simp: list_all_iff)
  with refusals_uniform [OF l] refusals_uniform [OF b(1,2)] l b show ?thesis by blast
qed

text \<open>
  C28. A locked account: with a credential that is locked at the time of the login the answer is the
  locked error, with the end of a temporary lock as its detail, whatever the password; no key is
  derived, nothing is counted, and the tables gain at most the audit row.
\<close>

theorem locked_login_refused:
  assumes "credential_phase pf cfg inp w res cred w3" "IsLocked (login_now w) cred = Some True"
  shows "\<exists>w'. app_Login pf cfg inp w = (Some (Inl (locked_error cred)), w') \<and> w_argon w' = w_argon w
    \<and> (w_db w' = w_db w \<or> w_db w' = (w_db w)\<lparr>db_attempts := db_attempts (w_db w) @
         [row_of_attempt (login_record pf inp (ri_IdentityID res) ''LOCKED'' None (login_now w))]\<rparr>)"
proof -
  have st: "stored (w_db w) cred" "w_db w3 = w_db w" "w_argon w3 = w_argon w" using phase_stored [OF assms(1)] by auto
  have ev: "EnsureVerifiable (login_now w) cred = Some (Some (Err ErrAccountLocked Plain), cred)"
    using EnsureVerifiable_total [OF stored_wf [OF st(1)], of "login_now w"] assms(2) by auto
  show ?thesis unfolding phase_Login [OF assms(1)] using ev st(2,3)
    by (auto simp: login_credential_def login_record_def recordAttemptBestEffort_def recordLoginAttempt_def wrap_err_def with_text_def
        exec_def ext_def split: option.splits)
qed

theorem locked_login_refused_witness:
  "\<exists>cred w'. app_Login sample_platform sample_cfg (sample_input ''pw'') locked_world = (Some (Inl (locked_error cred)), w')
     \<and> w_argon w' = w_argon locked_world"
proof -
  obtain res cred w3 where "phase_run sample_platform sample_cfg (sample_input ''pw'') locked_world = Some (res, cred, w3)"
    and lk: "IsLocked (login_now locked_world) cred = Some True"
    using sample_phase_locked by (auto split: option.splits)
  from locked_login_refused [OF phase_run_phase [OF this(1)] lk] show ?thesis by blast
qed


text \<open>
  C29. A completed login: the answer COMPLETED is given only to a known device that is not revoked, for an
  identity without an active second factor whose password needs no change, and then exactly the
  parts of one session are durable: the session that the answer names, at assurance level one, a
  token family with the digest of the returned refresh token, the saved credential, the touched
  device, the audit row, the events in the outbox, and the sessions that the policy ends.
\<close>

theorem completed_login_saved:
  assumes "app_Login pf cfg inp w = (Some (Inr x), w')" "lr_AuthenticationResult x = ''COMPLETED''"
  shows "\<exists>res cred c2 w4 d s fam. checked pf cfg inp w res cred c2 w4
    \<and> find (\<lambda>r. dv_identity_id r = ri_IdentityID res \<and> dv_fingerprint_hash r = login_fingerprint pf inp
        \<and> dv_trust_status r \<noteq> ''REVOKED'') (db_devices (w_db w)) = Some d
    \<and> \<not> list_ex (active_factor (ri_IdentityID res)) (db_factors (w_db w))
    \<and> \<not> c_forcePasswordChange c2 \<and> \<not> IsPasswordExpired (login_now w) c2
    \<and> NewAuthenticationSession (login_session (lr_SessionID x) (ri_IdentityID res) inp cfg (login_now w)) = Inr s
    \<and> session_saved cfg (li_ClientID inp) (login_now w)
        (completed_login (pf_sha256 pf) cfg (c2\<lparr>c_events := []\<rparr>) (c_events c2) s (dv_id d) fam (lr_RefreshToken x)
           (sha256Hex (pf_sha256 pf) (li_Identifier inp)) (login_fingerprint pf inp) inp (login_now w))
        (w_db w) (w_db w')"
  by (rule app_Login_completed [OF assms])

lemma sample_client: "li_ClientID (sample_input pw) = ''web''"
  by (simp add: sample_input_def)

lemma sample_completed:
  obtains x w' where "app_Login sample_platform sample_cfg (sample_input ''pw'') login_world = (Some (Inr x), w')"
    "lr_AuthenticationResult x = ''COMPLETED''"
  using sample_run_completed by (auto split: prod.splits option.splits sum.splits)

theorem completed_login_saved_witness:
  "\<exists>x w' s. app_Login sample_platform sample_cfg (sample_input ''pw'') login_world = (Some (Inr x), w')
     \<and> NewAuthenticationSession (login_session (lr_SessionID x) ''I'' (sample_input ''pw'') sample_cfg (login_now login_world)) = Inr s"
proof -
  obtain x w' where l: "app_Login sample_platform sample_cfg (sample_input ''pw'') login_world = (Some (Inr x), w')"
    "lr_AuthenticationResult x = ''COMPLETED''" by (rule sample_completed)
  obtain res cred c2 w4 s where c: "checked sample_platform sample_cfg (sample_input ''pw'') login_world res cred c2 w4"
    and n: "NewAuthenticationSession (login_session (lr_SessionID x) (ri_IdentityID res) (sample_input ''pw'') sample_cfg
      (login_now login_world)) = Inr s"
    using completed_login_saved [OF l] by blast
  have "ri_IdentityID res = ''I''"
    using c by (auto simp: checked_def credential_phase_def ResolveIdentity_def sample_platform_def wrap_err_def ext_def
        split: prod.splits option.splits if_splits sum.splits)
  with l(1) n show ?thesis by auto
qed

text \<open>
  C30. One session at a time: under the policy SINGLE, after a completed login the only session of that
  user at that client that is live, then or at any later time, is the one the login created.
\<close>

theorem single_session:
  assumes "app_Login pf cfg inp w = (Some (Inr x), w')" "lr_AuthenticationResult x = ''COMPLETED''"
    "uc_ConcurrentPolicy cfg = ''SINGLE''" "nanos (login_now w) \<le> nanos t"
  shows "\<exists>i. map sn_id (live_sessions i (li_ClientID inp) t (w_db w')) \<in> {[], [lr_SessionID x]}
    \<and> (\<exists>r\<in>set (db_sessions (w_db w')). sn_id r = lr_SessionID x \<and> sn_identity_id r = i \<and> sn_client_id r = li_ClientID inp)"
proof -
  obtain co where s: "session_saved cfg (li_ClientID inp) (login_now w) co (w_db w) (w_db w')"
    "s_id (co_session co) = lr_SessionID x" using completed_session [OF assms(1,2)] .
  let ?i = "s_identity (co_session co)"
  have "map sn_id (live_sessions ?i (li_ClientID inp) t (w_db w')) \<in> {[], [lr_SessionID x]}"
    using live_sessions_saved [OF s(1), of t] single_leaves_none [OF assms(3,4)] s(2)
    by (simp add: row_of_session_def Session_Snapshot_def Let_def)
  moreover have "row_of_session (co_session co) (li_ClientID inp) \<in> set (db_sessions (w_db w'))"
    using s(1) by (auto simp: session_saved_def)
  ultimately show ?thesis using s(2)
    by (intro exI [of _ ?i] conjI bexI [of _ "row_of_session (co_session co) (li_ClientID inp)"])
       (simp_all add: row_of_session_def Session_Snapshot_def Let_def)
qed

definition crowded_row :: "string \<Rightarrow> int \<Rightarrow> session_row" where
  "crowded_row sid t = \<lparr>sn_id = sid, sn_identity_id = ''I'', sn_device_id = None, sn_client_id = ''web'', sn_status = SessionStatusActive,
     sn_aal = AAL1, sn_mfa_factors_used = JArr [], sn_created_at = \<lparr>nanos = t * Second, loc = UTC\<rparr>,
     sn_last_activity_at = \<lparr>nanos = t * Second, loc = UTC\<rparr>, sn_idle_timeout_secs = 900,
     sn_absolute_expires_at = \<lparr>nanos = (t + 28800) * Second, loc = UTC\<rparr>, sn_creation_ip = ''10.0.0.1'',
     sn_creation_user_agent = ''ua'', sn_revoked_at = None, sn_revoke_reason = None\<rparr>"

text \<open>A login of a user who has a live session already.\<close>

definition busy_world :: world where
  "busy_world = login_world\<lparr>w_db := (w_db login_world)\<lparr>db_sessions := [crowded_row ''B'' 4900]\<rparr>\<rparr>"

lemma busy_run:
  "map sn_id (live_sessions ''I'' ''web'' (login_now busy_world) (w_db busy_world)) = [''B'']"
  "case app_Login sample_platform sample_cfg (sample_input ''pw'') busy_world of
     (Some (Inr x), w') \<Rightarrow> lr_AuthenticationResult x = ''COMPLETED'' \<and> lr_SessionID x \<noteq> ''B'' | _ \<Rightarrow> False"
  by code_simp+

theorem single_session_witness:
  "\<exists>x w' i. map sn_id (live_sessions ''I'' ''web'' (login_now busy_world) (w_db busy_world)) = [''B''] \<and> lr_SessionID x \<noteq> ''B''
     \<and> app_Login sample_platform sample_cfg (sample_input ''pw'') busy_world = (Some (Inr x), w')
     \<and> map sn_id (live_sessions i ''web'' (login_now busy_world) (w_db w')) \<in> {[], [lr_SessionID x]}"
proof -
  obtain x w' where l: "app_Login sample_platform sample_cfg (sample_input ''pw'') busy_world = (Some (Inr x), w')"
    "lr_AuthenticationResult x = ''COMPLETED''" "lr_SessionID x \<noteq> ''B''"
    using busy_run(2) by (auto split: prod.splits option.splits sum.splits)
  have "uc_ConcurrentPolicy sample_cfg = ''SINGLE''"
    by (simp add: sample_cfg_def usecase_config_def sample_config_def sample_auth_def Let_def)
  from single_session [OF l(1,2) this order_refl] l(1,3) busy_run(1) show ?thesis by (metis sample_client)
qed


text \<open>
  C32. The limit of sessions: under LIMIT_N with a positive maximum, if every row still marked active for
  a user and client is live at the time of the login and there are at most the maximum of them, then
  after a completed login at most the maximum are live.
\<close>

theorem session_limit_kept:
  assumes "app_Login pf cfg inp w = (Some (Inr x), w')" "lr_AuthenticationResult x = ''COMPLETED''"
    "uc_ConcurrentPolicy cfg = ''LIMIT_N''" "1 \<le> uc_ConcurrentMax cfg"
    "\<forall>i. list_all (live_row (login_now w)) (active_rows i (li_ClientID inp) (w_db w))
       \<and> int (length (active_rows i (li_ClientID inp) (w_db w))) \<le> uc_ConcurrentMax cfg"
  shows "\<exists>r\<in>set (db_sessions (w_db w')). sn_id r = lr_SessionID x \<and> sn_client_id r = li_ClientID inp
    \<and> int (length (live_sessions (sn_identity_id r) (li_ClientID inp) (login_now w) (w_db w'))) \<le> uc_ConcurrentMax cfg"
proof -
  obtain co where s: "session_saved cfg (li_ClientID inp) (login_now w) co (w_db w) (w_db w')"
    "s_id (co_session co) = lr_SessionID x" using completed_session [OF assms(1,2)] .
  let ?i = "s_identity (co_session co)" and ?r = "row_of_session (co_session co) (li_ClientID inp)"
  have "int (length (live_sessions ?i (li_ClientID inp) (login_now w) (w_db w'))) \<le> uc_ConcurrentMax cfg"
    using live_sessions_saved [OF s(1), of "login_now w"] limit_leaves_room [OF assms(3,4), of "login_now w" ?i "li_ClientID inp" "w_db w"]
      assms(5) by simp
  moreover have "?r \<in> set (db_sessions (w_db w'))" using s(1) by (auto simp: session_saved_def)
  ultimately show ?thesis using s(2)
    by (intro bexI [of _ ?r]) (simp_all add: row_of_session_def Session_Snapshot_def Let_def)
qed

definition limited_cfg :: UsecaseConfig where
  "limited_cfg = sample_cfg\<lparr>uc_ConcurrentPolicy := ''LIMIT_N'', uc_ConcurrentMax := 1\<rparr>"

lemma limited_run_completed:
  "case app_Login sample_platform limited_cfg (sample_input ''pw'') busy_world of
     (Some (Inr x), w') \<Rightarrow> lr_AuthenticationResult x = ''COMPLETED'' | _ \<Rightarrow> False"
  by code_simp

lemma busy_rows: "active_rows i c (w_db busy_world) = (if i = ''I'' \<and> c = ''web'' then [crowded_row ''B'' 4900] else [])"
  by (auto simp: active_rows_def is_active_row_def busy_world_def crowded_row_def const_defs)

lemma busy_live: "live_row (login_now busy_world) (crowded_row ''B'' 4900)"
  by code_simp

theorem session_limit_kept_witness:
  "\<exists>x w'. length (active_rows ''I'' ''web'' (w_db busy_world)) = 1
     \<and> app_Login sample_platform limited_cfg (sample_input ''pw'') busy_world = (Some (Inr x), w')
     \<and> (\<exists>r\<in>set (db_sessions (w_db w')). sn_id r = lr_SessionID x
       \<and> int (length (live_sessions (sn_identity_id r) ''web'' (login_now busy_world) (w_db w'))) \<le> 1)"
proof -
  obtain x w' where l: "app_Login sample_platform limited_cfg (sample_input ''pw'') busy_world = (Some (Inr x), w')"
    "lr_AuthenticationResult x = ''COMPLETED''"
    using limited_run_completed by (auto split: prod.splits option.splits sum.splits)
  have p: "uc_ConcurrentPolicy limited_cfg = ''LIMIT_N''" "uc_ConcurrentMax limited_cfg = 1" by (simp_all add: limited_cfg_def)
  have "\<forall>i. list_all (live_row (login_now busy_world)) (active_rows i (li_ClientID (sample_input ''pw'')) (w_db busy_world))
      \<and> int (length (active_rows i (li_ClientID (sample_input ''pw'')) (w_db busy_world))) \<le> uc_ConcurrentMax limited_cfg"
    using busy_live p by (simp add: busy_rows)
  from session_limit_kept [OF l p(1) _ this] l(1) p show ?thesis by (auto simp: sample_client busy_rows)
qed


text \<open>
  Where the limit fails: when the oldest row marked active has in fact expired, applying LIMIT_N ends
  no session, however many rows are live and whatever the maximum is, so the new login comes on top.
\<close>

lemma expired_oldest_blocks_limit:
  assumes "uc_ConcurrentPolicy cfg = ''LIMIT_N''" "active_rows i c (w_db w) = r # rs" "scanSessionRow r = Inr s"
    "\<not> IsActive now s" "\<forall>k. w_fault w k = None" "pg_text c"
  shows "\<exists>w'. applyConcurrentSessionPolicy (r_Sessions tx_repositories) i c cfg now w = (Inr (), w') \<and> w_db w' = w_db w"
proof -
  obtain e s' where "Revoke ReasonConcurrentSessionLimit '''' now s = (Some e, s')"
    using not_active_Revoke scan_wf [OF assms(3)] assms(4) by blast
  then show ?thesis using assms
    by (simp add: applyConcurrentSessionPolicy_def pbind_def txSessions_CountActive_def txSessions_FindOldestActive_def
        wrap_err_def with_text_def query_def ext_def preturn_def)
qed

definition crowded_world :: world where
  "crowded_world = sample_world\<lparr>w_db := empty_db\<lparr>db_sessions := [crowded_row ''A'' 1000, crowded_row ''B'' 4900]\<rparr>\<rparr>"

lemma crowded_rows: "active_rows ''I'' ''web'' (w_db crowded_world) = [crowded_row ''A'' 1000, crowded_row ''B'' 4900]"
  by code_simp

lemma crowded_scan:
  "case scanSessionRow (crowded_row ''A'' 1000) of Inr s \<Rightarrow> \<not> IsActive \<lparr>nanos = 5000 * Second, loc = UTC\<rparr> s | Inl e \<Rightarrow> False"
  "live_row \<lparr>nanos = 5000 * Second, loc = UTC\<rparr> (crowded_row ''B'' 4900)"
  by code_simp code_simp

text \<open>A maximum of one session, one live session, and the policy keeps it beside the new one.\<close>

lemma crowded_kept:
  "\<exists>w'. applyConcurrentSessionPolicy (r_Sessions tx_repositories) ''I'' ''web'' limited_cfg \<lparr>nanos = 5000 * Second, loc = UTC\<rparr> crowded_world
      = (Inr (), w') \<and> uc_ConcurrentMax limited_cfg = 1
    \<and> crowded_row ''B'' 4900 \<in> set (live_sessions ''I'' ''web'' \<lparr>nanos = 5000 * Second, loc = UTC\<rparr> (w_db w'))"
proof -
  let ?now = "\<lparr>nanos = 5000 * Second, loc = UTC\<rparr>"
  obtain s where s: "scanSessionRow (crowded_row ''A'' 1000) = Inr s" "\<not> IsActive ?now s"
    using crowded_scan(1) by (auto split: sum.splits)
  have c: "uc_ConcurrentPolicy limited_cfg = ''LIMIT_N''" "\<forall>k. w_fault crowded_world k = None"
    by (simp_all add: limited_cfg_def crowded_world_def sample_world_def)
  have "pg_text ''web''" by code_simp
  from expired_oldest_blocks_limit [OF c(1) crowded_rows s c(2) this] crowded_scan(2) show ?thesis
    by (auto simp: limited_cfg_def live_sessions_def crowded_world_def crowded_row_def)
qed

section \<open>Failures that cannot be stored\<close>

definition failure_noted :: "AttemptContext \<Rightarrow> Credential \<Rightarrow> bool" where
  "failure_noted attempt c \<longleftrightarrow>
     list_ex (\<lambda>ev. case ev of EvLoginFailed e \<Rightarrow> lf_CompanyCode e = ac_CompanyCode attempt | _ \<Rightarrow> False) (c_events c)"

lemma recordLoginFailed_noted: "failure_noted attempt (recordLoginFailed attempt reason t c)"
  by (simp add: failure_noted_def recordLoginFailed_def)

lemma counted_failure_noted: "failure_noted attempt (counted_failure attempt w t c)"
  by (simp add: counted_failure_def Let_def recordLoginFailed_noted)

lemma lock_noted: "lock policy ip t c = Some c' \<Longrightarrow> failure_noted attempt c \<Longrightarrow> failure_noted attempt c'"
  by (auto simp: failure_noted_def lock_def Let_def split: if_splits Option.bind_splits)

lemma noted_event:
  assumes "failure_noted attempt c"
  obtains e where "EvLoginFailed e \<in> set (c_events c)" "lf_CompanyCode e = ac_CompanyCode attempt"
proof -
  from assms obtain ev where ev: "ev \<in> set (c_events c)"
    "case ev of EvLoginFailed e \<Rightarrow> lf_CompanyCode e = ac_CompanyCode attempt | _ \<Rightarrow> False"
    by (auto simp: failure_noted_def list_ex_iff)
  from ev(2) show thesis by (cases ev) (use that ev(1) in auto)
qed

lemma RecordFailedAttempt_noted:
  assumes "LockoutPolicy_Validate policy = None" "RecordFailedAttempt attempt policy now c = Some (err, c2)"
  shows "failure_noted attempt c2"
proof -
  obtain e1 c1 where ev: "EnsureVerifiable (time_UTC now) c = Some (e1, c1)"
    using assms by (cases "EnsureVerifiable (time_UTC now) c") (auto simp: RecordFailedAttempt_eq)
  show ?thesis
  proof (cases e1)
    case None
    with assms ev show ?thesis
      by (auto simp: RecordFailedAttempt_eq Let_def bind_eq_Some_conv counted_failure_noted split: if_splits
          intro: lock_noted [OF _ counted_failure_noted])
  qed (use assms ev in \<open>auto simp: RecordFailedAttempt_eq recordLoginFailed_noted\<close>)
qed

text \<open>The transaction of a failed login needs the user agent as text and the events as JSON.\<close>

lemma save_outcome_texts:
  assumes "save_outcome c evs a tx_repositories w = (Inr u, w')"
  shows "pg_text (lar_UserAgent a)" "list_all (\<lambda>e. jsonb_ok (event_json e)) evs"
proof -
  from assms obtain w1 w2 where s: "txOutbox_Append evs w1 = (Inr (), w2)" "recordLoginAttempt a w2 = (Inr u, w')"
    by (auto simp: save_outcome_def stmt_ok)
  from Append_ok(2) [OF s(1)] show "list_all (\<lambda>e. jsonb_ok (event_json e)) evs" .
  from s(2) show "pg_text (lar_UserAgent a)"
    by (simp add: recordLoginAttempt_def stmt_ok attempt_texts_def row_of_attempt_def)
qed

lemma failCredential_refused:
  assumes "RecordFailedAttempt att (uc_Lockout cfg) now c1 = Some (err, c2)"
    "\<not> pg_text (li_UserAgent inp) \<or> \<not> list_all (\<lambda>e. jsonb_ok (event_json e)) (c_events c2)"
  shows "\<exists>e w'. failCredential (app_deps pf cfg) c1 att i ih fp inp now w = (Some (Inl e), w')
    \<and> ae_Code e = ErrSystemDatabase \<and> w_db w' = w_db w"
proof -
  let ?a = "attempt_record (Some i) ih ''FAILED_CREDENTIALS'' inp fp None now"
  obtain r1 w1 where x: "Execute (save_outcome (c2\<lparr>c_events := []\<rparr>) (c_events c2) ?a) w = (r1, w1)" by (meson surj_pair)
  have "save_outcome (c2\<lparr>c_events := []\<rparr>) (c_events c2) ?a tx_repositories (begun w) \<noteq> (Inr (), w2)" for w2
    using save_outcome_texts assms(2) by (fastforce simp: attempt_record_def)
  with Execute_durable [OF x] obtain e where "r1 = Inl e" "w_db w1 = w_db w" by auto
  with x assms(1) show ?thesis
    by (simp add: failCredential_def Credential_PullEvents_def apperror_Wrap_def)
qed

text \<open>
  C33. Failures that the tables cannot hold are not counted: when the company code of a login contains a
  NUL, or its user agent is not UTF-8 text, a wrong password is answered with a database error and the
  durable state stays as it was, the failure counter and the audit rows included. The same login can be
  repeated without ever reaching the threshold.
\<close>

theorem unstorable_failure_uncounted:
  assumes "db_ok (w_db w)" "credential_phase pf cfg inp w res cred w3" "EnsureVerifiable (login_now w) cred = Some (None, c1)"
    "verifyPassword (app_runtime pf) (login_password inp) c1 (uc_Argon2id cfg) w3 = (False, w4)"
    "LockoutPolicy_Validate (uc_Lockout cfg) = None" "NUL \<in> set (login_company pf inp) \<or> \<not> pg_text (li_UserAgent inp)"
  shows "\<exists>e w'. app_Login pf cfg inp w = (Some (Inl e), w') \<and> ae_Code e = ErrSystemDatabase \<and> w_db w' = w_db w"
proof -
  have st: "stored (w_db w) cred" "w_db w3 = w_db w" using phase_stored [OF assms(2)] by auto
  obtain err c2 where r: "RecordFailedAttempt (login_attempt pf inp) (uc_Lockout cfg) (login_now w) c1 = Some (err, c2)"
    using login_failed_cred [OF assms(1) st(1) assms(3)] by blast
  obtain e where e: "EvLoginFailed e \<in> set (c_events c2)" "lf_CompanyCode e = login_company pf inp"
    using noted_event [OF RecordFailedAttempt_noted [OF assms(5) r]] by (auto simp: login_attempt_def)
  have "\<not> pg_text (li_UserAgent inp) \<or> \<not> list_all (\<lambda>e. jsonb_ok (event_json e)) (c_events c2)"
    using assms(6) failed_event_refused [of e] e unfolding list_all_iff by metis
  from failCredential_refused [OF r this, of pf "ri_IdentityID res" "sha256Hex (pf_sha256 pf) (li_Identifier inp)" "login_fingerprint pf inp" w4]
    verifyPassword_db [OF assms(4)] assms(3,4) st(2) show ?thesis
    unfolding phase_Login [OF assms(2)] by (simp add: login_credential_def login_attempt_def)
qed

definition nul_input :: "string \<Rightarrow> LoginInput" where
  "nul_input pw = (sample_input pw)\<lparr>li_CompanyCode := ''ac'' @ [NUL]\<rparr>"

lemma nul_run:
  "case phase_run sample_platform sample_cfg (nul_input ''no'') login_world of
     Some (res, cred, w3) \<Rightarrow> (case EnsureVerifiable (login_now login_world) cred of
       Some (None, c1) \<Rightarrow> \<not> fst (verifyPassword (app_runtime sample_platform) (login_password (nul_input ''no'')) c1 (uc_Argon2id sample_cfg) w3)
     | _ \<Rightarrow> False) | None \<Rightarrow> False"
  "LockoutPolicy_Validate (uc_Lockout sample_cfg) = None" "NUL \<in> set (login_company sample_platform (nul_input ''no''))"
  by code_simp+

theorem unstorable_failure_uncounted_witness:
  "\<exists>e w'. app_Login sample_platform sample_cfg (nul_input ''no'') login_world = (Some (Inl e), w')
     \<and> ae_Code e = ErrSystemDatabase \<and> w_db w' = w_db login_world"
proof -
  obtain res cred w3 c1 where p: "phase_run sample_platform sample_cfg (nul_input ''no'') login_world = Some (res, cred, w3)"
    and ev: "EnsureVerifiable (login_now login_world) cred = Some (None, c1)"
    and v: "\<not> fst (verifyPassword (app_runtime sample_platform) (login_password (nul_input ''no'')) c1 (uc_Argon2id sample_cfg) w3)"
    using nul_run(1) by (auto split: option.splits prod.splits)
  obtain w4 where "verifyPassword (app_runtime sample_platform) (login_password (nul_input ''no'')) c1 (uc_Argon2id sample_cfg) w3 = (False, w4)"
    using v by (metis (full_types) prod.collapse)
  from unstorable_failure_uncounted [OF login_db_ok phase_run_phase [OF p] ev this nul_run(2)] nul_run(3) show ?thesis by blast
qed

text \<open>With the same company code the right password still completes the login.\<close>

lemma nul_run_completed:
  "case app_Login sample_platform sample_cfg (nul_input ''pw'') login_world of
     (Some (Inr x), w') \<Rightarrow> lr_AuthenticationResult x = ''COMPLETED'' | _ \<Rightarrow> False"
  by code_simp

end
