(* ===== verification/Relay.thy ===== *)
theory Relay
  imports Postgres_Facts
begin

text \<open>
  The relay of \<open>internal/platform/outbox/publisher.go\<close>: it polls the outbox table, writes the unpublished
  rows to the Kafka topic and marks them. The topic is the list of the messages the brokers hold.
  \<open>locked\<close> are the rows that other transactions hold at the time of a poll. A write to Kafka fails, after
  some of the messages have arrived nevertheless, or returns no error. In the second case the brokers hold
  all of the messages if they have acknowledged them; a writer that requires no acknowledgement returns
  no error as well when only some of them, or none, arrive.
\<close>

section \<open>Data\<close>

record RelayConfig =
  ry_PollInterval :: duration
  ry_BatchSize :: int

record outboxRow =
  orw_id :: string
  orw_aggregateType :: string
  orw_aggregateID :: string
  orw_eventType :: string
  orw_payload :: json

record kafka_message =
  km_Key :: string
  km_Value :: json

datatype acks = RequireNone | RequireOne | RequireAll

datatype balancer = RoundRobin | LeastBytes

record KafkaWriter =
  kw_Addr :: "string list"
  kw_Topic :: string
  kw_Balancer :: balancer
  kw_RequiredAcks :: acks

text \<open>
  What \<open>WriteMessages\<close> does. The list says for each message whether it arrives; messages beyond its end
  do not.
\<close>

datatype kafka_reply = KafkaAccepted | KafkaUnacked "bool list" | KafkaFailed string "bool list"

definition writer_reply :: "KafkaWriter \<Rightarrow> kafka_reply \<Rightarrow> bool" where
  "writer_reply kw reply \<longleftrightarrow> (case reply of KafkaUnacked _ \<Rightarrow> kw_RequiredAcks kw = RequireNone | _ \<Rightarrow> True)"

definition arrived :: "kafka_reply \<Rightarrow> kafka_message list \<Rightarrow> kafka_message list" where
  "arrived reply ms = (case reply of
      KafkaAccepted \<Rightarrow> ms
    | KafkaUnacked bs \<Rightarrow> map snd (filter fst (zip bs ms))
    | KafkaFailed _ bs \<Rightarrow> map snd (filter fst (zip bs ms)))"

record relay_state =
  rs_world :: world
  rs_topic :: "kafka_message list"

definition NewRelay :: "RelayConfig \<Rightarrow> RelayConfig" where
  "NewRelay cfg =
     (let cfg1 = (if ry_BatchSize cfg \<le> 0 then cfg\<lparr>ry_BatchSize := 100\<rparr> else cfg)
      in if ry_PollInterval cfg1 \<le> 0 then cfg1\<lparr>ry_PollInterval := 2 * Second\<rparr> else cfg1)"

section \<open>One poll\<close>

definition unpublished :: "database \<Rightarrow> outbox_row list" where
  "unpublished db = sort_key (\<lambda>r. nanos (ob_created_at r)) (filter (\<lambda>r. ob_published_at r = None) (db_outbox db))"

definition scan_outbox :: "outbox_row \<Rightarrow> outboxRow" where
  "scan_outbox r = \<lparr>orw_id = ob_id r, orw_aggregateType = ob_aggregate_type r, orw_aggregateID = ob_aggregate_id r,
     orw_eventType = ob_event_type r, orw_payload = ob_payload r\<rparr>"

definition claim :: "int \<Rightarrow> string set \<Rightarrow> database \<Rightarrow> outboxRow list" where
  "claim n locked db = map scan_outbox (take (nat n) (filter (\<lambda>r. ob_id r \<notin> locked) (unpublished db)))"

definition relay_message :: "outboxRow \<Rightarrow> kafka_message" where
  "relay_message r = \<lparr>km_Key = orw_aggregateID r, km_Value = orw_payload r\<rparr>"

text \<open>\<open>tx.Commit\<close>; \<open>db0\<close> is what a refused commit leaves.\<close>

definition commit_tx :: "database \<Rightarrow> world \<Rightarrow> port_error option \<times> world" where
  "commit_tx db0 w = (case w_commit w (w_tick w) of
      Committed \<Rightarrow> (None, tick w)
    | CommitRefused msg \<Rightarrow> (Some (DriverE msg), (tick w)\<lparr>w_db := db0\<rparr>)
    | CommitReplyLost msg \<Rightarrow> (Some (DriverE msg), tick w))"

definition mark_attempt :: "string \<Rightarrow> outbox_row \<Rightarrow> outbox_row" where
  "mark_attempt err r = r\<lparr>ob_attempts := ob_attempts r + 1, ob_last_error := Some err\<rparr>"

definition markFailed :: "database \<Rightarrow> outboxRow list \<Rightarrow> string \<Rightarrow> world \<Rightarrow> port_error option \<times> world" where
  "markFailed db0 batch publishErr w =
     (let ids = map orw_id batch in
      case with_text [publishErr] (exec_if (\<lambda>db. list_all (\<lambda>r. ob_id r \<in> set ids \<longrightarrow> int4 (ob_attempts r + 1)) (db_outbox db)) ''integer out of range''
             (\<lambda>u. (w_db u)\<lparr>db_outbox := update_where (\<lambda>r. ob_id r \<in> set ids) (mark_attempt publishErr) (db_outbox (w_db u))\<rparr>)) w of
        (Inl e, w1) \<Rightarrow>
          (Some (WrapE (''outbox: record publish failure (publish err: '' @ publishErr @ '')'') e), (tick w1)\<lparr>w_db := db0\<rparr>)
      | (Inr _, w1) \<Rightarrow>
          (case commit_tx db0 w1 of
             (Some e, w2) \<Rightarrow> (Some (WrapE ''outbox: commit failure record'' e), w2)
           | (None, w2) \<Rightarrow> (Some (WrapE ''outbox: publish batch'' (DriverE publishErr)), w2)))"

definition mark_published :: "time \<Rightarrow> outbox_row \<Rightarrow> outbox_row" where
  "mark_published now r = r\<lparr>ob_published_at := Some now\<rparr>"

text \<open>The rest of a poll, once rows are claimed.\<close>

definition publish_rows :: "database \<Rightarrow> outboxRow list \<Rightarrow> kafka_reply \<Rightarrow> relay_state \<Rightarrow> world \<Rightarrow> port_error option \<times> relay_state" where
  "publish_rows db0 batch reply s w =
     (let messages = map relay_message batch; ids = map orw_id batch;
          s1 = s\<lparr>rs_topic := rs_topic s @ arrived reply messages\<rparr> in
      case reply of
        KafkaFailed msg _ \<Rightarrow> (case markFailed db0 batch msg w of (e, w1) \<Rightarrow> (e, s1\<lparr>rs_world := w1\<rparr>))
      | _ \<Rightarrow>
          (case wrap_err ''outbox: mark published''
              (exec (\<lambda>u. (w_db u)\<lparr>db_outbox := update_where (\<lambda>r. ob_id r \<in> set ids) (mark_published (w_tx_start u))
                 (db_outbox (w_db u))\<rparr>)) w of
             (Inl e, w1) \<Rightarrow> (Some e, s1\<lparr>rs_world := (tick w1)\<lparr>w_db := db0\<rparr>\<rparr>)
           | (Inr _, w1) \<Rightarrow> (case commit_tx db0 w1 of (e, w2) \<Rightarrow> (e, s1\<lparr>rs_world := w2\<rparr>))))"

definition publishBatch :: "RelayConfig \<Rightarrow> string set \<Rightarrow> kafka_reply \<Rightarrow> relay_state \<Rightarrow> port_error option \<times> relay_state" where
  "publishBatch cfg locked reply s =
     (let w = rs_world s; db0 = w_db w in
      case wrap_err ''outbox: begin'' (ext (\<lambda>u. (Inr (w_clock u (w_tick u)), u))) w of
        (Inl e, w1) \<Rightarrow> (Some e, s\<lparr>rs_world := w1\<rparr>)
      | (Inr start, w1) \<Rightarrow>
          (case wrap_err ''outbox: select unpublished'' (query (claim (ry_BatchSize cfg) locked)) (w1\<lparr>w_tx_start := start\<rparr>) of
             (Inl e, w2) \<Rightarrow> (Some e, s\<lparr>rs_world := (tick w2)\<lparr>w_db := db0\<rparr>\<rparr>)
           | (Inr batch, w2) \<Rightarrow>
               if length batch = 0 then (None, s\<lparr>rs_world := (tick w2)\<lparr>w_db := db0\<rparr>\<rparr>)
               else publish_rows db0 batch reply s w2))"

section \<open>The loop\<close>

text \<open>
  What the loop waits for: a tick of the ticker, with what that poll meets, or the end of the context.
  \<open>Elsewhere\<close> is what other transactions do in between. The result is the error that \<open>Run\<close> has returned,
  \<open>None\<close> while it keeps waiting; the error of a poll is only logged. A context that ends during a poll is a poll
  whose remaining calls fail, followed by \<open>Done\<close>.
\<close>

datatype relay_input = Tick "string set" kafka_reply | Elsewhere "world \<Rightarrow> world" | Done

definition context_Canceled :: port_error where
  "context_Canceled = TextE ''context canceled''"

fun Run :: "RelayConfig \<Rightarrow> relay_input list \<Rightarrow> relay_state \<Rightarrow> port_error option \<times> relay_state" where
  "Run cfg [] s = (None, s)"
| "Run cfg (Done # xs) s = (Some context_Canceled, s)"
| "Run cfg (Tick locked reply # xs) s = Run cfg xs (snd (publishBatch cfg locked reply s))"
| "Run cfg (Elsewhere f # xs) s = Run cfg xs (s\<lparr>rs_world := f (rs_world s)\<rparr>)"

text \<open>No poll is answered without an error unless the brokers hold its messages.\<close>

definition acknowledged :: "relay_input list \<Rightarrow> bool" where
  "acknowledged xs \<longleftrightarrow> list_all (\<lambda>x. case x of Tick _ (KafkaUnacked _) \<Rightarrow> False | _ \<Rightarrow> True) xs"

definition writer_replies :: "KafkaWriter \<Rightarrow> relay_input list \<Rightarrow> bool" where
  "writer_replies kw xs \<longleftrightarrow> list_all (\<lambda>x. case x of Tick _ reply \<Rightarrow> writer_reply kw reply | _ \<Rightarrow> True) xs"

lemma acknowledged_simps [simp]:
  "acknowledged []" "acknowledged (Tick l (KafkaUnacked bs) # xs) = False" "acknowledged (Tick l KafkaAccepted # xs) = acknowledged xs"
  "acknowledged (Tick l (KafkaFailed m bs) # xs) = acknowledged xs" "acknowledged (Elsewhere f # xs) = acknowledged xs"
  "acknowledged (Done # xs) = acknowledged xs"
  by (simp_all add: acknowledged_def)

text \<open>A writer that waits for acknowledgements makes it so.\<close>

lemma writer_acknowledged: "kw_RequiredAcks kw \<noteq> RequireNone \<Longrightarrow> writer_replies kw xs \<Longrightarrow> acknowledged xs"
  by (auto simp: acknowledged_def writer_replies_def writer_reply_def list_all_iff split: relay_input.splits kafka_reply.splits)

section \<open>Nothing is marked that was not written\<close>

definition delivered :: "relay_state \<Rightarrow> bool" where
  "delivered s \<longleftrightarrow> (\<forall>r\<in>set (db_outbox (w_db (rs_world s))). ob_published_at r \<noteq> None \<longrightarrow>
     \<lparr>km_Key = ob_aggregate_id r, km_Value = ob_payload r\<rparr> \<in> set (rs_topic s))"

text \<open>What other transactions do to the outbox: they append rows with fresh keys that are not published.\<close>

definition appends :: "(world \<Rightarrow> world) \<Rightarrow> bool" where
  "appends f \<longleftrightarrow> (\<forall>w. \<exists>new. db_outbox (w_db (f w)) = db_outbox (w_db w) @ new \<and> list_all (\<lambda>r. ob_published_at r = None) new
     \<and> (distinct (map ob_id (db_outbox (w_db w))) \<longrightarrow> distinct (map ob_id (db_outbox (w_db w) @ new))))"

definition outbox_keys :: "relay_state \<Rightarrow> bool" where
  "outbox_keys s \<longleftrightarrow> distinct (map ob_id (db_outbox (w_db (rs_world s))))"

lemma commit_durable: "commit_tx db0 w = (e, w') \<Longrightarrow> w_db w' = w_db w \<or> (w_db w' = db0 \<and> e \<noteq> None)"
  by (auto simp: commit_tx_def split: commit_reply.splits)

definition attempts_marked :: "string set \<Rightarrow> string \<Rightarrow> database \<Rightarrow> database" where
  "attempts_marked ids msg db = db\<lparr>db_outbox := update_where (\<lambda>r. ob_id r \<in> ids) (mark_attempt msg) (db_outbox db)\<rparr>"

definition published_marked :: "string set \<Rightarrow> time \<Rightarrow> database \<Rightarrow> database" where
  "published_marked ids now db = db\<lparr>db_outbox := update_where (\<lambda>r. ob_id r \<in> ids) (mark_published now) (db_outbox db)\<rparr>"

lemma markFailed_durable:
  assumes "markFailed db0 batch msg w = (e, w')" "w_db w = db0"
  shows "w_db w' = db0 \<or> w_db w' = attempts_marked (set (map orw_id batch)) msg db0"
proof -
  let ?ids = "set (map orw_id batch)"
  obtain r1 w1 where x: "with_text [msg] (exec_if (\<lambda>db. list_all (\<lambda>r. ob_id r \<in> ?ids \<longrightarrow> int4 (ob_attempts r + 1)) (db_outbox db)) ''integer out of range''
      (\<lambda>u. (w_db u)\<lparr>db_outbox := update_where (\<lambda>r. ob_id r \<in> ?ids) (mark_attempt msg) (db_outbox (w_db u))\<rparr>)) w = (r1, w1)"
    by (meson surj_pair)
  show ?thesis
  proof (cases r1)
    case (Inl e')
    with assms(1) x show ?thesis by (auto simp: markFailed_def Let_def)
  next
    case (Inr u)
    have "w_db w1 = attempts_marked ?ids msg db0"
      using x [unfolded Inr with_text_ok] assms(2) by (auto simp: attempts_marked_def dest!: exec_if_ok)
    moreover obtain e2 w2 where c: "commit_tx db0 w1 = (e2, w2)" by (meson surj_pair)
    moreover have "w' = w2" using assms(1) x Inr c by (auto simp: markFailed_def Let_def split: option.splits)
    ultimately show ?thesis using commit_durable [OF c] by auto
  qed
qed


lemma arrived_subset: "set (arrived reply ms) \<subseteq> set ms"
  by (auto simp: arrived_def split: kafka_reply.split dest: set_zip_rightD)

lemma arrived_Accepted [simp]: "arrived KafkaAccepted ms = ms" "arrived (KafkaUnacked []) ms = []"
  by (simp_all add: arrived_def)

lemma publish_rows_durable:
  assumes "publish_rows db batch reply s w = (e, s')" "w_db w = db"
  shows "rs_topic s' = rs_topic s @ arrived reply (map relay_message batch) \<and> (w_db (rs_world s') = db
     \<or> (\<exists>msg. w_db (rs_world s') = attempts_marked (set (map orw_id batch)) msg db)
     \<or> (w_db (rs_world s') = published_marked (set (map orw_id batch)) (w_tx_start w) db \<and> (\<forall>m bs. reply \<noteq> KafkaFailed m bs)))"
proof (cases "\<exists>msg bs. reply = KafkaFailed msg bs")
  case True
  then obtain msg bs where r: "reply = KafkaFailed msg bs" by blast
  obtain e1 w1 where m: "markFailed db batch msg w = (e1, w1)" by (meson surj_pair)
  with assms(1) r markFailed_durable [OF m assms(2)] show ?thesis by (auto simp: publish_rows_def Let_def)
next
  case False
  obtain r1 w1 where x: "exec (\<lambda>u. (w_db u)\<lparr>db_outbox := update_where (\<lambda>r. ob_id r \<in> set (map orw_id batch))
            (mark_published (w_tx_start u)) (db_outbox (w_db u))\<rparr>) w = (r1, w1)" by (meson surj_pair)
  show ?thesis
  proof (cases r1)
    case (Inl e1)
    with assms(1) False x show ?thesis by (auto simp: publish_rows_def Let_def wrap_err_def split: kafka_reply.splits)
  next
    case (Inr u)
    have "w_db w1 = published_marked (set (map orw_id batch)) (w_tx_start w) db"
      using exec_ok [OF x [unfolded Inr]] assms(2) by (simp add: published_marked_def)
    moreover obtain e2 w2 where c: "commit_tx db w1 = (e2, w2)" by (meson surj_pair)
    ultimately show ?thesis using commit_durable [OF c] assms(1) False x Inr
      by (auto simp: publish_rows_def Let_def wrap_err_def split: kafka_reply.splits)
  qed
qed

text \<open>
  One poll: the topic grows by messages of claimed rows, and the table is unchanged, or the claimed rows have
  one more attempt, or the claimed rows are marked published and then what arrived of their messages
  is in the topic.
\<close>

lemma publishBatch_durable:
  assumes "publishBatch cfg locked reply s = (e, s')"
  defines "db \<equiv> w_db (rs_world s)" and "ids \<equiv> set (map orw_id (claim (ry_BatchSize cfg) locked (w_db (rs_world s))))"
  shows "\<exists>new. rs_topic s' = rs_topic s @ new \<and> set new \<subseteq> set (map relay_message (claim (ry_BatchSize cfg) locked db))
     \<and> (w_db (rs_world s') = db
     \<or> (\<exists>msg. w_db (rs_world s') = attempts_marked ids msg db)
     \<or> (\<exists>now. w_db (rs_world s') = published_marked ids now db
          \<and> ((\<forall>bs. reply \<noteq> KafkaUnacked bs) \<longrightarrow> new = map relay_message (claim (ry_BatchSize cfg) locked db))))"
proof (cases "w_fault (rs_world s) (w_tick (rs_world s))")
  case (Some m)
  with assms(1) show ?thesis by (auto simp: publishBatch_def Let_def wrap_err_def ext_def db_def)
next
  case None
  let ?start = "w_clock (rs_world s) (Suc (w_tick (rs_world s)))"
  obtain r2 w2 where q: "wrap_err ''outbox: select unpublished'' (query (claim (ry_BatchSize cfg) locked))
      ((tick (rs_world s))\<lparr>w_tx_start := ?start\<rparr>) = (r2, w2)" by (meson surj_pair)
  have p: "publishBatch cfg locked reply s = (case r2 of
      Inl e \<Rightarrow> (Some e, s\<lparr>rs_world := (tick w2)\<lparr>w_db := db\<rparr>\<rparr>)
    | Inr batch \<Rightarrow> if length batch = 0 then (None, s\<lparr>rs_world := (tick w2)\<lparr>w_db := db\<rparr>\<rparr>) else publish_rows db batch reply s w2)"
    unfolding db_def using None q by (simp add: publishBatch_def Let_def wrap_err_def [of "''outbox: begin''"] ext_def)
  show ?thesis
  proof (cases r2)
    case (Inr b)
    have "b = claim (ry_BatchSize cfg) locked db" "w_db w2 = db"
      using q [unfolded Inr wrap_ok] query_ok by (fastforce simp: db_def)+
    moreover have "(\<forall>m bs. reply \<noteq> KafkaFailed m bs) \<Longrightarrow> (\<forall>bs. reply \<noteq> KafkaUnacked bs) \<Longrightarrow> reply = KafkaAccepted"
      by (cases reply) auto
    ultimately show ?thesis
      using p Inr assms(1) publish_rows_durable [of db b reply s w2 e s'] arrived_subset [of reply "map relay_message b"]
      by (auto simp: ids_def db_def split: if_splits)
  qed (use p assms(1) in auto)
qed


lemma update_where_mem:
  "r \<in> set (update_where p f rows) \<Longrightarrow> \<exists>r0\<in>set rows. r = (if p r0 then f r0 else r0)"
  by (auto simp: update_where_def)

lemma mark_sel [simp]:
  "ob_id (mark_attempt m r) = ob_id r" "ob_published_at (mark_attempt m r) = ob_published_at r"
  "ob_aggregate_id (mark_attempt m r) = ob_aggregate_id r" "ob_payload (mark_attempt m r) = ob_payload r"
  "ob_id (mark_published t r) = ob_id r" "ob_published_at (mark_published t r) = Some t"
  "ob_aggregate_id (mark_published t r) = ob_aggregate_id r" "ob_payload (mark_published t r) = ob_payload r"
  "ob_created_at (mark_published t r) = ob_created_at r"
  by (simp_all add: mark_attempt_def mark_published_def)

lemma update_where_ids [simp]:
  "map ob_id (update_where p (mark_attempt m) rows) = map ob_id rows"
  "map ob_id (update_where p (mark_published t) rows) = map ob_id rows"
  by (simp_all add: update_where_def)

lemma distinct_key: "distinct (map k xs) \<Longrightarrow> x \<in> set xs \<Longrightarrow> y \<in> set xs \<Longrightarrow> k x = k y \<Longrightarrow> x = y"
  by (simp add: distinct_map inj_on_def)

lemma claimed_message:
  assumes "outbox_keys s" "r \<in> set (db_outbox (w_db (rs_world s)))"
    "ob_id r \<in> set (map orw_id (claim n locked (w_db (rs_world s))))"
  shows "\<lparr>km_Key = ob_aggregate_id r, km_Value = ob_payload r\<rparr> \<in> set (map relay_message (claim n locked (w_db (rs_world s))))"
proof -
  let ?rows = "take (nat n) (filter (\<lambda>r. ob_id r \<notin> locked) (unpublished (w_db (rs_world s))))"
  from assms(3) obtain r0 where m: "r0 \<in> set ?rows" "ob_id r0 = ob_id r"
    by (auto simp: claim_def scan_outbox_def)
  then have r0: "scan_outbox r0 \<in> set (claim n locked (w_db (rs_world s)))" "r0 \<in> set (db_outbox (w_db (rs_world s)))"
    by (auto simp: claim_def unpublished_def dest: in_set_takeD)
  with m(2) have "r0 = r" using assms(1,2) distinct_key by (metis outbox_keys_def)
  with r0(1) have "relay_message (scan_outbox r) \<in> set (map relay_message (claim n locked (w_db (rs_world s))))" by auto
  then show ?thesis by (simp add: relay_message_def scan_outbox_def)
qed

lemma publishBatch_delivered:
  assumes "delivered s" "outbox_keys s" "publishBatch cfg locked reply s = (e, s')" "\<forall>bs. reply \<noteq> KafkaUnacked bs"
  shows "delivered s'"
proof -
  obtain new where t: "rs_topic s' = rs_topic s @ new"
    and c: "w_db (rs_world s') = w_db (rs_world s)
     \<or> (\<exists>msg. w_db (rs_world s') = attempts_marked (set (map orw_id (claim (ry_BatchSize cfg) locked (w_db (rs_world s))))) msg (w_db (rs_world s)))
     \<or> (\<exists>now. w_db (rs_world s') = published_marked (set (map orw_id (claim (ry_BatchSize cfg) locked (w_db (rs_world s))))) now (w_db (rs_world s))
         \<and> new = map relay_message (claim (ry_BatchSize cfg) locked (w_db (rs_world s))))"
    using publishBatch_durable [OF assms(3)] assms(4) by blast
  from c show ?thesis using t assms(1) claimed_message [OF assms(2)]
    by (elim disjE exE conjE)
       (auto simp: delivered_def attempts_marked_def published_marked_def dest!: update_where_mem split: if_splits)
qed

section \<open>A quiet environment\<close>

definition quiet :: "world \<Rightarrow> bool" where
  "quiet w \<longleftrightarrow> (\<forall>k. w_fault w k = None \<and> w_commit w k = Committed)"

definition row_message :: "outbox_row \<Rightarrow> kafka_message" where
  "row_message r = \<lparr>km_Key = ob_aggregate_id r, km_Value = ob_payload r\<rparr>"

lemma scan_outbox_sel [simp]: "relay_message (scan_outbox r) = row_message r" "orw_id (scan_outbox r) = ob_id r"
  by (simp_all add: relay_message_def scan_outbox_def row_message_def)

lemma unpublished_distinct: "outbox_keys s \<Longrightarrow> distinct (map ob_id (unpublished (w_db (rs_world s))))"
  by (simp add: unpublished_def outbox_keys_def distinct_map) (auto simp: inj_on_def)

lemma distinct_append_filter:
  "distinct (map k (ys @ zs)) \<Longrightarrow> filter (\<lambda>x. k x \<notin> set (map k ys)) (ys @ zs) = zs"
  by (auto simp: filter_empty_conv filter_id_conv)

lemma distinct_drop_filter: "distinct (map k xs) \<Longrightarrow> filter (\<lambda>x. k x \<notin> set (map k (take n xs))) xs = drop n xs"
  using distinct_append_filter [of k "take n xs" "drop n xs"] by (simp only: append_take_drop_id)

lemma unpublished_marked:
  assumes "outbox_keys s"
  shows "unpublished (published_marked (set (map ob_id (take n (unpublished (w_db (rs_world s)))))) now (w_db (rs_world s)))
    = drop n (unpublished (w_db (rs_world s)))"
proof -
  let ?db = "w_db (rs_world s)" and ?ids = "set (map ob_id (take n (unpublished (w_db (rs_world s)))))"
  have "filter (\<lambda>r. ob_published_at r = None) (update_where (\<lambda>r. ob_id r \<in> ?ids) (mark_published now) rows)
      = filter (\<lambda>r. ob_published_at r = None \<and> ob_id r \<notin> ?ids) rows" for rows
    by (induction rows) (auto simp: update_where_def)
  then have "unpublished (published_marked ?ids now ?db) = filter (\<lambda>r. ob_id r \<notin> ?ids) (unpublished ?db)"
    by (simp add: unpublished_def published_marked_def filter_sort conj_commute)
  with distinct_drop_filter [OF unpublished_distinct [OF assms]] show ?thesis by simp
qed


lemma quiet_tick [simp]: "quiet (tick w) = quiet w" "quiet (w\<lparr>w_db := d\<rparr>) = quiet w" "quiet (w\<lparr>w_tx_start := t\<rparr>) = quiet w"
  by (simp_all add: quiet_def)

lemma publishBatch_quiet:
  assumes "quiet (rs_world s)" "outbox_keys s" "publishBatch cfg {} reply s = (e, s')" "\<forall>m bs. reply \<noteq> KafkaFailed m bs"
  defines "rows \<equiv> unpublished (w_db (rs_world s))" and "n \<equiv> nat (ry_BatchSize cfg)"
  shows "e = None" "quiet (rs_world s')" "rs_topic s' = rs_topic s @ arrived reply (map row_message (take n rows))"
    "unpublished (w_db (rs_world s')) = drop n rows"
proof -
  let ?w = "(tick (tick (rs_world s)))\<lparr>w_tx_start := w_clock (rs_world s) (Suc (w_tick (rs_world s)))\<rparr>"
  let ?batch = "map scan_outbox (take n rows)"
  let ?pub = "published_marked (set (map ob_id (take n rows))) (w_clock (rs_world s) (Suc (w_tick (rs_world s)))) (w_db (rs_world s))"
  have c: "claim (ry_BatchSize cfg) {} (w_db (rs_world s)) = ?batch" by (simp add: claim_def rows_def n_def)

  have p: "publishBatch cfg {} reply s = (if take n rows = [] then (None, s\<lparr>rs_world := (tick ?w)\<lparr>w_db := w_db (rs_world s)\<rparr>\<rparr>)
      else (None, s\<lparr>rs_world := (tick (tick ?w))\<lparr>w_db := ?pub\<rparr>, rs_topic := rs_topic s @ arrived reply (map row_message (take n rows))\<rparr>))"
    using assms(1,4) c
    by (cases "take n rows"; cases reply) (simp_all add: publishBatch_def publish_rows_def Let_def wrap_err_def ext_def query_def exec_def
        commit_tx_def quiet_def tick_def published_marked_def comp_def image_image del: take_eq_Nil take_eq_Nil2)
  have "arrived reply [] = []" using arrived_subset [of reply "[]"] by simp
  with p assms(1,3)
  show "e = None" "quiet (rs_world s')" "rs_topic s' = rs_topic s @ arrived reply (map row_message (take n rows))"
    by (auto split: if_splits)
  show "unpublished (w_db (rs_world s')) = drop n rows"
    using p assms(3) unpublished_marked [OF assms(2), of n] by (auto simp: rows_def split: if_splits)
qed

end
