(* ===== verification/Relay_Props.thy ===== *)
theory Relay_Props
  imports Relay Login_Props
begin

text \<open>The properties of the relay: what is marked has been written, a quiet environment drains the outbox,
  and what an unacknowledged write loses is never sent again.\<close>

section \<open>Steps of the loop\<close>

lemma publishBatch_cases:
  assumes "publishBatch cfg locked reply s = (e, s')"
  obtains new p f where "rs_topic s' = rs_topic s @ new"
    "db_outbox (w_db (rs_world s')) = update_where p f (db_outbox (w_db (rs_world s)))"
    "\<And>r. ob_id (f r) = ob_id r \<and> ob_payload (f r) = ob_payload r \<and> ob_aggregate_id (f r) = ob_aggregate_id r"
proof -
  have "\<exists>new. rs_topic s' = rs_topic s @ new \<and> (w_db (rs_world s') = w_db (rs_world s)
     \<or> (\<exists>ids msg. w_db (rs_world s') = attempts_marked ids msg (w_db (rs_world s)))
     \<or> (\<exists>ids now. w_db (rs_world s') = published_marked ids now (w_db (rs_world s))))"
    using publishBatch_durable [OF assms] by blast
  then obtain new where n: "rs_topic s' = rs_topic s @ new"
    and c: "w_db (rs_world s') = w_db (rs_world s)
     \<or> (\<exists>ids msg. w_db (rs_world s') = attempts_marked ids msg (w_db (rs_world s)))
     \<or> (\<exists>ids now. w_db (rs_world s') = published_marked ids now (w_db (rs_world s)))" by blast
  have id: "rows = update_where (\<lambda>_. False) id rows" for rows :: "outbox_row list" by (simp add: update_where_def)
  from c show ?thesis
  proof (elim disjE exE)
    assume "w_db (rs_world s') = w_db (rs_world s)"
    with id n that [of new "\<lambda>_. False" id] show ?thesis by simp
  next
    fix ids msg assume "w_db (rs_world s') = attempts_marked ids msg (w_db (rs_world s))"
    with n that [of new "\<lambda>r. ob_id r \<in> ids" "mark_attempt msg"] show ?thesis by (simp add: attempts_marked_def)
  next
    fix ids now assume "w_db (rs_world s') = published_marked ids now (w_db (rs_world s))"
    with n that [of new "\<lambda>r. ob_id r \<in> ids" "mark_published now"] show ?thesis by (simp add: published_marked_def)
  qed
qed

text \<open>The contents of the rows, which no step of the relay changes.\<close>

definition row_contents :: "relay_state \<Rightarrow> (string \<times> string \<times> json) list" where
  "row_contents s = map (\<lambda>r. (ob_id r, ob_aggregate_id r, ob_payload r)) (db_outbox (w_db (rs_world s)))"

lemma outbox_keys_contents: "outbox_keys s = distinct (map fst (row_contents s))"
  by (simp add: outbox_keys_def row_contents_def comp_def)

lemma publishBatch_contents: "publishBatch cfg locked reply s = (e, s') \<Longrightarrow> row_contents s' = row_contents s"
  by (erule publishBatch_cases) (auto simp: row_contents_def update_where_def)

lemma publishBatch_topic: "publishBatch cfg locked reply s = (e, s') \<Longrightarrow> \<exists>new. rs_topic s' = rs_topic s @ new"
  by (erule publishBatch_cases) auto

lemma publishBatch_keys: "publishBatch cfg locked reply s = (e, s') \<Longrightarrow> outbox_keys s' = outbox_keys s"
  by (simp add: outbox_keys_contents publishBatch_contents)

text \<open>
  The interface between the relay and the other users of the outbox: what they do between two polls only
  appends rows that are not published. Such a client never breaks the delivery.
\<close>

locale outbox_client =
  fixes act :: "world \<Rightarrow> world"
  assumes appends: "appends act"
begin

lemma appended:
  obtains new where "db_outbox (w_db (act w)) = db_outbox (w_db w) @ new" "list_all (\<lambda>r. ob_published_at r = None) new"
    "distinct (map ob_id (db_outbox (w_db w))) \<Longrightarrow> distinct (map ob_id (db_outbox (w_db w) @ new))"
  using appends unfolding appends_def by metis

lemma keeps_delivered:
  assumes "delivered s"
  shows "delivered (s\<lparr>rs_world := act (rs_world s)\<rparr>)"
  by (rule appended [of "rs_world s"]) (use assms in \<open>auto simp: delivered_def list_all_iff\<close>)

lemma keeps_rows:
  assumes "outbox_keys s"
  shows "outbox_keys (s\<lparr>rs_world := act (rs_world s)\<rparr>) \<and> (\<exists>rest. row_contents (s\<lparr>rs_world := act (rs_world s)\<rparr>) = row_contents s @ rest)"
  by (rule appended [of "rs_world s"]) (use assms in \<open>auto simp: outbox_keys_def row_contents_def\<close>)

text \<open>A fresh key is none of the keys in the table.\<close>

lemma keeps_marked:
  assumes "outbox_keys s" "ids \<subseteq> fst ` set (row_contents s)" "\<forall>r\<in>set (db_outbox (w_db (rs_world s))). ob_id r \<in> ids \<longrightarrow> ob_published_at r \<noteq> None"
  shows "\<forall>r\<in>set (db_outbox (w_db (act (rs_world s)))). ob_id r \<in> ids \<longrightarrow> ob_published_at r \<noteq> None"
  by (rule appended [of "rs_world s"]) (use assms in \<open>force simp: outbox_keys_def row_contents_def image_iff\<close>)

end

lemma Run_rows:
  assumes "outbox_keys s" "\<forall>f. Elsewhere f \<in> set xs \<longrightarrow> appends f"
  shows "outbox_keys (snd (Run cfg xs s)) \<and> (\<exists>more. row_contents (snd (Run cfg xs s)) = row_contents s @ more)
    \<and> (\<exists>more. rs_topic (snd (Run cfg xs s)) = rs_topic s @ more)"
  using assms
proof (induction cfg xs s rule: Run.induct)
  case (3 cfg locked reply xs s)
  obtain e s1 where p: "publishBatch cfg locked reply s = (e, s1)" by (meson surj_pair)
  with 3 publishBatch_contents [OF p] publishBatch_keys [OF p] publishBatch_topic [OF p] show ?case by auto
next
  case (4 cfg f xs s)
  then show ?case using outbox_client.keeps_rows [OF outbox_client.intro, of f s] by fastforce
qed auto

lemma Run_delivered:
  assumes "delivered s" "outbox_keys s" "\<forall>f. Elsewhere f \<in> set xs \<longrightarrow> appends f" "acknowledged xs"
  shows "delivered (snd (Run cfg xs s))"
  using assms
proof (induction cfg xs s rule: Run.induct)
  case (3 cfg locked reply xs s)
  obtain e s1 where p: "publishBatch cfg locked reply s = (e, s1)" by (meson surj_pair)
  have r: "\<forall>bs. reply \<noteq> KafkaUnacked bs" "acknowledged xs" using 3(5) by (cases reply; simp)+
  with 3 p publishBatch_delivered [OF 3(2,3) p r(1)] publishBatch_keys [OF p] show ?case by auto
next
  case (4 cfg f xs s)
  then show ?case
    using outbox_client.keeps_delivered [OF outbox_client.intro, of f s] outbox_client.keeps_rows [OF outbox_client.intro, of f s] by fastforce
qed auto

section \<open>Logins between the polls\<close>

lemma login_step_appends:
  "login_step cfg db db' \<Longrightarrow> \<exists>new. db_outbox db' = db_outbox db @ new \<and> fresh_events new db"
  by (erule login_stepE) (auto simp: only_attempts_def outcome_saved_def session_saved_def intro: exI [of _ "[]"])

interpretation login_client: outbox_client "\<lambda>w. snd (app_Login pf cfg inp w)"
proof
  show "appends (\<lambda>w. snd (app_Login pf cfg inp w))"
    unfolding appends_def fresh_events_def [symmetric]
    using login_step_appends app_Login_step by (metis prod.collapse)
qed

text \<open>
  C34. At least once, as far as the writer knows: whatever faults, lost commits and failed writes the relay meets,
  and whatever other transactions append between its polls, no row disappears or changes its key or
  payload and no message is taken back; and if the brokers hold the messages of every write that
  returned no error, then a row is marked as published only if its message is in the topic. That is so for every
  writer that requires acknowledgements.
\<close>

theorem relay_at_least_once:
  assumes "delivered s" "outbox_keys s" "\<forall>f. Elsewhere f \<in> set xs \<longrightarrow> appends f" "writer_replies kw xs"
  shows "(acknowledged xs \<or> kw_RequiredAcks kw \<noteq> RequireNone \<longrightarrow> delivered (snd (Run (NewRelay cfg) xs s)))
    \<and> (\<exists>more. row_contents (snd (Run (NewRelay cfg) xs s)) = row_contents s @ more)
    \<and> (\<exists>more. rs_topic (snd (Run (NewRelay cfg) xs s)) = rs_topic s @ more)"
  using Run_delivered [OF assms(1-3)] Run_rows [OF assms(2,3)] writer_acknowledged [OF _ assms(4)] by blast

definition sample_writer :: "acks \<Rightarrow> KafkaWriter" where
  "sample_writer a = \<lparr>kw_Addr = [''k''], kw_Topic = ''t'', kw_Balancer = LeastBytes, kw_RequiredAcks = a\<rparr>"

theorem relay_at_least_once_witness:
  "delivered (snd (Run (NewRelay \<lparr>ry_PollInterval = 0, ry_BatchSize = 1\<rparr>)
     [Elsewhere (\<lambda>w. snd (app_Login sample_platform sample_cfg (sample_input ''pw'') w)),
      Tick {} (KafkaFailed ''broker'' [True]), Tick {} KafkaAccepted, Done]
     \<lparr>rs_world = login_world, rs_topic = []\<rparr>))"
proof -
  let ?xs = "[Elsewhere (\<lambda>w. snd (app_Login sample_platform sample_cfg (sample_input ''pw'') w)),
      Tick {} (KafkaFailed ''broker'' [True]), Tick {} KafkaAccepted, Done]" and ?s = "\<lparr>rs_world = login_world, rs_topic = []\<rparr>"
  have "db_outbox (w_db login_world) = []" by (simp add: login_world_def sample_world_def empty_db_def)
  then have "delivered ?s" "outbox_keys ?s" by (simp_all add: delivered_def outbox_keys_def)
  moreover have "\<forall>f. Elsewhere f \<in> set ?xs \<longrightarrow> appends f" by (simp add: login_client.appends)
  moreover have "writer_replies (sample_writer RequireAll) ?xs" by (simp add: writer_replies_def writer_reply_def)
  ultimately show ?thesis by (intro relay_at_least_once [THEN conjunct1, THEN mp]) (simp_all add: sample_writer_def)
qed

section \<open>Draining\<close>

lemma Run_drains:
  assumes "quiet (rs_world s)" "outbox_keys s" "length (unpublished (w_db (rs_world s))) \<le> k * nat (ry_BatchSize cfg)"
    "Run cfg (replicate k (Tick {} KafkaAccepted)) s = (b, s')"
  shows "b = None \<and> unpublished (w_db (rs_world s')) = []
    \<and> rs_topic s' = rs_topic s @ map row_message (unpublished (w_db (rs_world s)))"
  using assms
proof (induction k arbitrary: s)
  case (Suc k)
  obtain e s1 where p: "publishBatch cfg {} KafkaAccepted s = (e, s1)" by (meson surj_pair)
  note q = publishBatch_quiet [OF Suc.prems(1,2) p, simplified]
  have "length (unpublished (w_db (rs_world s1))) \<le> k * nat (ry_BatchSize cfg)" using q(4) Suc.prems(3) by simp
  from Suc.IH [OF q(2) _ this] publishBatch_keys [OF p] Suc.prems(2,4) p q(3,4) show ?case
    by (simp flip: map_append)
qed simp

lemma NewRelay_positive: "0 < ry_BatchSize (NewRelay cfg)" "0 < ry_PollInterval (NewRelay cfg)"
  by (simp_all add: NewRelay_def Let_def time_simps)


definition pending_row :: "string \<Rightarrow> int \<Rightarrow> outbox_row" where
  "pending_row i t = \<lparr>ob_id = i, ob_aggregate_type = aggregateCredential, ob_aggregate_id = ''C'', ob_event_type = ''AccountUnlocked'',
     ob_payload = stored_event (EvAccountUnlocked \<lparr>au_CredentialID = ''C'', au_IdentityID = ''I'', au_UnlockedBy = i,
       au_PreviousLockoutType = LockoutPermanent, au_At = \<lparr>nanos = t, loc = UTC\<rparr>\<rparr>),
     ob_occurred_at = \<lparr>nanos = t, loc = UTC\<rparr>, ob_published_at = None, ob_attempts = 0, ob_last_error = None,
     ob_created_at = \<lparr>nanos = t, loc = UTC\<rparr>\<rparr>"

definition pending_state :: relay_state where
  "pending_state = \<lparr>rs_world = sample_world\<lparr>w_db := empty_db\<lparr>db_outbox := [pending_row ''b'' 2000, pending_row ''a'' 1000]\<rparr>\<rparr>,
     rs_topic = []\<rparr>"

lemma pending_unpublished: "unpublished (w_db (rs_world pending_state)) = [pending_row ''a'' 1000, pending_row ''b'' 2000]"
  by (simp add: unpublished_def pending_state_def pending_row_def)

lemma pending_state_ok: "quiet (rs_world pending_state)" "outbox_keys pending_state"
  by (simp_all add: pending_state_def quiet_def outbox_keys_def sample_world_def pending_row_def)


section \<open>What is marked is not sent again\<close>

lemma publishBatch_marked:
  assumes "publishBatch cfg locked reply s = (e, s')" "\<forall>r\<in>set (db_outbox (w_db (rs_world s))). ob_id r \<in> ids \<longrightarrow> ob_published_at r \<noteq> None"
  shows "\<forall>r\<in>set (db_outbox (w_db (rs_world s'))). ob_id r \<in> ids \<longrightarrow> ob_published_at r \<noteq> None"
proof -
  obtain ids' where "w_db (rs_world s') = w_db (rs_world s) \<or> (\<exists>msg. w_db (rs_world s') = attempts_marked ids' msg (w_db (rs_world s)))
     \<or> (\<exists>now. w_db (rs_world s') = published_marked ids' now (w_db (rs_world s)))"
    using publishBatch_durable [OF assms(1)] by blast
  then show ?thesis using assms(2)
    by (elim disjE exE) (auto simp: attempts_marked_def published_marked_def dest!: update_where_mem split: if_splits)
qed

lemma publishBatch_sends:
  assumes "publishBatch cfg locked reply s = (e, s')" "\<forall>r\<in>set (db_outbox (w_db (rs_world s))). ob_id r \<in> ids \<longrightarrow> ob_published_at r \<noteq> None"
  shows "\<exists>new. rs_topic s' = rs_topic s @ new \<and> (\<forall>m\<in>set new. \<exists>i. i \<notin> ids \<and> (i, km_Key m, km_Value m) \<in> set (row_contents s))"
proof -
  obtain new where n: "rs_topic s' = rs_topic s @ new"
    "set new \<subseteq> set (map relay_message (claim (ry_BatchSize cfg) locked (w_db (rs_world s))))"
    using publishBatch_durable [OF assms(1)] by blast
  have "\<exists>i. i \<notin> ids \<and> (i, km_Key m, km_Value m) \<in> set (row_contents s)" if "m \<in> set new" for m
  proof -
    from that n(2) obtain r where "r \<in> set (take (nat (ry_BatchSize cfg)) (filter (\<lambda>r. ob_id r \<notin> locked) (unpublished (w_db (rs_world s)))))"
        "m = row_message r"
      by (auto simp: claim_def)
    then have r: "r \<in> set (unpublished (w_db (rs_world s)))" "m = row_message r" by (auto dest: in_set_takeD)
    then have "ob_id r \<notin> ids" using assms(2) by (auto simp: unpublished_def)
    with r show ?thesis by (intro exI [of _ "ob_id r"]) (auto simp: row_message_def row_contents_def unpublished_def)
  qed
  with n(1) show ?thesis by blast
qed

text \<open>Whatever happens later, rows that are marked send no message any more.\<close>

lemma Run_marked_silent:
  assumes "outbox_keys s" "\<forall>f. Elsewhere f \<in> set xs \<longrightarrow> appends f" "ids \<subseteq> fst ` set (row_contents s)"
    "\<forall>r\<in>set (db_outbox (w_db (rs_world s))). ob_id r \<in> ids \<longrightarrow> ob_published_at r \<noteq> None"
  shows "\<exists>new. rs_topic (snd (Run cfg xs s)) = rs_topic s @ new
    \<and> (\<forall>m\<in>set new. \<exists>i. i \<notin> ids \<and> (i, km_Key m, km_Value m) \<in> set (row_contents (snd (Run cfg xs s))))"
  using assms
proof (induction cfg xs s rule: Run.induct)
  case (3 cfg locked reply xs s)
  obtain e s1 where p: "publishBatch cfg locked reply s = (e, s1)" by (meson surj_pair)
  have k: "outbox_keys s1" "row_contents s1 = row_contents s" using publishBatch_keys [OF p] publishBatch_contents [OF p] 3(2) by simp_all
  obtain more where m: "row_contents (snd (Run cfg xs s1)) = row_contents s1 @ more" using Run_rows [OF k(1), of xs cfg] 3(3) by auto
  obtain new1 where n1: "rs_topic s1 = rs_topic s @ new1" "\<forall>m\<in>set new1. \<exists>i. i \<notin> ids \<and> (i, km_Key m, km_Value m) \<in> set (row_contents s)"
    using publishBatch_sends [OF p 3(5)] by blast
  obtain new2 where n2: "rs_topic (snd (Run cfg xs s1)) = rs_topic s1 @ new2"
    "\<forall>m\<in>set new2. \<exists>i. i \<notin> ids \<and> (i, km_Key m, km_Value m) \<in> set (row_contents (snd (Run cfg xs s1)))"
    using 3(1) p k 3(3,4) publishBatch_marked [OF p 3(5)] by auto
  show ?case using p n1 n2 m k(2) by (intro exI [of _ "new1 @ new2"]) auto
next
  case (4 cfg f xs s)
  have f: "appends f" using 4(3) by simp
  note c = outbox_client.keeps_rows [OF outbox_client.intro, OF f 4(2)] outbox_client.keeps_marked [OF outbox_client.intro, OF f 4(2) 4(4) 4(5)]
  show ?case using 4(1) 4(3,4) c by fastforce
qed auto

end
