(* ===== verification/Delivery.thy ===== *)
theory Delivery
  imports Login_Props
begin

text \<open>
  The delivery of the login feature: the handler of \<open>delivery/grpc/handler.go\<close>, the mapper and the
  request validator, composed with the interceptor and the gateway of \<open>internal/middleware\<close>. The
  messages of the generated package \<open>authv1\<close> are records with the fields that the code reads and
  writes; an absent submessage is \<open>None\<close> and its getters return zero values. The validation engine
  is a parameter: from the tags and the input it returns the text of its error or nothing.
\<close>

section \<open>Messages\<close>

record DeviceFingerprint =
  pd_ScreenResolution :: string
  pd_Timezone :: string
  pd_Platform :: string
  pd_ColorDepth :: int
  pd_Language :: string

record LoginRequest =
  lq_Identifier :: string
  lq_Password :: string
  lq_ClientId :: string
  lq_CompanyCode :: string
  lq_DeviceFingerprint :: "DeviceFingerprint option"

datatype AuthenticationResult = AR_UNSPECIFIED | AR_COMPLETED | AR_MFA_REQUIRED | AR_PASSWORD_CHANGE_REQUIRED

datatype Aal = Aal_UNSPECIFIED | Aal_AAL1 | Aal_AAL2 | Aal_AAL3

datatype proto_FactorType = FT_UNSPECIFIED | FT_TOTP | FT_SMS_OTP | FT_FIDO2

record LoginResponse =
  lp_AuthenticationResult :: AuthenticationResult
  lp_AccessToken :: string
  lp_TokenType :: string
  lp_ExpiresIn :: int
  lp_RefreshToken :: string
  lp_SessionId :: string
  lp_Aal :: Aal
  lp_ForcePasswordChange :: bool
  lp_MfaSessionToken :: string
  lp_AvailableFactors :: "proto_FactorType list"
  lp_ForcedChangeSessionToken :: string

section \<open>Validated input\<close>

record dto_DeviceFingerprintInput =
  dd_ScreenResolution :: string
  dd_Timezone :: string
  dd_Platform :: string
  dd_ColorDepth :: int
  dd_Language :: string

record dto_LoginInput =
  dl_Identifier :: string
  dl_Password :: string
  dl_ClientID :: string
  dl_CompanyCode :: string
  dl_DeviceFingerprint :: dto_DeviceFingerprintInput

text \<open>The tags of the fields, which the engine reads from the type.\<close>

definition dto_tags :: "(string \<times> string) list" where
  "dto_tags =
    [(''Identifier'', ''required,min=3,max=256''),
     (''Password'', ''required''),
     (''ClientID'', ''required,max=128''),
     (''CompanyCode'', ''omitempty,max=64''),
     (''DeviceFingerprint.ScreenResolution'', ''omitempty,max=32''),
     (''DeviceFingerprint.Timezone'', ''omitempty,max=64''),
     (''DeviceFingerprint.Platform'', ''omitempty,max=64''),
     (''DeviceFingerprint.ColorDepth'', ''omitempty,min=0''),
     (''DeviceFingerprint.Language'', ''omitempty,max=35'')]"

type_synonym validation_engine = "(string \<times> string) list \<Rightarrow> dto_LoginInput \<Rightarrow> string option"

definition validator_check :: "validation_engine \<Rightarrow> dto_LoginInput \<Rightarrow> AppError option" where
  "validator_check v inp = (case v dto_tags inp of Some msg \<Rightarrow> Some (apperror_New ErrRequestValidation msg) | None \<Rightarrow> None)"

definition validator_Login :: "validation_engine \<Rightarrow> dto_LoginInput \<Rightarrow> AppError option" where
  "validator_Login v inp = validator_check v inp"

section \<open>The mapper\<close>

definition zero_DeviceFingerprint :: DeviceFingerprint where
  "zero_DeviceFingerprint = \<lparr>pd_ScreenResolution = '''', pd_Timezone = '''', pd_Platform = '''', pd_ColorDepth = 0, pd_Language = ''''\<rparr>"

definition ToDTO :: "LoginRequest \<Rightarrow> dto_LoginInput" where
  "ToDTO req =
     (let fp = (case lq_DeviceFingerprint req of Some f \<Rightarrow> f | None \<Rightarrow> zero_DeviceFingerprint)
      in \<lparr>dl_Identifier = lq_Identifier req, dl_Password = lq_Password req, dl_ClientID = lq_ClientId req,
          dl_CompanyCode = lq_CompanyCode req,
          dl_DeviceFingerprint = \<lparr>dd_ScreenResolution = pd_ScreenResolution fp, dd_Timezone = pd_Timezone fp,
            dd_Platform = pd_Platform fp, dd_ColorDepth = pd_ColorDepth fp, dd_Language = pd_Language fp\<rparr>\<rparr>)"

definition ToUsecaseInput :: "dto_LoginInput \<Rightarrow> addr \<Rightarrow> string \<Rightarrow> string \<Rightarrow> LoginInput" where
  "ToUsecaseInput inp ip userAgent acceptLanguage =
     \<lparr>li_Identifier = dl_Identifier inp, li_Password = dl_Password inp, li_ClientID = dl_ClientID inp,
      li_CompanyCode = dl_CompanyCode inp,
      li_DeviceFingerprint = \<lparr>df_ScreenResolution = dd_ScreenResolution (dl_DeviceFingerprint inp),
        df_Timezone = dd_Timezone (dl_DeviceFingerprint inp), df_Platform = dd_Platform (dl_DeviceFingerprint inp),
        df_ColorDepth = dd_ColorDepth (dl_DeviceFingerprint inp), df_Language = dd_Language (dl_DeviceFingerprint inp)\<rparr>,
      li_IP = ip, li_UserAgent = userAgent, li_AcceptLanguage = acceptLanguage\<rparr>"

definition authenticationResult :: "string \<Rightarrow> AuthenticationResult" where
  "authenticationResult s =
     (if s = ''COMPLETED'' then AR_COMPLETED
      else if s = ''MFA_REQUIRED'' then AR_MFA_REQUIRED
      else if s = ''PASSWORD_CHANGE_REQUIRED'' then AR_PASSWORD_CHANGE_REQUIRED
      else AR_UNSPECIFIED)"

definition aal :: "string \<Rightarrow> Aal" where
  "aal s = (if s = AAL1 then Aal_AAL1 else if s = AAL2 then Aal_AAL2 else if s = AAL3 then Aal_AAL3 else Aal_UNSPECIFIED)"

definition factorType :: "FactorType \<Rightarrow> proto_FactorType \<times> bool" where
  "factorType f =
     (if f = FactorTOTP then (FT_TOTP, True)
      else if f = FactorSMSOTP then (FT_SMS_OTP, True)
      else if f = FactorFIDO2 then (FT_FIDO2, True)
      else (FT_UNSPECIFIED, False))"

fun factorTypes :: "FactorType list \<Rightarrow> proto_FactorType list" where
  "factorTypes [] = []"
| "factorTypes (f # fs) = (case factorType f of (ft, ok) \<Rightarrow> if ok then ft # factorTypes fs else factorTypes fs)"

definition ToProtoResponse :: "LoginResult \<Rightarrow> LoginResponse" where
  "ToProtoResponse r =
     \<lparr>lp_AuthenticationResult = authenticationResult (lr_AuthenticationResult r), lp_AccessToken = lr_AccessToken r,
      lp_TokenType = lr_TokenType r, lp_ExpiresIn = lr_ExpiresIn r, lp_RefreshToken = lr_RefreshToken r,
      lp_SessionId = lr_SessionID r, lp_Aal = aal (lr_AAL r), lp_ForcePasswordChange = lr_ForcePasswordChange r,
      lp_MfaSessionToken = lr_MFASessionToken r, lp_AvailableFactors = factorTypes (lr_AvailableFactors r),
      lp_ForcedChangeSessionToken = lr_ForcedChangeSessionToken r\<rparr>"

section \<open>The request context\<close>

text \<open>
  The incoming metadata (its keys are in lower case) and the text of the peer's address, each of which
  the context may lack.
\<close>

type_synonym metadata = "(string \<times> string list) list"

record request_context =
  rc_metadata :: "metadata option"
  rc_peer :: "string option"

definition md_Get :: "metadata \<Rightarrow> string \<Rightarrow> string list" where
  "md_Get md k = (case map_of md k of Some vs \<Rightarrow> vs | None \<Rightarrow> [])"

text \<open>
  \<open>net.SplitHostPort\<close>: the port follows the last colon; a host in brackets ends right before that
  colon, and otherwise holds no colon; no further bracket is allowed. \<open>None\<close> is any of its errors.
\<close>

definition last_index :: "'a \<Rightarrow> 'a list \<Rightarrow> nat option" where
  "last_index x xs = (case index_of x (rev xs) of Some i \<Rightarrow> Some (length xs - 1 - i) | None \<Rightarrow> None)"

definition SplitHostPort :: "string \<Rightarrow> (string \<times> string) option" where
  "SplitHostPort hostport =
     (case last_index CHR '':'' hostport of
        None \<Rightarrow> None
      | Some i \<Rightarrow>
          (let finish = (\<lambda>host j k.
              if CHR ''['' \<in> set (drop j hostport) \<or> CHR '']'' \<in> set (drop k hostport) then None
              else Some (host, drop (Suc i) hostport)) in
           if take 1 hostport = ''['' then
             (case index_of CHR '']'' hostport of
                None \<Rightarrow> None
              | Some e \<Rightarrow> if Suc e = i then finish (take (e - 1) (drop 1 hostport)) 1 (Suc e) else None)
           else
             (let host = take i hostport in if CHR '':'' \<in> set host then None else finish host 0 0)))"

definition peer_IP :: "request_context \<Rightarrow> addr" where
  "peer_IP ctx = (case rc_peer ctx of
      None \<Rightarrow> NoAddr
    | Some a \<Rightarrow> (case SplitHostPort a of
        None \<Rightarrow> NoAddr
      | Some (host, port) \<Rightarrow> (case ParseAddr host of Some ip \<Rightarrow> ip | None \<Rightarrow> NoAddr)))"

definition forwarded_IP :: "unicode_tables \<Rightarrow> request_context \<Rightarrow> addr option" where
  "forwarded_IP u ctx = (case rc_metadata ctx of
      None \<Rightarrow> None
    | Some md \<Rightarrow> (case md_Get md ''x-forwarded-for'' of
        [] \<Rightarrow> None
      | v # _ \<Rightarrow> ParseAddr (TrimSpace u (before_comma v))))"

definition clientIP :: "unicode_tables \<Rightarrow> request_context \<Rightarrow> addr" where
  "clientIP u ctx = (case forwarded_IP u ctx of Some ip \<Rightarrow> ip | None \<Rightarrow> peer_IP ctx)"

definition truncateHeader :: "string \<Rightarrow> nat \<Rightarrow> string" where
  "truncateHeader s n = (if length s \<le> n then s else take n s)"

fun first_header :: "metadata \<Rightarrow> string list \<Rightarrow> string" where
  "first_header md [] = ''''"
| "first_header md (k # ks) = (case md_Get md k of v # _ \<Rightarrow> truncateHeader v 512 | [] \<Rightarrow> first_header md ks)"

definition headerValue :: "request_context \<Rightarrow> string list \<Rightarrow> string" where
  "headerValue ctx keys = (case rc_metadata ctx of None \<Rightarrow> '''' | Some md \<Rightarrow> first_header md keys)"

section \<open>The handler\<close>

definition request_input :: "unicode_tables \<Rightarrow> request_context \<Rightarrow> LoginRequest \<Rightarrow> LoginInput" where
  "request_input u ctx req = ToUsecaseInput (ToDTO req) (clientIP u ctx)
     (headerValue ctx [''grpcgateway-user-agent'', ''user-agent''])
     (headerValue ctx [''grpcgateway-accept-language'', ''accept-language''])"

definition Handler_Login ::
  "'w Runtime \<Rightarrow> 'w Dependencies \<Rightarrow> validation_engine \<Rightarrow> request_context \<Rightarrow> LoginRequest \<Rightarrow> 'w \<Rightarrow> (handler_error + LoginResponse) option \<times> 'w" where
  "Handler_Login rt deps v ctx req w =
     (case validator_Login v (ToDTO req) of
        Some e \<Rightarrow> (Some (Inl (AppE e)), w)
      | None \<Rightarrow>
          (case Login rt deps (request_input (rt_unicode rt) ctx req) w of
             (None, w1) \<Rightarrow> (None, w1)
           | (Some (Inl e), w1) \<Rightarrow> (Some (Inl (AppE e)), w1)
           | (Some (Inr result), w1) \<Rightarrow> (Some (Inr (ToProtoResponse result)), w1)))"

text \<open>The handler behind the interceptor, and the same call through the gateway.\<close>

definition rpc_Login ::
  "'w Runtime \<Rightarrow> 'w Dependencies \<Rightarrow> validation_engine \<Rightarrow> request_context \<Rightarrow> LoginRequest \<Rightarrow> 'w \<Rightarrow> (grpc_status + LoginResponse) option \<times> 'w" where
  "rpc_Login rt deps v ctx req w =
     (case Handler_Login rt deps v ctx req w of (r, w1) \<Rightarrow> (map_option middleware_AppError r, w1))"

definition rest_Login ::
  "'w Runtime \<Rightarrow> 'w Dependencies \<Rightarrow> validation_engine \<Rightarrow> request_context \<Rightarrow> LoginRequest \<Rightarrow> 'w \<Rightarrow> (http_reply + LoginResponse) option \<times> 'w" where
  "rest_Login rt deps v ctx req w =
     (case rpc_Login rt deps v ctx req w of
        (r, w1) \<Rightarrow> (map_option (\<lambda>x. case x of Inl st \<Rightarrow> Inl (errorHandler st) | Inr resp \<Rightarrow> Inr resp) r, w1))"

end
