(* ===== verification/Delivery_Props.thy ===== *)
theory Delivery_Props
  imports Delivery
begin

text \<open>What a caller of the login endpoint can see, for every implementation of the ports.\<close>

section \<open>Outcomes of the use case\<close>

definition login_codes :: "Code list" where
  "login_codes = [ErrLoginInvalidCredentials, ErrLoginAccountLocked, ErrRateLimited, ErrSystemDatabase, ErrSystemUpstream, ErrSystemInternal]"

text \<open>The fields that a response carries, by its result.\<close>

definition no_session :: "LoginResponse \<Rightarrow> bool" where
  "no_session r \<longleftrightarrow> lp_AccessToken r = '''' \<and> lp_TokenType r = '''' \<and> lp_ExpiresIn r = 0 \<and> lp_RefreshToken r = ''''
     \<and> lp_SessionId r = '''' \<and> lp_Aal r = Aal_UNSPECIFIED"

definition response_shape :: "LoginResponse \<Rightarrow> bool" where
  "response_shape r \<longleftrightarrow> (case lp_AuthenticationResult r of
      AR_COMPLETED \<Rightarrow> lp_TokenType r = ''Bearer'' \<and> lp_Aal r = Aal_AAL1 \<and> \<not> lp_ForcePasswordChange r
        \<and> lp_MfaSessionToken r = '''' \<and> lp_AvailableFactors r = [] \<and> lp_ForcedChangeSessionToken r = ''''
    | AR_MFA_REQUIRED \<Rightarrow> no_session r \<and> \<not> lp_ForcePasswordChange r \<and> lp_ForcedChangeSessionToken r = ''''
        \<and> FT_UNSPECIFIED \<notin> set (lp_AvailableFactors r)
    | AR_PASSWORD_CHANGE_REQUIRED \<Rightarrow> no_session r \<and> lp_ForcePasswordChange r \<and> lp_MfaSessionToken r = '''' \<and> lp_AvailableFactors r = []
    | AR_UNSPECIFIED \<Rightarrow> False)"

definition typed_outcome :: "(AppError + LoginResult) option \<Rightarrow> bool" where
  "typed_outcome res \<longleftrightarrow> (case res of
      None \<Rightarrow> True
    | Some (Inl e) \<Rightarrow> ae_Code e \<in> set login_codes
    | Some (Inr x) \<Rightarrow> response_shape (ToProtoResponse x))"

lemma factorTypes_specified: "FT_UNSPECIFIED \<notin> set (factorTypes fs)"
  by (induction fs) (auto simp: factorType_def)

lemma typed_simps [simp]:
  "typed_outcome None" "typed_outcome (Some (Inl invalid_credentials_error))"
  "c \<in> set login_codes \<Longrightarrow> typed_outcome (Some (Inl (apperror_Wrap c m e)))"
  "typed_outcome (Some (Inl (locked_error cr)))" "typed_outcome (Some (Inl (RateLimited d)))"
  by (simp_all add: typed_outcome_def login_codes_def invalid_credentials_error_def apperror_New_def apperror_Wrap_def
      locked_error_def RateLimited_def WithDetail_def Let_def split: option.split)

lemma system_codes [simp]:
  "ErrSystemDatabase \<in> set login_codes" "ErrSystemUpstream \<in> set login_codes" "ErrSystemInternal \<in> set login_codes"
  by (simp_all add: login_codes_def)

lemma typed_results [simp]:
  "typed_outcome (Some (Inr (zero_LoginResult\<lparr>lr_AuthenticationResult := ''PASSWORD_CHANGE_REQUIRED'',
     lr_ForcePasswordChange := True, lr_ForcedChangeSessionToken := t\<rparr>)))"
  "typed_outcome (Some (Inr (zero_LoginResult\<lparr>lr_AuthenticationResult := ''MFA_REQUIRED'',
     lr_MFASessionToken := t, lr_AvailableFactors := fs\<rparr>)))"
  "typed_outcome (Some (Inr (zero_LoginResult\<lparr>lr_AuthenticationResult := ''COMPLETED'', lr_AccessToken := a,
     lr_TokenType := ''Bearer'', lr_ExpiresIn := n, lr_RefreshToken := rt, lr_SessionID := i, lr_AAL := AAL1,
     lr_ForcePasswordChange := False\<rparr>)))"
  using factorTypes_specified [of fs]
  by (simp_all add: typed_outcome_def response_shape_def ToProtoResponse_def authenticationResult_def aal_def
      zero_LoginResult_def no_session_def const_defs)

lemma parts_typed:
  "typed_outcome (fst (failCredential deps cred a i ih fp inp now w))"
  "typed_outcome (fst (completeForcedChange deps cred i ih fp inp now w))"
  "typed_outcome (fst (completeMFARequired rt deps cred i ih fp inp now w))"
  "typed_outcome (fst (completeSession rt deps cred res dev ih fp inp now w))"
  by (simp_all add: failCredential_def completeForcedChange_def completeMFARequired_def completeSession_def Let_def
      split: option.split prod.split sum.split)

lemma login_credential_typed: "typed_outcome (fst (login_credential rt deps cred res ih fp cc pw inp now w))"
  by (simp add: login_credential_def complete_login_def Let_def parts_typed split: option.split prod.split sum.split bool.split)

lemma checkRateLimit_typed:
  assumes "checkRateLimit deps ip ih w = (r, w')"
  shows "r = Inl e \<Longrightarrow> typed_outcome (Some (Inl e))" "r = Inr (Some e) \<Longrightarrow> typed_outcome (Some (Inl e))"
  using assms by (auto simp: checkRateLimit_def Let_def split: prod.splits sum.splits if_splits)

lemma Login_typed: "typed_outcome (fst (Login rt deps inp w))"
proof -
  obtain t w0 where c: "d_Clock deps w = (t, w0)" by (cases "d_Clock deps w")
  let ?ih = "sha256Hex (rt_sha256 rt) (li_Identifier inp)"
  obtain r w1 where rl: "checkRateLimit deps (ipString (li_IP inp)) ?ih w0 = (r, w1)"
    by (cases "checkRateLimit deps (ipString (li_IP inp)) ?ih w0")
  show ?thesis using checkRateLimit_typed [OF rl]
    by (auto simp: Login_def Let_def c rl login_credential_typed split: sum.split option.split prod.split)
qed

section \<open>Replies\<close>

lemma Handler_Login_typed:
  assumes "Handler_Login rt deps v ctx req w = (Some r, w')"
  shows "(\<exists>e. r = Inl (AppE e) \<and> ae_Code e \<in> set (ErrRequestValidation # login_codes))
    \<or> (\<exists>resp. r = Inr resp \<and> response_shape resp)"
proof (cases "validator_Login v (ToDTO req)")
  case None
  obtain o1 w1 where l: "Login rt deps (request_input (rt_unicode rt) ctx req) w = (o1, w1)" by (meson surj_pair)
  have "typed_outcome o1" using Login_typed [of rt deps "request_input (rt_unicode rt) ctx req" w] l by simp
  with assms None l show ?thesis
    by (auto simp: Handler_Login_def typed_outcome_def split: option.splits sum.splits)
next
  case (Some e)
  with assms show ?thesis
    by (auto simp: Handler_Login_def validator_Login_def validator_check_def apperror_New_def split: option.splits)
qed

lemma codes_not_success: "c \<in> set (ErrRequestValidation # login_codes) \<Longrightarrow> c \<noteq> Success"
  by (auto simp: login_codes_def const_defs)

text \<open>An application error written to HTTP directly.\<close>

definition app_reply :: "AppError \<Rightarrow> http_reply" where
  "app_reply e = \<lparr>hr_Status = HTTPStatus (ae_Code e), hr_ContentType = ''application/json'',
     hr_Body = \<lparr>eb_Code = ae_Code e, eb_CodeClient = CodeClient (ae_Code e), eb_Message = ae_Message e, eb_Details = ae_Details e\<rparr>\<rparr>"

lemma errorHandler_AppE: "ae_Code e \<noteq> Success \<Longrightarrow> errorHandler (translate_error (AppE e)) = app_reply e"
  using translate_AppE(1) [of e] by (simp add: errorHandler_def app_reply_def translate_error_def Let_def)

definition direct_Login ::
  "'w Runtime \<Rightarrow> 'w Dependencies \<Rightarrow> validation_engine \<Rightarrow> request_context \<Rightarrow> LoginRequest \<Rightarrow> 'w \<Rightarrow> (http_reply + LoginResponse) option \<times> 'w" where
  "direct_Login rt deps v ctx req w =
     (case v dto_tags (ToDTO req) of
        Some msg \<Rightarrow> (Some (Inl (app_reply (apperror_New ErrRequestValidation msg))), w)
      | None \<Rightarrow> (case Login rt deps (request_input (rt_unicode rt) ctx req) w of
          (res, w1) \<Rightarrow> (map_option (map_sum app_reply ToProtoResponse) res, w1)))"

lemma rest_Login_direct: "rest_Login rt deps v ctx req w = direct_Login rt deps v ctx req w"
proof -
  obtain res w1 where l: "Login rt deps (request_input (rt_unicode rt) ctx req) w = (res, w1)" by (meson surj_pair)
  have "typed_outcome res" using Login_typed [of rt deps "request_input (rt_unicode rt) ctx req" w] l by simp
  then have e: "errorHandler (translate_error (AppE e)) = app_reply e" if "res = Some (Inl e)" for e
    using that codes_not_success by (intro errorHandler_AppE) (auto simp: typed_outcome_def)
  have v: "errorHandler (translate_error (AppE (apperror_New ErrRequestValidation msg))) = app_reply (apperror_New ErrRequestValidation msg)" for msg
    by (rule errorHandler_AppE) (simp add: apperror_New_def const_defs)
  show ?thesis using e v l
    by (auto simp: rest_Login_def rpc_Login_def Handler_Login_def validator_Login_def validator_check_def direct_Login_def
        middleware_AppError_def split: option.split sum.split)
qed

text \<open>
  C37. The type of a response: whatever the ports answer, a response of the endpoint has a specified result
  and only the fields of that result: tokens, session and assurance level only when completed, the
  second-factor token only when a factor is required, the restricted token only for a forced change.
\<close>

theorem response_typed:
  assumes "fst (rpc_Login rt deps v ctx req w) = Some (Inr resp)"
  shows "response_shape resp"
proof -
  obtain r w' where h: "Handler_Login rt deps v ctx req w = (Some r, w')"
    using assms by (cases "Handler_Login rt deps v ctx req w"; cases "fst (Handler_Login rt deps v ctx req w)") (auto simp: rpc_Login_def)
  from Handler_Login_typed [OF h] h assms show ?thesis by (auto simp: rpc_Login_def middleware_AppError_def)
qed

definition sample_request :: "string \<Rightarrow> LoginRequest" where
  "sample_request pw = \<lparr>lq_Identifier = '' Ann '', lq_Password = pw, lq_ClientId = ''web'', lq_CompanyCode = ''acme'',
     lq_DeviceFingerprint = Some \<lparr>pd_ScreenResolution = '''', pd_Timezone = '''', pd_Platform = '''', pd_ColorDepth = 24, pd_Language = ''''\<rparr>\<rparr>"

definition sample_context :: request_context where
  "sample_context = \<lparr>rc_metadata = Some [(''x-forwarded-for'', ['' 10.0.0.1 , 192.168.0.7'']), (''user-agent'', [''Firefox''])],
     rc_peer = Some ''127.0.0.1:4000''\<rparr>"

lemma sample_request_input: "request_input sample_unicode sample_context (sample_request pw) = sample_input pw"
proof -
  have "clientIP sample_unicode sample_context = V4 10 0 0 1" by code_simp
  moreover have "headerValue sample_context [''grpcgateway-user-agent'', ''user-agent''] = ''Firefox''" by code_simp
  moreover have "headerValue sample_context [''grpcgateway-accept-language'', ''accept-language''] = ''''" by code_simp
  ultimately show ?thesis by (simp add: request_input_def ToUsecaseInput_def ToDTO_def sample_request_def sample_input_def Let_def)
qed

lemma sample_rpc:
  "fst (rpc_Login (app_runtime sample_platform) (app_deps sample_platform sample_cfg) (\<lambda>_ _. None) sample_context (sample_request pw) login_world)
    = (case fst (app_Login sample_platform sample_cfg (sample_input pw) login_world) of
         Some (Inr x) \<Rightarrow> Some (Inr (ToProtoResponse x)) | Some (Inl e) \<Rightarrow> Some (Inl (translate_error (AppE e))) | None \<Rightarrow> None)"
  using sample_request_input [of pw]
  by (simp add: rpc_Login_def Handler_Login_def validator_Login_def validator_check_def app_Login_def middleware_AppError_def
      sample_platform_def split: prod.split option.split sum.split)

theorem response_typed_witness:
  "\<exists>resp. fst (rpc_Login (app_runtime sample_platform) (app_deps sample_platform sample_cfg) (\<lambda>_ _. None) sample_context
       (sample_request ''pw'') login_world) = Some (Inr resp) \<and> response_shape resp \<and> lp_AuthenticationResult resp = AR_COMPLETED"
proof -
  obtain x w' where l: "app_Login sample_platform sample_cfg (sample_input ''pw'') login_world = (Some (Inr x), w')"
    "lr_AuthenticationResult x = ''COMPLETED''" by (rule sample_completed)
  then have "fst (rpc_Login (app_runtime sample_platform) (app_deps sample_platform sample_cfg) (\<lambda>_ _. None) sample_context
       (sample_request ''pw'') login_world) = Some (Inr (ToProtoResponse x))" by (simp add: sample_rpc)
  from response_typed [OF this] this l(2) show ?thesis by (simp add: ToProtoResponse_def authenticationResult_def)
qed

text \<open>
  C38. The detour through gRPC loses nothing: the reply that a client of the gateway gets, through the
  interceptor's status and back, is the one written directly from the outcome of the validation or
  of the use case, with the code, the client code, the message, the details and the HTTP status of
  the catalog. No outcome of the use case falls back to the generic internal error.
\<close>

theorem gateway_lossless: "rest_Login rt deps v ctx req w = direct_Login rt deps v ctx req w"
  by (rule rest_Login_direct)

text \<open>
  C39. One refusal on the wire: every reply with the code of invalid credentials is byte for byte the same,
  with status 200, no details and the same message, whether the identifier is unknown, the identity is
  inactive, it has no credential or the password is wrong.
\<close>

theorem refusal_reply:
  assumes "fst (rest_Login rt deps v ctx req w) = Some (Inl reply)" "eb_Code (hr_Body reply) = ErrLoginInvalidCredentials"
  shows "reply = \<lparr>hr_Status = 200, hr_ContentType = ''application/json'',
     hr_Body = \<lparr>eb_Code = ''ERR-LOGIN-001'', eb_CodeClient = ''02'', eb_Message = ''invalid credentials'', eb_Details = []\<rparr>\<rparr>"
proof -
  obtain res w1 where l: "Login rt deps (request_input (rt_unicode rt) ctx req) w = (res, w1)" by (meson surj_pair)
  have ne: "ErrRequestValidation \<noteq> ErrLoginInvalidCredentials" by (simp add: const_defs)
  from assms l ne obtain e where e: "res = Some (Inl e)" "reply = app_reply e" "ae_Code e = ErrLoginInvalidCredentials"
    unfolding rest_Login_direct
    by (cases res; cases "the res") (auto simp: direct_Login_def app_reply_def apperror_New_def split: option.splits)
  then have "e = invalid_credentials_error"
    using Login_uniform [of rt deps "request_input (rt_unicode rt) ctx req" w] l by (simp add: uniform_refusal_def)
  with e(2) show ?thesis
    by (simp add: app_reply_def invalid_credentials_error_def apperror_New_def HTTPStatus_def CodeClient_def lookup_def
        catalog_def mk_entry_def const_defs)
qed

theorem refusal_reply_witness:
  "\<exists>reply. fst (rest_Login (app_runtime sample_platform) (app_deps sample_platform sample_cfg) (\<lambda>_ _. None) sample_context
      (sample_request ''no'') login_world) = Some (Inl reply) \<and> hr_Status reply = 200 \<and> eb_Details (hr_Body reply) = []"
proof -
  let ?rest = "rest_Login (app_runtime sample_platform) (app_deps sample_platform sample_cfg) (\<lambda>_ _. None) sample_context
      (sample_request ''no'') login_world"
  obtain e w' where l: "app_Login sample_platform sample_cfg (sample_input ''no'') login_world = (Some (Inl e), w')"
    "ae_Code e = ErrLoginInvalidCredentials"
    using sample_run_refused by (auto split: prod.splits option.splits sum.splits)
  then have "fst ?rest = Some (Inl (app_reply e))" using sample_request_input [of "''no''"]
    by (simp add: rest_Login_direct direct_Login_def app_Login_def sample_platform_def)
  moreover have "eb_Code (hr_Body (app_reply e)) = ErrLoginInvalidCredentials" using l(2) by (simp add: app_reply_def)
  ultimately show ?thesis using refusal_reply [of _ _ _ _ _ _ "app_reply e"] by fastforce
qed

end
