(* ===== verification/Container.thy ===== *)
theory Container
  imports Relay_Props Delivery_Props "HOL-Library.Multiset"
begin

text \<open>
  The composition root \<open>container/container.go\<close> with \<open>platform/services\<close>.
  What the constructors of the libraries return is a parameter: whether a pointer is set and
  which error comes with it. A log records what is opened and closed, so that the theorems can say
  that nothing leaks. Close errors are joined, which here is the list of them.
\<close>

section \<open>Resources\<close>

datatype resource = TelemetryR | PostgresR | RedisR | IdentityConn | LoopbackConn | KafkaWriterR | RelayCtx

datatype lifecycle = Opened resource | Closed resource

type_synonym life_log = "lifecycle list"

type_synonym construction = "bool \<times> port_error option"

record 'k BuildEnv =
  be_Telemetry :: "App \<Rightarrow> TelemetryConfig \<Rightarrow> construction"
  be_Postgres :: "string \<Rightarrow> construction"
  be_Redis :: "RedisConfig \<Rightarrow> construction"
  be_ReadFile :: "string \<Rightarrow> port_error + string"
  be_ParseKey :: "string \<Rightarrow> port_error + 'k"
  be_NewClient :: "string \<Rightarrow> port_error + identity_client"
  be_Loopback :: "port_error option"
  be_RegisterREST :: "port_error option"
  be_Close :: "resource \<Rightarrow> port_error option"

definition open_if :: "bool \<Rightarrow> resource \<Rightarrow> life_log" where
  "open_if b r = (if b then [Opened r] else [])"

section \<open>Connections to services\<close>

record GrpcServices =
  gsv_Identity :: identity_client
  gsv_Loopback :: resource
  gsv_conns :: "resource list"

definition newGrpcConn :: "'k BuildEnv \<Rightarrow> string \<Rightarrow> (port_error + identity_client) \<times> life_log" where
  "newGrpcConn env addr =
     (if addr = '''' then (Inl (TextE ''address cannot be empty''), [])
      else case be_NewClient env addr of
        Inl e \<Rightarrow> (Inl (WrapE ''failed to create gRPC connection'' e), [])
      | Inr client \<Rightarrow> (Inr client, [Opened IdentityConn]))"

definition InitGrpcConns :: "'k BuildEnv \<Rightarrow> Config \<Rightarrow> (port_error + GrpcServices) \<times> life_log" where
  "InitGrpcConns env cfg =
     (case newGrpcConn env (idc_Addr (svc_Identity (cf_Services cfg))) of
        (Inl e, log1) \<Rightarrow> (Inl (WrapE ''failed to initialize Identity service connection'' e), log1)
      | (Inr client, log1) \<Rightarrow>
          (case be_Loopback env of
             Some e \<Rightarrow> (Inl (WrapE ''failed to initialize loopback connection'' e), log1 @ [Closed IdentityConn])
           | None \<Rightarrow> (Inr \<lparr>gsv_Identity = client, gsv_Loopback = LoopbackConn, gsv_conns = [IdentityConn, LoopbackConn]\<rparr>,
                      log1 @ [Opened LoopbackConn])))"

definition GrpcServices_Close :: "'k BuildEnv \<Rightarrow> GrpcServices \<Rightarrow> port_error list \<times> life_log" where
  "GrpcServices_Close env s = (List.map_filter (be_Close env) (gsv_conns s), map Closed (gsv_conns s))"

section \<open>The use case's defaults\<close>

text \<open>\<open>mk\<close> holds the dependencies that the caller sets; a nil function is \<open>None\<close>.\<close>

definition usecase_New ::
  "((world \<Rightarrow> time \<times> world) \<Rightarrow> (world \<Rightarrow> string \<times> world) \<Rightarrow> world Dependencies) \<Rightarrow> (world \<Rightarrow> time \<times> world) option \<Rightarrow>
     (world \<Rightarrow> string \<times> world) option \<Rightarrow> world Dependencies" where
  "usecase_New mk clock newid =
     mk (case clock of None \<Rightarrow> time_Now | Some c \<Rightarrow> c) (case newid of None \<Rightarrow> newID | Some n \<Rightarrow> n)"

section \<open>The container\<close>

datatype interceptor = RequestID | Recovery | Logging | AppErrorI

record Container =
  con_Config :: Config
  con_Telemetry :: bool
  con_Postgres :: bool
  con_Redis :: bool
  con_clients :: "GrpcServices option"
  con_kafkaWriter :: "KafkaWriter option"
  con_relayCancel :: bool
  con_relay :: "RelayConfig option"
  con_GRPCServer :: "interceptor list option"
  con_usecase :: "world Dependencies option"
  con_serving :: bool
  con_GatewayMux :: bool

definition empty_Container :: "Config \<Rightarrow> Container" where
  "empty_Container cfg = \<lparr>con_Config = cfg, con_Telemetry = False, con_Postgres = False, con_Redis = False, con_clients = None,
     con_kafkaWriter = None, con_relayCancel = False, con_relay = None, con_GRPCServer = None, con_usecase = None,
     con_serving = False, con_GatewayMux = False\<rparr>"

definition close_if :: "'k BuildEnv \<Rightarrow> bool \<Rightarrow> resource \<Rightarrow> port_error list \<times> life_log" where
  "close_if env b r = (if b then (case be_Close env r of Some e \<Rightarrow> [e] | None \<Rightarrow> [], [Closed r]) else ([], []))"

definition Close :: "'k BuildEnv \<Rightarrow> Container \<Rightarrow> port_error list \<times> life_log" where
  "Close env c =
     (let relay = (if con_relayCancel c then [Closed RelayCtx] else []);
          (e1, l1) = (case con_clients c of Some s \<Rightarrow> GrpcServices_Close env s | None \<Rightarrow> ([], []));
          (e2, l2) = close_if env (con_kafkaWriter c \<noteq> None) KafkaWriterR;
          (e3, l3) = close_if env (con_Redis c) RedisR;
          l4 = (if con_Postgres c then [Closed PostgresR] else []);
          (e5, l5) = close_if env (con_Telemetry c) TelemetryR
      in (e1 @ e2 @ e3 @ e5, relay @ l1 @ l2 @ l3 @ l4 @ l5))"

text \<open>The deferred cleanup of \<open>Build\<close>.\<close>

definition fail_Build :: "'k BuildEnv \<Rightarrow> string \<Rightarrow> port_error \<Rightarrow> Container \<Rightarrow> life_log \<Rightarrow> (port_error + Container) \<times> life_log" where
  "fail_Build env msg e con l = (Inl (WrapE msg e), l @ snd (Close env con))"

definition login_dependencies ::
  "'k signing \<Rightarrow> Config \<Rightarrow> 'k Signer \<Rightarrow> GrpcServices \<Rightarrow> (world \<Rightarrow> time \<times> world) \<Rightarrow> (world \<Rightarrow> string \<times> world) \<Rightarrow> world Dependencies" where
  "login_dependencies ss cfg signer clients clock newid =
     \<lparr>d_Execute = Execute, d_FindByIdentity = findCredentialByIdentity, d_FindByFingerprint = FindByFingerprint,
      d_ListActiveFactorTypes = ListActiveFactorTypes, d_HasActiveFactor = HasActiveFactor,
      d_LoginAttempts_Record = recordLoginAttempt, d_ResolveIdentity = ResolveIdentity (Some (gsv_Identity clients)),
      d_MFASession_Create = MFASession_Create, d_Allow = Allow,
      d_SignAccessToken = SignAccessToken ss time_Now newID signer,
      d_SignRestrictedToken = SignRestrictedToken ss time_Now newID signer,
      d_Clock = clock, d_NewID = newid, d_Config = usecase_config cfg\<rparr>"

text \<open>The zero value of a writer's \<open>RequiredAcks\<close>, which the literal leaves out, is \<open>RequireNone\<close>.\<close>

definition outbox_writer :: "KafkaConfig \<Rightarrow> KafkaWriter" where
  "outbox_writer k = \<lparr>kw_Addr = kfk_Brokers k, kw_Topic = kfk_OutboxTopic k, kw_Balancer = LeastBytes, kw_RequiredAcks = RequireNone\<rparr>"

text \<open>
  The part after the connections. \<open>libs\<close> holds the libraries that the use case calls; the signer and the
  identity client are the ones built here.
\<close>

definition wire ::
  "'k BuildEnv \<Rightarrow> 'k Platform \<Rightarrow> Config \<Rightarrow> 'k Signer \<Rightarrow> GrpcServices \<Rightarrow> Container \<Rightarrow> life_log \<Rightarrow> (port_error + Container) \<times> life_log" where
  "wire env libs cfg signer clients con l =
     (let con1 = con\<lparr>con_relayCancel := True, con_kafkaWriter := Some (outbox_writer (cf_Kafka cfg)),
            con_relay := Some (NewRelay \<lparr>ry_PollInterval = kfk_PublishInterval (cf_Kafka cfg), ry_BatchSize = kfk_BatchSize (cf_Kafka cfg)\<rparr>)\<rparr>;
          l1 = l @ [Opened RelayCtx, Opened KafkaWriterR];
          con2 = con1\<lparr>con_GRPCServer := Some [RequestID, Recovery, Logging, AppErrorI],
            con_usecase := Some (usecase_New (login_dependencies (pf_signedString libs) cfg signer clients) None None),
            con_serving := True, con_GatewayMux := True\<rparr>
      in case be_RegisterREST env of
           Some e \<Rightarrow> fail_Build env ''failed init login REST gateway'' e con2 l1
         | None \<Rightarrow> (Inr con2, l1))"

definition Build :: "'k BuildEnv \<Rightarrow> 'k Platform \<Rightarrow> Config \<Rightarrow> (port_error + Container) \<times> life_log" where
  "Build env libs cfg =
     (let con0 = empty_Container cfg;
          (tel, e1) = be_Telemetry env (cf_App cfg) (cf_Telemetry cfg);
          con1 = con0\<lparr>con_Telemetry := tel\<rparr>; l1 = open_if tel TelemetryR in
      case e1 of Some e \<Rightarrow> fail_Build env ''failed init telemetry'' e con1 l1 | None \<Rightarrow>
     (let (pg, e2) = be_Postgres env (Postgres_DSN (cf_Postgres cfg));
          con2 = con1\<lparr>con_Postgres := pg\<rparr>; l2 = l1 @ open_if pg PostgresR in
      case e2 of Some e \<Rightarrow> fail_Build env ''failed init postgres'' e con2 l2 | None \<Rightarrow>
     (let (rd, e3) = be_Redis env (cf_Redis cfg);
          con3 = con2\<lparr>con_Redis := rd\<rparr>; l3 = l2 @ open_if rd RedisR in
      case e3 of Some e \<Rightarrow> fail_Build env ''failed init redis'' e con3 l3 | None \<Rightarrow>
     (let tk = ath_Token (cf_Auth cfg) in
      case NewSigner (be_ReadFile env) (be_ParseKey env)
             \<lparr>jc_PrivateKeyPEM = tkc_PrivateKeyPEM tk, jc_PrivateKeyPath = tkc_PrivateKeyPath tk, jc_Kid = tkc_Kid tk, jc_Issuer = tkc_Issuer tk\<rparr> of
        Inl e \<Rightarrow> fail_Build env ''failed init jwt signer'' e con3 l3
      | Inr signer \<Rightarrow>
     (case InitGrpcConns env cfg of
        (Inl e, lg) \<Rightarrow> fail_Build env ''failed init grpc services'' e con3 (l3 @ lg)
      | (Inr clients, lg) \<Rightarrow> wire env libs cfg signer clients (con3\<lparr>con_clients := Some clients\<rparr>) (l3 @ lg))))))"

section \<open>Readiness\<close>

definition Ready :: "port_error option \<Rightarrow> port_error option \<Rightarrow> port_error option" where
  "Ready pingPostgres pingRedis = (case pingPostgres of
      Some e \<Rightarrow> Some (WrapE ''postgres'' e)
    | None \<Rightarrow> (case pingRedis of Some e \<Rightarrow> Some (WrapE ''redis'' e) | None \<Rightarrow> None))"


section \<open>What a build leaves behind\<close>

fun opened_of :: "life_log \<Rightarrow> resource list" where
  "opened_of [] = []" | "opened_of (Opened r # l) = r # opened_of l" | "opened_of (Closed r # l) = opened_of l"

fun closed_of :: "life_log \<Rightarrow> resource list" where
  "closed_of [] = []" | "closed_of (Opened r # l) = closed_of l" | "closed_of (Closed r # l) = r # closed_of l"

lemma opened_append [simp]: "opened_of (a @ b) = opened_of a @ opened_of b"
  by (induction a rule: opened_of.induct) auto

lemma closed_append [simp]: "closed_of (a @ b) = closed_of a @ closed_of b"
  by (induction a rule: closed_of.induct) auto

text \<open>The resources a container holds, in the order in which \<open>Close\<close> releases them.\<close>

definition held :: "Container \<Rightarrow> resource list" where
  "held c = (if con_relayCancel c then [RelayCtx] else []) @ (case con_clients c of Some s \<Rightarrow> gsv_conns s | None \<Rightarrow> [])
     @ (if con_kafkaWriter c \<noteq> None then [KafkaWriterR] else []) @ (if con_Redis c then [RedisR] else [])
     @ (if con_Postgres c then [PostgresR] else []) @ (if con_Telemetry c then [TelemetryR] else [])"

lemma closed_map [simp]: "closed_of (map Closed rs) = rs" "opened_of (map Closed rs) = []"
  by (induction rs) auto

lemma Close_log: "closed_of (snd (Close env c)) = held c" "opened_of (snd (Close env c)) = []"
  by (auto simp: Close_def held_def close_if_def GrpcServices_Close_def Let_def split: option.split prod.split)

text \<open>Every opened resource is opened once and closed once.\<close>

definition released :: "life_log \<Rightarrow> bool" where
  "released l \<longleftrightarrow> distinct (opened_of l) \<and> mset (closed_of l) = mset (opened_of l)"

definition owned :: "life_log \<Rightarrow> Container \<Rightarrow> bool" where
  "owned l c \<longleftrightarrow> distinct (opened_of l) \<and> mset (closed_of l) + mset (held c) = mset (opened_of l)"

lemma owned_Close: "owned l c \<Longrightarrow> released (l @ snd (Close env c))"
  by (simp add: owned_def released_def Close_log)

lemma fail_Build_released: "owned l con \<Longrightarrow> fail_Build env msg e con l = (r, l') \<Longrightarrow> released l' \<and> (\<exists>e. r = Inl e)"
  by (auto simp: fail_Build_def owned_Close)

text \<open>The steps that open something.\<close>

lemma owned_empty: "owned [] (empty_Container cfg)"
  by (simp add: owned_def held_def empty_Container_def)

lemma InitGrpcConns_log:
  "InitGrpcConns env cfg = (Inl e, lg) \<Longrightarrow> opened_of lg = closed_of lg \<and> set (opened_of lg) \<subseteq> {IdentityConn} \<and> distinct (opened_of lg)"
  "InitGrpcConns env cfg = (Inr s, lg) \<Longrightarrow> opened_of lg = gsv_conns s \<and> closed_of lg = [] \<and> gsv_conns s = [IdentityConn, LoopbackConn]"
  by (auto simp: InitGrpcConns_def newGrpcConn_def split: if_splits sum.splits prod.splits option.splits)

definition close_order :: "resource list" where
  "close_order = [RelayCtx, IdentityConn, LoopbackConn, KafkaWriterR, RedisR, PostgresR, TelemetryR]"

definition outcome_ok :: "'k BuildEnv \<Rightarrow> 'k Platform \<Rightarrow> Config \<Rightarrow> (port_error + Container) \<times> life_log \<Rightarrow> bool" where
  "outcome_ok env libs cfg res \<longleftrightarrow> (case res of
      (Inl e, l) \<Rightarrow> released l
    | (Inr c, l) \<Rightarrow> closed_of l = [] \<and> released (l @ snd (Close env c))
        \<and> closed_of (snd (Close env c)) = filter (\<lambda>r. r \<in> set (opened_of l)) close_order
        \<and> con_relay c = Some (NewRelay \<lparr>ry_PollInterval = kfk_PublishInterval (cf_Kafka cfg), ry_BatchSize = kfk_BatchSize (cf_Kafka cfg)\<rparr>)
        \<and> con_kafkaWriter c = Some (outbox_writer (cf_Kafka cfg))
        \<and> (\<exists>interceptors. con_GRPCServer c = Some (interceptors @ [AppErrorI])) \<and> con_serving c
        \<and> (\<exists>signer client. con_usecase c = Some (app_deps (libs\<lparr>pf_signer := signer, pf_identity := Some client\<rparr>) (usecase_config cfg))))"

lemma fail_Build_ok: "owned l con \<Longrightarrow> outcome_ok env libs cfg (fail_Build env msg e con l)"
  by (simp add: outcome_ok_def fail_Build_def owned_Close)

lemma owned_set: "owned l con \<Longrightarrow> set (opened_of l) = set (closed_of l) \<union> set (held con)"
  unfolding owned_def by (metis set_mset_mset set_mset_union)

lemma Close_filter:
  assumes "owned l c" "closed_of l = []" "con_clients c = Some s" "gsv_conns s = [IdentityConn, LoopbackConn]"
  shows "closed_of (snd (Close env c)) = filter (\<lambda>r. r \<in> set (opened_of l)) close_order"
  using owned_set [OF assms(1)] assms(2-4) by (simp add: Close_log close_order_def) (simp add: held_def)

lemma login_wired:
  "usecase_New (login_dependencies (pf_signedString libs) cfg signer clients) None None
     = app_deps (libs\<lparr>pf_signer := signer, pf_identity := Some (gsv_Identity clients)\<rparr>) (usecase_config cfg)"
  by (simp add: usecase_New_def login_dependencies_def app_deps_def)

lemma held_more:
  "\<not> con_Postgres con \<Longrightarrow> mset (held (con\<lparr>con_Postgres := b\<rparr>)) = mset (held con) + mset (opened_of (open_if b PostgresR))"
  "\<not> con_Redis con \<Longrightarrow> mset (held (con\<lparr>con_Redis := b\<rparr>)) = mset (held con) + mset (opened_of (open_if b RedisR))"
  "\<not> con_Telemetry con \<Longrightarrow> mset (held (con\<lparr>con_Telemetry := b\<rparr>)) = mset (held con) + mset (opened_of (open_if b TelemetryR))"
  "con_clients con = None \<Longrightarrow> mset (held (con\<lparr>con_clients := Some s\<rparr>)) = mset (held con) + mset (gsv_conns s)"
  "\<not> con_relayCancel con \<Longrightarrow> con_kafkaWriter con = None \<Longrightarrow>
     mset (held (con\<lparr>con_relayCancel := True, con_kafkaWriter := Some kw, con_relay := x, con_GRPCServer := g, con_usecase := y,
       con_serving := True, con_GatewayMux := True\<rparr>))
       = mset (held con) + {#RelayCtx, KafkaWriterR#}"
  by (auto simp: held_def open_if_def split: option.split)

text \<open>Opening more: the log and the container grow by the same resources.\<close>

lemma owned_more:
  assumes "owned l con" "mset (held con') = mset (held con) + mset (opened_of lm)" "closed_of lm = []"
    "distinct (opened_of l @ opened_of lm)"
  shows "owned (l @ lm) con'"
  using assms by (simp add: owned_def ac_simps)

lemma wire_ok:
  assumes "owned l con" "closed_of l = []" "\<not> con_relayCancel con" "con_kafkaWriter con = None"
    "con_clients con = Some clients" "gsv_conns clients = [IdentityConn, LoopbackConn]"
  shows "outcome_ok env libs cfg (wire env libs cfg signer clients con l)"
proof -
  let ?more = "[Opened RelayCtx, Opened KafkaWriterR]"
  have "distinct (opened_of l @ opened_of ?more)"
    using assms owned_set [OF assms(1)] by (auto simp: owned_def held_def split: if_splits)
  then have o: "owned (l @ ?more) (con\<lparr>con_relayCancel := True, con_kafkaWriter := Some kw, con_relay := x, con_GRPCServer := g,
      con_usecase := y, con_serving := True, con_GatewayMux := True\<rparr>)" for kw x g y
    using assms(1,3,4) by (intro owned_more [OF assms(1)]) (simp_all add: held_more)
  show ?thesis
  proof (cases "be_RegisterREST env")
    case None
    then show ?thesis using owned_Close [OF o, of env] Close_filter [OF o _ _ assms(6)] assms(2,5)
      unfolding outcome_ok_def wire_def login_wired by (auto simp: Let_def)
  next
    case (Some e)
    then show ?thesis using fail_Build_ok [OF o] by (simp add: wire_def Let_def)
  qed
qed

lemma opened_open_if [simp]: "opened_of (open_if b r) = (if b then [r] else [])" "closed_of (open_if b r) = []"
  by (simp_all add: open_if_def)

text \<open>A container that holds only the first three resources.\<close>

definition backends :: "Config \<Rightarrow> bool \<Rightarrow> bool \<Rightarrow> bool \<Rightarrow> Container" where
  "backends cfg tel pg rd = (empty_Container cfg)\<lparr>con_Telemetry := tel, con_Postgres := pg, con_Redis := rd\<rparr>"

lemma backends_sel [simp]:
  "\<not> con_relayCancel (backends cfg t p r)" "con_kafkaWriter (backends cfg t p r) = None" "con_clients (backends cfg t p r) = None"
  by (simp_all add: backends_def empty_Container_def)

lemma backends_owned: "owned (open_if t TelemetryR @ open_if p PostgresR @ open_if r RedisR) (backends cfg t p r)"
  by (simp add: owned_def held_def backends_def empty_Container_def)

lemma backends_partial:
  "(empty_Container cfg)\<lparr>con_Telemetry := t\<rparr> = backends cfg t False False"
  "(backends cfg t False False)\<lparr>con_Postgres := p\<rparr> = backends cfg t p False"
  "(backends cfg t p False)\<lparr>con_Redis := r\<rparr> = backends cfg t p r"
  by (simp_all add: backends_def empty_Container_def)

lemma backends_clients:
  fixes t p r :: bool
  assumes "InitGrpcConns env cfg = (res, lg)"
  defines "l \<equiv> (open_if t TelemetryR @ open_if p PostgresR @ open_if r RedisR) @ lg"
  shows "res = Inl e \<Longrightarrow> owned l (backends cfg t p r)"
    "res = Inr s \<Longrightarrow> outcome_ok env libs cfg (wire env libs cfg signer s ((backends cfg t p r)\<lparr>con_clients := Some s\<rparr>) l)"
proof -
  assume "res = Inl e"
  with InitGrpcConns_log(1) [of env cfg e lg] assms(1) show "owned l (backends cfg t p r)"
    by (auto simp: l_def owned_def held_def backends_def empty_Container_def)
next
  assume r: "res = Inr s"
  note g = InitGrpcConns_log(2) [OF assms(1) [unfolded r]]
  have "owned l ((backends cfg t p r)\<lparr>con_clients := Some s\<rparr>)" unfolding l_def
    using g by (intro owned_more [OF backends_owned]) (simp_all add: held_more)
  then show "outcome_ok env libs cfg (wire env libs cfg signer s ((backends cfg t p r)\<lparr>con_clients := Some s\<rparr>) l)"
    using g by (intro wire_ok) (simp_all add: l_def)
qed

lemma Build_ok: "outcome_ok env libs cfg (Build env libs cfg)"
proof -
  obtain t e1 where 1: "be_Telemetry env (cf_App cfg) (cf_Telemetry cfg) = (t, e1)" by (meson surj_pair)
  obtain p e2 where 2: "be_Postgres env (Postgres_DSN (cf_Postgres cfg)) = (p, e2)" by (meson surj_pair)
  obtain r e3 where 3: "be_Redis env (cf_Redis cfg) = (r, e3)" by (meson surj_pair)
  obtain res lg where g: "InitGrpcConns env cfg = (res, lg)" by (meson surj_pair)
  have o1: "owned (open_if t TelemetryR) (backends cfg t False False)"
    using backends_owned [of t False False cfg] by (simp add: open_if_def)
  have o2: "owned (open_if t TelemetryR @ open_if p PostgresR) (backends cfg t p False)"
    using backends_owned [of t p False cfg] by (simp add: open_if_def)
  note c = backends_clients [OF g, where t = t and p = p and r = r, unfolded append_assoc]
  show ?thesis
    by (cases e1; cases e2; cases e3; cases res)
       (auto simp: Build_def Let_def 1 2 3 g backends_partial fail_Build_ok [OF o1] fail_Build_ok [OF o2]
          fail_Build_ok [OF backends_owned] fail_Build_ok [OF c(1)] c(2) split: sum.split)
qed

text \<open>
  C40. Nothing leaks at startup: whatever fails during \<open>Build\<close>, every resource opened so far has been closed
  exactly once when it returns an error. A successful build has closed nothing, a later \<open>Close\<close>
  releases each of its resources exactly once, in the order relay, connections, writer, Redis,
  Postgres, telemetry; it reports serving, the application-error interceptor is the one next to the
  handler, and the wired use case is the one verified here, under the policies that the
  configuration gives, with the relay's defaults applied and a writer for the configured brokers and topic.
\<close>

theorem build_releases:
  "case Build env libs cfg of
     (Inl e, l) \<Rightarrow> released l
   | (Inr c, l) \<Rightarrow> closed_of l = [] \<and> released (l @ snd (Close env c))
       \<and> closed_of (snd (Close env c)) = filter (\<lambda>r. r \<in> set (opened_of l)) close_order
       \<and> con_relay c = Some (NewRelay \<lparr>ry_PollInterval = kfk_PublishInterval (cf_Kafka cfg), ry_BatchSize = kfk_BatchSize (cf_Kafka cfg)\<rparr>)
       \<and> con_kafkaWriter c = Some (outbox_writer (cf_Kafka cfg))
       \<and> (\<exists>interceptors. con_GRPCServer c = Some (interceptors @ [AppErrorI])) \<and> con_serving c
       \<and> (\<exists>signer client. con_usecase c = Some (app_deps (libs\<lparr>pf_signer := signer, pf_identity := Some client\<rparr>) (usecase_config cfg)))"
  using Build_ok [of env libs cfg] by (simp add: outcome_ok_def)

section \<open>A write that nobody acknowledges\<close>

lemma Build_relay:
  assumes "Build env libs cfg = (Inr c, l)"
  shows "con_relay c = Some (NewRelay \<lparr>ry_PollInterval = kfk_PublishInterval (cf_Kafka cfg), ry_BatchSize = kfk_BatchSize (cf_Kafka cfg)\<rparr>)"
    "con_kafkaWriter c = Some (outbox_writer (cf_Kafka cfg))"
  using Build_ok [of env libs cfg] assms by (simp_all add: outcome_ok_def)

lemma drop_disjoint:
  assumes "distinct (map k xs)" "x \<in> set (drop n xs)"
  shows "k x \<notin> set (map k (take n xs))"
proof -
  have "distinct (map k (take n xs) @ map k (drop n xs))" using assms(1) by (metis append_take_drop_id map_append)
  with assms(2) show ?thesis by auto
qed

text \<open>
  C36. What the wired writer does not promise. The container builds the writer without required
  acknowledgements, so a write may return no error although none of its messages arrives. A poll with such a write,
  in which nothing else fails, reports success, marks every claimed row as published and leaves the topic
  as it was; and whatever happens later, no message of these rows is ever sent: what the topic gains comes
  from other rows. The events of the batch are lost.
\<close>

theorem unacked_batch_lost:
  assumes "Build env libs cfg = (Inr c, l)" "con_relay c = Some rc" "con_kafkaWriter c = Some kw"
    "quiet (rs_world s)" "outbox_keys s" "publishBatch rc {} (KafkaUnacked []) s = (e, s1)"
    "\<forall>f. Elsewhere f \<in> set xs \<longrightarrow> appends f"
  shows "let ids = set (map ob_id (take (nat (ry_BatchSize rc)) (unpublished (w_db (rs_world s))))); s2 = snd (Run rc xs s1) in
    writer_reply kw (KafkaUnacked []) \<and> e = None \<and> rs_topic s1 = rs_topic s
    \<and> (\<forall>r\<in>set (db_outbox (w_db (rs_world s1))). ob_id r \<in> ids \<longrightarrow> ob_published_at r \<noteq> None)
    \<and> (\<exists>new. rs_topic s2 = rs_topic s @ new
          \<and> (\<forall>m\<in>set new. \<exists>i. i \<notin> ids \<and> (i, km_Key m, km_Value m) \<in> set (row_contents s2)))"
proof -
  let ?n = "nat (ry_BatchSize rc)" and ?rows = "unpublished (w_db (rs_world s))"
  define ids where "ids = set (map ob_id (take ?n ?rows))"
  have w: "writer_reply kw (KafkaUnacked [])" using Build_relay(2) [OF assms(1)] assms(3) by (simp add: writer_reply_def outbox_writer_def)
  note q = publishBatch_quiet [OF assms(4,5,6), simplified]
  have k: "outbox_keys s1" "row_contents s1 = row_contents s"
    using publishBatch_keys [OF assms(6)] publishBatch_contents [OF assms(6)] assms(5) by simp_all
  have u: "ob_id r \<notin> ids" if "r \<in> set (unpublished (w_db (rs_world s1)))" for r
    using drop_disjoint [OF unpublished_distinct [OF assms(5)]] that q(4) by (simp add: ids_def)
  have m: "\<forall>r\<in>set (db_outbox (w_db (rs_world s1))). ob_id r \<in> ids \<longrightarrow> ob_published_at r \<noteq> None"
  proof (intro ballI impI notI)
    fix r assume r: "r \<in> set (db_outbox (w_db (rs_world s1)))" "ob_id r \<in> ids" "ob_published_at r = None"
    then have "r \<in> set (unpublished (w_db (rs_world s1)))" by (simp add: unpublished_def)
    with u r(2) show False by blast
  qed
  have "ids \<subseteq> fst ` set (row_contents s1)"
    unfolding k(2) by (force simp: ids_def row_contents_def unpublished_def dest: in_set_takeD)
  from Run_marked_silent [OF k(1) assms(7) this m, of rc] q(1,3) m w show ?thesis
    unfolding Let_def ids_def [symmetric] by simp
qed

definition sample_env :: "unit BuildEnv" where
  "sample_env = \<lparr>be_Telemetry = \<lambda>_ _. (True, None), be_Postgres = \<lambda>_. (True, None), be_Redis = \<lambda>_. (True, None),
     be_ReadFile = Inr, be_ParseKey = \<lambda>_. Inr (), be_NewClient = \<lambda>_. Inr (\<lambda>_ _. Inl (DriverE ''down'')),
     be_Loopback = None, be_RegisterREST = None, be_Close = \<lambda>_. None\<rparr>"

lemma sample_build: "case Build sample_env sample_platform sample_config of (Inr c, l) \<Rightarrow> True | _ \<Rightarrow> False"
  by code_simp

theorem unacked_batch_lost_witness:
  "\<exists>c l rc kw s1. Build sample_env sample_platform sample_config = (Inr c, l) \<and> con_relay c = Some rc \<and> con_kafkaWriter c = Some kw
     \<and> writer_reply kw (KafkaUnacked []) \<and> publishBatch rc {} (KafkaUnacked []) pending_state = (None, s1) \<and> rs_topic s1 = []
     \<and> rs_topic (snd (Run rc [Tick {} KafkaAccepted, Tick {} KafkaAccepted] s1)) = []"
proof -
  obtain c l where b: "Build sample_env sample_platform sample_config = (Inr c, l)"
    using sample_build by (auto split: prod.splits sum.splits)
  define rc where "rc = NewRelay \<lparr>ry_PollInterval = kfk_PublishInterval (cf_Kafka sample_config), ry_BatchSize = kfk_BatchSize (cf_Kafka sample_config)\<rparr>"
  have c: "con_relay c = Some rc" "con_kafkaWriter c = Some (outbox_writer (cf_Kafka sample_config))"
    using Build_relay [OF b] by (simp_all add: rc_def)
  have n: "nat (ry_BatchSize rc) = 100" by (simp add: rc_def NewRelay_def sample_config_def Let_def)
  obtain e s1 where p: "publishBatch rc {} (KafkaUnacked []) pending_state = (e, s1)" by (meson surj_pair)
  let ?xs = "[Tick {} KafkaAccepted, Tick {} KafkaAccepted]" and ?ids = "{''a'', ''b''}"
  have ids: "set (map ob_id (take (nat (ry_BatchSize rc)) (unpublished (w_db (rs_world pending_state))))) = ?ids"
    unfolding pending_unpublished n by (simp add: pending_row_def insert_commute)
  have x: "\<forall>f. Elsewhere f \<in> set ?xs \<longrightarrow> appends f" by simp
  note lost = unacked_batch_lost [OF b c pending_state_ok p x, unfolded ids Let_def]
  have "fst ` set (row_contents (snd (Run rc ?xs s1))) = ?ids"
    by (simp add: publishBatch_contents [OF surjective_pairing] publishBatch_contents [OF p])
       (simp add: row_contents_def pending_state_def pending_row_def insert_commute)
  then have "\<not> (i \<notin> ?ids \<and> (i, k, v) \<in> set (row_contents (snd (Run rc ?xs s1))))" for i k v by force
  moreover have "rs_topic pending_state = []" by (simp add: pending_state_def)
  ultimately have "rs_topic (snd (Run rc ?xs s1)) = []" using lost by (metis append_Nil last_in_set)
  moreover have "e = None" "rs_topic s1 = []" "writer_reply (outbox_writer (cf_Kafka sample_config)) (KafkaUnacked [])"
    using lost by (simp_all add: pending_state_def)
  ultimately show ?thesis using b c p by blast
qed

end
