(* ===== verification/Login_Contract.thy ===== *)
theory Login_Contract
  imports Login_Facts
begin

text \<open>
  What the login use case relies on, as a locale over its ports: an invariant of the state outside that every
  call keeps, and two conditions on credentials, of a loaded one and of one that may be saved. From these laws
  alone the use case keeps the invariant and does not panic, whatever else the ports do.
\<close>

definition preserves :: "('w \<Rightarrow> bool) \<Rightarrow> ('w \<Rightarrow> 'a \<times> 'w) \<Rightarrow> bool" where
  "preserves ok m \<longleftrightarrow> (\<forall>w. ok w \<longrightarrow> ok (snd (m w)))"

lemma preservesD: "preserves ok m \<Longrightarrow> m w = (r, w') \<Longrightarrow> ok w \<Longrightarrow> ok w'"
  by (auto simp: preserves_def dest: spec [of _ w])

lemma preservesI: "(\<And>w r w'. ok w \<Longrightarrow> m w = (r, w') \<Longrightarrow> ok w') \<Longrightarrow> preserves ok m"
  unfolding preserves_def by (metis prod.collapse)

locale login_ports =
  fixes rt :: "'w Runtime"
    and deps :: "'w Dependencies"
    and ok :: "'w \<Rightarrow> bool"
    and loaded :: "Credential \<Rightarrow> bool"
    and savable :: "Credential \<Rightarrow> bool"
  assumes clock: "preserves ok (d_Clock deps)"
    and new_id: "preserves ok (d_NewID deps)"
    and allow: "preserves ok (d_Allow deps key m win)"
    and resolve: "preserves ok (d_ResolveIdentity deps i cc)"
    and find: "preserves ok (d_FindByIdentity deps i)"
    and device: "preserves ok (d_FindByFingerprint deps i fp)"
    and factor: "preserves ok (d_HasActiveFactor deps i)"
    and factors: "preserves ok (d_ListActiveFactorTypes deps i)"
    and attempt: "preserves ok (d_LoginAttempts_Record deps a)"
    and mfa: "preserves ok (d_MFASession_Create deps tok st ttl)"
    and access: "preserves ok (d_SignAccessToken deps claims ttl)"
    and restricted: "preserves ok (d_SignRestrictedToken deps subj purpose ttl)"
    and random: "preserves ok (rt_rand rt n)"
    and derive: "preserves ok (rt_IDKey rt pw salt params len)"
    and found: "ok w \<Longrightarrow> d_FindByIdentity deps i w = (Inr c, w') \<Longrightarrow> loaded c"
    and verifiable: "loaded c \<Longrightarrow> \<exists>e c'. EnsureVerifiable now c = Some (e, c') \<and> loaded c'"
    and failed: "loaded c \<Longrightarrow> \<exists>e c'. RecordFailedAttempt att p now c = Some (e, c') \<and> savable c'"
    and succeeded: "loaded c \<Longrightarrow> \<exists>e c'. RecordSuccessfulVerification now c = Some (e, c') \<and> savable c'"
    and saved: "savable c \<Longrightarrow> preserves ok (d_Execute deps (save_outcome (c\<lparr>c_events := []\<rparr>) evs a))"
    and session: "savable c \<Longrightarrow> loc now = UTC \<Longrightarrow> s_id s = sid \<Longrightarrow> s_identity s = ri_IdentityID res \<Longrightarrow>
      preserves ok (d_Execute deps (session_tx rt (d_Config deps) (c\<lparr>c_events := []\<rparr>) evs s res (Some d) sid fam raw ih fp inp now))"
begin

lemmas port_laws = clock new_id allow resolve find device factor factors attempt mfa access restricted random derive

lemmas port_ok = port_laws [THEN preservesD]

definition kept :: "'w login \<Rightarrow> bool" where
  "kept res \<longleftrightarrow> fst res \<noteq> None \<and> ok (snd res)"

lemma kept_simps [simp]: "kept (Some x, w) = ok w" "kept (None, w) = False"
  by (simp_all add: kept_def)

lemma record_kept: "ok w \<Longrightarrow> ok (recordAttemptBestEffort deps a w)"
  using attempt by (simp add: recordAttemptBestEffort_def preserves_def)

lemma dummy_kept: "ok w \<Longrightarrow> ok (DummyVerify (rt_IDKey rt) pw p w)"
  using derive by (simp add: DummyVerify_def preserves_def)

lemma verify_kept: "verifyPassword rt pw c p w = (b, w') \<Longrightarrow> ok w \<Longrightarrow> ok w'"
  by (auto simp: verifyPassword_def Verify_def Let_def split: if_splits option.splits prod.splits dest: port_ok)

lemma token_kept: "randomOpaqueToken rt w = (r, w') \<Longrightarrow> ok w \<Longrightarrow> ok w'"
  by (auto simp: randomOpaqueToken_def split: prod.splits sum.splits dest: port_ok)

lemma limit_kept: "checkRateLimit deps ip ih w = (r, w') \<Longrightarrow> ok w \<Longrightarrow> ok w'"
  by (auto simp: checkRateLimit_def Let_def split: prod.splits sum.splits if_splits dest!: port_ok)

lemma invalid_kept: "ok w \<Longrightarrow> kept (invalidCredentials rt deps i ih fp pw inp now w)"
  by (simp add: invalidCredentials_def Let_def record_kept dummy_kept)

lemma fail_kept:
  assumes "loaded c" "ok w"
  shows "kept (failCredential deps c a i ih fp inp now w)"
proof -
  obtain e c2 where r: "RecordFailedAttempt a (uc_Lockout (d_Config deps)) now c = Some (e, c2)" "savable c2"
    using failed [OF assms(1)] by blast
  then show ?thesis using assms(2) preservesD [OF saved [OF r(2)]]
    by (auto simp: failCredential_def Credential_PullEvents_def split: prod.splits sum.splits)
qed

lemma forced_kept:
  assumes "savable c" "ok w"
  shows "kept (completeForcedChange deps c i ih fp inp now w)"
  using assms(2) preservesD [OF saved [OF assms(1)]]
  by (auto simp: completeForcedChange_def Credential_PullEvents_def split: prod.splits sum.splits dest: port_ok)

lemma mfa_kept:
  assumes "savable c" "ok w"
  shows "kept (completeMFARequired rt deps c i ih fp inp now w)"
proof -
  let ?a = "attempt_record (Some i) ih ''MFA_REQUIRED'' inp fp None now"
  obtain r1 w1 where f: "d_ListActiveFactorTypes deps i w = (r1, w1)" by (meson surj_pair)
  obtain r2 w2 where t: "randomOpaqueToken rt w1 = (r2, w2)" by (meson surj_pair)
  obtain r3 w3 where x: "d_Execute deps (save_outcome (c\<lparr>c_events := []\<rparr>) (c_events c) ?a) w2 = (r3, w3)" by (meson surj_pair)
  have "ok w1" using preservesD [OF factors f assms(2)] .
  moreover from this have "ok w2" by (rule token_kept [OF t])
  moreover from this have "ok w3" by (rule preservesD [OF saved [OF assms(1)] x])
  ultimately show ?thesis using f t x
    by (auto simp: completeMFARequired_def Credential_PullEvents_def split: prod.splits sum.splits dest: preservesD [OF mfa])
qed

lemma NewSession_names: "NewAuthenticationSession p = Inr s \<Longrightarrow> s_id s = nsp_ID p \<and> s_identity s = nsp_Identity p"
  by (auto simp: NewAuthenticationSession_def session_record_def Let_def split: if_splits option.splits)

lemma session_kept:
  assumes "savable c" "ok w" "loc now = UTC"
  shows "kept (completeSession rt deps c res (Some d) ih fp inp now w)"
proof -
  obtain sid w1 where i: "d_NewID deps w = (sid, w1)" by (meson surj_pair)
  let ?p = "\<lparr>nsp_ID = sid, nsp_Identity = ri_IdentityID res, nsp_Device = '''', nsp_AAL = AAL1, nsp_FactorsUsed = [],
     nsp_Client = \<lparr>ci_IP = li_IP inp, ci_UserAgent = li_UserAgent inp\<rparr>, nsp_Policy = uc_SessionPolicy (d_Config deps), nsp_Now = now\<rparr>"
  let ?claims = "\<lparr>atc_Subject = ri_IdentityID res, atc_Audience = [li_ClientID inp], atc_SessionID = sid,
     atc_AAL = AAL1, atc_DeviceID = '''', atc_CorporateID = ri_CorporateID res, atc_Scope = ''''\<rparr>"
  obtain r2 w2 where t: "randomOpaqueToken rt w1 = (r2, w2)" by (meson surj_pair)
  obtain fam w3 where f: "d_NewID deps w2 = (fam, w3)" by (meson surj_pair)
  obtain r4 w4 where a: "d_SignAccessToken deps ?claims (uc_AccessTokenTTL (d_Config deps)) w3 = (r4, w4)" by (meson surj_pair)
  have w1: "ok w1" using preservesD [OF new_id i assms(2)] .
  then have w2: "ok w2" by (rule token_kept [OF t])
  then have "ok w3" by (rule preservesD [OF new_id f])
  then have w4: "ok w4" by (rule preservesD [OF access a])
  have x: "ok w5" if "NewAuthenticationSession ?p = Inr s" "d_Execute deps (session_tx rt (d_Config deps) (c\<lparr>c_events := []\<rparr>)
      (c_events c) s res (Some d) sid fam raw ih fp inp now) w4 = (r5, w5)" for s raw r5 w5
    using preservesD [OF session [OF assms(1,3)] that(2) w4] NewSession_names [OF that(1)] by simp
  show ?thesis using i t f a w1 w2 w4 x
    by (auto simp: completeSession_def Credential_PullEvents_def Let_def split: prod.splits sum.splits)
qed

lemma complete_kept:
  assumes "savable c" "ok w" "loc now = UTC"
  shows "kept (complete_login rt deps c res ih fp inp now w)"
proof -
  obtain r1 w1 where d: "d_FindByFingerprint deps (ri_IdentityID res) fp w = (r1, w1)" by (meson surj_pair)
  obtain r2 w2 where f: "d_HasActiveFactor deps (ri_IdentityID res) w1 = (r2, w2)" by (meson surj_pair)
  have i: "ok w1" "ok w2" using port_ok d f assms(2) by metis+
  show ?thesis using i d f forced_kept [OF assms(1) i(2)] mfa_kept [OF assms(1) i(2)] session_kept [OF assms(1) i(2) assms(3)]
    by (auto simp: complete_login_def Let_def split: sum.split)
qed

lemma credential_kept:
  assumes "loaded c" "ok w" "loc now = UTC"
  shows "kept (login_credential rt deps c res ih fp cc pw inp now w)"
proof -
  obtain e c1 where ev: "EnsureVerifiable now c = Some (e, c1)" "loaded c1" using verifiable [OF assms(1)] by blast
  obtain b w1 where v: "verifyPassword rt pw c1 (uc_Argon2id (d_Config deps)) w = (b, w1)" by (meson surj_pair)
  obtain e2 c2 where s: "RecordSuccessfulVerification now c1 = Some (e2, c2)" "savable c2" using succeeded [OF ev(2)] by blast
  have i: "ok w1" using verify_kept [OF v assms(2)] .
  show ?thesis using ev s v i assms(2) fail_kept [OF ev(2) i] complete_kept [OF s(2) i assms(3)]
    by (auto simp: login_credential_def Let_def record_kept split: option.split bool.split)
qed

lemma Login_kept:
  assumes "ok w"
  shows "fst (Login rt deps inp w) \<noteq> None \<and> ok (snd (Login rt deps inp w))"
proof -
  obtain t w0 where c: "d_Clock deps w = (t, w0)" by (meson surj_pair)
  let ?ih = "sha256Hex (rt_sha256 rt) (li_Identifier inp)"
  obtain r1 w1 where rl: "checkRateLimit deps (ipString (li_IP inp)) ?ih w0 = (r1, w1)" by (meson surj_pair)
  have i: "ok w0" "ok w1" using port_ok(1) [OF c assms] limit_kept [OF rl] by auto
  obtain r2 w2 where rs: "d_ResolveIdentity deps (normalize (rt_unicode rt) (li_Identifier inp))
      (ToUpper (rt_unicode rt) (TrimSpace (rt_unicode rt) (li_CompanyCode inp))) w1 = (r2, w2)" by (meson surj_pair)
  have i2: "ok w2" using preservesD [OF resolve rs i(2)] .
  have fc: "ok w3" "r3 = Inr cr \<Longrightarrow> kept (login_credential rt deps cr res ih fp cc pw inp (time_UTC t) w3)"
    if "d_FindByIdentity deps iid w2 = (r3, w3)" for iid r3 w3 cr res ih fp cc pw
    using preservesD [OF find that i2] credential_kept [OF found [OF i2]] that by auto
  have "kept (Login rt deps inp w)" using i i2 c rl rs fc invalid_kept
    by (auto simp: Login_def Let_def record_kept split: sum.split option.split prod.split)
  then show ?thesis by (simp add: kept_def)
qed

end

end
