(* ===== verification/Concurrency.thy ===== *)
theory Concurrency
  imports Login_Contract Login_Props
begin

text \<open>
  Logins that run at the same time. Between two calls of a login other logins, the relay or other clients of
  the stores may make calls of their own; only a transaction is atomic. The calls are steps on the shared
  state, a login is run with an arbitrary sequence of such steps before each of its own calls, and it is
  itself a sequence of such steps: what holds of every step holds of every interleaving of logins.
\<close>

section \<open>What no login changes in a credential row\<close>

type_synonym core = "string \<times> string \<times> string \<times> string \<times> string \<times> int \<times> time"

definition row_core :: "cred_row \<Rightarrow> core" where
  "row_core r = (cr_id r, cr_identity_id r, cr_password_hash r, cr_password_salt r, cr_password_algorithm r,
     cr_password_version r, cr_password_created_at r)"

definition cred_cores :: "database \<Rightarrow> core list" where
  "cred_cores db = map row_core (db_credentials db)"

lemma row_core_id: "row_core r = row_core r' \<Longrightarrow> cr_id r = cr_id r'"
  by (simp add: row_core_def)

text \<open>The row's part determines the loaded credential's part.\<close>

lemma row_core_cred_core:
  assumes "row_core r = row_core r'" "cred_of_row r = Inr c" "cred_of_row r' = Inr c'"
  shows "cred_core c = cred_core c'"
  using assms(1) cred_of_row_fields [OF assms(2)] cred_of_row_fields [OF assms(3)]
  by (simp add: row_core_def cred_core_def)

lemma saved_row_core:
  assumes "cred_row_ok r" "cred_of_row r = Inr c0" "cred_core c = cred_core c0"
  shows "row_core (row_of_cred (Credential_Snapshot c) r) = row_core r"
proof -
  note f = cred_of_row_fields [OF assms(2)]
  have tz: "timestamptz (cr_password_created_at r) = cr_password_created_at r" using assms(1) by (simp add: cred_row_ok_def)
  then have "timestamptz (time_UTC (cr_password_created_at r)) = cr_password_created_at r"
    by (metis nanos_timestamptz(2) time_UTC_id)
  moreover have "ph_hash (c_password c0) = cr_password_hash r" "ph_salt (c_password c0) = cr_password_salt r"
    using f(9) [symmetric] by (auto simp: NewPasswordHash_def split: if_splits)
  ultimately show ?thesis using assms(3) f(6)
    by (simp add: row_core_def row_of_cred_def Credential_Snapshot_def cred_core_def)
qed

section \<open>The credential that a request holds\<close>

text \<open>
  A credential is read from some version of a row, is checked for an expired lock, and is written after a
  failed or a verified password. The row may have been written by others in the meantime.
\<close>

inductive carried :: "core list \<Rightarrow> Credential \<Rightarrow> bool" for K where
  read: "cred_row_ok r \<Longrightarrow> row_core r \<in> set K \<Longrightarrow> cred_of_row r = Inr c \<Longrightarrow> carried K c"
| checked: "carried K c \<Longrightarrow> EnsureVerifiable now c = Some (e, c') \<Longrightarrow> carried K c'"

inductive written :: "core list \<Rightarrow> Credential \<Rightarrow> bool" for K where
  failed: "carried K c \<Longrightarrow> RecordFailedAttempt att p now c = Some (e, c') \<Longrightarrow> written K c'"
| verified: "carried K c \<Longrightarrow> RecordSuccessfulVerification now c = Some (e, c') \<Longrightarrow> written K c'"

text \<open>It belongs to a stored row and never panics.\<close>

definition issued :: "core list \<Rightarrow> Credential \<Rightarrow> bool" where
  "issued K c \<longleftrightarrow> wf_credential DefaultCredentialPolicy c
     \<and> (\<exists>r c0. cred_row_ok r \<and> row_core r \<in> set K \<and> cred_of_row r = Inr c0 \<and> cred_core c = cred_core c0)"

lemma carried_issued: "carried K c \<Longrightarrow> issued K c \<and> c_failedAttemptCount c < max_int64 \<and> c_lockoutHistoryCount c < max_int64"
proof (induction rule: carried.induct)
  case (read r c)
  with cred_of_row_fields [OF read(3)] show ?case by (auto simp: issued_def cred_row_ok_def int4_max)
next
  case (checked c now e c')
  with EnsureVerifiable_counters EnsureVerifiable_wf core_EnsureVerifiable show ?case by (metis issued_def)
qed

lemma carried_checked: "carried K c \<Longrightarrow> \<exists>e c'. EnsureVerifiable now c = Some (e, c') \<and> carried K c'"
  using carried_issued EnsureVerifiable_Some carried.checked by (metis issued_def)

lemma carried_failed: "carried K c \<Longrightarrow> \<exists>e c'. RecordFailedAttempt att p now c = Some (e, c') \<and> written K c'"
  using carried_issued RecordFailedAttempt_total written.failed by (metis issued_def)

lemma carried_verified: "carried K c \<Longrightarrow> \<exists>e c'. RecordSuccessfulVerification now c = Some (e, c') \<and> written K c'"
  using carried_issued RecordSuccessfulVerification_total written.verified by (metis issued_def)

lemma written_issued: "written K c \<Longrightarrow> issued K c"
proof (induction rule: written.induct)
  case (failed c att p now e c')
  with carried_issued [OF failed(1)] RecordFailedAttempt_total core_RecordFailedAttempt [OF failed(2)] show ?case
    by (metis issued_def option.inject prod.inject)
next
  case (verified c now e c')
  with carried_issued [OF verified(1)] RecordSuccessfulVerification_total core_RecordSuccess [OF verified(2)] show ?case
    by (metis issued_def option.inject prod.inject)
qed

text \<open>In a database with the same rows up to their counters it is one of the stored credentials, up to its counters.\<close>

lemma issued_stored:
  assumes "issued K c" "db_ok db" "cred_cores db = K"
  obtains c0 where "stored db c0" "cred_core c = cred_core c0"
proof -
  obtain r1 c1 where r1: "row_core r1 \<in> set K" "cred_of_row r1 = Inr c1" "cred_core c = cred_core c1"
    using assms(1) by (auto simp: issued_def)
  then obtain r where r: "r \<in> set (db_credentials db)" "row_core r1 = row_core r" using assms(3) by (auto simp: cred_cores_def)
  with assms(2) obtain c0 where c0: "cred_of_row r = Inr c0" by (auto simp: db_ok_def list_all_iff cred_row_ok_def)
  show ?thesis by (rule that [of c0]) (use r c0 r1 row_core_cred_core [OF r(2) r1(2) c0] in \<open>auto simp: stored_def\<close>)
qed

lemma saved_cores:
  assumes "stored db c0" "cred_core c = cred_core c0" "db_ok db"
  shows "map row_core (update_where (\<lambda>r. cr_id r = c_id c) (row_of_cred (Credential_Snapshot c)) (db_credentials db)) = cred_cores db"
proof -
  obtain r0 where r0: "r0 \<in> set (db_credentials db)" "cred_of_row r0 = Inr c0" using assms(1) by (auto simp: stored_def)
  have id: "c_id c = cr_id r0" using cred_of_row_fields(2) [OF r0(2)] assms(2) by (simp add: cred_core_def)
  have "row_core (row_of_cred (Credential_Snapshot c) r) = row_core r" if "r \<in> set (db_credentials db)" "cr_id r = c_id c" for r
  proof -
    have "r = r0" using that r0(1) id assms(3) by (auto simp: db_ok_def distinct_map dest: inj_onD)
    with saved_row_core [OF _ r0(2) assms(2)] r0(1) assms(3) show ?thesis by (auto simp: db_ok_def list_all_iff)
  qed
  then show ?thesis by (auto simp: cred_cores_def update_where_def)
qed

section \<open>Steps on the shared state\<close>

text \<open>
  A call of some login: one that writes no table but perhaps the outbox (the clock, identifiers, hashing,
  Redis, the identity service, every query, and the relay's marks), the audit row, or one of the transactions
  with a credential that its request holds.
\<close>

inductive step_of :: "'k Platform \<Rightarrow> UsecaseConfig \<Rightarrow> core list \<Rightarrow> world \<Rightarrow> world \<Rightarrow> bool" for pf cfg K where
  elsewhere: "w_db w' = (w_db w)\<lparr>db_outbox := ob\<rparr> \<Longrightarrow> step_of pf cfg K w w'"
| audited: "step_of pf cfg K w (snd (recordLoginAttempt a w))"
| outcome: "written K c \<Longrightarrow> step_of pf cfg K w (snd (Execute (save_outcome (c\<lparr>c_events := []\<rparr>) evs a) w))"
| completed: "written K c \<Longrightarrow> loc now = UTC \<Longrightarrow> s_identity s = ri_IdentityID res \<Longrightarrow>
    step_of pf cfg K w (snd (Execute (session_tx (app_runtime pf) cfg (c\<lparr>c_events := []\<rparr>) evs s res (Some d) (s_id s) fam raw ih fp inp now) w))"

abbreviation steps_of :: "'k Platform \<Rightarrow> UsecaseConfig \<Rightarrow> core list \<Rightarrow> world \<Rightarrow> world \<Rightarrow> bool" where
  "steps_of pf cfg K \<equiv> (step_of pf cfg K)\<^sup>*\<^sup>*"

definition ok_at :: "core list \<Rightarrow> world \<Rightarrow> bool" where
  "ok_at K w \<longleftrightarrow> db_ok (w_db w) \<and> cred_cores (w_db w) = K"

lemma ok_at_elsewhere: "w_db w' = (w_db w)\<lparr>db_outbox := ob\<rparr> \<Longrightarrow> ok_at K w' = ok_at K w"
  by (simp add: ok_at_def db_ok_def cred_cores_def)

lemma ok_at_saved:
  assumes "ok_at K w" "issued K c" "outcome_saved (c\<lparr>c_events := []\<rparr>) evs a (w_db w) (w_db w')"
  shows "ok_at K w'"
proof -
  let ?c = "c\<lparr>c_events := []\<rparr>"
  have ok: "db_ok (w_db w)" "cred_cores (w_db w) = K" using assms(1) by (simp_all add: ok_at_def)
  obtain c0 where c0: "stored (w_db w) c0" "cred_core ?c = cred_core c0" using issued_stored [OF assms(2) ok] by auto
  have "wf_credential DefaultCredentialPolicy ?c" using assms(2) by (simp add: issued_def wf_defs)
  from outcome_saved_ok [OF ok(1) c0 this assms(3)] saved_cores [OF c0 ok(1)] assms(3) ok(2) show ?thesis
    by (auto simp: ok_at_def cred_cores_def outcome_saved_def)
qed

lemma ok_at_session:
  assumes "ok_at K w" "issued K c" "co_cred co = c\<lparr>c_events := []\<rparr>" "rtr_FamilyID (co_token co) = co_family co"
    "session_saved cfg client now co (w_db w) (w_db w')"
  shows "ok_at K w'"
proof -
  have ok: "db_ok (w_db w)" "cred_cores (w_db w) = K" using assms(1) by (simp_all add: ok_at_def)
  obtain c0 where c0: "stored (w_db w) c0" "cred_core (co_cred co) = cred_core c0" using issued_stored [OF assms(2) ok] assms(3) by auto
  have "wf_credential DefaultCredentialPolicy (co_cred co)" using assms(2,3) by (simp add: issued_def wf_defs)
  from session_saved_ok [OF ok(1) c0 this assms(4,5)] saved_cores [OF c0 ok(1)] assms(5) ok(2) show ?thesis
    by (auto simp: ok_at_def cred_cores_def session_saved_def)
qed

lemma Execute_cases:
  "w_db (snd (Execute fn w)) = w_db w \<or> (\<exists>w2. fn tx_repositories (begun w) = (Inr (), w2) \<and> w_db (snd (Execute fn w)) = w_db w2)"
  using Execute_durable [of fn w] by (metis prod.collapse)

lemma step_of_ok:
  assumes "step_of pf cfg K w w'" "ok_at K w"
  shows "ok_at K w'"
  using assms
proof (cases rule: step_of.cases)
  case (elsewhere ob)
  then show ?thesis using assms(2) by (simp add: ok_at_elsewhere)
next
  case (audited a)
  obtain r where "recordLoginAttempt a w = (r, w')" using audited by (metis prod.collapse)
  then have "only_attempts (w_db w) (w_db w')" using record_best_effort [of w pf cfg a] audited
    by (simp add: recordAttemptBestEffort_def)
  then show ?thesis using assms(2) by (auto simp: ok_at_def only_attempts_def db_ok_def cred_cores_def)
next
  case (outcome c evs a)
  from Execute_cases [of "save_outcome (c\<lparr>c_events := []\<rparr>) evs a" w] show ?thesis
  proof
    assume "\<exists>w2. save_outcome (c\<lparr>c_events := []\<rparr>) evs a tx_repositories (begun w) = (Inr (), w2)
      \<and> w_db (snd (Execute (save_outcome (c\<lparr>c_events := []\<rparr>) evs a) w)) = w_db w2"
    then have "outcome_saved (c\<lparr>c_events := []\<rparr>) evs a (w_db w) (w_db w')" using outcome(1) save_outcome_ok by (metis begun_db)
    with assms(2) written_issued [OF outcome(2)] show ?thesis by (rule ok_at_saved)
  qed (use outcome assms(2) in \<open>simp add: ok_at_def\<close>)
next
  case (completed c now s res evs d fam raw ih fp inp)
  let ?fn = "session_tx (app_runtime pf) cfg (c\<lparr>c_events := []\<rparr>) evs s res (Some d) (s_id s) fam raw ih fp inp now"
  let ?co = "completed_login (pf_sha256 pf) cfg (c\<lparr>c_events := []\<rparr>) evs s (rd_ID d) fam raw ih fp inp now"
  from Execute_cases [of ?fn w] show ?thesis
  proof
    assume "\<exists>w2. ?fn tx_repositories (begun w) = (Inr (), w2) \<and> w_db (snd (Execute ?fn w)) = w_db w2"
    then obtain w2 where w2: "?fn tx_repositories (begun w) = (Inr (), w2)" "w_db w' = w_db w2" using completed(1) by auto
    have "session_saved cfg (li_ClientID inp) now ?co (w_db w) (w_db w')"
      using session_tx_ok [OF w2(1) completed(3,4)] w2(2) by simp
    then show ?thesis by (rule ok_at_session [OF assms(2) written_issued [OF completed(2)], rotated 2])
        (simp_all add: completed_login_def)
  qed (use completed(1) assms(2) in \<open>simp add: ok_at_def\<close>)
qed

lemma steps_of_ok: "steps_of pf cfg K w w' \<Longrightarrow> ok_at K w \<Longrightarrow> ok_at K w'"
  by (induction rule: rtranclp_induct) (auto intro: step_of_ok)

section \<open>A login among others\<close>

text \<open>Before each call of a login the others do \<open>f\<close>, which depends on the state it meets.\<close>

definition interfered :: "('w \<Rightarrow> 'w) \<Rightarrow> 'w Dependencies \<Rightarrow> 'w Dependencies" where
  "interfered f deps =
     \<lparr>d_Execute = \<lambda>fn w. d_Execute deps fn (f w), d_FindByIdentity = \<lambda>i w. d_FindByIdentity deps i (f w),
      d_FindByFingerprint = \<lambda>i fp w. d_FindByFingerprint deps i fp (f w),
      d_ListActiveFactorTypes = \<lambda>i w. d_ListActiveFactorTypes deps i (f w),
      d_HasActiveFactor = \<lambda>i w. d_HasActiveFactor deps i (f w),
      d_LoginAttempts_Record = \<lambda>a w. d_LoginAttempts_Record deps a (f w),
      d_ResolveIdentity = \<lambda>i cc w. d_ResolveIdentity deps i cc (f w),
      d_MFASession_Create = \<lambda>tok st ttl w. d_MFASession_Create deps tok st ttl (f w),
      d_Allow = \<lambda>key m win w. d_Allow deps key m win (f w),
      d_SignAccessToken = \<lambda>claims ttl w. d_SignAccessToken deps claims ttl (f w),
      d_SignRestrictedToken = \<lambda>subj purpose ttl w. d_SignRestrictedToken deps subj purpose ttl (f w),
      d_Clock = \<lambda>w. d_Clock deps (f w), d_NewID = \<lambda>w. d_NewID deps (f w), d_Config = d_Config deps\<rparr>"

lemma interfered_nothing [simp]: "interfered (\<lambda>w. w) deps = deps"
  by (simp add: interfered_def)

lemma preserves_after: "(\<And>w. ok w \<Longrightarrow> ok (f w)) \<Longrightarrow> preserves ok m \<Longrightarrow> preserves ok (\<lambda>w. m (f w))"
  by (simp add: preserves_def)

locale interference =
  fixes pf :: "'k Platform"
    and cfg :: UsecaseConfig
    and K :: "core list"
    and f :: "world \<Rightarrow> world"
  assumes rely: "ok_at K u \<Longrightarrow> steps_of pf cfg K u (f u)"
begin

definition along :: "world \<Rightarrow> world \<Rightarrow> bool" where
  "along w0 w \<longleftrightarrow> ok_at K w \<and> steps_of pf cfg K w0 w"

lemma along_start: "ok_at K w \<Longrightarrow> along w w"
  by (simp add: along_def)

lemma along_step: "along w0 w \<Longrightarrow> step_of pf cfg K w w' \<Longrightarrow> along w0 w'"
  using step_of_ok by (auto simp: along_def intro: rtranclp.rtrancl_into_rtrancl)

lemma along_rely: "along w0 w \<Longrightarrow> along w0 (f w)"
  using rely steps_of_ok unfolding along_def by (meson rtranclp_trans)

lemma along_same: "along w0 w \<Longrightarrow> same_db w w' \<Longrightarrow> along w0 w'"
  by (rule along_step, assumption, rule step_of.elsewhere [where ob = "db_outbox (w_db w)"]) (simp add: same_db_def)

lemma along_after: "preserves (along w0) m \<Longrightarrow> preserves (along w0) (\<lambda>w. m (f w))"
  by (rule preserves_after) (rule along_rely)

lemma along_quiet: "(\<And>w r w'. m w = (r, w') \<Longrightarrow> same_db w w') \<Longrightarrow> preserves (along w0) m"
  using along_same by (metis preservesI)

lemma along_random: "preserves (along w0) (world_rand n)"
  by (rule along_quiet) (auto simp: world_rand_def ext_def same_db_def split: prod.splits sum.splits option.splits)

lemma along_derive: "preserves (along w0) (world_IDKey pf pw salt p n)"
proof (rule preservesI)
  fix w r w' assume "along w0 w" "world_IDKey pf pw salt p n w = (r, w')"
  then show "along w0 w'" using step_of.elsewhere [where w = w and w' = w' and ob = "db_outbox (w_db w)"]
    by (intro along_step [of w0 w w']) (auto simp: world_IDKey_def)
qed

lemma along_found: "along w0 w \<Longrightarrow> findCredentialByIdentity i w = (Inr c, w') \<Longrightarrow> carried K c"
proof -
  assume a: "along w0 w" "findCredentialByIdentity i w = (Inr c, w')"
  have "w_db w' = w_db w" using findCredential_same [OF a(2)] by (simp add: same_db_def)
  then obtain r where r: "r \<in> set (db_credentials (w_db w))" "cred_of_row r = Inr c"
    using findCredential_stored [OF a(2)] by (auto simp: stored_def)
  moreover have "cred_row_ok r" "row_core r \<in> set K" using r(1) a(1)
    by (auto simp: along_def ok_at_def db_ok_def list_all_iff cred_cores_def)
  ultimately show ?thesis by (auto intro: carried.read)
qed

lemma along_stepping: "(\<And>w. step_of pf cfg K w (snd (m w))) \<Longrightarrow> preserves (along w0) m"
  using along_step by (metis preservesI snd_conv)

end

sublocale interference \<subseteq> shared: login_ports "app_runtime pf" "interfered f (app_deps pf cfg)" "along w0" "carried K" "written K"
  for w0
proof (unfold_locales, goal_cases)
  case (15 w i c w')
  then show ?case using along_found [OF along_rely] by (simp add: interfered_def)
qed (auto simp: interfered_def intro!: along_after along_random along_derive carried_checked carried_failed carried_verified
    intro: along_quiet same_db_rules along_stepping step_of.intros)

text \<open>What a login leaves is a sequence of steps again, so that it can be part of what others meet.\<close>

context interference
begin

lemma guarantee:
  assumes "ok_at K w"
  shows "fst (Login (app_runtime pf) (interfered f (app_deps pf cfg)) inp w) \<noteq> None"
    and "ok_at K (snd (Login (app_runtime pf) (interfered f (app_deps pf cfg)) inp w))"
    and "steps_of pf cfg K w (snd (Login (app_runtime pf) (interfered f (app_deps pf cfg)) inp w))"
  using shared.Login_kept [OF along_start [OF assms], of inp] by (simp_all add: along_def)

end

interpretation alone: interference pf cfg K "\<lambda>w. w" for pf :: "'k Platform" and cfg K
  by unfold_locales simp

interpretation another: interference pf cfg K "\<lambda>w. snd (app_Login pf cfg inp w)" for pf :: "'k Platform" and cfg K inp
  by unfold_locales (use alone.guarantee(3) in \<open>simp add: app_Login_def\<close>)

section \<open>Failures of requests that read the same credential\<close>

text \<open>
  A number of requests that have all read the credential \<open>c\<close> find the password wrong, one after the other; the
  times and the senders may differ.
\<close>

inductive stale_failures :: "'k Platform \<Rightarrow> UsecaseConfig \<Rightarrow> Credential \<Rightarrow> nat \<Rightarrow> world \<Rightarrow> world \<Rightarrow> bool" for pf cfg c where
  none: "stale_failures pf cfg c 0 w w"
| one_more: "stale_failures pf cfg c n w w1 \<Longrightarrow>
    login_credential (app_runtime pf) (app_deps pf cfg) c res ih fp cc pw inp now w1 = (Some (Inl e), w2) \<Longrightarrow>
    ae_Code e = ErrLoginInvalidCredentials \<Longrightarrow> stale_failures pf cfg c (Suc n) w w2"


lemma stale_failure_recorded:
  assumes "c_lockoutStatus c = LockoutUnlocked" "0 \<le> c_failedAttemptCount c" "c_failedAttemptCount c + 1 < lp_Threshold lp"
    "c_failedAttemptCount c < max_int64" "LockoutPolicy_Validate lp = None" "RecordFailedAttempt att lp now c = Some (e, c2)"
  shows "c_lockoutStatus c2 = LockoutUnlocked" "c_failedAttemptCount c2 \<le> c_failedAttemptCount c + 1" "c_id c2 = c_id c"
proof -

  let ?c4 = "counted_failure att (lp_Window lp) (time_UTC now) c"
  have "c_failedAttemptCount ?c4 \<le> c_failedAttemptCount c + 1"
    using counted_failure_count [of c att "lp_Window lp" "time_UTC now"] assms(2,3,4) by (auto split: option.splits if_splits)
  with assms(3,5,6) show "c_lockoutStatus c2 = LockoutUnlocked" "c_failedAttemptCount c2 \<le> c_failedAttemptCount c + 1"
    "c_id c2 = c_id c"
    using assms(1) by (auto simp: RecordFailedAttempt_eq Let_def counted_failure_sel split: if_splits)
qed

text \<open>What the requests leave of the row: nobody's failure is added to another's.\<close>

lemma stale_failures_row:
  assumes "stale_failures pf cfg c n w w'" "c_lockoutStatus c = LockoutUnlocked" "0 \<le> c_failedAttemptCount c"
    "c_failedAttemptCount c < max_int64" "c_failedAttemptCount c + 1 < lp_Threshold (uc_Lockout cfg)"
    "LockoutPolicy_Validate (uc_Lockout cfg) = None"
  shows "map cr_id (db_credentials (w_db w')) = map cr_id (db_credentials (w_db w))
    \<and> length (db_attempts (w_db w')) = length (db_attempts (w_db w)) + n
    \<and> (0 < n \<longrightarrow> (\<forall>r\<in>set (db_credentials (w_db w')). cr_id r = c_id c \<longrightarrow>
         cr_lockout_status r = LockoutUnlocked \<and> cr_failed_attempt_count r \<le> c_failedAttemptCount c + 1))"
  using assms(1)
proof (induction rule: stale_failures.induct)
  case (one_more n w w1 res ih fp cc pw inp now e w2)
  let ?att = "\<lparr>ac_CompanyCode = cc, ac_IP = li_IP inp, ac_UserAgent = li_UserAgent inp, ac_DeviceFingerprint = fp\<rparr>"
  obtain c1 w3 where ev: "EnsureVerifiable now c = Some (None, c1)"
    and v: "verifyPassword (app_runtime pf) pw c1 (uc_Argon2id cfg) w1 = (False, w3)"
    and fc: "failCredential (app_deps pf cfg) c1 ?att (ri_IdentityID res) ih fp inp now w3 = (Some (Inl e), w2)"
    using credential_refused [OF one_more.hyps(2,3)] by auto
  have c1: "c1 = c" using ev assms(2) by simp
  obtain err c2 where r: "RecordFailedAttempt ?att (uc_Lockout cfg) now c = Some (err, c2)"
    and sv: "outcome_saved (c2\<lparr>c_events := []\<rparr>) (c_events c2)
      (attempt_record (Some (ri_IdentityID res)) ih ''FAILED_CREDENTIALS'' inp fp None now) (w_db w1) (w_db w2)"
    using failCredential_recorded [OF fc one_more.hyps(3)] c1 verifyPassword_db [OF v] by auto
  note rec = stale_failure_recorded [OF assms(2,3,5,4,6) r]
  let ?row = "row_of_cred (Credential_Snapshot (c2\<lparr>c_events := []\<rparr>))"
  have creds: "db_credentials (w_db w2) = update_where (\<lambda>r. cr_id r = c_id c) ?row (db_credentials (w_db w1))"
    and att: "length (db_attempts (w_db w2)) = Suc (length (db_attempts (w_db w1)))"
    using sv rec(3) by (auto simp: outcome_saved_def)
  have "cr_lockout_status (?row r) = LockoutUnlocked \<and> cr_failed_attempt_count (?row r) \<le> c_failedAttemptCount c + 1" for r
    using rec(1,2) by (simp add: row_of_cred_def Credential_Snapshot_def)
  then have "cr_lockout_status r = LockoutUnlocked \<and> cr_failed_attempt_count r \<le> c_failedAttemptCount c + 1"
    if "r \<in> set (db_credentials (w_db w2))" "cr_id r = c_id c" for r
    using that by (auto simp: creds update_where_def split: if_splits)
  with creds att one_more.IH show ?case by simp
qed simp

section \<open>The properties\<close>

text \<open>
  C20. Logins may be interleaved in any way. Let the database be in order, and let anything happen between the
  calls of a login that consists of calls of other logins: their queries, their audit rows, their transactions
  with credentials they read earlier and that may be out of date. Then the login does not panic, it is itself
  a sequence of such calls, the database is in order afterwards, and no identity's password or other unchanging
  part of a credential was touched.
\<close>

theorem interleaved_logins:
  assumes "db_ok (w_db w)" "\<And>u. ok_at (cred_cores (w_db w)) u \<Longrightarrow> steps_of pf cfg (cred_cores (w_db w)) u (f u)"
  shows "fst (Login (app_runtime pf) (interfered f (app_deps pf cfg)) inp w) \<noteq> None
    \<and> steps_of pf cfg (cred_cores (w_db w)) w (snd (Login (app_runtime pf) (interfered f (app_deps pf cfg)) inp w))
    \<and> db_ok (w_db (snd (Login (app_runtime pf) (interfered f (app_deps pf cfg)) inp w)))
    \<and> cred_cores (w_db (snd (Login (app_runtime pf) (interfered f (app_deps pf cfg)) inp w))) = cred_cores (w_db w)"
proof -
  have "interference pf cfg (cred_cores (w_db w)) f" by (rule interference.intro) (rule assms(2))
  moreover have "ok_at (cred_cores (w_db w)) w" using assms(1) by (simp add: ok_at_def)
  ultimately show ?thesis using interference.guarantee [of pf cfg "cred_cores (w_db w)" f w inp] by (simp add: ok_at_def)
qed

theorem interleaved_logins_witness:
  "fst (Login (app_runtime sample_platform) (interfered (\<lambda>u. snd (app_Login sample_platform sample_cfg (sample_input ''no'') u))
      (app_deps sample_platform sample_cfg)) (sample_input ''pw'') login_world) \<noteq> None"
  using interleaved_logins [of login_world sample_platform sample_cfg
      "\<lambda>u. snd (app_Login sample_platform sample_cfg (sample_input ''no'') u)" "sample_input ''pw''"]
    login_db_ok another.rely by blast

text \<open>
  Two logins with a wrong password, the second one between the first one's read of the credential and its
  transaction: two audit rows, and one failure counted.
\<close>

definition meet :: "nat \<Rightarrow> world \<Rightarrow> world" where
  "meet k u = (if w_tick u = k then snd (app_Login sample_platform sample_cfg (sample_input ''no'') u) else u)"

lemma interleaved_failure_lost:
  "case Login (app_runtime sample_platform) (interfered (meet 5) (app_deps sample_platform sample_cfg)) (sample_input ''no'') login_world of
     (r, w') \<Rightarrow> length (db_attempts (w_db w')) = 2 \<and> map cr_failed_attempt_count (db_credentials (w_db w')) = [1]"
  by code_simp

text \<open>
  C16. Failures of concurrent requests are lost. The credential is read before the transaction that saves it
  and the saved count is one more than the count that was read. Take an unlocked credential that the next
  failure does not lock, that is, whose count is at least two below the threshold: however many requests that
  read it find the password wrong, each of them answers with invalid credentials and leaves its
  audit row, but the stored count grows by one at most and the account stays unlocked, even when there are
  more failures than the threshold.
\<close>

theorem stale_failures_do_not_lock:
  assumes "db_ok (w_db w)" "stored (w_db w) c" "c_lockoutStatus c = LockoutUnlocked"
    "LockoutPolicy_Validate (uc_Lockout cfg) = None" "c_failedAttemptCount c + 1 < lp_Threshold (uc_Lockout cfg)"
    "stale_failures pf cfg c n w w'" "0 < n"
  shows "length (db_attempts (w_db w')) = length (db_attempts (w_db w)) + n
    \<and> (\<exists>r. find (\<lambda>r. cr_id r = c_id c) (db_credentials (w_db w')) = Some r
        \<and> cr_lockout_status r = LockoutUnlocked \<and> cr_failed_attempt_count r \<le> c_failedAttemptCount c + 1)"
proof -
  have "0 \<le> c_failedAttemptCount c" using stored_wf [OF assms(2)] by (simp add: wf_defs)
  note rows = stale_failures_row [OF assms(6,3) this stored_counters(1) [OF assms(1,2)] assms(5,4)]
  have "c_id c \<in> cr_id ` set (db_credentials (w_db w))" using assms(2) cred_of_row_fields(2) by (force simp: stored_def)
  then have "c_id c \<in> set (map cr_id (db_credentials (w_db w')))" using rows by simp
  then obtain r where "find (\<lambda>r. cr_id r = c_id c) (db_credentials (w_db w')) = Some r"
    by (cases "find (\<lambda>r. cr_id r = c_id c) (db_credentials (w_db w'))") (auto simp: find_None_iff)
  moreover from this have "r \<in> set (db_credentials (w_db w'))" "cr_id r = c_id c" by (auto simp: find_Some_iff)
  ultimately show ?thesis using rows assms(7) by auto
qed

text \<open>Three requests against a threshold of two.\<close>

definition strict_cfg :: UsecaseConfig where
  "strict_cfg = sample_cfg\<lparr>uc_Lockout := (uc_Lockout sample_cfg)\<lparr>lp_Threshold := 2\<rparr>\<rparr>"

fun stale_runs :: "nat \<Rightarrow> Credential \<Rightarrow> world \<Rightarrow> world option" where
  "stale_runs 0 c w = Some w"
| "stale_runs (Suc n) c w = Option.bind (stale_runs n c w) (\<lambda>w1.
     case login_credential (app_runtime sample_platform) (app_deps sample_platform strict_cfg) c
        \<lparr>ri_IdentityID = ''I'', ri_Status = ''ACTIVE'', ri_CorporateID = ''ACME''\<rparr> ''ih'' ''fp'' ''ACME'' ''no'' (sample_input ''no'')
        (login_now login_world) w1 of
       (Some (Inl e), w2) \<Rightarrow> if ae_Code e = ErrLoginInvalidCredentials then Some w2 else None
     | _ \<Rightarrow> None)"

lemma stale_runs_failures: "stale_runs n c w = Some w' \<Longrightarrow> stale_failures sample_platform strict_cfg c n w w'"
  by (induction n arbitrary: w')
    (auto intro: stale_failures.intros split: Option.bind_splits option.splits sum.splits prod.splits if_splits)

lemma stale_runs_sample:
  "case cred_of_row sample_row of Inr c \<Rightarrow> c_lockoutStatus c = LockoutUnlocked \<and> c_failedAttemptCount c = 0 \<and> c_id c = ''C''
      \<and> stale_runs 3 c login_world \<noteq> None | Inl e \<Rightarrow> False"
  by code_simp

theorem stale_failures_do_not_lock_witness:
  "\<exists>c w'. lp_Threshold (uc_Lockout strict_cfg) = 2 \<and> stale_failures sample_platform strict_cfg c 3 login_world w'
    \<and> (\<exists>r. find (\<lambda>r. cr_id r = ''C'') (db_credentials (w_db w')) = Some r \<and> cr_lockout_status r = LockoutUnlocked)"
proof -
  obtain c w' where c: "cred_of_row sample_row = Inr c" "c_lockoutStatus c = LockoutUnlocked" "c_failedAttemptCount c = 0"
    "c_id c = ''C''" "stale_runs 3 c login_world = Some w'"
    using stale_runs_sample by (auto split: sum.splits)
  note f = stale_runs_failures [OF c(5)]
  have "stored (w_db login_world) c" using c(1) by (simp add: stored_def login_world_def sample_world_def)
  moreover have "LockoutPolicy_Validate (uc_Lockout strict_cfg) = None" by code_simp
  moreover have t: "lp_Threshold (uc_Lockout strict_cfg) = 2" by (simp add: strict_cfg_def)
  ultimately show ?thesis using stale_failures_do_not_lock [OF login_db_ok _ c(2) _ _ f] c(3,4) f by auto
qed

end
