(* ===== verification/Server.thy ===== *)
theory Server
  imports Container
begin

text \<open>
  The command line of \<open>cmd/server\<close>: the serve and the version command, the ops server's routes, and the exit
  status. Parsing the arguments, the service registry's addresses and the runner that starts and stops the
  servers belong to libraries and are parameters.
\<close>

section \<open>The ops server\<close>

text \<open>
  A reply is the status and, for an error, what its text is made from; or a redirect of the library's router, whose status
  depends on the release.
\<close>

datatype ops_reply = OpsReply int "port_error option" | OpsRedirect string

text \<open>
  \<open>net/http\<close> redirects a request whose path is not clean to the clean path: no empty segment, no dot and no
  double dot, with the slash at the end kept. The path here has no escapes.
\<close>

fun split_slash :: "string \<Rightarrow> string \<Rightarrow> string list" where
  "split_slash seg [] = [seg]"
| "split_slash seg (c # cs) = (if c = CHR ''/'' then seg # split_slash [] cs else split_slash (seg @ [c]) cs)"

fun resolve :: "string list \<Rightarrow> string list \<Rightarrow> string list" where
  "resolve acc [] = acc"
| "resolve acc (s # ss) =
     (if s = [] \<or> s = ''.'' then resolve acc ss
      else if s = ''..'' then resolve (butlast acc) ss
      else resolve (acc @ [s]) ss)"

definition path_Clean :: "string \<Rightarrow> string" where
  "path_Clean p = (case resolve [] (split_slash [] p) of [] \<Rightarrow> ''/'' | ss \<Rightarrow> concat (map (\<lambda>s. CHR ''/'' # s) ss))"

definition cleanPath :: "string \<Rightarrow> string" where
  "cleanPath p =
     (if p = [] then ''/''
      else let q = (if hd p = CHR ''/'' then p else CHR ''/'' # p); np = path_Clean q
        in if last q = CHR ''/'' \<and> np \<noteq> ''/'' then np @ ''/'' else np)"

definition readyz :: "port_error option \<Rightarrow> port_error option \<Rightarrow> ops_reply" where
  "readyz pingPostgres pingRedis = (case Ready pingPostgres pingRedis of Some e \<Rightarrow> OpsReply 503 (Some e) | None \<Rightarrow> OpsReply 200 None)"

definition opsMux :: "ops_reply \<Rightarrow> port_error option \<Rightarrow> port_error option \<Rightarrow> string \<Rightarrow> ops_reply" where
  "opsMux metrics pingPostgres pingRedis path =
     (if cleanPath path \<noteq> path then OpsRedirect (cleanPath path)
      else if path = ''/metrics'' then metrics
      else if path = ''/healthz'' then OpsReply 200 None
      else if path = ''/readyz'' then readyz pingPostgres pingRedis
      else OpsReply 404 None)"

text \<open>Ready is exactly: both stores answer. A redirect to a route leads to its handler.\<close>

lemma readyz_ready: "opsMux m pg rd ''/readyz'' = OpsReply 200 None \<longleftrightarrow> pg = None \<and> rd = None"
proof -
  have "cleanPath ''/readyz'' = ''/readyz''" by code_simp
  then show ?thesis by (simp add: opsMux_def readyz_def Ready_def split: option.split)
qed

lemma ops_redirect: "opsMux m pg rd ''/a/..//healthz'' = OpsRedirect ''/healthz''" "opsMux m pg rd ''/healthz/'' = OpsReply 404 None"
proof -
  have "cleanPath ''/a/..//healthz'' = ''/healthz''" "cleanPath ''/healthz/'' = ''/healthz/''" by code_simp+
  then show "opsMux m pg rd ''/a/..//healthz'' = OpsRedirect ''/healthz''" "opsMux m pg rd ''/healthz/'' = OpsReply 404 None"
    by (simp_all add: opsMux_def)
qed

section \<open>Serving\<close>

datatype server_event = Life lifecycle | OpsListening string | OpsStopped | Serving string string

type_synonym hook = "unit \<Rightarrow> port_error list \<times> server_event list"

record RunnerConfig =
  rn_GRPCServer :: "interceptor list option"
  rn_GRPCAddr :: string
  rn_GatewayHandler :: bool
  rn_HTTPAddr :: string
  rn_ShutdownTimeout :: duration
  rn_OnShutdown :: "hook list"

text \<open>\<open>reg\<close> are the listen addresses of the registry's entry for this service.\<close>

record listen_addrs =
  la_GRPC :: string
  la_HTTP :: string

type_synonym runner = "RunnerConfig \<Rightarrow> server_event list \<Rightarrow> port_error option \<times> server_event list"

definition opsServer_Shutdown :: "port_error option \<Rightarrow> hook" where
  "opsServer_Shutdown err _ = (case err of Some e \<Rightarrow> [e] | None \<Rightarrow> [], [OpsStopped])"

definition container_Close :: "'k BuildEnv \<Rightarrow> Container \<Rightarrow> hook" where
  "container_Close env c _ = (case Close env c of (es, l) \<Rightarrow> (es, map Life l))"

definition serve ::
  "'k BuildEnv \<Rightarrow> 'k Platform \<Rightarrow> listen_addrs \<Rightarrow> runner \<Rightarrow> port_error option \<Rightarrow> Config \<Rightarrow> port_error option \<times> server_event list" where
  "serve env libs reg run opsErr cfg =
     (case Build env libs cfg of
        (Inl e, l) \<Rightarrow> (Some e, map Life l)
      | (Inr c, l) \<Rightarrow>
          run \<lparr>rn_GRPCServer = con_GRPCServer c, rn_GRPCAddr = la_GRPC reg, rn_GatewayHandler = con_GatewayMux c,
               rn_HTTPAddr = la_HTTP reg, rn_ShutdownTimeout = ops_ShutdownTimeout (cf_OpsServer cfg),
               rn_OnShutdown = [opsServer_Shutdown opsErr, container_Close env c]\<rparr>
            (map Life l @ [OpsListening ('':'' @ Itoa (ops_MetricsPort (cf_OpsServer cfg)))]))"

definition newServeCmd ::
  "(string \<Rightarrow> port_error + Config) \<Rightarrow> 'k BuildEnv \<Rightarrow> 'k Platform \<Rightarrow> listen_addrs \<Rightarrow> runner \<Rightarrow> port_error option \<Rightarrow> string \<Rightarrow>
     port_error option \<times> server_event list" where
  "newServeCmd load env libs reg run opsErr configPath =
     (case load configPath of Inl e \<Rightarrow> (Some e, []) | Inr cfg \<Rightarrow> serve env libs reg run opsErr cfg)"

definition newVersionCmd :: "string \<Rightarrow> string \<Rightarrow> string \<Rightarrow> port_error option \<times> string" where
  "newVersionCmd buildVersion buildCommit buildDate =
     (None, ''araquanid '' @ buildVersion @ [CHR 0x0A] @ ''  commit: '' @ buildCommit @ [CHR 0x0A] @ ''  built:  '' @ buildDate @ [CHR 0x0A])"

section \<open>The root command\<close>

datatype command = ServeCmd | VersionCmd

text \<open>\<open>parse\<close> is the library's reading of the arguments: the command and the \<open>config\<close> flag, or an error.\<close>

definition default_configPath :: string where
  "default_configPath = ''config/config.yaml''"

definition newRootCmd ::
  "(string \<Rightarrow> 'a \<Rightarrow> port_error + command \<times> string) \<Rightarrow> (string \<Rightarrow> port_error option) \<Rightarrow> port_error option \<Rightarrow> 'a \<Rightarrow> port_error option" where
  "newRootCmd parse runServe runVersion args =
     (case parse default_configPath args of
        Inl e \<Rightarrow> Some e
      | Inr (ServeCmd, configPath) \<Rightarrow> runServe configPath
      | Inr (VersionCmd, configPath) \<Rightarrow> runVersion)"

text \<open>The exit status of the process.\<close>

definition execute :: "port_error option \<Rightarrow> int" where
  "execute err = (case err of Some e \<Rightarrow> 1 | None \<Rightarrow> 0)"

section \<open>Nothing is left behind\<close>

fun life_of :: "server_event list \<Rightarrow> life_log" where
  "life_of [] = []" | "life_of (Life e # l) = e # life_of l" | "life_of (_ # l) = life_of l"

lemma life_append [simp]: "life_of (a @ b) = life_of a @ life_of b"
  by (induction a rule: life_of.induct) auto

lemma life_map [simp]: "life_of (map Life l) = l"
  by (induction l) auto

text \<open>
  What the runner promises: whatever happens while it serves, before it returns it calls every hook once,
  in order.
\<close>

definition calls_hooks :: "runner \<Rightarrow> bool" where
  "calls_hooks run \<longleftrightarrow> (\<forall>rc l. \<exists>serving. life_of serving = []
     \<and> snd (run rc l) = l @ serving @ concat (map (\<lambda>h. snd (h ())) (rn_OnShutdown rc)))"

definition plain_runner :: runner where
  "plain_runner rc l = (None, l @ [Serving (rn_GRPCAddr rc) (rn_HTTPAddr rc)] @ concat (map (\<lambda>h. snd (h ())) (rn_OnShutdown rc)))"

lemma plain_runner_calls_hooks: "calls_hooks plain_runner"
  unfolding calls_hooks_def plain_runner_def by (intro allI exI [of _ "[Serving g h]" for g h] conjI) simp_all

text \<open>Then whatever \<open>serve\<close> opened is closed exactly once when it returns, also when the container cannot be built.\<close>

lemma serve_releases:
  assumes "calls_hooks run" "serve env libs reg run opsErr cfg = (err, es)"
  shows "released (life_of es)"
proof (cases "Build env libs cfg")
  case (Pair r l)
  have ok: "outcome_ok env libs cfg (r, l)" using Build_ok [of env libs cfg] Pair by simp
  show ?thesis
  proof (cases r)
    case (Inl e)
    then show ?thesis using assms(2) Pair ok by (auto simp: serve_def outcome_ok_def)
  next
    case (Inr c)
    let ?rc = "\<lparr>rn_GRPCServer = con_GRPCServer c, rn_GRPCAddr = la_GRPC reg, rn_GatewayHandler = con_GatewayMux c,
       rn_HTTPAddr = la_HTTP reg, rn_ShutdownTimeout = ops_ShutdownTimeout (cf_OpsServer cfg),
       rn_OnShutdown = [opsServer_Shutdown opsErr, container_Close env c]\<rparr>"
    let ?l = "map Life l @ [OpsListening ('':'' @ Itoa (ops_MetricsPort (cf_OpsServer cfg)))]"
    obtain serving where "life_of serving = []"
      "snd (run ?rc ?l) = ?l @ serving @ concat (map (\<lambda>h. snd (h ())) (rn_OnShutdown ?rc))"
      using assms(1) unfolding calls_hooks_def by blast
    then have "life_of es = l @ snd (Close env c)" using assms(2) Pair Inr
      by (auto simp: serve_def opsServer_Shutdown_def container_Close_def split: prod.splits)
    then show ?thesis using ok Inr by (simp add: outcome_ok_def)
  qed
qed

text \<open>A configuration that does not load, or a container that cannot be built, ends the process with status 1.\<close>

lemma failed_start_exits:
  assumes "parse default_configPath args = Inr (ServeCmd, path)"
    "load path = Inl e \<or> (\<exists>cfg. load path = Inr cfg \<and> fst (Build env libs cfg) = Inl e)"
  shows "execute (newRootCmd parse (\<lambda>p. fst (newServeCmd load env libs reg run opsErr p)) None args) = 1"
  using assms by (auto simp: newRootCmd_def newServeCmd_def serve_def execute_def split: prod.splits sum.splits)

end
