(* ===== verification/Spec2Isabelle.thy ===== *)
theory Spec2Isabelle
  imports Lockout_Props Session_Props Session_Rows Login_Props Relay_Props Delivery_Props Container
    Concurrency Server
begin

text \<open>
  Verification of the araquanid authentication service.

  \<^bold>\<open>The program.\<close> araquanid is a gRPC service with a REST gateway whose one feature is the login. A
  request passes the validator and the handler (\<open>internal/features/login/delivery\<close>), the use case
  (\<open>usecase/login.go\<close>), which decides on the credential and session aggregates of
  \<open>internal/domain\<close>, and the adapters (\<open>repository/db\<close>, \<open>repository/redis\<close>,
  \<open>repository/identity\<close>). Every outcome of a known credential is written in one transaction with its
  audit row and its events; a relay (\<open>internal/platform/outbox\<close>) publishes the events to Kafka.
  \<open>container/container.go\<close> builds and wires all of it from \<open>config/config.go\<close>.

  \<^bold>\<open>Theories, in the order of the code's layers.\<close>

  \<^item> \<open>Prelude\<close>: times, durations and their wrap-around, indexing that panics, shared lemmas and the
    collections of theorems. \<open>Netip\<close>: IP addresses, their parser and printer, integers as text.
    \<open>Netip6\<close>: the text of every address is read back as that address.
    \<open>Text\<close>: case, trimming, hexadecimal, base64, RFC 3339. \<open>Utf8\<close>: which bytes are text and how
    \<open>encoding/json\<close> replaces the others. \<open>Aggregate\<close>: the interfaces
    \<open>snapshot_store\<close> and \<open>event_source\<close> of an aggregate as locales.
  \<^item> \<open>Domain_Base\<close>, \<open>Credential\<close>, \<open>Lockout\<close>, \<open>Lockout_Props\<close>: \<open>domain/credential.go\<close>. The
    credential with every operation; its invariant under runs of operations; an abstract lockout
    machine that a failed attempt refines; thresholds, tiers, permanence, reuse of passwords, and
    the round trip through the snapshot.
  \<^item> \<open>Session\<close>, \<open>Session_Runs\<close>, \<open>Session_Props\<close>: \<open>domain/authentication_session.go\<close>. The session, its
    runs as a step relation, its abstract reading, lifetime, finality and event log.
  \<^item> \<open>Apperror\<close>: \<open>internal/apperror\<close> and \<open>internal/middleware\<close>. \<open>Passwordhash\<close>, \<open>Fingerprint\<close>,
    \<open>Jwtsign\<close>: \<open>platform/passwordhash\<close>, \<open>usecase/fingerprint.go\<close>, \<open>platform/jwtsign\<close>.
  \<^item> \<open>Ports\<close>, \<open>Login\<close>, \<open>Login_Facts\<close>: the ports and the use case, for every implementation of the ports.
  \<^item> \<open>Json\<close>: the documents of the events and what a \<open>JSONB\<close> column makes of them.
    \<open>World\<close>, \<open>Postgres\<close>, \<open>Postgres_Facts\<close>, \<open>Session_Rows\<close>: the tables and the adapter of
    \<open>repository/db\<close> and \<open>platform/outbox/outbox.go\<close>; the locale \<open>unit_of_work\<close> is what the use case
    relies on, interpreted on \<open>Execute\<close>. \<open>Ratelimit\<close>: \<open>platform/ratelimit\<close> and
    \<open>repository/redis\<close>; the locale \<open>window_counter\<close> is interpreted on \<open>Allow\<close>. \<open>Config\<close>:
    \<open>config/config.go\<close>. \<open>System\<close>: the identity adapter and the use case wired to all adapters.
  \<^item> \<open>Login_Effects\<close>, \<open>Login_Front\<close>, \<open>Login_Invariants\<close>, \<open>Login_Outcomes\<close>, \<open>Session_Limits\<close>,
    \<open>Login_Samples\<close>, \<open>Login_Props\<close>: what one wired login and sequences of them do. \<open>login_step\<close> is the
    abstract database: its rules say which durable changes a login may make, and \<open>login_refines\<close>
    shows that it makes no other, whatever the environment does.
  \<^item> \<open>Login_Contract\<close>, \<open>Concurrency\<close>: logins at the same time. The locale \<open>login_ports\<close> states what the use case
    relies on: an invariant that each of its calls keeps and conditions on the credentials it loads and saves.
    The locale \<open>interference\<close> lets other logins make calls between those of one login; as a sublocale of
    \<open>login_ports\<close> it gives that the login is a sequence of the same kind of calls. It is interpreted
    on a login that runs alone and on whole logins of others in between.
  \<^item> \<open>Relay\<close>, \<open>Relay_Props\<close>: \<open>platform/outbox/publisher.go\<close>, delivery at least once, draining, and
    that marked rows stay silent. \<open>Delivery\<close>, \<open>Delivery_Props\<close>: handler, mapper, validator, composed with the
    interceptor and the gateway; what a caller can see. \<open>Container\<close>: \<open>container.go\<close>, \<open>services.go\<close>,
    that nothing leaks, that the wired use case is the one verified here, and what its Kafka writer lets go astray. \<open>Server\<close>: \<open>cmd/server\<close>, both
    commands, the ops routes and the exit status.
  \<^item> This theory: the properties that span the login and the relay.

  \<^bold>\<open>How the code is modelled.\<close> A struct is a record, a pointer an option, a method a function that returns
  the changed receiver. Enumerations that are strings in the code stay strings, so that unknown values
  are covered. An error is a value; a panic of an aggregate is \<open>None\<close>, and \<open>logins_safe\<close> shows that none
  happens. Durations and counters wrap at 64 bits where the code's do, \<open>INT\<close> columns refuse what
  exceeds four bytes, and \<open>TIMESTAMPTZ\<close> columns keep microseconds. The functions are total: loops over rows
  and events are structural recursions, the digits of a number and the IPv6 parser end by
  termination proofs, and the relay's endless loop is a function of the finite sequence of
  inputs it has received, so no fuel is used anywhere.

  \<^bold>\<open>The environment.\<close> A \<open>world\<close> holds the tables, the Redis keys and what will happen: every call that leaves
  the process takes the next number, and functions of that number decide whether it fails, what the
  clocks show, which identifiers and random bytes come, and whether a commit succeeds, is refused,
  or succeeds with a lost reply. Theorems quantify over all worlds. A table is the list of its rows in the
  order of insertion; \<open>ORDER BY\<close> sorts stably, so rows with equal keys stay in that order. Statements
  of a transaction act on the tables at once and a rollback restores them. A transaction is one step: the
  statements of two transactions do not interleave. Between the calls of one login any calls of
  others may come (\<open>Concurrency\<close>), and the relay's inputs interleave polls with other transactions. Strings
  are their bytes: a statement with a text argument that is not UTF-8 or contains a NUL is refused, as is a
  document with a NUL in one of its strings. JSON columns and messages hold JSON values, with the errors of
  encoding and decoding; the escapes of their text form are not modelled. \<open>UUID\<close>
  columns hold strings as they come, and a \<open>SELECT DISTINCT\<close> without an order keeps the order of the rows. The topic is
  the list of the messages that the brokers hold; partitions are not modelled. A write to Kafka that returns no error has
  reached the brokers only if they acknowledge it: what arrives of an unacknowledged write is an input of
  the poll. The writer that the container builds requires no acknowledgement, so C22 and C34 assume that
  every such write arrived, and C36 shows what happens when one did not.

  \<^bold>\<open>Parameters.\<close> Argon2id, bcrypt, SHA-256, the signing library, Unicode tables beyond ASCII, the identity
  service's client, the validation engine, yaml and environment readers, and the constructors of
  the clients are parameters. The hypotheses on them are named where they are used: a key derivation is a
  function of its arguments that returns keys of the requested length. It panics on zero rounds or threads, which
  \<open>validated_argon2\<close> excludes; a login is otherwise free of panics as far as the aggregates go.

  \<^bold>\<open>What the theorems show.\<close> C1--C8 the credential, C9--C15 the session, C16 what concurrent failures lose,
  C17--C19 and C21 hashing, the device fingerprint, the rate limiter and the configuration, C20 the safety of
  interleaved logins, C22 the way of a session's event to the topic,
  C23--C33 the wired login (refinement, invariant, safety of success, recording and uniformity of
  refusals, locked accounts, completed logins, session rows, the limits on concurrent sessions, and the failures
  that the tables cannot hold and so go uncounted),
  C34--C36 the relay with the guarantee it gives and the one it does not, C37--C39 the endpoint, C40 startup and shutdown.

  \<^bold>\<open>Not modelled.\<close> Logging and telemetry change no state. The parser of the command line and the runner of the
  servers are library code and parameters of \<open>Server\<close>. \<open>delivery/rest\<close> is one call into
  generated code, whose error is an input of \<open>Build\<close>. Accessors that return a field are selectors. The text
  of errors that only reaches logs is kept as constructors, not as strings. Anomalies between the
  statements of two overlapping transactions below the serializable level are not modelled. Features the repository only plans
  (second-factor verification, token refresh, provisioning) have tables but no code.
\<close>

section \<open>From a login to the event stream\<close>

text \<open>
  The document announces the session: it is the stored form of a creation event, and a consumer that
  looks at its fields finds the id of the session.
\<close>

definition announces :: "string \<Rightarrow> json \<Rightarrow> bool" where
  "announces sid j \<longleftrightarrow> (\<exists>e. j = stored_event (EvSessionCreated e) \<and> sc_SessionID e = sid)
     \<and> json_field ''SessionID'' j = Some (json_str sid)"

lemma session_announced: "announces (sc_SessionID e) (stored_event (EvSessionCreated e))"
  using event_field [of "''SessionID''" "EvSessionCreated e"]
  by (auto simp: announces_def json_str_def json_field_def [of _ "JObj _"])

lemma NewSession_created:
  assumes "NewAuthenticationSession p = Inr s"
  shows "\<exists>e. EvSessionCreated e \<in> set (fst (Session_PullEvents s)) \<and> sc_SessionID e = nsp_ID p"
  using assms by (auto simp: NewAuthenticationSession_def session_record_def Session_PullEvents_def Let_def
      split: if_splits option.splits)

lemma completed_row:
  assumes "app_Login pf cfg inp w = (Some (Inr x), w')" "lr_AuthenticationResult x = ''COMPLETED''"
  obtains new r where "db_outbox (w_db w') = db_outbox (w_db w) @ new" "fresh_events new (w_db w)" "r \<in> set new"
    "announces (lr_SessionID x) (ob_payload r)"
proof -
  obtain res :: ResolvedIdentity and c2 :: Credential and fam and d :: device_row and s where
    n: "NewAuthenticationSession (login_session (lr_SessionID x) (ri_IdentityID res) inp cfg (login_now w)) = Inr s"
    and sv: "session_saved cfg (li_ClientID inp) (login_now w)
        (completed_login (pf_sha256 pf) cfg (c2\<lparr>c_events := []\<rparr>) (c_events c2) s (dv_id d) fam (lr_RefreshToken x)
           (sha256Hex (pf_sha256 pf) (li_Identifier inp)) (login_fingerprint pf inp) inp (login_now w)) (w_db w) (w_db w')"
    using app_Login_completed [OF assms] by blast
  obtain e where e: "EvSessionCreated e \<in> set (fst (Session_PullEvents s))" "sc_SessionID e = lr_SessionID x"
    using NewSession_created [OF n] by (auto simp: login_session_def)
  obtain new where new: "map ob_payload new = map stored_event (c_events c2 @ fst (Session_PullEvents s))" "fresh_events new (w_db w)"
    "db_outbox (w_db w') = db_outbox (w_db w) @ new"
    using sv by (auto simp: session_saved_def completed_login_def)
  have "stored_event (EvSessionCreated e) \<in> ob_payload ` set new" using new(1) e(1) by (metis Un_iff image_eqI list.set_map set_append)
  with that [OF new(3,2)] session_announced [of e] e(2) show ?thesis by auto
qed

lemma drained_contents:
  assumes "delivered s" "outbox_keys s" "quiet (rs_world s)" "length (unpublished (w_db (rs_world s))) \<le> k"
    "(i, a, p) \<in> set (row_contents s)"
  shows "\<lparr>km_Key = a, km_Value = p\<rparr> \<in> set (rs_topic (snd (Run (NewRelay cfg) (replicate k (Tick {} KafkaAccepted)) s)))"
proof -
  let ?run = "Run (NewRelay cfg) (replicate k (Tick {} KafkaAccepted)) s"
  have "k * 1 \<le> k * nat (ry_BatchSize (NewRelay cfg))"
    using NewRelay_positive(1) [of cfg] by (intro mult_le_mono2) linarith
  with assms(4) have "length (unpublished (w_db (rs_world s))) \<le> k * nat (ry_BatchSize (NewRelay cfg))" by linarith
  from Run_drains [OF assms(3,2) this surjective_pairing] have "unpublished (w_db (rs_world (snd ?run))) = []" by simp
  then have all: "\<forall>r\<in>set (db_outbox (w_db (rs_world (snd ?run)))). ob_published_at r \<noteq> None"
    unfolding unpublished_def by (metis (mono_tags, lifting) filter_empty_conv set_empty set_sort)
  have "acknowledged (replicate k (Tick {} KafkaAccepted))" by (induction k) simp_all
  then have d: "delivered (snd ?run)" "\<exists>more. row_contents (snd ?run) = row_contents s @ more"
    using Run_delivered [OF assms(1,2), of "replicate k (Tick {} KafkaAccepted)" "NewRelay cfg"]
      Run_rows [OF assms(2), of "replicate k (Tick {} KafkaAccepted)" "NewRelay cfg"] by auto
  from d(2) assms(5) have "(i, a, p) \<in> set (row_contents (snd ?run))" by auto
  with d(1) all show ?thesis by (fastforce simp: delivered_def row_contents_def)
qed

text \<open>
  C22. From a login to the event stream: the event of a completed login's session reaches the topic, provided
  that no write returns without an error unless the brokers hold its messages, which requiring acknowledgements
  ensures and the container's writer does not (C36). Between the login and the delivery the relay may meet any
  other faults, lost commits and failed writes, and other transactions may append; once the environment is quiet
  for as many polls as there are unpublished rows, the JSON document of a creation event with that
  session's id is in the topic.
\<close>

theorem session_event_delivered:
  assumes "app_Login pf cfg inp w = (Some (Inr x), w')" "lr_AuthenticationResult x = ''COMPLETED''"
    "delivered \<lparr>rs_world = w, rs_topic = ms\<rparr>" "outbox_keys \<lparr>rs_world = w, rs_topic = ms\<rparr>"
    "\<forall>f. Elsewhere f \<in> set xs \<longrightarrow> appends f" "acknowledged xs"
    "Run (NewRelay rc) xs \<lparr>rs_world = w', rs_topic = ms\<rparr> = (None, s)" "quiet (rs_world s)" "length (unpublished (w_db (rs_world s))) \<le> k"
  shows "\<exists>m\<in>set (rs_topic (snd (Run (NewRelay rc) (replicate k (Tick {} KafkaAccepted)) s))).
    announces (lr_SessionID x) (km_Value m)"
proof -
  let ?s0 = "\<lparr>rs_world = w', rs_topic = ms\<rparr>"
  obtain new r where o: "db_outbox (w_db w') = db_outbox (w_db w) @ new" "fresh_events new (w_db w)" "r \<in> set new"
    "announces (lr_SessionID x) (ob_payload r)"
    using completed_row [OF assms(1,2)] .
  have k: "delivered ?s0" "outbox_keys ?s0"
    using assms(3,4) o(1,2) by (auto simp: delivered_def outbox_keys_def fresh_events_def list_all_iff)
  from Run_delivered [OF this assms(5,6), of "NewRelay rc"] Run_rows [OF k(2) assms(5), of "NewRelay rc"] assms(7)
  have s: "delivered s" "outbox_keys s" "\<exists>more. row_contents s = row_contents ?s0 @ more" by auto
  have "(ob_id r, ob_aggregate_id r, ob_payload r) \<in> set (row_contents ?s0)" using o(1,3) by (auto simp: row_contents_def)
  with s(3) have "(ob_id r, ob_aggregate_id r, ob_payload r) \<in> set (row_contents s)" by auto
  from drained_contents [OF s(1,2) assms(8,9) this, of rc] o(4) show ?thesis by (intro bexI) auto
qed

definition calmed :: "world \<Rightarrow> world" where
  "calmed w = w\<lparr>w_fault := \<lambda>_. None, w_commit := \<lambda>_. Committed\<rparr>"

lemma calmed_appends: "appends calmed"
  unfolding appends_def by (intro allI exI [of _ "[]"]) (simp add: calmed_def)

theorem session_event_delivered_witness:
  "\<exists>x w' s k. app_Login sample_platform sample_cfg (sample_input ''pw'') login_world = (Some (Inr x), w')
     \<and> Run (NewRelay \<lparr>ry_PollInterval = 0, ry_BatchSize = 1\<rparr>) [Tick {} (KafkaFailed ''broker'' []), Elsewhere calmed]
         \<lparr>rs_world = w', rs_topic = []\<rparr> = (None, s)
     \<and> (\<exists>m\<in>set (rs_topic (snd (Run (NewRelay \<lparr>ry_PollInterval = 0, ry_BatchSize = 1\<rparr>) (replicate k (Tick {} KafkaAccepted)) s))).
          announces (lr_SessionID x) (km_Value m))"
proof -
  obtain x w' where l: "app_Login sample_platform sample_cfg (sample_input ''pw'') login_world = (Some (Inr x), w')"
    "lr_AuthenticationResult x = ''COMPLETED''" by (rule sample_completed)
  let ?xs = "[Tick {} (KafkaFailed ''broker'' []), Elsewhere calmed]" and ?rc = "\<lparr>ry_PollInterval = 0, ry_BatchSize = 1\<rparr>"
  obtain s where r: "Run (NewRelay ?rc) ?xs \<lparr>rs_world = w', rs_topic = []\<rparr> = (None, s)" by simp
  have i: "delivered \<lparr>rs_world = login_world, rs_topic = []\<rparr>" "outbox_keys \<lparr>rs_world = login_world, rs_topic = []\<rparr>"
    by (simp_all add: delivered_def outbox_keys_def login_world_def sample_world_def empty_db_def)
  have "\<forall>f. Elsewhere f \<in> set ?xs \<longrightarrow> appends f" by (simp add: calmed_appends)
  moreover have "quiet (rs_world s)" using r by (auto simp: quiet_def calmed_def)
  ultimately show ?thesis using session_event_delivered [OF l i _ _ r _ order_refl] l(1) r by auto
qed

end
